(* ===== verification/Prelude.thy ===== *)
theory Prelude
  imports "HOL-Library.Word" "HOL-Library.AList"
begin

text \<open>
  Shared vocabulary of the development. Text (\<open>QByteArray\<close>, \<open>UString\<close>, \<open>QString\<close>,
  C strings) is a list of bytes, a \<open>QHash\<close> an association list with one entry per key, a
  \<open>QMultiHash\<close> an association list with the newest entry first, a \<open>quint16\<close> a 16-bit
  word. The theory also holds the C character classes and the number scanner on which
  \<open>atoi\<close> and \<open>toInt\<close> rest, with the lemmas the components share.
\<close>

named_theorems text_simps \<open>unfolding rules for text operations\<close>
named_theorems sip_defs \<open>unfolding rules for SIP level helpers\<close>
named_theorems reg_simps \<open>unfolding rules for the registry tables\<close>
named_theorems sql_defs \<open>unfolding rules for SQL statements\<close>

type_synonym quint16 = "16 word"
type_synonym quint32 = "32 word"
type_synonym quint8 = "8 word"

section \<open>C characters\<close>

definition NUL :: char where
  "NUL = CHR 0x00"

definition ord :: "char \<Rightarrow> nat" where
  "ord c = of_char c"

definition isdigit :: "char \<Rightarrow> bool" where
  "isdigit c \<longleftrightarrow> 48 \<le> ord c \<and> ord c \<le> 57"

definition isupper :: "char \<Rightarrow> bool" where
  "isupper c \<longleftrightarrow> 65 \<le> ord c \<and> ord c \<le> 90"

definition islower :: "char \<Rightarrow> bool" where
  "islower c \<longleftrightarrow> 97 \<le> ord c \<and> ord c \<le> 122"

definition isalpha :: "char \<Rightarrow> bool" where
  "isalpha c \<longleftrightarrow> isupper c \<or> islower c"

definition isalnum :: "char \<Rightarrow> bool" where
  "isalnum c \<longleftrightarrow> isalpha c \<or> isdigit c"

definition isspace :: "char \<Rightarrow> bool" where
  "isspace c \<longleftrightarrow> 9 \<le> ord c \<and> ord c \<le> 13 \<or> ord c = 32"

lemmas ctype_defs [text_simps] =
  ord_def isdigit_def isupper_def islower_def isalpha_def isalnum_def isspace_def NUL_def

text \<open>A C string ends at the first NUL byte.\<close>

definition cstr :: "string \<Rightarrow> string" where
  "cstr s = takeWhile (\<lambda>c. c \<noteq> NUL) s"

lemma cstr_id [simp]: "NUL \<notin> set s \<Longrightarrow> cstr s = s"
  by (auto simp: cstr_def takeWhile_eq_all_conv)

lemma NUL_notin_cstr [simp]: "NUL \<notin> set (cstr s)"
  by (auto simp: cstr_def dest: set_takeWhileD)

lemma cstr_Nil [simp]: "cstr [] = []"
  by (simp add: cstr_def)

lemma cstr_Cons [simp]: "cstr (c # cs) = (if c = NUL then [] else c # cstr cs)"
  by (simp add: cstr_def)

section \<open>Slices and searches of Qt texts\<close>

text \<open>Byte case folding as Qt 5's \<open>QByteArray::toLower\<close> and \<open>toUpper\<close> do it (Latin-1).\<close>

definition lower_char :: "char \<Rightarrow> char" where
  "lower_char c = (if 65 \<le> ord c \<and> ord c \<le> 90 \<or> 192 \<le> ord c \<and> ord c \<le> 222 \<and> ord c \<noteq> 215
     then char_of (ord c + 32) else c)"

definition upper_char :: "char \<Rightarrow> char" where
  "upper_char c = (if 97 \<le> ord c \<and> ord c \<le> 122 \<or> 224 \<le> ord c \<and> ord c \<le> 254 \<and> ord c \<noteq> 247
     then char_of (ord c - 32) else c)"

definition toLower :: "string \<Rightarrow> string" where
  "toLower s = map lower_char s"

definition toUpper :: "string \<Rightarrow> string" where
  "toUpper s = map upper_char s"

lemmas case_defs [text_simps] = lower_char_def upper_char_def toLower_def toUpper_def

definition indexOf :: "string \<Rightarrow> char \<Rightarrow> int" where
  "indexOf s c = (let n = length (takeWhile (\<lambda>x. x \<noteq> c) s)
     in if n < length s then int n else -1)"

definition lastIndexOf :: "string \<Rightarrow> char \<Rightarrow> int" where
  "lastIndexOf s c = (let n = length (takeWhile (\<lambda>x. x \<noteq> c) (rev s))
     in if n < length s then int (length s - 1 - n) else -1)"

text \<open>\<open>QString::left\<close> with a negative length is the whole string, \<open>QByteArray::left\<close> the empty one.\<close>

definition qleft :: "string \<Rightarrow> int \<Rightarrow> string" where
  "qleft s n = (if n < 0 then s else take (nat n) s)"

definition mid :: "string \<Rightarrow> int \<Rightarrow> string" where
  "mid s n = drop (nat n) s"

definition midn :: "string \<Rightarrow> int \<Rightarrow> int \<Rightarrow> string" where
  "midn s pos n = (if n < 0 then drop (nat pos) s else take (nat n) (drop (nat pos) s))"

definition startsWith :: "string \<Rightarrow> string \<Rightarrow> bool" where
  "startsWith s p \<longleftrightarrow> take (length p) s = p"

definition endsWith :: "string \<Rightarrow> string \<Rightarrow> bool" where
  "endsWith s p \<longleftrightarrow> length p \<le> length s \<and> drop (length s - length p) s = p"

definition trimmed :: "string \<Rightarrow> string" where
  "trimmed s = rev (dropWhile isspace (rev (dropWhile isspace s)))"

lemmas slice_defs [text_simps] =
  indexOf_def lastIndexOf_def qleft_def mid_def midn_def startsWith_def endsWith_def trimmed_def

lemma indexOf_neg [simp]: "c \<notin> set s \<Longrightarrow> indexOf s c = -1"
proof -
  assume "c \<notin> set s"
  then have "takeWhile (\<lambda>x. x \<noteq> c) s = s" by (auto simp: takeWhile_eq_all_conv)
  then show ?thesis by (simp only: indexOf_def) simp
qed

lemma indexOf_append [simp]: "c \<notin> set s \<Longrightarrow> indexOf (s @ c # t) c = int (length s)"
proof -
  assume "c \<notin> set s"
  then have "takeWhile (\<lambda>x. x \<noteq> c) (s @ c # t) = s"
    by (subst takeWhile_append2) auto
  then show ?thesis by (simp add: indexOf_def)
qed

lemma indexOf_iff: "indexOf s c > -1 \<longleftrightarrow> c \<in> set s"
proof (cases "c \<in> set s")
  case True
  then obtain u v where "s = u @ c # v" "c \<notin> set u"
    by (meson split_list_first)
  then show ?thesis by simp
qed simp

lemma lastIndexOf_neg [simp]: "c \<notin> set s \<Longrightarrow> lastIndexOf s c = -1"
proof -
  assume "c \<notin> set s"
  then have "takeWhile (\<lambda>x. x \<noteq> c) (rev s) = rev s" by (auto simp: takeWhile_eq_all_conv)
  then show ?thesis by (simp only: lastIndexOf_def) simp
qed

lemma lastIndexOf_append [simp]: "c \<notin> set t \<Longrightarrow> lastIndexOf (s @ c # t) c = int (length s)"
proof -
  assume "c \<notin> set t"
  then have "takeWhile (\<lambda>x. x \<noteq> c) (rev t @ c # rev s) = rev t"
    by (subst takeWhile_append2) auto
  then show ?thesis by (simp add: lastIndexOf_def)
qed

section \<open>Numbers in text\<close>

fun nat_str :: "nat \<Rightarrow> string" where
  "nat_str n = (if n < 10 then [char_of (48 + n)] else nat_str (n div 10) @ [char_of (48 + n mod 10)])"

declare nat_str.simps [simp del]

definition number :: "int \<Rightarrow> string" where
  "number i = (if i < 0 then CHR ''-'' # nat_str (nat (- i)) else nat_str (nat i))"

definition digit_value :: "char \<Rightarrow> nat" where
  "digit_value c = (if isdigit c then ord c - 48 else if isupper c then ord c - 55
     else if islower c then ord c - 87 else 255)"

fun scan_digits :: "nat \<Rightarrow> nat \<Rightarrow> string \<Rightarrow> nat \<times> string" where
  "scan_digits b acc [] = (acc, [])"
| "scan_digits b acc (c # cs) =
     (if digit_value c < b then scan_digits b (acc * b + digit_value c) cs else (acc, c # cs))"

definition scan_sign :: "string \<Rightarrow> bool \<times> string" where
  "scan_sign s = (case s of [] \<Rightarrow> (False, [])
     | c # cs \<Rightarrow> if c = CHR ''-'' then (True, cs) else if c = CHR ''+'' then (False, cs) else (False, s))"

text \<open>White space, sign, then at least one digit: the value and the unread rest.\<close>

definition scan_number :: "nat \<Rightarrow> string \<Rightarrow> (int \<times> string) option" where
  "scan_number b s = (case scan_sign (dropWhile isspace s) of (neg, ds) \<Rightarrow>
     (case ds of [] \<Rightarrow> None
      | c # _ \<Rightarrow> if digit_value c < b
          then (case scan_digits b 0 ds of (v, rest) \<Rightarrow> Some (if neg then - int v else int v, rest))
          else None))"

text \<open>
  \<open>atoi\<close> as the C library implements it: \<open>strtol\<close>, which saturates at 64 bits, then a cast to
  a 32-bit \<open>int\<close>. \<open>toInt\<close> is \<open>QByteArray::toInt\<close>: the whole text must be a number in the
  range of \<open>int\<close>, anything else is 0.
\<close>

definition strtol :: "string \<Rightarrow> int" where
  "strtol s = (case scan_number 10 (cstr s) of None \<Rightarrow> 0
     | Some (v, _) \<Rightarrow> max (- (2 ^ 63)) (min (2 ^ 63 - 1) v))"

definition atoi :: "string \<Rightarrow> int" where
  "atoi s = signed_take_bit 31 (strtol s)"

definition toIntBase :: "nat \<Rightarrow> string \<Rightarrow> int" where
  "toIntBase b s = (case scan_number b (cstr s) of
       Some (v, rest) \<Rightarrow> if rest = [] \<and> - (2 ^ 31) \<le> v \<and> v < 2 ^ 31 then v else 0
     | None \<Rightarrow> 0)"

abbreviation toInt :: "string \<Rightarrow> int" where
  "toInt \<equiv> toIntBase 10"

text \<open>\<open>QString::toInt\<close> also drops white space at both ends.\<close>

definition qs_toInt :: "string \<Rightarrow> int" where
  "qs_toInt s = (if NUL \<in> set s then 0 else toInt (trimmed s))"

definition toLongLong :: "string \<Rightarrow> int" where
  "toLongLong s = (case scan_number 10 (cstr s) of
       Some (v, rest) \<Rightarrow> if rest = [] \<and> - (2 ^ 63) \<le> v \<and> v < 2 ^ 63 then v else 0
     | None \<Rightarrow> 0)"

lemmas scan_defs [text_simps] =
  digit_value_def scan_sign_def scan_number_def strtol_def atoi_def toIntBase_def qs_toInt_def
  toLongLong_def number_def

lemma ord_char_of [simp]: "n < 256 \<Longrightarrow> ord (char_of n) = n"
  by (simp add: ord_def)

lemma digit_value_digit [simp]: "d < (10::nat) \<Longrightarrow> digit_value (char_of (48 + d)) = d"
  by (simp add: digit_value_def isdigit_def)

lemma isdigit_digit [simp]: "d < (10::nat) \<Longrightarrow> isdigit (char_of (48 + d))"
  by (simp add: isdigit_def)

lemma nat_str_digits: "c \<in> set (nat_str n) \<Longrightarrow> isdigit c"
proof (induction n rule: nat_str.induct)
  case (1 n)
  then show ?case
    by (subst (asm) nat_str.simps) (auto split: if_splits)
qed

lemma nat_str_not_Nil [simp]: "nat_str n \<noteq> []"
  by (subst nat_str.simps) simp

lemma scan_digits_append:
  "(\<forall>c \<in> set s. digit_value c < b) \<Longrightarrow>
   scan_digits b acc (s @ t) = scan_digits b (fst (scan_digits b acc s)) t"
  by (induction s arbitrary: acc) auto

lemma digit_value_isdigit: "isdigit c \<Longrightarrow> digit_value c < 10"
  by (auto simp: digit_value_def isdigit_def)

lemma scan_digits_nat_str: "scan_digits 10 0 (nat_str n) = (n, [])"
proof (induction n rule: nat_str.induct)
  case (1 n)
  show ?case
  proof (cases "n < 10")
    case True
    then show ?thesis by (subst nat_str.simps) simp
  next
    case False
    with "1.IH" have "scan_digits 10 0 (nat_str (n div 10)) = (n div 10, [])" by simp
    moreover have "\<forall>c \<in> set (nat_str (n div 10)). digit_value c < 10"
      using nat_str_digits digit_value_isdigit by blast
    ultimately have "scan_digits 10 0 (nat_str (n div 10) @ [char_of (48 + n mod 10)]) = (n, [])"
      by (simp add: scan_digits_append)
    with False show ?thesis by (subst nat_str.simps) simp
  qed
qed

lemma isdigit_not_special:
  "isdigit c \<Longrightarrow> c \<noteq> CHR ''-'' \<and> c \<noteq> CHR ''+'' \<and> \<not> isspace c \<and> c \<noteq> NUL"
  by (auto simp: text_simps)

lemma isalpha_not_special: "isalpha c \<Longrightarrow> c \<notin> set ''[]:@-+.'' \<and> \<not> isspace c \<and> c \<noteq> NUL"
  by (auto simp: text_simps)

lemma digit_value_isalpha: "isalpha c \<Longrightarrow> 10 \<le> digit_value c"
  by (auto simp: digit_value_def isalpha_def isupper_def islower_def isdigit_def)

lemma NUL_notin_nat_str [simp]: "NUL \<notin> set (nat_str n)"
  using nat_str_digits isdigit_not_special by blast

lemma scan_number_nat_str: "scan_number 10 (nat_str n) = Some (int n, [])"
proof -
  obtain c cs where s: "nat_str n = c # cs" by (cases "nat_str n") auto
  then have c: "isdigit c" using nat_str_digits[of c n] by simp
  then have "digit_value c < 10" by (rule digit_value_isdigit)
  moreover have "scan_digits 10 0 (c # cs) = (n, [])"
    using scan_digits_nat_str[of n] s by simp
  ultimately show ?thesis
    using isdigit_not_special[OF c] by (simp add: scan_number_def scan_sign_def s)
qed

lemma toInt_nat_str [simp]: "n < 2 ^ 31 \<Longrightarrow> toInt (nat_str n) = int n"
proof -
  assume "n < 2 ^ 31"
  then have "int n < 2 ^ 31" by simp
  then show ?thesis by (simp add: toIntBase_def scan_number_nat_str)
qed

lemma scan_number_neg: "scan_number 10 (CHR ''-'' # nat_str n) = Some (- int n, [])"
proof -
  obtain c cs where s: "nat_str n = c # cs" by (cases "nat_str n") auto
  then have c: "isdigit c" using nat_str_digits[of c n] by simp
  then have "digit_value c < 10" by (rule digit_value_isdigit)
  moreover have "scan_digits 10 0 (c # cs) = (n, [])"
    using scan_digits_nat_str[of n] s by simp
  moreover have "\<not> isspace (CHR ''-'')" by (simp add: text_simps)
  ultimately show ?thesis
    by (simp add: scan_number_def scan_sign_def s)
qed

lemma toInt_number: "- (2 ^ 31) \<le> i \<Longrightarrow> i < 2 ^ 31 \<Longrightarrow> toInt (number i) = i"
proof (cases "i < 0")
  case True
  assume "- (2 ^ 31) \<le> i"
  moreover have "CHR ''-'' \<noteq> NUL" by (simp add: NUL_def)
  ultimately show ?thesis using True
    by (simp add: number_def toIntBase_def scan_number_neg)
next
  case False
  assume "i < 2 ^ 31"
  with False show ?thesis
    by (simp add: number_def)
qed

lemma trimmed_no_space: "(\<forall>c \<in> set s. \<not> isspace c) \<Longrightarrow> trimmed s = s"
  by (simp add: trimmed_def dropWhile_eq_self_iff hd_rev) (metis dropWhile_eq_self_iff hd_rev last_in_set list.set_sel(1) rev_is_Nil_conv rev_rev_ident)

lemma trimmed_nat_str [simp]: "trimmed (nat_str n) = nat_str n"
  by (rule trimmed_no_space) (use nat_str_digits isdigit_not_special in blast)

lemma qs_toInt_nat_str [simp]: "n < 2 ^ 31 \<Longrightarrow> qs_toInt (nat_str n) = int n"
  by (simp add: qs_toInt_def)

section \<open>Hexadecimal text\<close>

definition hex_digit :: "nat \<Rightarrow> char" where
  "hex_digit n = (if n < 10 then char_of (48 + n) else char_of (87 + n))"

definition toHex :: "string \<Rightarrow> string" where
  "toHex s = concat (map (\<lambda>c. [hex_digit (ord c div 16), hex_digit (ord c mod 16)]) s)"

text \<open>\<open>QByteArray::fromHex\<close> skips what is no hexadecimal digit and pairs digits from the end.\<close>

fun hex_pairs :: "nat list \<Rightarrow> char list" where
  "hex_pairs [] = []"
| "hex_pairs [lo] = [char_of lo]"
| "hex_pairs (lo # hi # ds) = char_of (lo + 16 * hi) # hex_pairs ds"

definition fromHex :: "string \<Rightarrow> string" where
  "fromHex s = rev (hex_pairs (rev (map digit_value (filter (\<lambda>c. digit_value c < 16) s))))"

lemma digit_value_hex [simp]: "n < 16 \<Longrightarrow> digit_value (hex_digit n) = n"
  by (auto simp: hex_digit_def digit_value_def isdigit_def isupper_def islower_def)

lemma ord_less [simp]: "ord c < 256"
  by (simp add: ord_def)

lemma char_of_ord [simp]: "char_of (ord c) = c"
  by (simp add: ord_def)

lemma hex_pairs_snoc2: "even (length ds) \<Longrightarrow> hex_pairs (ds @ [lo, hi]) = hex_pairs ds @ [char_of (lo + 16 * hi)]"
  by (induction ds rule: hex_pairs.induct) auto

lemma fromHex_toHex: "fromHex (toHex s) = s"
proof (induction s)
  case Nil
  then show ?case by (simp add: fromHex_def toHex_def)
next
  case (Cons c cs)
  let ?d = "\<lambda>s. map digit_value (filter (\<lambda>c. digit_value c < 16) s)"
  have lt: "ord c div 16 < 16" "ord c mod 16 < 16" for c
    using ord_less[of c] by (simp_all add: div_less_iff_less_mult)
  have len: "even (length (?d (toHex cs)))"
    by (induction cs) (auto simp: toHex_def lt)
  have "toHex (c # cs) = hex_digit (ord c div 16) # hex_digit (ord c mod 16) # toHex cs"
    by (simp add: toHex_def)
  then have "?d (toHex (c # cs)) = ord c div 16 # ord c mod 16 # ?d (toHex cs)"
    using lt by simp
  then have "fromHex (toHex (c # cs)) =
      rev (hex_pairs (rev (?d (toHex cs)) @ [ord c mod 16, ord c div 16]))"
    unfolding fromHex_def by simp
  also have "\<dots> = char_of (ord c mod 16 + 16 * (ord c div 16)) # fromHex (toHex cs)"
    using len by (simp add: hex_pairs_snoc2 fromHex_def)
  also have "\<dots> = c # cs" using Cons by simp
  finally show ?case .
qed

lemma toHex_inj: "toHex a = toHex b \<Longrightarrow> a = b"
  by (metis fromHex_toHex)

section \<open>Qt hashes as association lists\<close>

definition multi_remove :: "'k \<Rightarrow> 'v \<Rightarrow> ('k \<times> 'v) list \<Rightarrow> ('k \<times> 'v) list" where
  "multi_remove k v h = filter (\<lambda>e. e \<noteq> (k, v)) h"

definition multi_values :: "'k \<Rightarrow> ('k \<times> 'v) list \<Rightarrow> 'v list" where
  "multi_values k h = map snd (filter (\<lambda>e. fst e = k) h)"

lemma set_multi_values: "v \<in> set (multi_values k h) \<longleftrightarrow> (k, v) \<in> set h"
  by (auto simp: multi_values_def intro!: image_eqI[where x = "(k, v)"])

lemma set_multi_remove: "e \<in> set (multi_remove k v h) \<longleftrightarrow> e \<in> set h \<and> e \<noteq> (k, v)"
  by (auto simp: multi_remove_def)

end
