(* ===== verification/UStrings.thy ===== *)
theory UStrings
  imports Prelude
begin

text \<open>
  \<open>Common/types.cpp\<close>: the text operations of class \<open>UString\<close> (number and label tests, quoting,
  percent escaping, SIP uri building). The quote argument \<open>qc\<close> is the C string of one or two
  quote characters the code passes (\<open>"\<close> or \<open>[]\<close>).
\<close>

section \<open>Operations\<close>

definition toBool :: "string \<Rightarrow> bool" where
  "toBool s = (if cstr s = [] then False
     else if toLower s = ''yes'' \<or> toLower s = ''true'' then True
     else atoi s > 0)"

fun all_digits :: "string \<Rightarrow> bool" where
  "all_digits [] = True"
| "all_digits (c # cs) = (if \<not> isdigit c then False else all_digits cs)"

definition isNumber :: "string \<Rightarrow> bool" where
  "isNumber s = (case cstr s of [] \<Rightarrow> False
     | c # cs \<Rightarrow> if c = CHR ''0'' \<and> cs = [] then True else all_digits (c # cs))"

fun all_alnum :: "string \<Rightarrow> bool" where
  "all_alnum [] = True"
| "all_alnum (c # cs) = (if \<not> isalnum c then False else all_alnum cs)"

definition isLabel :: "string \<Rightarrow> bool" where
  "isLabel s = (case cstr s of [] \<Rightarrow> False
     | c # cs \<Rightarrow> if \<not> isalpha c then False else all_alnum (c # cs))"

text \<open>The pair \<open>q1, q2\<close> that \<open>isQuoted\<close>, \<open>unquote\<close> and \<open>quote\<close> compute first.\<close>

fun quote_chars :: "string \<Rightarrow> char \<times> char" where
  "quote_chars [] = (NUL, NUL)"
| "quote_chars [c] = (c, c)"
| "quote_chars (c # d # _) = (c, d)"

definition isQuoted :: "string \<Rightarrow> string \<Rightarrow> bool" where
  "isQuoted qc s = (case quote_chars qc of (q1, q2) \<Rightarrow> startsWith s (cstr [q1]) \<and> endsWith s (cstr [q2]))"

definition unquote :: "string \<Rightarrow> string \<Rightarrow> string" where
  "unquote qc s = (case quote_chars qc of (q1, q2) \<Rightarrow>
     if startsWith s (cstr [q1]) \<and> endsWith s (cstr [q2])
     then midn s 1 (int (length s) - 2) else trimmed s)"

definition quote :: "string \<Rightarrow> string \<Rightarrow> string" where
  "quote qc s = (case quote_chars qc of (q1, q2) \<Rightarrow> [q1] @ cstr s @ [q2])"

fun unescape_loop :: "string \<Rightarrow> string" where
  "unescape_loop [] = []"
| "unescape_loop (c # cs) =
     (if c = CHR ''%'' then
        (case cs of a # b # rest \<Rightarrow>
             char_of (toIntBase 16 [a, b]) # unescape_loop rest
         | _ \<Rightarrow> [])
      else c # unescape_loop cs)"

definition unescape :: "string \<Rightarrow> string" where
  "unescape s = unescape_loop (cstr s)"

definition escape_char :: "char \<Rightarrow> string" where
  "escape_char ch =
     (if ch = CHR '' '' then ''%20''
      else if ch = CHR ''&'' then ''%26''
      else if ch = CHR ''<'' then ''%3c''
      else if ch = CHR ''>'' then ''%3e''
      else if ch = CHR ''@'' then ''%40''
      else if ch = CHR ''%'' then ''%25''
      else if ch = CHR '':'' then ''%3a''
      else [ch])"

fun escape :: "string \<Rightarrow> string" where
  "escape [] = []"
| "escape (ch # cs) = escape_char ch @ escape cs"

text \<open>\<open>UString::uri\<close>, both overloads.\<close>

definition uri_server :: "string \<Rightarrow> string \<Rightarrow> quint16 \<Rightarrow> string" where
  "uri_server schema server port =
    (let pre = toLower schema;
         host = unquote ''[]'' server;
         port = (if pre = ''sip:'' \<and> port = 5060 then 0 else port);
         port = (if pre = ''sips:'' \<and> port = 5061 then 0 else port);
         suf = (if port > 0 then '':'' @ number (uint port) else []);
         host = (if indexOf host (CHR '':'') > -1 then ''['' @ host @ '']'' else host)
     in pre @ host @ suf)"

definition uri_id :: "string \<Rightarrow> string \<Rightarrow> string \<Rightarrow> quint16 \<Rightarrow> string" where
  "uri_id schema ident server port =
    (let pre = toLower schema;
         host = unquote ''[]'' server;
         port = (if pre = ''sip:'' \<and> port = 5060 then 0 else port);
         port = (if pre = ''sips:'' \<and> port = 5061 then 0 else port);
         suf = (if port > 0 then '':'' @ number (uint port) else []);
         host = (if indexOf host (CHR '':'') > -1 then ''['' @ host @ '']'' else host)
     in pre @ ident @ ''@'' @ host @ suf)"

section \<open>Lemmas\<close>

lemma all_digits_iff: "all_digits s \<longleftrightarrow> (\<forall>c \<in> set s. isdigit c)"
  by (induction s) auto

lemma all_alnum_iff: "all_alnum s \<longleftrightarrow> (\<forall>c \<in> set s. isalnum c)"
  by (induction s) auto

lemma isNumber_iff: "isNumber s \<longleftrightarrow> cstr s \<noteq> [] \<and> (\<forall>c \<in> set (cstr s). isdigit c)"
proof -
  have "isdigit (CHR ''0'')" by (simp add: text_simps)
  then show ?thesis
    by (auto simp: isNumber_def all_digits_iff split: list.splits)
qed

lemma isLabel_iff:
  "isLabel s \<longleftrightarrow> cstr s \<noteq> [] \<and> isalpha (hd (cstr s)) \<and> (\<forall>c \<in> set (cstr s). isalnum c)"
  by (auto simp: isLabel_def all_alnum_iff split: list.splits)

lemma isNumber_nat_str [simp]: "isNumber (nat_str n)"
  using nat_str_digits by (auto simp: isNumber_iff)

lemma hex_escapes:
  "toIntBase 16 ''20'' = 32" "toIntBase 16 ''26'' = 38" "toIntBase 16 ''3c'' = 60"
  "toIntBase 16 ''3e'' = 62" "toIntBase 16 ''40'' = 64" "toIntBase 16 ''25'' = 37"
  "toIntBase 16 ''3a'' = 58"
  by (simp_all add: text_simps)

lemma unescape_step:
  "unescape_loop (CHR ''%'' # a # b # rest) = char_of (toIntBase 16 [a, b]) # unescape_loop rest"
  by simp

lemma char_of_escapes:
  "char_of (32::int) = CHR '' ''" "char_of (38::int) = CHR ''&''" "char_of (60::int) = CHR ''<''"
  "char_of (62::int) = CHR ''>''" "char_of (64::int) = CHR ''@''" "char_of (37::int) = CHR ''%''"
  "char_of (58::int) = CHR '':''"
  by (simp_all add: char_of_def)

lemma unescape_loop_escape: "unescape_loop (escape s) = s"
  by (induction s) (simp_all add: escape_char_def hex_escapes char_of_escapes)

lemma NUL_notin_escape: "NUL \<notin> set s \<Longrightarrow> NUL \<notin> set (escape s)"
  by (induction s) (auto simp: NUL_def escape_char_def)

lemma escape_char_safe: "c \<in> set (escape_char ch) \<Longrightarrow> c \<notin> set '' &<>@:''"
  by (simp add: escape_char_def split: if_splits) auto

lemma escape_set: "c \<in> set (escape s) \<Longrightarrow> c \<notin> set '' &<>@:''"
  by (induction s) (simp, metis Un_iff escape.simps(2) escape_char_safe set_append)

lemma quote_len: "length (quote qc s) = length (cstr s) + 2"
  by (simp add: quote_def split: prod.splits)

lemma startsWith_Cons [simp]: "startsWith (c # s) [d] \<longleftrightarrow> c = d"
  by (simp add: startsWith_def)

lemma endsWith_snoc [simp]: "endsWith (s @ [c]) [d] \<longleftrightarrow> c = d"
  by (simp add: endsWith_def)

lemma endsWith_Cons_snoc [simp]: "endsWith (x # s @ [c]) [d] \<longleftrightarrow> c = d"
  using endsWith_snoc[of "x # s" c d] by simp

lemma startsWith_Nil [simp]: "startsWith s []"
  by (simp add: startsWith_def)

lemma endsWith_Nil [simp]: "endsWith s []"
  by (simp add: endsWith_def)

lemma uri_id_server: "uri_id schema i server port =
    toLower schema @ i @ ''@'' @ drop (length schema) (uri_server schema server port)"
  by (simp add: uri_id_def uri_server_def Let_def toLower_def)

section \<open>Properties\<close>

text \<open>Percent escaping is lossless: \<open>unescape\<close> inverts \<open>escape\<close> on every text without a NUL
  byte, and the escaped text holds none of the characters that delimit a SIP header.\<close>

theorem unescape_escape:
  assumes "NUL \<notin> set s"
  shows "unescape (escape s) = s \<and> (\<forall>c \<in> set (escape s). c \<notin> set '' &<>@:'')"
  using assms escape_set by (auto simp: unescape_def NUL_notin_escape unescape_loop_escape)

theorem unescape_escape_witness:
  "unescape (escape ''a b%<:@>'') = ''a b%<:@>'' \<and> escape ''a b%<:@>'' = ''a%20b%25%3c%3a%40%3e''"
proof -
  have h: "NUL \<notin> set ''a b%<:@>''" by (simp add: NUL_def)
  show ?thesis using unescape_escape[OF h] by (simp add: escape_char_def)
qed

text \<open>Quoting is lossless for one or two quote characters.\<close>

lemma unquote_quote:
  assumes "NUL \<notin> set s" and "qc = [c] \<or> qc = [c, d]" and "c \<noteq> NUL" and "d \<noteq> NUL"
  shows "unquote qc (quote qc s) = s \<and> isQuoted qc (quote qc s)"
proof -
  obtain e where q: "quote_chars qc = (c, e)" "e \<noteq> NUL"
    using assms(2-4) by auto
  then have "quote qc s = c # s @ [e]" using assms(1) by (simp add: quote_def)
  moreover have "midn (c # s @ [e]) 1 (int (length (c # s @ [e])) - 2) = s"
    by (simp add: midn_def)
  ultimately show ?thesis using q assms(3) by (simp add: unquote_def isQuoted_def)
qed

end
