(* ===== verification/UtilFns.thy ===== *)
theory UtilFns
  imports UStrings "HOL-Library.Signed_Division"
begin

text \<open>
  \<open>Common/util.cpp\<close>, \<open>Common/inline.hpp\<close> and \<open>Common/args.cpp\<close>: host names, bind addresses,
  ports, clock arithmetic, range helpers and command line helpers. What Qt reads from the
  machine (host name, domain, interfaces, name lookup) is an argument. A \<open>QDateTime\<close> is its
  epoch time in milliseconds and its offset from UTC in seconds; C++ \<open>/\<close> and \<open>%\<close> truncate
  towards zero (\<open>sdiv\<close>, \<open>smod\<close>), 64-bit results wrap.
\<close>

record qdatetime =
  toMSecs :: int
  offsetFromUtc :: int

datatype host_address = AnyIPv4 | AnyIPv6 | AnyAddress | HostAddress string

section \<open>Host names and addresses\<close>

definition localDomain :: "string \<Rightarrow> string \<Rightarrow> string" where
  "localDomain localDomainName localHostName =
    (if localDomainName = [] then
       (let pos = indexOf localHostName (CHR ''.'') in
        if pos < 0 then ''localdomain'' else mid localHostName (pos + 1))
     else localDomainName)"

definition localName :: "string \<Rightarrow> string" where
  "localName localHostName =
    (if localHostName = [] then ''localhost''
     else (let pos = indexOf localHostName (CHR ''.'') in
           if pos < 0 then localHostName else qleft localHostName pos))"

definition hostName :: "string \<Rightarrow> string" where
  "hostName localHostName = (if localHostName = [] then ''localhost'' else localHostName)"

text \<open>\<open>interfaceFromName\<close> gives \<open>None\<close> for an invalid interface, else its addresses.\<close>

definition hostAddress :: "(string \<Rightarrow> host_address list option) \<Rightarrow> string \<Rightarrow> host_address list" where
  "hostAddress interfaceFromName hostId =
    (let pos = indexOf hostId (CHR '':'');
         bindId = (if pos > 0 then qleft hostId pos else hostId) in
     if bindId \<noteq> ''none'' then
       (case interfaceFromName bindId of Some entries \<Rightarrow> entries | None \<Rightarrow> [])
     else [])"

definition hostPort :: "string \<Rightarrow> int" where
  "hostPort hostId =
    (let pos = indexOf hostId (CHR '':'') in
     if pos < 1 then 0
     else (let pos = qs_toInt (mid hostId pos) in
           if pos < 0 \<or> pos > 65535 then 0 else pos))"

definition bindAddress ::
  "(string \<Rightarrow> host_address list option) \<Rightarrow> (string \<Rightarrow> host_address list) \<Rightarrow> string \<Rightarrow> host_address list" where
  "bindAddress interfaceFromName fromName hostId =
    (if hostId = ''*'' \<or> hostId = ''all'' then [AnyIPv4, AnyIPv6]
     else if hostId = ''any6'' then [AnyIPv6]
     else if hostId = ''any4'' then [AnyIPv4]
     else if hostId = ''any'' then [AnyAddress]
     else (case interfaceFromName hostId of Some entries \<Rightarrow> entries
           | None \<Rightarrow> fromName hostId))"

definition portNumber :: "string option \<Rightarrow> quint16" where
  "portNumber cp = (case cp of None \<Rightarrow> 0 | Some s \<Rightarrow> word_of_int (atoi s))"

section \<open>Clock arithmetic\<close>

definition HOURLY_INTERVAL :: int where "HOURLY_INTERVAL = 3600000"
definition DAILY_INTERVAL :: int where "DAILY_INTERVAL = 86400000"

definition currentDay :: "qdatetime \<Rightarrow> quint32" where
  "currentDay when =
    (let secs = toMSecs when sdiv 1000; secs = secs + offsetFromUtc when
     in word_of_int (secs sdiv 86400))"

definition untilTomorrow :: "qdatetime \<Rightarrow> quint32" where
  "untilTomorrow when =
    (let secs = toMSecs when sdiv 1000; secs = secs + offsetFromUtc when
     in word_of_int (86400 - (secs smod 86400)))"

definition untilInterval :: "int \<Rightarrow> qdatetime \<Rightarrow> int" where
  "untilInterval interval when =
    (let msecs = toMSecs when; msecs = msecs + offsetFromUtc when * 1000
     in signed_take_bit 31 (interval - (msecs smod interval)))"

definition timestampKey :: "qdatetime \<Rightarrow> quint32 \<Rightarrow> int" where
  "timestampKey when sequence =
    (let secs = toMSecs when sdiv 1000; secs = secs * 10000
     in signed_take_bit 63 (secs + uint (sequence mod 10000)))"

section \<open>Range and emptiness helpers\<close>

definition clampRange :: "'a::linorder \<Rightarrow> 'a \<Rightarrow> 'a \<Rightarrow> 'a" where
  "clampRange value lo hi = (if value < lo then lo else if value > hi then hi else value)"

definition inRange :: "'a::linorder \<Rightarrow> 'a \<Rightarrow> 'a \<Rightarrow> bool" where
  "inRange value lo hi = (\<not> (value < lo \<or> value > hi))"

definition isEmptyString :: "string \<Rightarrow> bool" where
  "isEmptyString value = (if length value < 1 then True
     else if length (trimmed value) < 1 then True else False)"

definition isEmptyStringList :: "string list \<Rightarrow> bool" where
  "isEmptyStringList value = (case value of [] \<Rightarrow> True
     | _ # _ # _ \<Rightarrow> False | [v] \<Rightarrow> isEmptyString v)"

section \<open>Command line helpers\<close>

fun countSet :: "(string \<Rightarrow> bool) \<Rightarrow> string list \<Rightarrow> nat" where
  "countSet isSet [] = 0"
| "countSet isSet (opt # options) = (if isSet opt then 1 else 0) + countSet isSet options"

definition conflicting :: "(string \<Rightarrow> bool) \<Rightarrow> string list \<Rightarrow> bool" where
  "conflicting isSet options = (countSet isSet options > 1)"

fun args_includes :: "(string \<Rightarrow> bool) \<Rightarrow> string list \<Rightarrow> bool" where
  "args_includes isSet [] = False"
| "args_includes isSet (opt # options) = (if isSet opt then True else args_includes isSet options)"

definition exePath :: "string \<Rightarrow> string \<Rightarrow> string" where
  "exePath applicationDirPath path =
    (if startsWith path ''../'' then applicationDirPath @ ''/'' @ path
     else if startsWith path ''./'' then applicationDirPath @ ''/'' @ mid path 3
     else if path = ''.'' then applicationDirPath
     else path)"

section \<open>Lemmas\<close>

lemma qs_toInt_colon: "qs_toInt (CHR '':'' # s) = 0"
proof -
  have sp: "\<not> isspace (CHR '':'')" and nul: "CHR '':'' \<noteq> NUL"
    and dv: "\<not> digit_value (CHR '':'') < 10"
    by (simp_all add: text_simps)
  obtain t where t: "trimmed (CHR '':'' # s) = CHR '':'' # t"
  proof -
    have "trimmed (CHR '':'' # s) = rev (dropWhile isspace (rev s @ [CHR '':'']))"
      using sp by (simp add: trimmed_def)
    also have "\<dots> = CHR '':'' # rev (dropWhile isspace (rev s))"
      using sp by (simp add: dropWhile_append3)
    finally show ?thesis using that by blast
  qed
  have "scan_number 10 (CHR '':'' # cstr t) = None"
    using sp dv by (simp add: scan_number_def scan_sign_def)
  then show ?thesis
    using nul by (simp add: qs_toInt_def t toIntBase_def)
qed

lemma drop_indexOf: "indexOf s c = p \<Longrightarrow> p \<ge> 0 \<Longrightarrow> \<exists>t. drop (nat p) s = c # t"
proof -
  assume p: "indexOf s c = p" "p \<ge> 0"
  then have "c \<in> set s" using indexOf_iff[of s c] by simp
  then obtain u v where s: "s = u @ c # v" "c \<notin> set u" by (meson split_list_first)
  with p show ?thesis by auto
qed

lemma sdiv_nonneg: "0 \<le> a \<Longrightarrow> 0 < b \<Longrightarrow> (a::int) sdiv b = a div b"
  by (cases "a = 0") (simp_all add: signed_divide_int_def)

lemma smod_nonneg: "0 \<le> a \<Longrightarrow> 0 < b \<Longrightarrow> (a::int) smod b = a mod b"
  by (cases "a = 0") (simp_all add: signed_modulo_int_def)

lemma smod_abs: "0 < b \<Longrightarrow> \<bar>(a::int) smod b\<bar> < b"
  using smod_int_compares(1,2)[of b a] smod_int_range[of b a]
  by (cases "0 \<le> a") (auto simp: smod_nonneg signed_modulo_int_def)

lemma countSet_pos: "countSet p xs > 0 \<longleftrightarrow> args_includes p xs"
  by (induction xs) auto

section \<open>Properties\<close>

text \<open>\<open>Util::hostPort\<close> never finds a port: the text it converts starts at the colon, which is
  not a number, so every host specification has port 0.\<close>

theorem hostPort_always_zero: "hostPort hostId = 0"
proof -
  let ?p = "indexOf hostId (CHR '':'')"
  show ?thesis
  proof (cases "?p < 1")
    case False
    then obtain t where "drop (nat ?p) hostId = CHR '':'' # t"
      using drop_indexOf[of hostId "CHR '':''" ?p] by auto
    then show ?thesis by (simp add: hostPort_def mid_def qs_toInt_colon Let_def)
  qed (simp add: hostPort_def)
qed

lemma slot_arith:
  fixes p q x y :: int
  assumes "0 \<le> x" "x < 10000" "0 \<le> y" "y < 10000"
  shows "(p * 10000 + x = q * 10000 + y \<longleftrightarrow> p = q \<and> x = y) \<and> (p < q \<longrightarrow> p * 10000 + x < q * 10000 + y)"
proof -
  have "(p * 10000 + x) div 10000 = p" "(q * 10000 + y) div 10000 = q"
    using assms by simp_all
  then have "p = q \<and> x = y" if "p * 10000 + x = q * 10000 + y" using that by (metis add_left_cancel)
  then show ?thesis using assms by auto
qed

text \<open>Message keys are unique per second and sequence slot: within the range where the 64-bit
  key does not overflow, two keys are equal only for the same second and the same sequence number
  modulo 10000, and a later second has a larger key.\<close>

theorem timestampKey_order:
  assumes "0 \<le> toMSecs a" "toMSecs a \<le> 2 ^ 53" "0 \<le> toMSecs b" "toMSecs b \<le> 2 ^ 53"
  shows "(timestampKey a i = timestampKey b j \<longleftrightarrow>
      toMSecs a div 1000 = toMSecs b div 1000 \<and> i mod 10000 = j mod 10000) \<and>
    (toMSecs a div 1000 < toMSecs b div 1000 \<longrightarrow> timestampKey a i < timestampKey b j)"
proof -
  have bound: "0 \<le> uint (k mod 10000)" "uint (k mod 10000) < 10000" for k :: quint32
    by (simp_all add: uint_mod)
  have wrap: "signed_take_bit 63 x = x" if "0 \<le> x" "x < 2 ^ 62" for x :: int
    using that by (intro signed_take_bit_int_eq_self) auto
  have key: "timestampKey w k = toMSecs w div 1000 * 10000 + uint (k mod 10000)"
    if "0 \<le> toMSecs w" "toMSecs w \<le> 2 ^ 53" for w k
  proof -
    have "0 \<le> toMSecs w div 1000" "toMSecs w div 1000 \<le> 2 ^ 53 div 1000"
      using that by (simp_all add: zdiv_mono1)
    then have "0 \<le> toMSecs w div 1000 * 10000 + uint (k mod 10000)"
      "toMSecs w div 1000 * 10000 + uint (k mod 10000) < 2 ^ 62"
      using bound[of k] by simp_all
    then show ?thesis using that by (simp add: timestampKey_def smod_mod_positive sdiv_nonneg wrap)
  qed
  have inj: "uint (i mod 10000) = uint (j mod 10000) \<longleftrightarrow> i mod 10000 = j mod 10000"
    by (simp add: word_uint_eq_iff)
  show ?thesis
    unfolding key[OF assms(1,2)] key[OF assms(3,4)] inj[symmetric] by (rule slot_arith) (fact bound)+
qed

theorem timestampKey_order_witness:
  "timestampKey \<lparr>toMSecs = 1000, offsetFromUtc = 0\<rparr> 9999 < timestampKey \<lparr>toMSecs = 2000, offsetFromUtc = 3600\<rparr> 0"
  using timestampKey_order[of "\<lparr>toMSecs = 1000, offsetFromUtc = 0\<rparr>" "\<lparr>toMSecs = 2000, offsetFromUtc = 3600\<rparr>" 9999 0]
  by simp

text \<open>The housekeeping timer is armed within one interval and fires exactly on a local interval
  boundary, for times after the epoch.\<close>

theorem untilInterval_boundary:
  assumes "0 \<le> toMSecs w + offsetFromUtc w * 1000" and "0 < n" and "n < 2 ^ 31"
  shows "0 < untilInterval n w \<and> untilInterval n w \<le> n \<and>
    n dvd toMSecs w + offsetFromUtc w * 1000 + untilInterval n w"
proof -
  let ?m = "toMSecs w + offsetFromUtc w * 1000"
  have m: "?m smod n = ?m mod n" using assms by (simp add: smod_mod_positive)
  have r: "0 \<le> ?m mod n" "?m mod n < n" using assms by simp_all
  then have "untilInterval n w = n - ?m mod n"
    using assms(3) unfolding untilInterval_def Let_def m by (intro signed_take_bit_int_eq_self) simp_all
  moreover have "?m + (n - ?m mod n) = n * (?m div n + 1)"
    by (simp add: algebra_simps minus_mod_eq_mult_div[symmetric])
  ultimately show ?thesis using r by simp
qed

theorem untilInterval_boundary_witness:
  "untilInterval DAILY_INTERVAL \<lparr>toMSecs = 90000000, offsetFromUtc = 3600\<rparr> \<le> 86400000"
proof -
  have "untilInterval 86400000 \<lparr>toMSecs = 90000000, offsetFromUtc = 3600\<rparr> \<le> 86400000"
    using untilInterval_boundary[of "\<lparr>toMSecs = 90000000, offsetFromUtc = 3600\<rparr>" 86400000] by simp
  then show ?thesis by (simp add: DAILY_INTERVAL_def)
qed

end
