(* ===== verification/SipMessage.thy ===== *)
theory SipMessage
  imports UtilFns
begin

text \<open>
  The parsed SIP message the server reads (the fields of libosip2's structures that the code
  uses, a null pointer being \<open>None\<close>), header and parameter lookup by name, the reply codes, and
  the event types of eXosip2.
\<close>

section \<open>Parsed messages\<close>

record osip_uri =
  uri_scheme :: "string option"
  uri_username :: "string option"
  uri_host :: "string option"
  uri_port :: "string option"

type_synonym osip_params = "(string \<times> string option) list"

record osip_contact =
  con_url :: "osip_uri option"
  con_params :: osip_params

record osip_via =
  via_host :: "string option"
  via_port :: "string option"
  via_params :: osip_params

record osip_from =
  from_displayname :: "string option"
  from_url :: "osip_uri option"

record osip_content_type =
  ct_type :: "string option"
  ct_subtype :: "string option"

record osip_authorization =
  au_username :: "string option"
  au_realm :: "string option"
  au_nonce :: "string option"
  au_response :: "string option"
  au_algorithm :: "string option"

record osip_message =
  msg_status :: int
  msg_reason :: string
  msg_method :: string
  msg_req_uri :: "osip_uri option"
  msg_from :: "osip_from option"
  msg_to :: "osip_from option"
  msg_contacts :: "osip_contact list"
  msg_vias :: "osip_via list"
  msg_record_routes :: "osip_from list"
  msg_routes :: "osip_from list"
  msg_allows :: "string option list"
  msg_authorizations :: "osip_authorization list"
  msg_content_type :: "osip_content_type option"
  msg_headers :: osip_params
  msg_body :: "string option"

section \<open>Lookup by name\<close>

definition ascii_lower :: "char \<Rightarrow> char" where
  "ascii_lower c = (if isupper c then char_of (ord c + 32) else c)"

definition strcase_eq :: "string \<Rightarrow> string \<Rightarrow> bool" where
  "strcase_eq a b \<longleftrightarrow> map ascii_lower a = map ascii_lower b"

text \<open>\<open>osip_*_param_get_byname\<close>: the first parameter of that name; then its \<open>gvalue\<close>.\<close>

fun param_get :: "osip_params \<Rightarrow> string \<Rightarrow> string option" where
  "param_get [] name = None"
| "param_get ((n, v) # ps) name = (if strcase_eq n name then v else param_get ps name)"

text \<open>
  \<open>osip_message_header_get_byname (msg, name, pos, \<dots>)\<close> searches from index \<open>pos\<close>. \<open>header_get\<close>
  is the header (\<open>None\<close> when not found), \<open>header_value\<close> its value when both are non-null.
\<close>

fun header_find :: "osip_params \<Rightarrow> string \<Rightarrow> string option option" where
  "header_find [] name = None"
| "header_find ((n, v) # hs) name = (if strcase_eq n name then Some v else header_find hs name)"

definition header_get :: "osip_message \<Rightarrow> string \<Rightarrow> nat \<Rightarrow> string option option" where
  "header_get msg name pos = header_find (drop pos (msg_headers msg)) name"

definition header_value :: "osip_message \<Rightarrow> string \<Rightarrow> string option" where
  "header_value msg name = (case header_get msg name 0 of Some (Some v) \<Rightarrow> Some v | _ \<Rightarrow> None)"

text \<open>\<open>atoi\<close> of the library: \<open>-1\<close> at the ends of the range of \<open>long\<close>.\<close>

definition osip_atoi :: "string \<Rightarrow> int" where
  "osip_atoi s = (let v = strtol s in
     if v = - (2 ^ 63) \<or> v = 2 ^ 63 - 1 then -1 else signed_take_bit 31 v)"

definition MSG_IS :: "string \<Rightarrow> osip_message \<Rightarrow> bool" where
  "MSG_IS name msg \<longleftrightarrow> msg_status msg = 0 \<and> msg_method msg = name"

text \<open>\<open>to->url->username\<close> of a message, null at any step being \<open>None\<close>.\<close>

definition to_url :: "osip_message \<Rightarrow> osip_uri option" where
  "to_url msg = (case msg_to msg of None \<Rightarrow> None | Some t \<Rightarrow> from_url t)"

definition to_username :: "osip_message \<Rightarrow> string option" where
  "to_username msg = (case to_url msg of None \<Rightarrow> None | Some u \<Rightarrow> uri_username u)"

definition from_uri :: "osip_message \<Rightarrow> osip_uri option" where
  "from_uri msg = (case msg_from msg of None \<Rightarrow> None | Some f \<Rightarrow> from_url f)"

lemmas msg_defs [sip_defs] =
  header_get_def header_value_def MSG_IS_def to_url_def to_username_def from_uri_def

section \<open>Codes and event types\<close>

abbreviation SIP_OK :: int where "SIP_OK \<equiv> 200"
abbreviation SIP_UNAUTHORIZED :: int where "SIP_UNAUTHORIZED \<equiv> 401"
abbreviation SIP_FORBIDDEN :: int where "SIP_FORBIDDEN \<equiv> 403"
abbreviation SIP_NOT_FOUND :: int where "SIP_NOT_FOUND \<equiv> 404"
abbreviation SIP_METHOD_NOT_ALLOWED :: int where "SIP_METHOD_NOT_ALLOWED \<equiv> 405"
abbreviation SIP_CONFLICT :: int where "SIP_CONFLICT \<equiv> 409"
abbreviation SIP_TEMPORARILY_UNAVAILABLE :: int where "SIP_TEMPORARILY_UNAVAILABLE \<equiv> 480"
abbreviation SIP_ADDRESS_INCOMPLETE :: int where "SIP_ADDRESS_INCOMPLETE \<equiv> 484"
abbreviation SIP_AMBIGUOUS :: int where "SIP_AMBIGUOUS \<equiv> 485"
abbreviation SIP_NOT_ACCEPTABLE_HERE :: int where "SIP_NOT_ACCEPTABLE_HERE \<equiv> 488"
abbreviation SIP_UNDECIPHERABLE :: int where "SIP_UNDECIPHERABLE \<equiv> 493"
abbreviation SIP_INTERNAL_SERVER_ERROR :: int where "SIP_INTERNAL_SERVER_ERROR \<equiv> 500"
abbreviation SIP_MESSAGE_TOO_LARGE :: int where "SIP_MESSAGE_TOO_LARGE \<equiv> 513"
abbreviation SIP_DOES_NOT_EXIST_ANYWHERE :: int where "SIP_DOES_NOT_EXIST_ANYWHERE \<equiv> 604"

datatype (plugins only: code size) event_type =
    REGISTRATION_SUCCESS | REGISTRATION_FAILURE
  | CALL_INVITE | CALL_REINVITE | CALL_NOANSWER | CALL_PROCEEDING | CALL_RINGING
  | CALL_ANSWERED | CALL_REDIRECTED | CALL_REQUESTFAILURE | CALL_SERVERFAILURE
  | CALL_GLOBALFAILURE | CALL_ACK | CALL_CANCELLED
  | CALL_MESSAGE_NEW | CALL_MESSAGE_PROCEEDING | CALL_MESSAGE_ANSWERED
  | CALL_MESSAGE_REDIRECTED | CALL_MESSAGE_REQUESTFAILURE | CALL_MESSAGE_SERVERFAILURE
  | CALL_MESSAGE_GLOBALFAILURE | CALL_CLOSED | CALL_RELEASED
  | MESSAGE_NEW | MESSAGE_PROCEEDING | MESSAGE_ANSWERED | MESSAGE_REDIRECTED
  | MESSAGE_REQUESTFAILURE | MESSAGE_SERVERFAILURE | MESSAGE_GLOBALFAILURE
  | SUBSCRIPTION_NOANSWER | SUBSCRIPTION_PROCEEDING | SUBSCRIPTION_ANSWERED
  | SUBSCRIPTION_REDIRECTED | SUBSCRIPTION_REQUESTFAILURE | SUBSCRIPTION_SERVERFAILURE
  | SUBSCRIPTION_GLOBALFAILURE | SUBSCRIPTION_NOTIFY | IN_SUBSCRIPTION_NEW
  | NOTIFICATION_NOANSWER | NOTIFICATION_PROCEEDING | NOTIFICATION_ANSWERED
  | NOTIFICATION_REDIRECTED | NOTIFICATION_REQUESTFAILURE | NOTIFICATION_SERVERFAILURE
  | NOTIFICATION_GLOBALFAILURE

section \<open>JSON documents\<close>

text \<open>The JSON values the server builds; \<open>QJsonDocument\<close> renders them.\<close>

datatype json = JString string | JInt int | JArray "json list" | JObject "(string \<times> json) list"

end
