(* ===== verification/Contacts.thy ===== *)
theory Contacts
  imports SipMessage
begin

text \<open>
  \<open>Common/contact.cpp\<close>: class \<open>Contact\<close>, the address of a SIP endpoint with its expiry. The
  clock (\<open>time(2)\<close>) is the argument \<open>now\<close>.
\<close>

record contact =
  hostName :: string
  hostPort :: quint16
  userName :: string
  expiration :: int

section \<open>Construction\<close>

definition Contact_empty :: contact where
  "Contact_empty = \<lparr>hostName = [], hostPort = 0, userName = [], expiration = 0\<rparr>"

definition Contact_address :: "int \<Rightarrow> string \<Rightarrow> quint16 \<Rightarrow> string \<Rightarrow> int \<Rightarrow> contact" where
  "Contact_address now address port user duration =
    \<lparr>hostName = address, hostPort = port, userName = user,
     expiration = (if duration > -1 then now + duration else 0)\<rparr>"

text \<open>\<open>Contact (uri, server)\<close>: the scheme prefix, then the part after \<open>@\<close> or the given server.\<close>

definition uri_lead :: "string \<Rightarrow> int \<times> quint16" where
  "uri_lead uri = (if toLower (qleft uri 4) = ''sip:'' then (4, 5060)
     else if toLower (qleft uri 5) = ''sips:'' then (5, 5061) else (0, 0))"

definition uri_parts :: "string \<Rightarrow> string \<Rightarrow> string \<times> string \<times> quint16" where
  "uri_parts uri server =
    (case uri_lead uri of (lead, port) \<Rightarrow>
     let pos = indexOf uri (CHR ''@'') in
     if pos > 0 then (midn uri lead (pos - lead), mid uri (pos + 1), port)
     else if toLower (qleft server 4) = ''sip:''
       then (mid uri lead, mid server 4, if port = 0 then 5060 else port)
     else if toLower (qleft server 5) = ''sips:''
       then (mid uri lead, mid server 5, if port = 0 then 5061 else port)
     else (mid uri lead, server, port))"

definition Contact_uri :: "string \<Rightarrow> string \<Rightarrow> contact" where
  "Contact_uri uri server =
    (case uri_parts uri server of (user, server, port) \<Rightarrow>
     let lead = indexOf server (CHR ''['');
         lead = (if lead < 1 then 0 else lead);
         (host, port) =
           (if indexOf (mid server lead) (CHR '':'') = lastIndexOf server (CHR '':'')
            then (if lead > 0 then qleft server lead else qleft server (indexOf server (CHR '':'')),
                  word_of_int (qs_toInt (mid server (lastIndexOf server (CHR '':'') + 1))))
            else (server, port))
     in \<lparr>hostName = host, hostPort = (if port = 0 then 5060 else port), userName = user,
         expiration = 0\<rparr>)"

definition Contact_osip :: "osip_uri option \<Rightarrow> contact" where
  "Contact_osip uri = (case uri of None \<Rightarrow> Contact_empty | Some u \<Rightarrow>
     (case uri_host u of None \<Rightarrow> Contact_empty | Some h \<Rightarrow>
        if cstr h = [] then Contact_empty
        else \<lparr>hostName = cstr h,
              hostPort = (case uri_port u of
                  Some p \<Rightarrow> if cstr p \<noteq> [] then portNumber (Some p)
                    else if uri_scheme u = Some ''sips'' then 5061 else 5060
                | None \<Rightarrow> if uri_scheme u = Some ''sips'' then 5061 else 5060),
              userName = (case uri_username u of Some n \<Rightarrow> cstr n | None \<Rightarrow> []),
              expiration = 0\<rparr>))"

section \<open>Operations\<close>

definition Contact_valid :: "contact \<Rightarrow> bool" where \<comment> \<open>\<open>operator bool\<close>\<close>
  "Contact_valid c \<longleftrightarrow> hostPort c \<noteq> 0 \<and> hostName c \<noteq> []"

definition Contact_not :: "contact \<Rightarrow> bool" where \<comment> \<open>\<open>operator!\<close>\<close>
  "Contact_not c \<longleftrightarrow> hostPort c = 0 \<and> hostName c \<noteq> []"

definition Contact_eq :: "contact \<Rightarrow> contact \<Rightarrow> bool" where
  "Contact_eq a b \<longleftrightarrow> hostName a = hostName b \<and> hostPort a = hostPort b \<and> userName a = userName b"

definition Contact_refresh :: "int \<Rightarrow> int \<Rightarrow> contact \<Rightarrow> contact" where
  "Contact_refresh now seconds c =
    (if seconds < 0 then c\<lparr>expiration := 0\<rparr>
     else c\<lparr>expiration := (if expiration c = 0 then now else expiration c) + seconds\<rparr>)"

definition Contact_refresh_from :: "contact \<Rightarrow> contact \<Rightarrow> contact" where
  "Contact_refresh_from from c =
    (if \<not> Contact_eq from c \<and> expiration from > 0 then c\<lparr>expiration := expiration from\<rparr> else c)"

definition Contact_hasExpired :: "int \<Rightarrow> contact \<Rightarrow> bool" where
  "Contact_hasExpired now c = (if expiration c = 0 then False else now \<ge> expiration c)"

definition hasUser :: "contact \<Rightarrow> bool" where
  "hasUser c \<longleftrightarrow> length (userName c) > 0"

definition Contact_clear :: "contact \<Rightarrow> contact" where
  "Contact_clear c = \<lparr>hostName = [], hostPort = 0, userName = [], expiration = 0\<rparr>"

definition Contact_toString :: "contact \<Rightarrow> string" where
  "Contact_toString c =
    (if hostPort c = 0 then ''invalid''
     else let port = '':'' @ number (uint (hostPort c)) in
       if CHR '':'' \<in> set (hostName c) \<and> hostName c ! 0 \<noteq> CHR ''[''
       then quote ''[]'' (hostName c) @ port
       else hostName c @ port)"

text \<open>The \<open>Contact\<close> header: its \<open>expires\<close> parameter, then the address.\<close>

definition Contact_osip_contact :: "int \<Rightarrow> osip_contact option \<Rightarrow> contact" where
  "Contact_osip_contact now con = (case con of None \<Rightarrow> Contact_empty | Some k \<Rightarrow>
     (case con_url k of None \<Rightarrow> Contact_empty | Some u \<Rightarrow>
       (case uri_host u of None \<Rightarrow> Contact_empty | Some h \<Rightarrow>
          if cstr h = [] then Contact_empty
          else let base = (case param_get (con_params k) ''expires'' of
                    Some v \<Rightarrow> Contact_refresh now (osip_atoi v) Contact_empty
                  | None \<Rightarrow> Contact_empty)
               in (Contact_osip (Some u))\<lparr>expiration := expiration base\<rparr>)))"

lemmas contact_defs [sip_defs] =
  Contact_empty_def Contact_address_def Contact_osip_def Contact_valid_def Contact_not_def
  Contact_eq_def Contact_refresh_def Contact_refresh_from_def Contact_hasExpired_def hasUser_def
  Contact_clear_def Contact_toString_def Contact_osip_contact_def

section \<open>Lemmas\<close>

lemma Contact_not_empty [simp]: "\<not> Contact_not Contact_empty"
  by (simp add: sip_defs)

lemma Contact_eq_refl [simp]: "Contact_eq c c"
  by (simp add: Contact_eq_def)

lemma uri_lead_sip: "uri_lead (''sip:'' @ s) = (4, 5060)"
  by (simp add: uri_lead_def text_simps)

lemma uri_lead_sips: "uri_lead (''sips:'' @ s) = (5, 5061)"
  by (simp add: uri_lead_def text_simps)

text \<open>A host part without \<open>:\<close> or \<open>[\<close> is taken whole; its number, if it is one, is the port.\<close>

lemma Contact_uri_plain:
  assumes "uri_parts uri server = (user, host, port)"
    and "CHR '':'' \<notin> set host" and "CHR ''['' \<notin> set host"
  shows "Contact_uri uri server =
    \<lparr>hostName = host, hostPort = (if word_of_int (qs_toInt host) = (0::quint16) then 5060
        else word_of_int (qs_toInt host)), userName = user, expiration = 0\<rparr>"
  using assms by (simp add: Contact_uri_def mid_def qleft_def)

lemma Contact_uri_port:
  assumes "uri_parts uri server = (user, host @ '':'' @ digits, port)"
    and "CHR '':'' \<notin> set host" and "CHR ''['' \<notin> set host"
    and "CHR '':'' \<notin> set digits" and "CHR ''['' \<notin> set digits"
  shows "Contact_uri uri server =
    \<lparr>hostName = host, hostPort = (if word_of_int (qs_toInt digits) = (0::quint16) then 5060
        else word_of_int (qs_toInt digits)), userName = user, expiration = 0\<rparr>"
proof -
  have "CHR ''['' \<notin> set (host @ CHR '':'' # digits)" using assms by auto
  then show ?thesis
    using assms by (simp add: Contact_uri_def mid_def qleft_def nat_add_distrib)
qed

lemma uri_parts_at:
  assumes "CHR ''@'' \<notin> set ident"
  shows "uri_parts (''sip:'' @ ident @ CHR ''@'' # rest) server = (ident, rest, 5060)"
    and "uri_parts (''sips:'' @ ident @ CHR ''@'' # rest) server = (ident, rest, 5061)"
proof -
  have n: "CHR ''@'' \<notin> set (''sip:'' @ ident)" "CHR ''@'' \<notin> set (''sips:'' @ ident)"
    using assms by auto
  have i: "indexOf (''sip:'' @ ident @ CHR ''@'' # rest) (CHR ''@'') = 4 + int (length ident)"
    using indexOf_append[OF n(1), of rest] by simp
  have j: "indexOf (''sips:'' @ ident @ CHR ''@'' # rest) (CHR ''@'') = 5 + int (length ident)"
    using indexOf_append[OF n(2), of rest] by simp
  have l: "nat (5 + int (length ident)) = length ident + 5" "nat (6 + int (length ident)) = length ident + 6"
    by linarith+
  show "uri_parts (''sip:'' @ ident @ CHR ''@'' # rest) server = (ident, rest, 5060)"
    using i uri_lead_sip[of "ident @ CHR ''@'' # rest"] l
    by (simp add: uri_parts_def midn_def mid_def Let_def numeral_eq_Suc)
  show "uri_parts (''sips:'' @ ident @ CHR ''@'' # rest) server = (ident, rest, 5061)"
    using j uri_lead_sips[of "ident @ CHR ''@'' # rest"] l
    by (simp add: uri_parts_def midn_def mid_def Let_def numeral_eq_Suc)
qed

section \<open>Properties\<close>

text \<open>A SIP uri built for a plain host name is parsed back: user, host and port are recovered
  (the default port 5060 is left out of the text and put back).\<close>

theorem Contact_uri_roundtrip:
  assumes "NUL \<notin> set host" and "\<forall>c \<in> set host. isalpha c \<or> c = CHR ''.''" and "host \<noteq> []"
    and "CHR ''@'' \<notin> set ident" and "port \<noteq> 0"
  shows "Contact_uri (uri_id ''sip:'' ident host port) server =
    \<lparr>hostName = host, hostPort = port, userName = ident, expiration = 0\<rparr>"
proof -
  have dot: "\<not> isspace (CHR ''.'')" "digit_value (CHR ''.'') = 255" by (simp_all add: text_simps)
  have alpha: "c \<noteq> CHR ''['' \<and> c \<noteq> CHR '':'' \<and> \<not> isspace c \<and> digit_value c \<ge> 10 \<and>
      c \<noteq> CHR ''-'' \<and> c \<noteq> CHR ''+''" if "c \<in> set host" for c
  proof (cases "c = CHR ''.''")
    case True
    then show ?thesis by (simp add: dot)
  next
    case False
    with assms(2) that have "isalpha c" by blast
    then show ?thesis using isalpha_not_special[of c] digit_value_isalpha[of c] by simp
  qed
  then have plain: "CHR '':'' \<notin> set host" "CHR ''['' \<notin> set host" by auto
  obtain c cs where h: "host = c # cs" using assms(3) by (cases host) auto
  have tr: "trimmed host = host" using alpha by (intro trimmed_no_space) blast
  have "unquote ''[]'' host = host"
    using alpha[of c] h tr by (auto simp: unquote_def NUL_def)
  then have uri: "uri_id ''sip:'' ident host port = ''sip:'' @ ident @ CHR ''@'' # host @
      (if port = 5060 then [] else '':'' @ nat_str (unat port))"
    using assms(5) plain by (simp add: uri_id_def toLower_def lower_char_def ord_def number_def
      word_gt_0 unat_eq_nat_uint[symmetric])
  show ?thesis
  proof (cases "port = 5060")
    case True
    have "qs_toInt host = 0"
      using assms(1) alpha[of c] h tr
      by (simp add: qs_toInt_def toIntBase_def scan_number_def scan_sign_def)
    moreover have "uri_id ''sip:'' ident host port = ''sip:'' @ ident @ CHR ''@'' # host"
      using uri True by simp
    ultimately show ?thesis
      using True Contact_uri_plain[OF uri_parts_at(1)[OF assms(4)] plain, of server] by simp
  next
    case False
    have "c \<noteq> CHR '':'' \<and> c \<noteq> CHR ''[''" if "c \<in> set (nat_str (unat port))" for c
      using nat_str_digits[OF that] by (auto simp: isdigit_def ord_def)
    then have digits: "CHR '':'' \<notin> set (nat_str (unat port))" "CHR ''['' \<notin> set (nat_str (unat port))"
      by auto
    have "unat port < 2 ^ 31" using unsigned_less[of port, where ?'a = nat] by simp
    then have "word_of_int (qs_toInt (nat_str (unat port))) = port" by simp
    moreover have "uri_id ''sip:'' ident host port =
        ''sip:'' @ ident @ CHR ''@'' # (host @ '':'' @ nat_str (unat port))"
      using uri False by simp
    ultimately show ?thesis
      using assms(5) Contact_uri_port[OF uri_parts_at(1)[OF assms(4)] plain digits, of server] by simp
  qed
qed

theorem Contact_uri_roundtrip_witness:
  "Contact_uri (uri_id ''sip:'' ''101'' ''sip.example'' 4060) [] =
    \<lparr>hostName = ''sip.example'', hostPort = 4060, userName = ''101'', expiration = 0\<rparr>"
  by (rule Contact_uri_roundtrip) (simp_all add: text_simps)

text \<open>The default port of a \<open>sips:\<close> uri without a port is lost: the parser replaces the 5061 it
  has just chosen by 5060, so the uri that \<open>UString::uri\<close> writes for a TLS server at its default
  port is read back with the plain port.\<close>

theorem Contact_uri_sips_default_port:
  "uri_id ''sips:'' ''101'' ''host'' 5061 = ''sips:101@host'' \<and>
   hostPort (Contact_uri (uri_id ''sips:'' ''101'' ''host'' 5061) server) = 5060"
proof -
  have u: "uri_id ''sips:'' ''101'' ''host'' 5061 = ''sips:'' @ ''101'' @ CHR ''@'' # ''host''"
    by (simp add: uri_id_def unquote_def text_simps)
  have "qs_toInt ''host'' = 0" by (simp add: text_simps cstr_def)
  then show ?thesis
    unfolding u by (subst Contact_uri_plain[OF uri_parts_at(2)]) simp_all
qed

end
