(* ===== verification/QtLibrary.thy ===== *)
theory QtLibrary
  imports SipMessage
begin

text \<open>
  What the code takes from Qt and libosip2 as a service: the digest functions, base 64, the ISO
  form of a date, the JSON parser and writer and the printed form of a parsed uri. They are one record of
  functions, an argument of the definitions that use them.
\<close>

datatype algorithm = Md4 | Md5 | Sha1 | Sha256 | Sha512

record qt_lib =
  q_hash :: "algorithm \<Rightarrow> string \<Rightarrow> string"
  q_toBase64 :: "string \<Rightarrow> string"
  q_fromBase64 :: "string \<Rightarrow> string"
  q_isoDate :: "qdatetime \<Rightarrow> string"
  q_fromJson :: "string \<Rightarrow> (string \<times> json) list"
  q_toJson :: "json \<Rightarrow> string"
  q_uri_to_str :: "osip_uri \<Rightarrow> string option"

text \<open>
  The table of digest names (\<open>Server/registry.cpp\<close>, the same as \<open>Crypto::digests\<close>); \<open>operator[]\<close>
  of a \<open>QHash\<close> gives the zero value of the enumeration, \<open>Md4\<close>, for a name it does not hold.
\<close>

definition digests :: "(string \<times> algorithm) list" where
  "digests = [(''MD5'', Md5), (''SHA'', Sha1), (''SHA1'', Sha1), (''SHA2'', Sha256),
    (''SHA256'', Sha256), (''SHA512'', Sha512), (''SHA-1'', Sha1), (''SHA-256'', Sha256),
    (''SHA-512'', Sha512)]"

definition crypto_digests :: "(string \<times> algorithm) list" where
  "crypto_digests = [(''MD5'', Md5), (''SHA'', Sha1), (''SHA1'', Sha1), (''SHA2'', Sha256),
    (''SHA256'', Sha256), (''SHA512'', Sha512), (''SHA-1'', Sha1), (''SHA-256'', Sha256),
    (''SHA-512'', Sha512)]"

definition digest_of :: "(string \<times> algorithm) list \<Rightarrow> string \<Rightarrow> algorithm" where
  "digest_of table name = (case map_of table name of Some a \<Rightarrow> a | None \<Rightarrow> Md4)"

text \<open>\<open>QCryptographicHash::hash (\<dots>).toHex().toLower()\<close>\<close>

definition hash_hex :: "qt_lib \<Rightarrow> algorithm \<Rightarrow> string \<Rightarrow> string" where
  "hash_hex Q a s = toLower (toHex (q_hash Q a s))"

text \<open>A small instance for the witnesses: the digest keeps the text, dates are numbers.\<close>

definition sample_qt :: qt_lib where
  "sample_qt = \<lparr>q_hash = (\<lambda>a s. s), q_toBase64 = (\<lambda>s. s), q_fromBase64 = (\<lambda>s. s),
    q_isoDate = (\<lambda>d. number (toMSecs d)), q_fromJson = (\<lambda>s. []), q_toJson = (\<lambda>j. ''json''),
    q_uri_to_str = (\<lambda>u. case uri_host u of Some h \<Rightarrow> Some (''sip:'' @ h) | None \<Rightarrow> None)\<rparr>"

lemma lower_hex_digit [simp]: "n < 16 \<Longrightarrow> lower_char (hex_digit n) = hex_digit n"
  by (auto simp: lower_char_def hex_digit_def)

lemma toLower_toHex [simp]: "toLower (toHex s) = toHex s"
proof (induction s)
  case (Cons c cs)
  have "ord c div 16 < 16" "ord c mod 16 < 16"
    using ord_less[of c] by (simp_all add: div_less_iff_less_mult)
  with Cons show ?case by (simp add: toLower_def toHex_def)
qed (simp add: toLower_def toHex_def)

lemma same_digest_tables: "crypto_digests = digests"
  by (simp add: crypto_digests_def digests_def)

end
