(* ===== verification/Contexts.thy ===== *)
theory Contexts
  imports Contacts QtLibrary
begin

text \<open>
  \<open>Server/context.cpp\<close>: a SIP context (one bound transport), how it is built from an address, a
  port and a schema, which host names it owns, and the uris it writes. Name lookup and the local
  host name are arguments.
\<close>

unbundle bit_operations_syntax

datatype ip_proto = IPPROTO_UDP | IPPROTO_TCP

record schema =
  sch_name :: string
  sch_uri :: string
  sch_proto :: quint32
  sch_inPort :: quint16
  sch_inProto :: ip_proto

record sip_context =
  ctx_schema :: schema
  ctx_allow :: quint32
  netFamily6 :: bool
  netTLS :: quint16
  netProto :: ip_proto
  netPort :: quint16
  netAddress :: string
  uriAddress :: string
  uriHost :: string
  publicName :: string
  localHosts :: "string list"
  otherNames :: "string list"
  multiInterface :: bool

section \<open>Protocols and permissions\<close>

definition PROTO_UDP :: quint32 where "PROTO_UDP = 1"
definition PROTO_TCP :: quint32 where "PROTO_TCP = 2"
definition PROTO_TLS :: quint32 where "PROTO_TLS = 4"
definition PROTO_DTLS :: quint32 where "PROTO_DTLS = 8"
definition ALLOW_REGISTRY :: quint32 where "ALLOW_REGISTRY = 0x100"
definition ALLOW_REMOTE :: quint32 where "ALLOW_REMOTE = 0x200"
definition ALLOW_UNAUTHENTICATED :: quint32 where "ALLOW_UNAUTHENTICATED = 0x400"

lemmas proto_defs =
  PROTO_UDP_def PROTO_TCP_def PROTO_TLS_def PROTO_DTLS_def ALLOW_REGISTRY_def ALLOW_REMOTE_def
  ALLOW_UNAUTHENTICATED_def

definition Schemas :: "schema list" where
  "Schemas = [
    \<lparr>sch_name = ''udp'', sch_uri = ''sip:'', sch_proto = PROTO_UDP, sch_inPort = 5060, sch_inProto = IPPROTO_UDP\<rparr>,
    \<lparr>sch_name = ''tcp'', sch_uri = ''sip:'', sch_proto = PROTO_TCP, sch_inPort = 5060, sch_inProto = IPPROTO_TCP\<rparr>,
    \<lparr>sch_name = ''tls'', sch_uri = ''sips:'', sch_proto = PROTO_TLS, sch_inPort = 5061, sch_inProto = IPPROTO_TCP\<rparr>,
    \<lparr>sch_name = ''dtls'', sch_uri = ''sips:'', sch_proto = PROTO_DTLS, sch_inPort = 5061, sch_inProto = IPPROTO_UDP\<rparr>]"

section \<open>Construction\<close>

text \<open>The textual address of a \<open>QHostAddress\<close>; the null address is \<open>HostAddress []\<close>.\<close>

fun addr_string :: "host_address \<Rightarrow> string" where
  "addr_string AnyIPv4 = ''0.0.0.0''"
| "addr_string AnyAddress = ''0.0.0.0''"
| "addr_string AnyIPv6 = ''::''"
| "addr_string (HostAddress s) = s"

fun addr_is6 :: "host_address \<Rightarrow> bool" where
  "addr_is6 AnyIPv6 = True"
| "addr_is6 (HostAddress s) = (CHR '':'' \<in> set s)"
| "addr_is6 _ = False"

fun addr_isAny :: "host_address \<Rightarrow> bool" where
  "addr_isAny (HostAddress s) = False"
| "addr_isAny _ = True"

text \<open>
  \<open>Context::Context\<close>. \<open>fromName\<close> is the reverse lookup (\<open>None\<close> on error), \<open>domain\<close> is
  \<open>Util::localDomain ()\<close>.
\<close>

definition Context_new ::
  "string \<Rightarrow> string \<Rightarrow> (string \<Rightarrow> string option) \<Rightarrow> host_address \<Rightarrow> quint16 \<Rightarrow> schema \<Rightarrow> quint32 \<Rightarrow> sip_context" where
  "Context_new localHostName domain fromName addr port choice pmask =
    (let allow = pmask AND 0xffffff00;
         nport = (port AND 0xfffe) OR (sch_inPort choice AND 1);
         address = addr_string addr;
         uaddr = (if \<not> addr_isAny addr
            then (if addr_is6 addr then quote ''[]'' address else address)
            else localHostName);
         hosts = (if address \<noteq> [] \<and> address \<noteq> ''0.0.0.0''
            then (case fromName address of Some h \<Rightarrow> [h, address] | None \<Rightarrow> [address])
            else []) @ [localHostName, domain]
     in \<lparr>ctx_schema = choice, ctx_allow = allow, netFamily6 = addr_is6 addr,
         netTLS = sch_inPort choice AND 1, netProto = sch_inProto choice, netPort = nport,
         netAddress = address,
         uriAddress = (if nport \<noteq> sch_inPort choice then uaddr @ '':'' @ number (uint nport) else uaddr),
         uriHost = uaddr, publicName = [], localHosts = hosts, otherNames = [],
         multiInterface = addr_isAny addr\<rparr>)"

text \<open>\<open>Manager::create\<close>: one context per schema selected by the mask.\<close>

definition Manager_create ::
  "string \<Rightarrow> string \<Rightarrow> (string \<Rightarrow> string option) \<Rightarrow> host_address \<Rightarrow> quint16 \<Rightarrow> quint32 \<Rightarrow> sip_context list" where
  "Manager_create localHostName domain fromName addr port pmask =
    map (\<lambda>choice. Context_new localHostName domain fromName addr port choice pmask)
      (filter (\<lambda>choice. sch_proto choice AND pmask \<noteq> 0) Schemas)"

definition Manager_create_all ::
  "string \<Rightarrow> string \<Rightarrow> (string \<Rightarrow> string option) \<Rightarrow> host_address list \<Rightarrow> quint16 \<Rightarrow> quint32 \<Rightarrow> sip_context list" where
  "Manager_create_all localHostName domain fromName hosts port pmask =
    concat (map (\<lambda>host. Manager_create localHostName domain fromName host port pmask) hosts)"

section \<open>Names\<close>

definition ctx_contact :: "sip_context \<Rightarrow> string \<Rightarrow> contact" where
  "ctx_contact ctx username =
    \<lparr>hostName = uriHost ctx, hostPort = netPort ctx, userName = username, expiration = 0\<rparr>"

definition ctx_type :: "sip_context \<Rightarrow> string" where
  "ctx_type ctx = sch_name (ctx_schema ctx)"

definition ctx_prefix :: "sip_context \<Rightarrow> string" where
  "ctx_prefix ctx = sch_uri (ctx_schema ctx)"

definition defaultPort :: "sip_context \<Rightarrow> quint16" where
  "defaultPort ctx = sch_inPort (ctx_schema ctx)"

definition applyHostnames :: "string list \<Rightarrow> string \<Rightarrow> sip_context \<Rightarrow> sip_context" where
  "applyHostnames names host ctx =
    ctx\<lparr>otherNames := (if length host > 0 then [host] else []) @ names, publicName := host\<rparr>"

definition localnames :: "string \<Rightarrow> sip_context \<Rightarrow> string list" where
  "localnames localHostName ctx =
    localHosts ctx @ otherNames ctx @
    (if length (publicName ctx) > 0 then [publicName ctx] else []) @ [localHostName]"

definition ctx_isLocal :: "string \<Rightarrow> sip_context \<Rightarrow> string \<Rightarrow> bool" where
  "ctx_isLocal localHostName ctx host =
    (if host \<in> set (localHosts ctx) then True else host \<in> set (localnames localHostName ctx))"

definition ctx_hostname :: "string \<Rightarrow> sip_context \<Rightarrow> string" where
  "ctx_hostname localHostName ctx =
    (if length (publicName ctx) > 0 then publicName ctx
     else if \<not> multiInterface ctx then uriHost ctx
     else localHostName)"

section \<open>Uris\<close>

definition uriFrom :: "sip_context \<Rightarrow> string \<Rightarrow> string" where
  "uriFrom ctx ident =
    (if indexOf ident (CHR ''@'') > 0 then ident
     else if length ident = 0 then sch_uri (ctx_schema ctx) @ uriAddress ctx
     else sch_uri (ctx_schema ctx) @ ident @ ''@'' @ uriAddress ctx)"

fun uri_args :: "string \<Rightarrow> (string \<times> string) list \<Rightarrow> string" where
  "uri_args sep [] = []"
| "uri_args sep ((n, v) # args) = sep @ n @ ''='' @ escape v @ uri_args ''&'' args"

definition uriTo :: "sip_context \<Rightarrow> string \<Rightarrow> (string \<times> string) list \<Rightarrow> string" where
  "uriTo ctx ident args =
    (let to = (if indexOf ident (CHR ''@'') < 0 then
          (if length ident = 0 then sch_uri (ctx_schema ctx) @ uriAddress ctx
           else sch_uri (ctx_schema ctx) @ ident @ ''@'' @ uriAddress ctx)
          else ident)
     in ''<'' @ to @ uri_args ''?'' args @ ''>'')"

definition uriTo_contact :: "sip_context \<Rightarrow> contact \<Rightarrow> string" where
  "uriTo_contact ctx address =
    (let host = hostName address;
         host = (if (case host of c # _ \<Rightarrow> c \<noteq> CHR ''['' | [] \<Rightarrow> True) \<and> CHR '':'' \<in> set host
            then quote ''[]'' host else host);
         port = (if hostPort address \<noteq> sch_inPort (ctx_schema ctx)
            then '':'' @ number (uint (hostPort address)) else [])
     in if length (userName address) > 0
        then sch_uri (ctx_schema ctx) @ userName address @ ''@'' @ host @ port
        else sch_uri (ctx_schema ctx) @ host @ port)"

lemmas ctx_defs [sip_defs] =
  ctx_contact_def ctx_type_def ctx_prefix_def defaultPort_def localnames_def ctx_isLocal_def
  ctx_hostname_def

section \<open>Properties\<close>

lemma port_parity: "((port AND 0xfffe) OR (inPort AND 1)) AND 1 = (inPort AND 1 :: quint16)"
proof (rule bit_eqI)
  fix n
  show "bit (((port AND 0xfffe) OR (inPort AND 1)) AND 1) n = bit (inPort AND 1) n"
    by (cases "n = 0") (simp_all add: bit_simps)
qed

lemma Context_new_port_parity:
  "netPort (Context_new lhn domain lookup addr port choice pmask) AND 1 = sch_inPort choice AND 1"
  by (simp add: Context_new_def Let_def port_parity)

lemma ctx_isLocal_iff:
  "ctx_isLocal lhn ctx h \<longleftrightarrow> h \<in> set (localHosts ctx) \<or> h \<in> set (otherNames ctx) \<or>
     (h = publicName ctx \<and> h \<noteq> []) \<or> h = lhn"
  by (auto simp: ctx_isLocal_def localnames_def)

lemma ctx_isLocal_applyHostnames:
  "ctx_isLocal lhn (applyHostnames names host ctx) h \<longleftrightarrow>
     h \<in> set (localHosts ctx) \<or> h \<in> set names \<or> (h = host \<and> h \<noteq> []) \<or> h = lhn"
  by (auto simp: ctx_isLocal_iff applyHostnames_def)

end
