(* ===== verification/Events.thy ===== *)
theory Events
  imports Contexts
begin

text \<open>
  \<open>Server/event.cpp\<close>: the event object built from an eXosip2 event. The constructor decomposes
  the message: hops and source address from the Via headers, expiry, label, device key, contacts
  and routes, the authorization fields and the number of the local extension the event is about.
\<close>

record exosip_event =
  ex_type :: event_type
  ex_request :: "osip_message option"
  ex_response :: "osip_message option"
  ex_tid :: int
  ex_did :: int
  ex_cid :: int
  ex_rid :: int

text \<open>What \<open>parseMessage\<close> fills in.\<close>

record parsed =
  ev_hops :: int
  ev_natted :: bool
  ev_source :: contact
  ev_agent :: string
  ev_expires :: int
  ev_label :: string
  ev_initialize :: string
  ev_deviceKey :: string
  ev_subject :: string
  ev_allows :: "string list"
  ev_contacts :: "contact list"
  ev_routes :: "contact list"
  ev_record :: bool
  ev_from :: contact
  ev_display :: string
  ev_to :: contact
  ev_content :: string
  ev_body :: string
  ev_contentType :: string

record event =
  ev_event :: exosip_event
  ev_context :: sip_context
  ev_number :: int
  ev_status :: int
  ev_reason :: string
  ev_method :: string
  ev_isLocal :: bool
  ev_toLocal :: bool
  ev_authorization :: "osip_authorization option"
  ev_request :: string
  ev_target :: contact
  ev_userid :: string
  ev_digest :: string
  ev_nonce :: string
  ev_realm :: string
  ev_algorithm :: string
  ev_parsed :: parsed
  ev_message :: "osip_message option"
  ev_timestamp :: qdatetime
  ev_sequence :: int

section \<open>Parsing a message\<close>

definition parsed_empty :: parsed where
  "parsed_empty = \<lparr>ev_hops = 0, ev_natted = False, ev_source = Contact_empty, ev_agent = [],
    ev_expires = -1, ev_label = [], ev_initialize = [], ev_deviceKey = [], ev_subject = [],
    ev_allows = [], ev_contacts = [], ev_routes = [], ev_record = False, ev_from = Contact_empty,
    ev_display = [], ev_to = Contact_empty, ev_content = [], ev_body = [], ev_contentType = []\<rparr>"

text \<open>
  The Via loop: hop count, last source address, and the first NAT address (\<open>received\<close> with a
  \<open>rport\<close>), which is only looked for while \<open>operator!\<close> of the \<open>nat\<close> contact holds.
\<close>

fun via_loop :: "quint16 \<Rightarrow> osip_via list \<Rightarrow> int \<times> contact \<times> contact \<Rightarrow> int \<times> contact \<times> contact" where
  "via_loop defport [] st = st"
| "via_loop defport (via # vlist) (hops, source, natc) =
    (let hops = hops + 1 in
     case via_host via of None \<Rightarrow> via_loop defport vlist (hops, source, natc)
     | Some addr \<Rightarrow>
       (let port = (case via_port via of Some p \<Rightarrow> portNumber (Some p) | None \<Rightarrow> defport);
            rport = (case param_get (via_params via) ''rport'' of Some v \<Rightarrow> portNumber (Some v) | None \<Rightarrow> 0);
            source = Contact_address 0 (cstr addr) port [] (-1);
            natc = (if Contact_not natc \<and> rport \<noteq> 0
               then (case param_get (via_params via) ''received'' of
                   Some v \<Rightarrow> Contact_address 0 (cstr v) rport [] (-1) | None \<Rightarrow> natc)
               else natc)
        in via_loop defport vlist (hops, source, natc)))"

definition parse_expires :: "osip_message \<Rightarrow> int" where
  "parse_expires msg = (case header_value msg ''session-expires'' of Some v \<Rightarrow> atoi v
     | None \<Rightarrow> (case header_value msg ''expires'' of Some v \<Rightarrow> atoi v | None \<Rightarrow> -1))"

definition parse_label :: "osip_message \<Rightarrow> string" where
  "parse_label msg = (case header_value msg ''x-label'' of
     Some v \<Rightarrow> unquote [CHR 0x22] (toLower (cstr v)) | None \<Rightarrow> ''NONE'')"

definition parse_routes :: "osip_message \<Rightarrow> contact list \<times> bool" where
  "parse_routes msg =
    (let urls = (\<lambda>rs. map Contact_osip (filter (\<lambda>u. case u of Some r \<Rightarrow> uri_host r \<noteq> None | None \<Rightarrow> False)
           (map from_url rs)));
         recorded = urls (msg_record_routes msg)
     in if length recorded > 0 then (recorded, True) else (urls (msg_routes msg), False))"

definition parse_display :: "osip_message \<Rightarrow> string" where
  "parse_display msg = (case msg_from msg of None \<Rightarrow> []
     | Some f \<Rightarrow> (case from_displayname f of Some d \<Rightarrow> unquote [CHR 0x22] (cstr d)
       | None \<Rightarrow> (case from_url f of None \<Rightarrow> []
         | Some u \<Rightarrow> (case uri_username u of Some n \<Rightarrow> unquote [CHR 0x22] (cstr n) | None \<Rightarrow> []))))"

definition ctype_text :: "osip_content_type option \<Rightarrow> string" where
  "ctype_text ct = (case ct of None \<Rightarrow> [] | Some t \<Rightarrow>
     (case ct_subtype t of
        Some s \<Rightarrow> (case ct_type t of Some m \<Rightarrow> cstr m | None \<Rightarrow> []) @ ''/'' @ cstr s
      | None \<Rightarrow> (case ct_type t of Some m \<Rightarrow> cstr m | None \<Rightarrow> [])))"

definition parseMessage :: "int \<Rightarrow> sip_context \<Rightarrow> osip_message \<Rightarrow> parsed" where
  "parseMessage now ctx msg =
    (case via_loop (defaultPort ctx) (msg_vias msg) (0, Contact_empty, Contact_empty) of
      (hops, source, natc) \<Rightarrow>
      (case parse_routes msg of (routes, recorded) \<Rightarrow>
       \<lparr>ev_hops = hops,
        ev_natted = Contact_valid natc,
        ev_source = (if Contact_valid natc then natc else source),
        ev_agent = (case header_value msg ''user-agent'' of Some v \<Rightarrow> cstr v | None \<Rightarrow> []),
        ev_expires = parse_expires msg,
        ev_label = parse_label msg,
        ev_initialize = (case header_value msg ''x-initialize'' of Some v \<Rightarrow> toLower (cstr v) | None \<Rightarrow> []),
        ev_deviceKey = (case header_value msg ''x-device'' of Some v \<Rightarrow> fromHex (cstr v) | None \<Rightarrow> []),
        ev_subject = (case header_value msg ''subject'' of Some v \<Rightarrow> cstr v | None \<Rightarrow> []),
        ev_allows = map (\<lambda>v. toLower (cstr v)) (List.map_filter (\<lambda>v. v) (msg_allows msg)),
        ev_contacts = map (\<lambda>c. Contact_osip_contact now (Some c))
          (filter (\<lambda>c. case con_url c of Some u \<Rightarrow> uri_host u \<noteq> None | None \<Rightarrow> False) (msg_contacts msg)),
        ev_routes = routes,
        ev_record = recorded,
        ev_from = (if msg_from msg = None then Contact_empty else Contact_osip (from_uri msg)),
        ev_display = parse_display msg,
        ev_to = (if msg_to msg = None then Contact_empty else Contact_osip (to_url msg)),
        ev_content = (case msg_content_type msg of Some t \<Rightarrow>
            if ct_type t \<noteq> None then ctype_text (Some t) else [] | None \<Rightarrow> []),
        ev_body = (case msg_body msg of Some b \<Rightarrow> b | None \<Rightarrow> []),
        ev_contentType = (case msg_body msg of Some b \<Rightarrow>
            if length b > 0 then ctype_text (msg_content_type msg) else [] | None \<Rightarrow> [])\<rparr>))"

section \<open>The event constructor\<close>

definition usable_authorization :: "osip_message \<Rightarrow> osip_authorization option" where
  "usable_authorization msg = (case msg_authorizations msg of [] \<Rightarrow> None
     | a # _ \<Rightarrow> if au_username a = None \<or> au_response a = None then None else Some a)"

definition auth_field :: "osip_authorization option \<Rightarrow> (osip_authorization \<Rightarrow> string option) \<Rightarrow> string" where
  "auth_field au field = (case au of None \<Rightarrow> [] | Some a \<Rightarrow>
     (case field a of Some v \<Rightarrow> unquote [CHR 0x22] (cstr v) | None \<Rightarrow> []))"

text \<open>The local extension: of \<open>To\<close> for a registration, else of \<open>From\<close>; \<open>-1\<close> when not local.\<close>

definition local_number :: "(string \<Rightarrow> bool) \<Rightarrow> osip_uri option \<Rightarrow> int" where
  "local_number isLocal url = (case url of None \<Rightarrow> -1 | Some u \<Rightarrow>
     (case uri_username u of None \<Rightarrow> -1 | Some ext \<Rightarrow>
        if isLocal (case uri_host u of Some h \<Rightarrow> cstr h | None \<Rightarrow> [])
        then (if isNumber ext then toInt ext else -1) else -1))"

definition Event_request ::
  "qt_lib \<Rightarrow> string \<Rightarrow> int \<Rightarrow> qdatetime \<Rightarrow> exosip_event \<Rightarrow> sip_context \<Rightarrow> int \<Rightarrow> osip_message \<Rightarrow> event" where
  "Event_request Q lhn now stamp evt ctx seq msg =
    (let au = usable_authorization msg;
         located = (case msg_req_uri msg of Some u \<Rightarrow> uri_host u \<noteq> None | None \<Rightarrow> False);
         target = (if located then Contact_osip (msg_req_uri msg) else Contact_empty);
         isLocal = ctx_isLocal lhn ctx
     in \<lparr>ev_event = evt, ev_context = ctx,
        ev_number = local_number isLocal (if cstr (msg_method msg) = ''REGISTER'' then to_url msg else from_uri msg),
        ev_status = 0, ev_reason = [], ev_method = cstr (msg_method msg),
        ev_isLocal = (located \<and> isLocal (hostName target)),
        ev_toLocal = (case to_url msg of None \<Rightarrow> False | Some u \<Rightarrow> uri_username u \<noteq> None \<and>
            isLocal (case uri_host u of Some h \<Rightarrow> cstr h | None \<Rightarrow> [])),
        ev_authorization = au,
        ev_request = (case msg_req_uri msg of Some u \<Rightarrow>
            if located then (case q_uri_to_str Q u of Some s \<Rightarrow> s | None \<Rightarrow> []) else [] | None \<Rightarrow> []),
        ev_target = target,
        ev_userid = auth_field au au_username,
        ev_digest = toLower (auth_field au au_response),
        ev_nonce = auth_field au au_nonce,
        ev_realm = auth_field au au_realm,
        ev_algorithm = toUpper (auth_field au au_algorithm),
        ev_parsed = parseMessage now ctx msg,
        ev_message = Some msg,
        ev_timestamp = stamp, ev_sequence = seq\<rparr>)"

definition Event_reply ::
  "int \<Rightarrow> qdatetime \<Rightarrow> exosip_event \<Rightarrow> sip_context \<Rightarrow> int \<Rightarrow> osip_message \<Rightarrow> event" where
  "Event_reply now stamp evt ctx seq msg =
    \<lparr>ev_event = evt, ev_context = ctx, ev_number = -1, ev_status = msg_status msg,
     ev_reason = msg_reason msg, ev_method = [], ev_isLocal = False, ev_toLocal = False,
     ev_authorization = None, ev_request = [], ev_target = Contact_empty, ev_userid = [],
     ev_digest = [], ev_nonce = [], ev_realm = [], ev_algorithm = [],
     ev_parsed = parseMessage now ctx msg, ev_message = Some msg,
     ev_timestamp = stamp, ev_sequence = seq\<rparr>"

definition Event_other :: "qdatetime \<Rightarrow> exosip_event \<Rightarrow> sip_context \<Rightarrow> int \<Rightarrow> event" where
  "Event_other stamp evt ctx seq =
    \<lparr>ev_event = evt, ev_context = ctx, ev_number = -1, ev_status = 0, ev_reason = [],
     ev_method = [], ev_isLocal = False, ev_toLocal = False, ev_authorization = None,
     ev_request = [], ev_target = Contact_empty, ev_userid = [], ev_digest = [], ev_nonce = [],
     ev_realm = [], ev_algorithm = [], ev_parsed = parsed_empty, ev_message = None,
     ev_timestamp = stamp, ev_sequence = seq\<rparr>"

text \<open>
  The switch of the constructor. eXosip2 supplies the response of an answer event and the request
  of a request event; without it the C++ dereferences a null pointer (\<open>None\<close>).
\<close>

definition Event_new ::
  "qt_lib \<Rightarrow> string \<Rightarrow> int \<Rightarrow> qdatetime \<Rightarrow> exosip_event \<Rightarrow> sip_context \<Rightarrow> int \<Rightarrow> event option" where
  "Event_new Q lhn now stamp evt ctx seq =
    (if ex_type evt \<in> {MESSAGE_ANSWERED, REGISTRATION_SUCCESS, REGISTRATION_FAILURE}
       then map_option (Event_reply now stamp evt ctx seq) (ex_response evt)
     else if ex_type evt \<in> {MESSAGE_NEW, CALL_INVITE}
       then map_option (Event_request Q lhn now stamp evt ctx seq) (ex_request evt)
     else Some (Event_other stamp evt ctx seq))"

text \<open>\<open>atomicSequence.fetch_add (1) % 10000\<close>: the value given out and the counter after it.\<close>

definition nextSequence :: "quint32 \<Rightarrow> int \<times> quint32" where
  "nextSequence counter = (uint (counter mod 10000), counter + 1)"

section \<open>Queries\<close>

definition ev_type :: "event \<Rightarrow> event_type" where
  "ev_type ev = ex_type (ev_event ev)"

definition ev_tid :: "event \<Rightarrow> int" where
  "ev_tid ev = ex_tid (ev_event ev)"

definition ev_sent :: "event \<Rightarrow> osip_message option" where
  "ev_sent ev = ex_request (ev_event ev)"

definition ev_contact :: "event \<Rightarrow> contact" where
  "ev_contact ev = (case ev_contacts (ev_parsed ev) of [c] \<Rightarrow> c | _ \<Rightarrow> Contact_empty)"

definition ev_protocol :: "event \<Rightarrow> string" where
  "ev_protocol ev = ctx_type (ev_context ev)"

definition ev_uriTo :: "event \<Rightarrow> string \<Rightarrow> string" where
  "ev_uriTo ev ident =
    (if indexOf ident (CHR ''@'') > 0 then ident
     else if take 5 (ev_request ev) = ''sips:'' then ''sips:'' @ ident @ ''@'' @ mid (ev_request ev) 5
     else ''sip:'' @ ident @ ''@'' @ mid (ev_request ev) 4)"

abbreviation "label_of ev \<equiv> ev_label (ev_parsed ev)"
abbreviation "expires_of ev \<equiv> ev_expires (ev_parsed ev)"
abbreviation "body_of ev \<equiv> ev_body (ev_parsed ev)"
abbreviation "subject_of ev \<equiv> ev_subject (ev_parsed ev)"
abbreviation "display_of ev \<equiv> ev_display (ev_parsed ev)"
abbreviation "contentType_of ev \<equiv> ev_contentType (ev_parsed ev)"
abbreviation "initialize_of ev \<equiv> ev_initialize (ev_parsed ev)"

lemmas event_defs [sip_defs] =
  ev_type_def ev_tid_def ev_sent_def ev_contact_def ev_protocol_def

section \<open>Properties\<close>

lemma via_loop_no_nat:
  "via_loop defport vias (hops, source, Contact_empty) = (hops', source', natc) \<Longrightarrow> natc = Contact_empty"
  by (induction vias arbitrary: hops source) (auto simp: Let_def split: option.splits)

lemma via_loop_hops:
  "via_loop defport vias (hops, source, natc) = (hops', source', natc') \<Longrightarrow> hops' = hops + int (length vias)"
  by (induction vias arbitrary: hops source natc) (fastforce simp: Let_def split: option.splits)+

lemma Contact_empty_invalid [simp]: "\<not> Contact_valid Contact_empty"
  by (simp add: sip_defs)

text \<open>
  NAT detection never happens. The code keeps the first \<open>received\<close>/\<open>rport\<close> pair while
  \<open>!nat\<close>, and \<open>operator!\<close> of a contact asks for a non-empty host with port 0, which the empty
  contact is not. Whatever the Via headers carry, \<open>natted\<close> stays false, and the source address is
  that of the last Via header rather than the one the packet was received from.
\<close>

theorem parseMessage_never_natted:
  "\<not> ev_natted (parseMessage now ctx msg) \<and>
   ev_source (parseMessage now ctx msg) =
     fst (snd (via_loop (defaultPort ctx) (msg_vias msg) (0, Contact_empty, Contact_empty))) \<and>
   ev_hops (parseMessage now ctx msg) = int (length (msg_vias msg))"
proof (cases "via_loop (defaultPort ctx) (msg_vias msg) (0, Contact_empty, Contact_empty)")
  case (fields hops source natc)
  then have "natc = Contact_empty" "hops = int (length (msg_vias msg))"
    using via_loop_no_nat via_loop_hops by fastforce+
  with fields show ?thesis
    by (simp add: parseMessage_def split: prod.splits)
qed

lemma usable_authorization_Some:
  "usable_authorization msg = Some au \<Longrightarrow>
     \<exists>user response. au_username au = Some user \<and> au_response au = Some response"
  by (auto simp: usable_authorization_def split: list.splits if_splits)

lemma local_number_cases:
  "local_number isLocal url = -1 \<or> (\<exists>u ext. url = Some u \<and> uri_username u = Some ext \<and>
     isNumber ext \<and> local_number isLocal url = toInt ext)"
  by (auto simp: local_number_def split: option.splits)

end
