(* ===== verification/Registries.thy ===== *)
theory Registries
  imports Events "HOL-Library.AList" "HOL-Library.Monad_Syntax"
begin

text \<open>
  \<open>Server/registry.cpp\<close>: the registrations and the static tables that index them. The objects live
  in a heap, the tables hold their addresses: two multi-hashes (by number and by user id, newest
  first) and two hashes (by number and label, by endpoint id). The value \<open>None\<close> of an operation is
  undefined behaviour of the C++: a dangling pointer or an array index out of range.
\<close>

type_synonym ptr = nat

record registry =
  userId :: string
  userLabel :: string
  userSecret :: string
  authRealm :: string
  authDigest :: string
  userDisplay :: string
  userOrigin :: string
  userPrivs :: string
  reg_number :: int
  active :: bool
  endpointId :: int
  timeout :: int
  random :: string
  prior :: string
  serverContext :: "sip_context option"
  address :: contact
  updated :: int
  reg_allows :: "string list"

record registrar =
  heap :: "ptr \<rightharpoonup> registry"
  fresh :: ptr
  extensions :: "(int \<times> ptr) list"
  aliases :: "(string \<times> ptr) list"
  registries :: "((int \<times> string) \<times> ptr) list"
  endpoints :: "(int \<times> ptr) list"
  count :: "int \<Rightarrow> 32 word"
  online :: "int \<Rightarrow> quint8"
  reg_init :: bool
  reg_range :: "int \<times> int"
  reg_size :: int

text \<open>The hash of an endpoint's properties, as \<open>Database::findEndpoint\<close> fills it.\<close>

record endpoint_hash =
  ep_display :: string
  ep_user :: string
  ep_secret :: string
  ep_origin :: string
  ep_privs :: string
  ep_number :: int
  ep_label :: string
  ep_expires :: int
  ep_realm :: string
  ep_digest :: string
  ep_endpoint :: int

definition registrar_start :: registrar where
  "registrar_start = \<lparr>heap = Map.empty, fresh = 0, extensions = [], aliases = [], registries = [],
    endpoints = [], count = (\<lambda>_. 0), online = (\<lambda>_. 0), reg_init = False, reg_range = (0, 0),
    reg_size = 0\<rparr>"

section \<open>The bit mask of active numbers\<close>

definition bit_offset :: "registrar \<Rightarrow> int \<Rightarrow> int" where
  "bit_offset rs num = (num - fst (reg_range rs)) div 8"

definition bit_mask :: "registrar \<Rightarrow> int \<Rightarrow> quint8" where
  "bit_mask rs num = push_bit (nat ((num - fst (reg_range rs)) mod 8)) 1"

text \<open>The index expressions are in range: \<open>count[1000]\<close>, \<open>online[1000 / 8]\<close>.\<close>

definition in_tables :: "registrar \<Rightarrow> int \<Rightarrow> bool" where
  "in_tables rs num \<longleftrightarrow> 0 \<le> num \<and> num < 1000 \<and> fst (reg_range rs) \<le> num \<and>
     bit_offset rs num < 125"

definition set_online :: "int \<Rightarrow> registrar \<Rightarrow> registrar" where
  "set_online num rs = (let offset = bit_offset rs num in
     rs\<lparr>online := (online rs)(offset := online rs offset OR bit_mask rs num)\<rparr>)"

definition unset_online :: "int \<Rightarrow> registrar \<Rightarrow> registrar" where
  "unset_online num rs = (let offset = bit_offset rs num in
     rs\<lparr>online := (online rs)(offset := online rs offset AND NOT (bit_mask rs num))\<rparr>)"

section \<open>Construction and destruction\<close>

definition Registry_init :: "int \<times> int \<Rightarrow> registrar \<Rightarrow> registrar" where
  "Registry_init dbrange rs =
    (if reg_init rs then rs
     else rs\<lparr>reg_range := dbrange, reg_size := (snd dbrange - fst dbrange) sdiv 8 + 1,
             count := (\<lambda>_. 0), reg_init := True\<rparr>)"

definition Registry_object :: "int \<Rightarrow> endpoint_hash \<Rightarrow> registry" where
  "Registry_object now ep =
    \<lparr>userId = ep_user ep, userLabel = ep_label ep, userSecret = ep_secret ep,
     authRealm = ep_realm ep, authDigest = toUpper (ep_digest ep), userDisplay = ep_display ep,
     userOrigin = ep_origin ep, userPrivs = ep_privs ep, reg_number = ep_number ep,
     active = False, endpointId = ep_endpoint ep, timeout = ep_expires ep * 1000,
     random = [], prior = [], serverContext = None, address = Contact_empty, updated = now,
     reg_allows = []\<rparr>"

definition Registry_new :: "int \<times> int \<Rightarrow> int \<Rightarrow> endpoint_hash \<Rightarrow> registrar \<Rightarrow> (registrar \<times> ptr) option" where
  "Registry_new dbrange now ep rs =
    (let rs = Registry_init dbrange rs; reg = Registry_object now ep; num = ep_number ep; p = fresh rs in
     if \<not> in_tables rs num then None
     else let n = count rs num + 1;
              rs = rs\<lparr>count := (count rs)(num := n)\<rparr>;
              rs = (if n = 1 then set_online num rs else rs)
          in Some (rs\<lparr>heap := (heap rs)(p \<mapsto> reg), fresh := p + 1,
                extensions := (num, p) # extensions rs,
                aliases := (userId reg, p) # aliases rs,
                registries := AList.update (num, userLabel reg) p (registries rs),
                endpoints := AList.update (endpointId reg) p (endpoints rs)\<rparr>, p))"

definition Registry_delete :: "ptr \<Rightarrow> registrar \<Rightarrow> registrar option" where
  "Registry_delete p rs = (case heap rs p of None \<Rightarrow> None | Some reg \<Rightarrow>
     (let num = reg_number reg in
      if \<not> in_tables rs num then None
      else let n = count rs num - 1;
               rs = rs\<lparr>count := (count rs)(num := n)\<rparr>;
               rs = (if n = 0 then unset_online num rs else rs)
           in Some (rs\<lparr>heap := (heap rs)(p := None),
                endpoints := AList.delete (endpointId reg) (endpoints rs),
                registries := AList.delete (num, userLabel reg) (registries rs),
                extensions := multi_remove num p (extensions rs),
                aliases := multi_remove (userId reg) p (aliases rs)\<rparr>)))"

section \<open>Queries of one registration\<close>

text \<open>\<open>QElapsedTimer::hasExpired\<close> compares as unsigned 64 bit, so a negative timeout never expires.\<close>

definition hasExpired :: "int \<Rightarrow> registry \<Rightarrow> bool" where
  "hasExpired now reg \<longleftrightarrow> 0 \<le> timeout reg \<and> timeout reg < now - updated reg"

definition expires :: "registry \<Rightarrow> int" where
  "expires reg = timeout reg sdiv 1000"

definition reg_route :: "registry \<Rightarrow> string" where
  "reg_route reg = Contact_toString (address reg)"

definition allow :: "registry \<Rightarrow> string \<Rightarrow> bool" where
  "allow reg ident \<longleftrightarrow> toLower ident \<in> set (reg_allows reg)"

definition reg_uri :: "registry \<Rightarrow> string" where
  "reg_uri reg = (case serverContext reg of None \<Rightarrow> ''none''
     | Some ctx \<Rightarrow> if \<not> active reg then ''none'' else ctx_prefix ctx @ Contact_toString (address reg))"

definition isLabeled :: "registry \<Rightarrow> bool" where
  "isLabeled reg \<longleftrightarrow> userLabel reg \<noteq> [] \<and> userLabel reg \<noteq> ''NONE''"

definition setNounce :: "string \<Rightarrow> registry \<Rightarrow> registry" where
  "setNounce value reg = reg\<lparr>prior := random reg, random := value\<rparr>"

definition reg_refresh :: "int \<Rightarrow> int \<Rightarrow> registry \<Rightarrow> registry" where
  "reg_refresh now seconds reg = reg\<lparr>address := Contact_refresh now seconds (address reg)\<rparr>"

section \<open>The tables\<close>

definition deref :: "registrar \<Rightarrow> ptr \<Rightarrow> registry option" where
  "deref rs p = heap rs p"

text \<open>
  The body shared by the finds by key: an expired object is deleted, and not found. A pointer
  result of \<open>None\<close> is \<open>nullptr\<close>.
\<close>

definition drop_expired :: "int \<Rightarrow> ptr option \<Rightarrow> registrar \<Rightarrow> (registrar \<times> ptr option) option" where
  "drop_expired now reg rs = (case reg of None \<Rightarrow> Some (rs, None) | Some p \<Rightarrow> do {
     obj \<leftarrow> deref rs p;
     if hasExpired now obj then do { rs \<leftarrow> Registry_delete p rs; Some (rs, None) }
     else Some (rs, Some p) })"

definition find_endpoint :: "int \<Rightarrow> int \<Rightarrow> registrar \<Rightarrow> (registrar \<times> ptr option) option" where
  "find_endpoint now key rs = drop_expired now (map_of (endpoints rs) key) rs"

definition find_event :: "int \<Rightarrow> event \<Rightarrow> registrar \<Rightarrow> (registrar \<times> ptr option) option" where
  "find_event now ev rs = drop_expired now (map_of (registries rs) (ev_number ev, label_of ev)) rs"

definition find_target :: "string \<Rightarrow> registrar \<Rightarrow> ptr list" where
  "find_target target rs =
    (if length target < 1 then []
     else if toInt target > 0 \<and> length (multi_values (toInt target) (extensions rs)) > 0
       then multi_values (toInt target) (extensions rs)
     else multi_values target (aliases rs))"

definition registry_list :: "registrar \<Rightarrow> ptr list" where
  "registry_list rs = map snd (extensions rs)"

text \<open>\<open>cleanup\<close> walks a snapshot of \<open>registries\<close>.\<close>

fun cleanup_loop :: "int \<Rightarrow> ((int \<times> string) \<times> ptr) list \<Rightarrow> registrar \<Rightarrow> registrar option" where
  "cleanup_loop now [] rs = Some rs"
| "cleanup_loop now ((k, p) # snapshot) rs = do {
     obj \<leftarrow> deref rs p;
     rs \<leftarrow> (if hasExpired now obj then Registry_delete p rs else Some rs);
     cleanup_loop now snapshot rs }"

definition Registry_cleanup :: "int \<Rightarrow> registrar \<Rightarrow> registrar option" where
  "Registry_cleanup now rs = cleanup_loop now (registries rs) rs"

text \<open>\<open>online\<close> has 125 bytes; a longer mask would read past it.\<close>

definition bitmask :: "qt_lib \<Rightarrow> registrar \<Rightarrow> string option" where
  "bitmask Q rs =
    (if reg_size rs < 1 then Some []
     else if reg_size rs > 125 then None
     else Some (q_toBase64 Q (map (\<lambda>i. char_of (unat (online rs (int i)))) [0..<nat (reg_size rs)])))"

section \<open>Digest authentication\<close>

definition ha2_of :: "qt_lib \<Rightarrow> registry \<Rightarrow> event \<Rightarrow> string" where
  "ha2_of Q reg ev = hash_hex Q (digest_of digests (authDigest reg)) (ev_method ev @ '':'' @ ev_request ev)"

definition expected_digest :: "qt_lib \<Rightarrow> registry \<Rightarrow> string \<Rightarrow> event \<Rightarrow> string" where
  "expected_digest Q reg nonce ev = hash_hex Q (digest_of digests (authDigest reg))
     (userSecret reg @ '':'' @ nonce @ '':'' @ ha2_of Q reg ev)"

definition authenticate :: "qt_lib \<Rightarrow> int \<Rightarrow> event \<Rightarrow> registry \<Rightarrow> int" where
  "authenticate Q now ev reg =
    (let nonce = toLower (toHex (random reg)); ponce = toLower (toHex (prior reg)) in
     if hasExpired now reg \<or> serverContext reg = None then SIP_TEMPORARILY_UNAVAILABLE
     else if ev_realm ev \<noteq> authRealm reg then SIP_FORBIDDEN
     else if ev_userid ev \<noteq> userId reg then SIP_FORBIDDEN
     else if ev_algorithm ev \<noteq> authDigest reg then SIP_FORBIDDEN
     else if ev_nonce ev \<noteq> nonce \<and> ev_nonce ev \<noteq> ponce then SIP_FORBIDDEN
     else if expected_digest Q reg (ev_nonce ev) ev \<noteq> ev_digest ev then SIP_FORBIDDEN
     else SIP_OK)"

definition authorize :: "qt_lib \<Rightarrow> int \<Rightarrow> event \<Rightarrow> registry \<Rightarrow> registry \<times> int" where
  "authorize Q now ev reg =
    (let nonce = toLower (toHex (random reg)); reg = reg\<lparr>active := False\<rparr> in
     if ev_realm ev \<noteq> authRealm reg then (reg, SIP_FORBIDDEN)
     else if ev_userid ev \<noteq> userId reg then (reg, SIP_FORBIDDEN)
     else if ev_algorithm ev \<noteq> authDigest reg then (reg, SIP_FORBIDDEN)
     else if ev_nonce ev \<noteq> nonce then (reg, SIP_FORBIDDEN)
     else if expected_digest Q reg nonce ev \<noteq> ev_digest ev then (reg, SIP_FORBIDDEN)
     else if expires_of ev < 1 then (reg\<lparr>timeout := 0\<rparr>, SIP_OK)
     else (reg\<lparr>address := (if ev_protocol ev = ''udp'' then ev_source (ev_parsed ev) else ev_contact ev),
               serverContext := Some (ev_context ev), updated := now, active := True\<rparr>, SIP_OK))"

text \<open>Methods called through a pointer.\<close>

definition update_object :: "ptr \<Rightarrow> (registry \<Rightarrow> registry) \<Rightarrow> registrar \<Rightarrow> registrar option" where
  "update_object p f rs = (case heap rs p of None \<Rightarrow> None
     | Some obj \<Rightarrow> Some (rs\<lparr>heap := (heap rs)(p \<mapsto> f obj)\<rparr>))"

end
