(* ===== verification/RegistryInv.thy ===== *)
theory RegistryInv
  imports Registries
begin

text \<open>
  The invariant of the registration tables (\<open>Server/registry.cpp\<close>): no table holds a dangling
  pointer, every object is listed under its number and its user id, the counters count the objects
  of a number and the bit mask shows which counters are not zero. Every operation keeps it, hence
  none of them meets undefined behaviour.
\<close>

section \<open>Tables of pointers\<close>

definition keyed :: "(registry \<Rightarrow> 'k) \<Rightarrow> ('k \<times> ptr) set \<Rightarrow> (ptr \<rightharpoonup> registry) \<Rightarrow> bool" where
  "keyed key entries hp \<longleftrightarrow> (\<forall>(k, p) \<in> entries. \<exists>reg. hp p = Some reg \<and> key reg = k)"

text \<open>
  What the registry relies on in \<open>QHash\<close> and \<open>QMultiHash\<close>: an insertion adds no other entry, and
  after a removal the pair is gone.
\<close>

locale pointer_table =
  fixes ins :: "'k \<Rightarrow> ptr \<Rightarrow> 't \<Rightarrow> 't"
    and rem :: "'k \<Rightarrow> ptr \<Rightarrow> 't \<Rightarrow> 't"
    and entries :: "'t \<Rightarrow> ('k \<times> ptr) set"
  assumes entries_ins: "entries (ins k p t) \<subseteq> Set.insert (k, p) (entries t)"
    and entries_rem: "entries (rem k p t) \<subseteq> entries t - {(k, p)}"
begin

lemma keyed_ins:
  "\<lbrakk>keyed key (entries t) hp; hp p = None; key reg = k\<rbrakk> \<Longrightarrow> keyed key (entries (ins k p t)) (hp(p \<mapsto> reg))"
  unfolding keyed_def using entries_ins[of k p t] by fastforce

lemma keyed_rem:
  "\<lbrakk>keyed key (entries t) hp; hp p = Some reg; key reg = k\<rbrakk> \<Longrightarrow> keyed key (entries (rem k p t)) (hp(p := None))"
  unfolding keyed_def using entries_rem[of k p t] by fastforce

end

definition multi_insert :: "'k \<Rightarrow> 'v \<Rightarrow> ('k \<times> 'v) list \<Rightarrow> ('k \<times> 'v) list" where
  "multi_insert k v t = (k, v) # t"

interpretation multihash: pointer_table multi_insert multi_remove set
  by unfold_locales (auto simp: set_multi_remove multi_insert_def)

interpretation hash: pointer_table AList.update "\<lambda>k p. AList.delete k" set
proof
  fix k :: 'a and p :: ptr and t
  show "set (AList.update k p t) \<subseteq> Set.insert (k, p) (set t)"
    by (induction t) auto
  show "set (AList.delete k t) \<subseteq> set t - {(k, p)}"
    by (auto simp: AList.delete_eq)
qed

lemma keyed_update:
  "\<lbrakk>keyed key s hp; hp p = Some reg; key (f reg) = key reg\<rbrakk> \<Longrightarrow> keyed key s (hp(p \<mapsto> f reg))"
  unfolding keyed_def by fastforce

section \<open>The bit mask\<close>

definition online_bit :: "registrar \<Rightarrow> int \<Rightarrow> bool" where
  "online_bit rs num \<longleftrightarrow> bit (online rs (bit_offset rs num)) (nat ((num - fst (reg_range rs)) mod 8))"

lemma div_mod_8_eq: "(a::int) div 8 = b div 8 \<and> nat (a mod 8) = nat (b mod 8) \<longleftrightarrow> a = b"
  by (metis div_mult_mod_eq eq_nat_nat_iff pos_mod_sign zero_less_numeral)

lemma bit_mask_bit: "bit (bit_mask rs num) i \<longleftrightarrow> i = nat ((num - fst (reg_range rs)) mod 8)"
proof -
  have "nat ((num - fst (reg_range rs)) mod 8) < 8" by (simp add: nat_less_iff)
  then show ?thesis by (auto simp: bit_mask_def bit_simps)
qed

lemma same_bit:
  "bit_offset rs a = bit_offset rs b \<and>
   nat ((a - fst (reg_range rs)) mod 8) = nat ((b - fst (reg_range rs)) mod 8) \<longleftrightarrow> a = b"
  using div_mod_8_eq[of "a - fst (reg_range rs)" "b - fst (reg_range rs)"] by (auto simp: bit_offset_def)

lemma low_bit: "nat ((x::int) mod 8) < 8" by (simp add: nat_less_iff)

lemma online_bit_set: "online_bit (set_online n rs) m \<longleftrightarrow> online_bit rs m \<or> m = n"
  using same_bit[of rs m n] low_bit
  by (auto simp: online_bit_def set_online_def Let_def bit_simps bit_mask_bit bit_offset_def)

lemma online_bit_unset: "online_bit (unset_online n rs) m \<longleftrightarrow> online_bit rs m \<and> m \<noteq> n"
  using same_bit[of rs m n] low_bit
  by (auto simp: online_bit_def unset_online_def Let_def bit_simps bit_mask_bit bit_offset_def)

section \<open>The invariant\<close>

definition tables_ok :: "registrar \<Rightarrow> bool" where
  "tables_ok rs \<longleftrightarrow>
     keyed reg_number (set (extensions rs)) (heap rs) \<and>
     keyed userId (set (aliases rs)) (heap rs) \<and>
     keyed (\<lambda>r. (reg_number r, userLabel r)) (set (registries rs)) (heap rs) \<and>
     keyed endpointId (set (endpoints rs)) (heap rs)"

definition lists_ok :: "registrar \<Rightarrow> bool" where
  "lists_ok rs \<longleftrightarrow>
     distinct (map fst (registries rs)) \<and> distinct (map fst (endpoints rs)) \<and>
     distinct (map snd (extensions rs)) \<and> distinct (map snd (aliases rs))"

definition objects_ok :: "registrar \<Rightarrow> bool" where
  "objects_ok rs \<longleftrightarrow> (\<forall>p reg. heap rs p = Some reg \<longrightarrow>
     p < fresh rs \<and> in_tables rs (reg_number reg) \<and>
     (reg_number reg, p) \<in> set (extensions rs) \<and> (userId reg, p) \<in> set (aliases rs) \<and>
     (active reg \<longrightarrow> serverContext reg \<noteq> None))"

definition counts_ok :: "registrar \<Rightarrow> bool" where
  "counts_ok rs \<longleftrightarrow>
     (\<forall>num. count rs num = word_of_nat (length (multi_values num (extensions rs)))) \<and>
     (\<forall>num. online_bit rs num \<longleftrightarrow> multi_values num (extensions rs) \<noteq> [])"

definition init_ok :: "registrar \<Rightarrow> bool" where
  "init_ok rs \<longleftrightarrow> reg_init rs \<or> (heap rs = Map.empty \<and> extensions rs = [] \<and> online rs = (\<lambda>_. 0))"

text \<open>The counters have 32 bits: fewer than \<open>2 ^ 32\<close> objects exist at any time.\<close>

definition size_ok :: "registrar \<Rightarrow> bool" where
  "size_ok rs \<longleftrightarrow> length (extensions rs) < 2 ^ 32"

definition reg_inv :: "registrar \<Rightarrow> bool" where
  "reg_inv rs \<longleftrightarrow> tables_ok rs \<and> lists_ok rs \<and> objects_ok rs \<and> counts_ok rs \<and> init_ok rs"

lemma reg_inv_start: "reg_inv registrar_start"
  by (simp add: reg_inv_def registrar_start_def tables_ok_def keyed_def lists_ok_def objects_ok_def
      counts_ok_def init_ok_def multi_values_def online_bit_def)

lemma multi_values_Cons:
  "multi_values k ((n, p) # t) = (if n = k then p # multi_values k t else multi_values k t)"
  by (simp add: multi_values_def)

lemma multi_values_length: "length (multi_values k t) \<le> length t"
  by (simp add: multi_values_def)

lemma multi_values_remove:
  "multi_values k (multi_remove n p t) = (if n = k then filter (\<lambda>q. q \<noteq> p) (multi_values k t) else multi_values k t)"
  by (induction t) (auto simp: multi_values_def multi_remove_def)

lemma distinct_multi_values: "distinct (map snd t) \<Longrightarrow> distinct (multi_values k t)"
  by (induction t) (auto simp: multi_values_def)

lemma distinct_remove_pairs: "distinct (map snd t) \<Longrightarrow> distinct (map snd (multi_remove k p t))"
  by (induction t) (auto simp: multi_remove_def)

lemma length_filter_neq:
  "distinct xs \<Longrightarrow> p \<in> set xs \<Longrightarrow> Suc (length (filter (\<lambda>q. q \<noteq> p) xs)) = length xs"
proof (induction xs)
  case (Cons x xs)
  show ?case
  proof (cases "x = p")
    case True
    with Cons.prems have "filter (\<lambda>q. q \<noteq> p) xs = xs" by (intro filter_True) auto
    with True show ?thesis by simp
  qed (use Cons in simp)
qed simp

lemma length_remove_values:
  "distinct (map snd t) \<Longrightarrow> (k, p) \<in> set t \<Longrightarrow>
     Suc (length (multi_values k (multi_remove k p t))) = length (multi_values k t)"
  using length_filter_neq[of "multi_values k t" p]
  by (simp add: multi_values_remove distinct_multi_values set_multi_values)

lemma word_of_nat_0_iff: "n < 2 ^ 32 \<Longrightarrow> (word_of_nat n :: 32 word) = 0 \<longleftrightarrow> n = 0"
  by (auto simp: word_of_nat_eq_0_iff dest: nat_dvd_not_less)

lemma unat_word_of_nat: "n < 2 ^ 32 \<Longrightarrow> unat (word_of_nat n :: 32 word) = n"
  by (simp add: unat_of_nat)

lemma range_simps [reg_simps]:
  "reg_range (set_online n rs) = reg_range rs" "reg_range (unset_online n rs) = reg_range rs"
  "heap (set_online n rs) = heap rs" "heap (unset_online n rs) = heap rs"
  "count (set_online n rs) = count rs" "count (unset_online n rs) = count rs"
  "extensions (set_online n rs) = extensions rs" "extensions (unset_online n rs) = extensions rs"
  "aliases (set_online n rs) = aliases rs" "aliases (unset_online n rs) = aliases rs"
  "registries (set_online n rs) = registries rs" "registries (unset_online n rs) = registries rs"
  "endpoints (set_online n rs) = endpoints rs" "endpoints (unset_online n rs) = endpoints rs"
  "fresh (set_online n rs) = fresh rs" "fresh (unset_online n rs) = fresh rs"
  "reg_init (set_online n rs) = reg_init rs" "reg_init (unset_online n rs) = reg_init rs"
  by (simp_all add: set_online_def unset_online_def Let_def)

lemma Registry_init_inv:
  assumes "reg_inv rs"
  shows "reg_inv (Registry_init r rs) \<and> reg_init (Registry_init r rs)"
proof (cases "reg_init rs")
  case False
  then have "heap rs = Map.empty" "extensions rs = []" "online rs = (\<lambda>_. 0)"
    using assms by (auto simp: reg_inv_def init_ok_def)
  with False assms show ?thesis
    by (auto simp: Registry_init_def reg_inv_def tables_ok_def lists_ok_def objects_ok_def
        counts_ok_def init_ok_def keyed_def multi_values_def online_bit_def)
qed (use assms in \<open>simp add: Registry_init_def\<close>)

section \<open>Construction keeps the invariant\<close>

lemma Registry_new_SomeE:
  assumes "Registry_new r now ep rs = Some (rs', p)"
  obtains rs0 where "rs0 = Registry_init r rs" "in_tables rs0 (ep_number ep)" "p = fresh rs0"
    "heap rs' = (heap rs0)(p \<mapsto> Registry_object now ep)" "fresh rs' = Suc p"
    "extensions rs' = multi_insert (ep_number ep) p (extensions rs0)"
    "aliases rs' = multi_insert (ep_user ep) p (aliases rs0)"
    "registries rs' = AList.update (ep_number ep, ep_label ep) p (registries rs0)"
    "endpoints rs' = AList.update (ep_endpoint ep) p (endpoints rs0)"
    "count rs' = (count rs0)(ep_number ep := count rs0 (ep_number ep) + 1)"
    "reg_range rs' = reg_range rs0" "reg_init rs' = reg_init rs0"
    "online rs' = (if count rs0 (ep_number ep) + 1 = 1 then online (set_online (ep_number ep) rs0) else online rs0)"
proof -
  have "in_tables (Registry_init r rs) (ep_number ep)"
    using assms by (auto simp: Registry_new_def Let_def split: if_splits)
  with assms show ?thesis
    by (intro that[of "Registry_init r rs"])
      (auto simp: Registry_new_def Let_def reg_simps multi_insert_def Registry_object_def
        set_online_def bit_offset_def bit_mask_def split: if_splits)
qed

lemma fresh_unused: "objects_ok rs \<Longrightarrow> heap rs (fresh rs) = None"
  by (metis less_irrefl_nat not_None_eq objects_ok_def)

lemma in_tables_cong: "reg_range a = reg_range b \<Longrightarrow> in_tables a n = in_tables b n"
  by (simp add: in_tables_def bit_offset_def)

lemma online_bit_cong: "online a = online b \<Longrightarrow> reg_range a = reg_range b \<Longrightarrow> online_bit a n = online_bit b n"
  by (simp add: online_bit_def bit_offset_def)

lemma keyed_set_fresh:
  "keyed key (set t) hp \<Longrightarrow> hp p = None \<Longrightarrow> p \<notin> snd ` set t"
  by (auto simp: keyed_def)

lemma Registry_new_inv:
  assumes "Registry_new r now ep rs = Some (rs', p)" "reg_inv rs" "Suc (length (extensions rs)) < 2 ^ 32"
  shows "reg_inv rs'"
  using assms(1)
proof (rule Registry_new_SomeE)
  fix rs0
  let ?n = "ep_number ep" and ?reg = "Registry_object now ep"
  assume rs0: "rs0 = Registry_init r rs" "in_tables rs0 ?n" and p: "p = fresh rs0"
    and new: "heap rs' = (heap rs0)(p \<mapsto> ?reg)" "fresh rs' = Suc p"
      "extensions rs' = multi_insert ?n p (extensions rs0)"
      "aliases rs' = multi_insert (ep_user ep) p (aliases rs0)"
      "registries rs' = AList.update (?n, ep_label ep) p (registries rs0)"
      "endpoints rs' = AList.update (ep_endpoint ep) p (endpoints rs0)"
      "count rs' = (count rs0)(?n := count rs0 ?n + 1)"
      "reg_range rs' = reg_range rs0" "reg_init rs' = reg_init rs0"
      "online rs' = (if count rs0 ?n + 1 = 1 then online (set_online ?n rs0) else online rs0)"
  have inv: "tables_ok rs0" "lists_ok rs0" "objects_ok rs0" "counts_ok rs0" "reg_init rs0"
    using Registry_init_inv[OF assms(2)] rs0(1) by (auto simp: reg_inv_def)
  have free: "heap rs0 p = None" using fresh_unused inv(3) p by simp
  have key: "reg_number ?reg = ?n" "userId ?reg = ep_user ep" "userLabel ?reg = ep_label ep"
    "endpointId ?reg = ep_endpoint ep" "\<not> active ?reg" by (simp_all add: Registry_object_def)
  have tables: "tables_ok rs'"
    using inv(1) free key unfolding tables_ok_def new(1,3-6)
    by (auto intro!: multihash.keyed_ins hash.keyed_ins)
  have "p \<notin> snd ` set (extensions rs0)" "p \<notin> snd ` set (aliases rs0)"
    using inv(1) free keyed_set_fresh unfolding tables_ok_def by blast+
  then have lists: "lists_ok rs'"
    using inv(2) by (auto simp: lists_ok_def new distinct_update multi_insert_def)
  have objects: "objects_ok rs'"
    using inv(3) rs0(2) key p by (auto simp: objects_ok_def new multi_insert_def less_Suc_eq
        in_tables_cong[OF new(8)])
  have "extensions rs0 = extensions rs" by (simp add: rs0(1) Registry_init_def)
  then have "length (multi_values ?n (extensions rs0)) < 2 ^ 32"
    using assms(3) multi_values_length[of ?n "extensions rs0"] by simp
  then have zero: "count rs0 ?n + 1 = 1 \<longleftrightarrow> multi_values ?n (extensions rs0) = []"
    using inv(4) word_of_nat_0_iff by (simp add: counts_ok_def)
  have range: "reg_range (set_online ?n rs0) = reg_range rs0" by (simp add: reg_simps)
  have bit: "online_bit rs' m = (if count rs0 ?n + 1 = 1 then online_bit rs0 m \<or> m = ?n else online_bit rs0 m)" for m
    using online_bit_set[of ?n rs0 m] online_bit_cong[of rs' rs0 m] online_bit_cong[of rs' "set_online ?n rs0" m]
    by (simp add: new(8,10) range split: if_splits)
  have "online_bit rs' m = (multi_values m (extensions rs') \<noteq> [])" for m
    using inv(4) zero by (auto simp: counts_ok_def bit new(3) multi_insert_def multi_values_Cons)
  then have "counts_ok rs'"
    using inv(4) by (auto simp: counts_ok_def new multi_insert_def multi_values_Cons add.commute)
  with tables lists objects inv(5) show ?thesis by (simp add: reg_inv_def init_ok_def new)
qed

section \<open>Destruction keeps the invariant\<close>

lemma Registry_delete_Some:
  assumes "reg_inv rs" "heap rs p = Some reg"
  shows "\<exists>rs'. Registry_delete p rs = Some rs'"
  using assms by (auto simp: Registry_delete_def Let_def reg_inv_def objects_ok_def)

lemma Registry_delete_SomeE:
  assumes "Registry_delete p rs = Some rs'"
  obtains reg where "heap rs p = Some reg" "heap rs' = (heap rs)(p := None)"
    "fresh rs' = fresh rs"
    "extensions rs' = multi_remove (reg_number reg) p (extensions rs)"
    "aliases rs' = multi_remove (userId reg) p (aliases rs)"
    "registries rs' = AList.delete (reg_number reg, userLabel reg) (registries rs)"
    "endpoints rs' = AList.delete (endpointId reg) (endpoints rs)"
    "count rs' = (count rs)(reg_number reg := count rs (reg_number reg) - 1)"
    "reg_range rs' = reg_range rs" "reg_init rs' = reg_init rs"
    "online rs' = (if count rs (reg_number reg) - 1 = 0 then online (unset_online (reg_number reg) rs) else online rs)"
proof -
  obtain reg where "heap rs p = Some reg" "in_tables rs (reg_number reg)"
    using assms by (auto simp: Registry_delete_def Let_def split: option.splits if_splits)
  with assms show ?thesis
    by (intro that[of reg])
      (auto simp: Registry_delete_def Let_def reg_simps unset_online_def bit_offset_def bit_mask_def
        split: if_splits)
qed

lemma distinct_map_fst_delete: "distinct (map fst t) \<Longrightarrow> distinct (map fst (AList.delete k t))"
  by (simp add: distinct_delete)

lemma Registry_delete_inv:
  assumes "Registry_delete p rs = Some rs'" "reg_inv rs" "size_ok rs"
  shows "reg_inv rs' \<and> size_ok rs'"
  using assms(1)
proof (rule Registry_delete_SomeE)
  fix reg :: registry
  let ?n = "reg_number reg"
  assume reg: "heap rs p = Some reg" and new: "heap rs' = (heap rs)(p := None)"
    "fresh rs' = fresh rs"
    "extensions rs' = multi_remove ?n p (extensions rs)"
    "aliases rs' = multi_remove (userId reg) p (aliases rs)"
    "registries rs' = AList.delete (?n, userLabel reg) (registries rs)"
    "endpoints rs' = AList.delete (endpointId reg) (endpoints rs)"
    "count rs' = (count rs)(?n := count rs ?n - 1)"
    "reg_range rs' = reg_range rs" "reg_init rs' = reg_init rs"
    "online rs' = (if count rs ?n - 1 = 0 then online (unset_online ?n rs) else online rs)"
  have inv: "tables_ok rs" "lists_ok rs" "objects_ok rs" "counts_ok rs" "init_ok rs"
    using assms(2) by (auto simp: reg_inv_def)
  have listed: "(?n, p) \<in> set (extensions rs)" "distinct (map snd (extensions rs))"
    using inv(2,3) reg by (auto simp: objects_ok_def lists_ok_def)
  have tables: "tables_ok rs'"
    using inv(1) reg unfolding tables_ok_def new(1,3-6)
    by (auto intro!: multihash.keyed_rem hash.keyed_rem[where p = p])
  have lists: "lists_ok rs'"
    using inv(2) by (auto simp: lists_ok_def new distinct_remove_pairs distinct_map_fst_delete)
  have objects: "objects_ok rs'"
    using inv(3) by (auto simp: objects_ok_def new set_multi_remove in_tables_cong[OF new(8)])
  have len: "length (multi_values ?n (extensions rs)) = Suc (length (multi_values ?n (extensions rs')))"
    using length_remove_values[OF listed(2,1)] by (simp add: new(3))
  moreover have "length (multi_values ?n (extensions rs)) < 2 ^ 32"
    using assms(3) multi_values_length[of ?n "extensions rs"] by (simp add: size_ok_def)
  ultimately have zero: "count rs ?n - 1 = 0 \<longleftrightarrow> multi_values ?n (extensions rs') = []"
    using inv(4) word_of_nat_0_iff[of "length (multi_values ?n (extensions rs'))"]
    by (simp add: counts_ok_def)
  have others: "m \<noteq> ?n \<Longrightarrow> multi_values m (extensions rs') = multi_values m (extensions rs)" for m
    by (simp add: new(3) multi_values_remove)
  have range: "reg_range (unset_online ?n rs) = reg_range rs" by (simp add: reg_simps)
  have bit: "online_bit rs' m = (if count rs ?n - 1 = 0 then online_bit rs m \<and> m \<noteq> ?n else online_bit rs m)" for m
    using online_bit_unset[of ?n rs m] online_bit_cong[of rs' rs m] online_bit_cong[of rs' "unset_online ?n rs" m]
    by (simp add: new(8,10) range split: if_splits)
  have "online_bit rs' m = (multi_values m (extensions rs') \<noteq> [])" for m
  proof (cases "m = ?n")
    case True
    then show ?thesis using inv(4) zero len by (auto simp: counts_ok_def bit)
  qed (use inv(4) others in \<open>simp add: counts_ok_def bit\<close>)
  moreover have "count rs' m = word_of_nat (length (multi_values m (extensions rs')))" for m
    using inv(4) len others by (cases "m = ?n") (simp_all add: counts_ok_def new(7))
  ultimately have "counts_ok rs'" by (simp add: counts_ok_def)
  moreover have "init_ok rs'"
    using inv(5) reg by (auto simp: init_ok_def new)
  moreover have "size_ok rs'"
    using assms(3) by (simp add: size_ok_def new(3) multi_remove_def le_less_trans[OF length_filter_le])
  ultimately show ?thesis
    using tables lists objects by (simp add: reg_inv_def)
qed

section \<open>The other operations\<close>

lemma update_object_inv:
  assumes "update_object p f rs = Some rs'" "reg_inv rs"
    and same: "\<And>obj. reg_number (f obj) = reg_number obj \<and> userId (f obj) = userId obj \<and>
      userLabel (f obj) = userLabel obj \<and> endpointId (f obj) = endpointId obj"
    and kept: "\<And>obj. active obj \<longrightarrow> serverContext obj \<noteq> None \<Longrightarrow> active (f obj) \<longrightarrow> serverContext (f obj) \<noteq> None"
  shows "reg_inv rs' \<and> extensions rs' = extensions rs"
proof -
  obtain obj where obj: "heap rs p = Some obj" "rs' = rs\<lparr>heap := (heap rs)(p \<mapsto> f obj)\<rparr>"
    using assms(1) by (auto simp: update_object_def split: option.splits)
  have "tables_ok rs'"
    using assms(2) obj(1) same unfolding reg_inv_def tables_ok_def obj(2)
    by (auto intro!: keyed_update[where f = f and reg = obj])
  moreover have "active (f obj) \<longrightarrow> serverContext (f obj) \<noteq> None"
    using kept assms(2) obj(1) unfolding reg_inv_def objects_ok_def by blast
  then have "objects_ok rs'" using assms(2) obj same
    by (simp add: reg_inv_def objects_ok_def in_tables_def bit_offset_def)
  moreover have "counts_ok rs'" "init_ok rs'" "lists_ok rs'"
    using assms(2) obj by (auto simp: reg_inv_def counts_ok_def init_ok_def lists_ok_def online_bit_def bit_offset_def)
  ultimately show ?thesis using obj(2) by (simp add: reg_inv_def)
qed

lemma setNounce_keys [reg_simps]:
  "reg_number (setNounce v r) = reg_number r" "userId (setNounce v r) = userId r"
  "userLabel (setNounce v r) = userLabel r" "endpointId (setNounce v r) = endpointId r"
  by (simp_all add: setNounce_def)

lemma authorize_keys [reg_simps]:
  "reg_number (fst (authorize Q now ev r)) = reg_number r" "userId (fst (authorize Q now ev r)) = userId r"
  "userLabel (fst (authorize Q now ev r)) = userLabel r" "endpointId (fst (authorize Q now ev r)) = endpointId r"
  by (simp_all add: authorize_def Let_def)

lemma setNounce_active [reg_simps]:
  "active (setNounce v r) = active r" "serverContext (setNounce v r) = serverContext r"
  by (simp_all add: setNounce_def)

lemma authorize_active:
  "active r \<longrightarrow> serverContext r \<noteq> None \<Longrightarrow>
   active (fst (authorize Q now ev r)) \<longrightarrow> serverContext (fst (authorize Q now ev r)) \<noteq> None"
  by (simp add: authorize_def Let_def)

lemma drop_expired_inv:
  assumes "reg_inv rs" "size_ok rs" "\<And>p. entry = Some p \<Longrightarrow> heap rs p \<noteq> None"
  shows "\<exists>rs' found. drop_expired now entry rs = Some (rs', found) \<and> reg_inv rs' \<and> size_ok rs' \<and>
    (\<forall>p. found = Some p \<longrightarrow> (\<exists>obj. heap rs' p = Some obj \<and> \<not> hasExpired now obj \<and> entry = Some p \<and> rs' = rs))"
proof (cases entry)
  case (Some p)
  then obtain obj where obj: "heap rs p = Some obj" using assms(3) by blast
  show ?thesis
  proof (cases "hasExpired now obj")
    case True
    then obtain rs' where "Registry_delete p rs = Some rs'" using Registry_delete_Some assms(1) obj by blast
    with True Some obj show ?thesis
      using Registry_delete_inv[OF _ assms(1,2)] by (auto simp: drop_expired_def deref_def)
  qed (use Some obj assms in \<open>auto simp: drop_expired_def deref_def\<close>)
qed (use assms in \<open>auto simp: drop_expired_def\<close>)

lemma keyed_lookup: "keyed key (set t) hp \<Longrightarrow> map_of t k = Some p \<Longrightarrow> \<exists>reg. hp p = Some reg \<and> key reg = k"
  by (auto simp: keyed_def dest!: map_of_SomeD)

lemma find_event_inv:
  assumes "reg_inv rs" "size_ok rs"
  shows "\<exists>rs' found. find_event now ev rs = Some (rs', found) \<and> reg_inv rs' \<and> size_ok rs' \<and>
    (\<forall>p. found = Some p \<longrightarrow> (\<exists>obj. heap rs' p = Some obj \<and> \<not> hasExpired now obj \<and>
       reg_number obj = ev_number ev \<and> userLabel obj = label_of ev \<and> rs' = rs))"
  using drop_expired_inv[OF assms, of "map_of (registries rs) (ev_number ev, label_of ev)" now] assms(1)
  by (fastforce simp: find_event_def reg_inv_def tables_ok_def dest: keyed_lookup)

lemma find_endpoint_inv:
  assumes "reg_inv rs" "size_ok rs"
  shows "\<exists>rs' found. find_endpoint now key rs = Some (rs', found) \<and> reg_inv rs' \<and> size_ok rs' \<and>
    (\<forall>p. found = Some p \<longrightarrow> (\<exists>obj. heap rs' p = Some obj \<and> \<not> hasExpired now obj \<and>
       endpointId obj = key \<and> rs' = rs))"
  using drop_expired_inv[OF assms, of "map_of (endpoints rs) key" now] assms(1)
  by (fastforce simp: find_endpoint_def reg_inv_def tables_ok_def dest: keyed_lookup)

section \<open>Cleanup\<close>

lemma keyed_distinct_snd: "keyed key (set t) hp \<Longrightarrow> distinct (map fst t) \<Longrightarrow> distinct (map snd t)"
proof (induction t)
  case (Cons e t)
  obtain k p where e: "e = (k, p)" by (cases e)
  have "p \<notin> snd ` set t"
  proof
    assume "p \<in> snd ` set t"
    then obtain k' where "(k', p) \<in> set t" by auto
    with Cons.prems(1) e have "k = k'" by (auto simp: keyed_def)
    with \<open>(k', p) \<in> set t\<close> Cons.prems(2) e show False by force
  qed
  with Cons e show ?case by (auto simp: keyed_def)
qed simp

lemma Registry_delete_heap: "Registry_delete p rs = Some rs' \<Longrightarrow> heap rs' = (heap rs)(p := None)"
  by (erule Registry_delete_SomeE)

lemma cleanup_loop_inv:
  assumes "reg_inv rs" "size_ok rs" "distinct (map snd snapshot)" "\<forall>p \<in> snd ` set snapshot. heap rs p \<noteq> None"
  shows "\<exists>rs'. cleanup_loop now snapshot rs = Some rs' \<and> reg_inv rs' \<and> size_ok rs' \<and>
    (\<forall>p. heap rs' p = (if p \<in> snd ` set snapshot \<and> (\<exists>obj. heap rs p = Some obj \<and> hasExpired now obj)
       then None else heap rs p))"
  using assms
proof (induction snapshot arbitrary: rs)
  case (Cons e snapshot)
  obtain k p where e: "e = (k, p)" by (cases e)
  obtain obj where obj: "heap rs p = Some obj" using Cons.prems(4) e by auto
  obtain rs1 where rs1: "(if hasExpired now obj then Registry_delete p rs else Some rs) = Some rs1"
    using Registry_delete_Some[OF Cons.prems(1) obj] by (cases "hasExpired now obj") auto
  then have heap1: "heap rs1 = (if hasExpired now obj then (heap rs)(p := None) else heap rs)"
    by (auto dest: Registry_delete_heap split: if_splits)
  have inv1: "reg_inv rs1 \<and> size_ok rs1"
    using rs1 Cons.prems Registry_delete_inv by (auto split: if_splits)
  have "\<forall>q \<in> snd ` set snapshot. heap rs1 q \<noteq> None"
    using Cons.prems(3,4) e by (auto simp: heap1)
  then obtain rs' where rs': "cleanup_loop now snapshot rs1 = Some rs'" "reg_inv rs'" "size_ok rs'"
    "\<forall>q. heap rs' q = (if q \<in> snd ` set snapshot \<and> (\<exists>obj. heap rs1 q = Some obj \<and> hasExpired now obj)
       then None else heap rs1 q)"
    using Cons.IH[of rs1] inv1 Cons.prems(3) e by auto
  have "p \<notin> snd ` set snapshot" using Cons.prems(3) e by auto
  with rs' rs1 obj e show ?case by (auto simp: deref_def heap1)
qed auto

lemma Registry_cleanup_inv:
  assumes "reg_inv rs" "size_ok rs"
  shows "\<exists>rs'. Registry_cleanup now rs = Some rs' \<and> reg_inv rs' \<and> size_ok rs' \<and>
    (\<forall>p. heap rs' p = (if p \<in> snd ` set (registries rs) \<and> (\<exists>obj. heap rs p = Some obj \<and> hasExpired now obj)
       then None else heap rs p))"
  unfolding Registry_cleanup_def
proof (rule cleanup_loop_inv[OF assms])
  show "distinct (map snd (registries rs))" "\<forall>p \<in> snd ` set (registries rs). heap rs p \<noteq> None"
    using assms(1) by (auto simp: reg_inv_def tables_ok_def lists_ok_def keyed_def intro!: keyed_distinct_snd)
qed

section \<open>Reachable tables\<close>

text \<open>
  The operations the stack performs on the tables, in any order and at any time. The guard of
  \<open>create\<close> is the bound on the number of objects.
\<close>

inductive registry_step :: "qt_lib \<Rightarrow> int \<times> int \<Rightarrow> registrar \<Rightarrow> registrar \<Rightarrow> bool"
  for Q :: qt_lib and dbrange :: "int \<times> int" where
  create: "\<lbrakk>Registry_new dbrange now ep rs = Some (rs', p); Suc (length (extensions rs)) < 2 ^ 32\<rbrakk>
    \<Longrightarrow> registry_step Q dbrange rs rs'"
| found_event: "find_event now ev rs = Some (rs', found) \<Longrightarrow> registry_step Q dbrange rs rs'"
| found_endpoint: "find_endpoint now key rs = Some (rs', found) \<Longrightarrow> registry_step Q dbrange rs rs'"
| destroy: "Registry_delete p rs = Some rs' \<Longrightarrow> registry_step Q dbrange rs rs'"
| cleaned: "Registry_cleanup now rs = Some rs' \<Longrightarrow> registry_step Q dbrange rs rs'"
| authorized: "update_object p (\<lambda>reg. fst (authorize Q now ev reg)) rs = Some rs' \<Longrightarrow> registry_step Q dbrange rs rs'"
| nounced: "update_object p (setNounce value) rs = Some rs' \<Longrightarrow> registry_step Q dbrange rs rs'"

inductive registry_reach :: "qt_lib \<Rightarrow> int \<times> int \<Rightarrow> registrar \<Rightarrow> bool"
  for Q :: qt_lib and dbrange :: "int \<times> int" where
  start: "registry_reach Q dbrange registrar_start"
| step: "\<lbrakk>registry_reach Q dbrange rs; registry_step Q dbrange rs rs'\<rbrakk> \<Longrightarrow> registry_reach Q dbrange rs'"

lemma Registry_new_size:
  "Registry_new r now ep rs = Some (rs', p) \<Longrightarrow> length (extensions rs') = Suc (length (extensions rs))"
  by (erule Registry_new_SomeE) (simp add: multi_insert_def Registry_init_def)

lemma registry_step_inv:
  assumes "registry_step Q dbrange rs rs'" "reg_inv rs" "size_ok rs"
  shows "reg_inv rs' \<and> size_ok rs'"
  using assms(1)
proof (cases rule: registry_step.cases)
  case (create now ep p)
  then show ?thesis
    using Registry_new_inv[OF create(1) assms(2)] Registry_new_size[OF create(1)] by (simp add: size_ok_def)
next
  case (found_event now ev found)
  with find_event_inv[OF assms(2,3), of now ev] show ?thesis by auto
next
  case (found_endpoint now key found)
  with find_endpoint_inv[OF assms(2,3), of now key] show ?thesis by auto
next
  case (destroy p)
  then show ?thesis using Registry_delete_inv assms(2,3) by blast
next
  case (cleaned now)
  with Registry_cleanup_inv[OF assms(2,3), of now] show ?thesis by auto
next
  case (authorized p now ev)
  from update_object_inv[OF this assms(2)] assms(3) show ?thesis
    by (simp add: reg_simps size_ok_def authorize_active)
next
  case (nounced p v)
  from update_object_inv[OF this assms(2)] assms(3) show ?thesis by (simp add: reg_simps size_ok_def)
qed

lemma registry_reach_inv: "registry_reach Q dbrange rs \<Longrightarrow> reg_inv rs \<and> size_ok rs"
proof (induction rule: registry_reach.induct)
  case start
  show ?case using reg_inv_start by (simp add: size_ok_def registrar_start_def)
qed (use registry_step_inv in blast)

section \<open>Properties\<close>

definition sample_endpoint :: endpoint_hash where
  "sample_endpoint = \<lparr>ep_display = ''Test'', ep_user = ''test'', ep_secret = ''73'', ep_origin = ''h'',
    ep_privs = ''none'', ep_number = 101, ep_label = ''a'', ep_expires = 60, ep_realm = ''r'',
    ep_digest = ''MD5'', ep_endpoint = 1\<rparr>"

lemma sample_new: "Registry_new (100, 699) 0 sample_endpoint registrar_start \<noteq> None"
  by (simp add: Registry_new_def Registry_init_def registrar_start_def sample_endpoint_def in_tables_def
      bit_offset_def Let_def)

lemma sample_reach:
  "\<exists>rs. registry_reach sample_qt (100, 699) rs \<and> (\<exists>reg. heap rs 0 = Some reg \<and> reg_number reg = 101)"
proof -
  obtain rs p where new: "Registry_new (100, 699) 0 sample_endpoint registrar_start = Some (rs, p)"
    using sample_new by auto
  then have "registry_step sample_qt (100, 699) registrar_start rs"
    by (rule registry_step.create) (simp add: registrar_start_def)
  then have "registry_reach sample_qt (100, 699) rs"
    using registry_reach.step registry_reach.start by blast
  moreover have "\<exists>reg. heap rs 0 = Some reg \<and> reg_number reg = 101"
    using new by (rule Registry_new_SomeE)
      (simp add: Registry_init_def registrar_start_def Registry_object_def sample_endpoint_def)
  ultimately show ?thesis by blast
qed

lemma multi_values_snd: "set (multi_values k t) \<subseteq> snd ` set t"
  by (auto simp: multi_values_def)

lemma target_sources: "set (find_target target rs) \<subseteq> snd ` set (extensions rs) \<union> snd ` set (aliases rs)"
  using multi_values_snd[of target "aliases rs"] multi_values_snd[of "toInt target" "extensions rs"]
  by (simp add: find_target_def le_supI1 le_supI2)

lemma extensions_iff:
  assumes "reg_inv rs"
  shows "(num, p) \<in> set (extensions rs) \<longleftrightarrow> (\<exists>reg. heap rs p = Some reg \<and> reg_number reg = num)"
proof -
  have "keyed reg_number (set (extensions rs)) (heap rs)" "objects_ok rs"
    using assms by (simp_all add: reg_inv_def tables_ok_def)
  then show ?thesis unfolding keyed_def objects_ok_def by blast
qed

lemma aliases_iff:
  assumes "reg_inv rs"
  shows "(user, p) \<in> set (aliases rs) \<longleftrightarrow> (\<exists>reg. heap rs p = Some reg \<and> userId reg = user)"
proof -
  have "keyed userId (set (aliases rs)) (heap rs)" "objects_ok rs"
    using assms by (simp_all add: reg_inv_def tables_ok_def)
  then show ?thesis unfolding keyed_def objects_ok_def by blast
qed

lemma listed_alive:
  assumes "reg_inv rs" "p \<in> snd ` set (extensions rs) \<or> p \<in> snd ` set (aliases rs)"
  shows "\<exists>reg. heap rs p = Some reg"
  using assms(2) extensions_iff[OF assms(1)] aliases_iff[OF assms(1)] by fastforce

text \<open>
  C3. The registration tables are memory safe. In every state the stack can reach by creating,
  finding, authorizing, expiring and deleting registrations, a lookup by event or by endpoint and a
  cleanup are defined (no pointer they follow is dangling, no index is out of range), and every
  pointer that a lookup by target hands out is alive.
\<close>

theorem registry_memory_safe:
  assumes "registry_reach Q dbrange rs"
  shows "find_event now ev rs \<noteq> None \<and> find_endpoint now key rs \<noteq> None \<and>
    Registry_cleanup now rs \<noteq> None \<and> (\<forall>p. p \<in> set (find_target target rs) \<longrightarrow> heap rs p \<noteq> None) \<and>
    (\<forall>p. p \<in> set (registry_list rs) \<longrightarrow> Registry_delete p rs \<noteq> None)"
proof -
  have inv: "reg_inv rs" "size_ok rs" using registry_reach_inv[OF assms] by auto
  have "\<forall>p. p \<in> set (find_target target rs) \<longrightarrow> heap rs p \<noteq> None"
    using target_sources listed_alive[OF inv(1)] by blast
  moreover have "\<forall>p. p \<in> set (registry_list rs) \<longrightarrow> Registry_delete p rs \<noteq> None"
    using listed_alive[OF inv(1)] Registry_delete_Some[OF inv(1)] by (fastforce simp: registry_list_def)
  moreover have "find_event now ev rs \<noteq> None" "find_endpoint now key rs \<noteq> None"
    "Registry_cleanup now rs \<noteq> None"
    using find_event_inv[OF inv, of now ev] find_endpoint_inv[OF inv, of now key]
      Registry_cleanup_inv[OF inv, of now] by auto
  ultimately show ?thesis by blast
qed

lemma registry_memory_safe_witness:
  "\<exists>rs. heap rs 0 \<noteq> None \<and> Registry_cleanup 100000 rs \<noteq> None \<and> find_endpoint 5 1 rs \<noteq> None"
proof -
  obtain rs where rs: "registry_reach sample_qt (100, 699) rs" "heap rs 0 \<noteq> None"
    using sample_reach by auto
  then show ?thesis
    using registry_memory_safe[OF rs(1), of 100000 _ 1] registry_memory_safe[OF rs(1), of 5 _ 1] by blast
qed

text \<open>
  C14. The bit mask of active numbers that the server publishes is exact: in every reachable state
  the bit of a number is set iff a registration object with that number exists, and its counter is
  the number of such objects.
\<close>

theorem registry_online_exact:
  assumes "registry_reach Q dbrange rs"
  shows "(online_bit rs num \<longleftrightarrow> (\<exists>p reg. heap rs p = Some reg \<and> reg_number reg = num)) \<and>
    unat (count rs num) = card {p. \<exists>reg. heap rs p = Some reg \<and> reg_number reg = num}"
proof -
  have inv: "reg_inv rs" "size_ok rs" using registry_reach_inv[OF assms] by auto
  let ?vs = "multi_values num (extensions rs)"
  have objects: "{p. \<exists>reg. heap rs p = Some reg \<and> reg_number reg = num} = set ?vs"
    by (simp add: extensions_iff[OF inv(1)] set_eq_iff set_multi_values)
  have "distinct ?vs" using inv(1) by (simp add: reg_inv_def lists_ok_def distinct_multi_values)
  then have card: "card (set ?vs) = length ?vs" by (rule distinct_card)
  have small: "length ?vs < 2 ^ 32"
    using inv(2) multi_values_length[of num "extensions rs"] by (simp add: size_ok_def)
  have counted: "count rs num = word_of_nat (length ?vs)"
    using inv(1) by (simp add: reg_inv_def counts_ok_def)
  have "unat (count rs num) = length ?vs"
    unfolding counted by (rule unat_word_of_nat[OF small])
  moreover have "online_bit rs num \<longleftrightarrow> ?vs \<noteq> []"
    using inv(1) by (simp add: reg_inv_def counts_ok_def)
  moreover have "?vs \<noteq> [] \<longleftrightarrow> (\<exists>p. p \<in> set ?vs)" by (cases ?vs) auto
  moreover have "p \<in> set ?vs \<longleftrightarrow> (\<exists>reg. heap rs p = Some reg \<and> reg_number reg = num)" for p
    using objects by blast
  ultimately show ?thesis unfolding objects card by blast
qed

lemma registry_online_exact_witness: "\<exists>rs. online_bit rs 101 \<and> heap rs 0 \<noteq> None"
proof -
  obtain rs where rs: "registry_reach sample_qt (100, 699) rs" "\<exists>reg. heap rs 0 = Some reg \<and> reg_number reg = 101"
    using sample_reach by auto
  then show ?thesis using registry_online_exact[OF rs(1), of 101] by blast
qed

end
