(* ===== verification/RegistryAuth.thy ===== *)
theory RegistryAuth
  imports RegistryInv
begin

text \<open>
  What the registration tables promise to the stack: digest authentication with a window of two
  challenges, activation and expiry, and what happens when an endpoint is registered twice.
\<close>

section \<open>Authentication\<close>

text \<open>The client of an event knows the secret of the registration, under the nonce it quotes.\<close>

definition credentials_ok :: "qt_lib \<Rightarrow> event \<Rightarrow> registry \<Rightarrow> bool" where
  "credentials_ok Q ev reg \<longleftrightarrow> ev_realm ev = authRealm reg \<and> ev_userid ev = userId reg \<and>
     ev_algorithm ev = authDigest reg \<and> ev_digest ev = expected_digest Q reg (ev_nonce ev) ev"

lemma expected_digest_setNounce [simp]:
  "expected_digest Q (setNounce v reg) nonce ev = expected_digest Q reg nonce ev"
  by (simp add: expected_digest_def ha2_of_def setNounce_def)

lemma credentials_setNounce [simp]: "credentials_ok Q ev (setNounce v reg) = credentials_ok Q ev reg"
  by (simp add: credentials_ok_def) (simp add: setNounce_def)

lemma authenticate_OK_iff:
  "authenticate Q now ev reg = SIP_OK \<longleftrightarrow> \<not> hasExpired now reg \<and> serverContext reg \<noteq> None \<and>
     ev_nonce ev \<in> {toHex (random reg), toHex (prior reg)} \<and> credentials_ok Q ev reg"
  by (auto simp: authenticate_def Let_def credentials_ok_def)

lemma authenticate_codes:
  "authenticate Q now ev reg \<in> {SIP_OK, SIP_FORBIDDEN, SIP_TEMPORARILY_UNAVAILABLE}"
  by (auto simp: authenticate_def Let_def)

lemma expected_digest_active [simp]:
  "expected_digest Q (reg\<lparr>active := b\<rparr>) nonce ev = expected_digest Q reg nonce ev"
  by (simp add: expected_digest_def ha2_of_def)

lemma authorize_eq:
  "authorize Q now ev reg =
    (if \<not> (ev_nonce ev = toHex (random reg) \<and> credentials_ok Q ev reg) then (reg\<lparr>active := False\<rparr>, SIP_FORBIDDEN)
     else if expires_of ev < 1 then (reg\<lparr>active := False, timeout := 0\<rparr>, SIP_OK)
     else (reg\<lparr>active := True, serverContext := Some (ev_context ev), updated := now,
       address := (if ev_protocol ev = ''udp'' then ev_source (ev_parsed ev) else ev_contact ev)\<rparr>, SIP_OK))"
proof -
  consider "ev_realm ev \<noteq> authRealm reg" | "ev_userid ev \<noteq> userId reg" | "ev_algorithm ev \<noteq> authDigest reg"
    | "ev_nonce ev \<noteq> toHex (random reg)"
    | "ev_nonce ev = toHex (random reg)" "ev_digest ev \<noteq> expected_digest Q reg (toHex (random reg)) ev"
    | "ev_nonce ev = toHex (random reg) \<and> credentials_ok Q ev reg"
    unfolding credentials_ok_def by metis
  then show ?thesis
  proof cases
    case 6
    then show ?thesis by (simp add: authorize_def Let_def credentials_ok_def)
  qed (simp_all add: authorize_def Let_def credentials_ok_def)
qed

lemma authorize_OK_iff:
  "snd (authorize Q now ev reg) = SIP_OK \<longleftrightarrow> ev_nonce ev = toHex (random reg) \<and> credentials_ok Q ev reg"
  by (simp add: authorize_eq)

lemma authorize_codes: "snd (authorize Q now ev reg) \<in> {SIP_OK, SIP_FORBIDDEN}"
  by (simp add: authorize_eq)

lemma authorize_failed:
  "snd (authorize Q now ev reg) \<noteq> SIP_OK \<Longrightarrow> fst (authorize Q now ev reg) = reg\<lparr>active := False\<rparr>"
  unfolding authorize_OK_iff unfolding authorize_eq by simp

section \<open>Properties\<close>

text \<open>
  C4. The nonce window. After two challenges with nonces \<open>v1\<close> and then \<open>v2\<close>, a request quoting an
  older nonce is refused with 403 by both checks whatever it carries; an authenticated request
  quotes one of the two; a registration (\<open>authorize\<close>) is accepted only with the newest one. In each
  case acceptance implies that the response is the digest under the stored secret.
\<close>

theorem nonce_window:
  assumes "reg = setNounce v2 (setNounce v1 reg0)"
  shows "(v \<notin> {v1, v2} \<and> ev_nonce ev = toHex v \<longrightarrow> authenticate Q now ev reg \<noteq> SIP_OK \<and>
           snd (authorize Q now ev reg) = SIP_FORBIDDEN) \<and>
         (authenticate Q now ev reg = SIP_OK \<longrightarrow> ev_nonce ev \<in> {toHex v1, toHex v2} \<and>
           ev_digest ev = expected_digest Q reg0 (ev_nonce ev) ev \<and> ev_userid ev = userId reg0) \<and>
         (snd (authorize Q now ev reg) = SIP_OK \<longleftrightarrow> ev_nonce ev = toHex v2 \<and> credentials_ok Q ev reg0)"
proof -
  have stored: "random reg = v2" "prior reg = v1" using assms by (simp_all add: setNounce_def)
  have "credentials_ok Q ev reg = credentials_ok Q ev reg0" using assms by simp
  then show ?thesis
    using authorize_codes[of Q now ev reg]
    by (auto simp: authenticate_OK_iff authorize_OK_iff stored credentials_ok_def dest: toHex_inj)
qed

text \<open>A concrete registration and event.\<close>

definition sample_ctx :: sip_context where
  "sample_ctx = \<lparr>ctx_schema = \<lparr>sch_name = ''tcp'', sch_uri = ''sip:'', sch_proto = PROTO_TCP, sch_inPort = 5060,
      sch_inProto = IPPROTO_TCP\<rparr>, ctx_allow = 0x100, netFamily6 = False, netTLS = 0, netProto = IPPROTO_TCP,
    netPort = 5060, netAddress = ''10.0.0.1'', uriAddress = ''10.0.0.1'', uriHost = ''10.0.0.1'', publicName = [],
    localHosts = [''h''], otherNames = [], multiInterface = False\<rparr>"

definition sample_event :: "string \<Rightarrow> string \<Rightarrow> int \<Rightarrow> event" where
  "sample_event nonce response secs =
    \<lparr>ev_event = \<lparr>ex_type = MESSAGE_NEW, ex_request = None, ex_response = None, ex_tid = 7, ex_did = 0,
       ex_cid = 0, ex_rid = 0\<rparr>, ev_context = sample_ctx, ev_number = 101, ev_status = 0, ev_reason = [],
     ev_method = ''REGISTER'', ev_isLocal = True, ev_toLocal = True, ev_authorization = None,
     ev_request = ''sip:h'', ev_target = Contact_empty, ev_userid = ''test'', ev_digest = response,
     ev_nonce = nonce, ev_realm = ''r'', ev_algorithm = ''MD5'',
     ev_parsed = parsed_empty\<lparr>ev_label := ''a'', ev_expires := secs\<rparr>, ev_message = None,
     ev_timestamp = \<lparr>toMSecs = 0, offsetFromUtc = 0\<rparr>, ev_sequence = 0\<rparr>"

lemma sample_event_nonce [simp]:
  "ev_nonce (sample_event nonce response secs) = nonce" "ev_digest (sample_event nonce response secs) = response"
  by (simp_all add: sample_event_def)

lemma nonce_window_witness:
  "snd (authorize sample_qt 0 (sample_event (toHex ''z'') [] 60)
     (setNounce ''y'' (setNounce ''x'' (Registry_object 0 sample_endpoint)))) = SIP_FORBIDDEN"
  using nonce_window[where ev = "sample_event (toHex ''z'') [] 60" and v = "''z''" and Q = sample_qt and now = 0
      and reg = "setNounce ''y'' (setNounce ''x'' (Registry_object 0 sample_endpoint))", OF refl]
  by simp

text \<open>
  A rejected registration takes the endpoint offline. Whoever names the number and label of an
  active registration with a wrong response makes it inactive: \<open>authorize\<close> clears the flag before it
  checks, so the published uri becomes \<open>none\<close> although address, context and expiry are kept, and
  the owner is offline until the next accepted registration.
\<close>

theorem rejected_registration_deactivates:
  assumes "\<not> credentials_ok Q ev reg"
  shows "snd (authorize Q now ev reg) = SIP_FORBIDDEN \<and>
    \<not> active (fst (authorize Q now ev reg)) \<and> reg_uri (fst (authorize Q now ev reg)) = ''none'' \<and>
    serverContext (fst (authorize Q now ev reg)) = serverContext reg \<and>
    hasExpired t (fst (authorize Q now ev reg)) = hasExpired t reg"
proof -
  have failed: "snd (authorize Q now ev reg) \<noteq> SIP_OK" using assms by (simp add: authorize_OK_iff)
  with authorize_codes[of Q now ev reg] authorize_failed[OF failed] show ?thesis
    by (auto simp: reg_uri_def hasExpired_def split: option.splits)
qed

definition sample_registered :: registry where
  "sample_registered = (Registry_object 0 sample_endpoint)\<lparr>active := True, serverContext := Some sample_ctx,
     address := Contact_address 0 ''10.0.0.7'' 5060 [] (-1)\<rparr>"

lemma rejected_registration_deactivates_witness:
  "active sample_registered \<and> reg_uri sample_registered = ''sip:10.0.0.7:5060'' \<and>
   reg_uri (fst (authorize sample_qt 5 (sample_event [] ''junk'' 60) sample_registered)) = ''none''"
proof -
  have long: "length (expected_digest sample_qt sample_registered [] (sample_event [] ''junk'' 60)) \<noteq> length ''junk''"
    by (simp add: expected_digest_def ha2_of_def hash_hex_def toHex_def sample_qt_def sample_registered_def
        Registry_object_def sample_endpoint_def sample_event_def toLower_def)
  have "\<not> credentials_ok sample_qt (sample_event [] ''junk'' 60) sample_registered"
  proof
    assume "credentials_ok sample_qt (sample_event [] ''junk'' 60) sample_registered"
    then have "''junk'' = expected_digest sample_qt sample_registered [] (sample_event [] ''junk'' 60)"
      by (simp add: credentials_ok_def)
    with long show False by simp
  qed
  note rejected = rejected_registration_deactivates[OF this, of 5]
  have "nat_str 5060 = ''5060''" by (simp add: nat_str.simps char_of_def bit_Suc_0_iff)
  then have "active sample_registered \<and> reg_uri sample_registered = ''sip:10.0.0.7:5060''"
    by (simp add: sample_registered_def reg_uri_def sample_ctx_def ctx_prefix_def Contact_toString_def
        Contact_address_def number_def text_simps)
  with rejected show ?thesis by blast
qed

text \<open>
  C40. The life of a registration. An accepted registration of \<open>expires\<close> seconds or more than 0 is
  active, is reached over the context it arrived on, lets the same client authenticate any further
  request under the same nonce, and expires exactly when its timeout has elapsed since then. An
  accepted de-registration has expired as soon as any time has elapsed since the last one.
\<close>

theorem registration_life:
  assumes "snd (authorize Q now ev reg) = SIP_OK" "0 \<le> timeout reg"
  shows "if expires_of ev < 1
    then hasExpired t (fst (authorize Q now ev reg)) \<longleftrightarrow> updated reg < t
    else active (fst (authorize Q now ev reg)) \<and>
      reg_uri (fst (authorize Q now ev reg)) =
        ctx_prefix (ev_context ev) @ reg_route (fst (authorize Q now ev reg)) \<and>
      (hasExpired t (fst (authorize Q now ev reg)) \<longleftrightarrow> now + timeout reg < t) \<and>
      (t \<le> now + timeout reg \<and> ev_nonce later = ev_nonce ev \<and> credentials_ok Q later reg \<longrightarrow>
        authenticate Q t later (fst (authorize Q now ev reg)) = SIP_OK)"
proof -
  have ok: "ev_nonce ev = toHex (random reg)" "credentials_ok Q ev reg"
    using assms(1) by (simp_all only: authorize_OK_iff)
  show ?thesis
  proof (cases "expires_of ev < 1")
    case True
    with ok show ?thesis by (simp add: authorize_eq hasExpired_def)
  next
    case False
    with ok have reg: "fst (authorize Q now ev reg) = reg\<lparr>active := True, serverContext := Some (ev_context ev),
        updated := now, address := (if ev_protocol ev = ''udp'' then ev_source (ev_parsed ev) else ev_contact ev)\<rparr>"
      by (simp add: authorize_eq)
    have "credentials_ok Q later (fst (authorize Q now ev reg)) = credentials_ok Q later reg"
      by (simp add: reg credentials_ok_def expected_digest_def ha2_of_def)
    then have "t \<le> now + timeout reg \<and> ev_nonce later = ev_nonce ev \<and> credentials_ok Q later reg \<Longrightarrow>
        authenticate Q t later (fst (authorize Q now ev reg)) = SIP_OK"
      by (simp add: authenticate_OK_iff) (simp add: reg hasExpired_def ok(1))
    with False assms(2) show ?thesis by (auto simp: reg reg_uri_def hasExpired_def reg_route_def)
  qed
qed

definition sample_login :: event where
  "sample_login = sample_event (toHex ''x'')
     (expected_digest sample_qt (Registry_object 0 sample_endpoint) (toHex ''x'') (sample_event (toHex ''x'') [] 60)) 60"

lemma sample_login_credentials:
  "credentials_ok sample_qt sample_login (setNounce ''x'' (Registry_object 0 sample_endpoint))"
  by (simp add: credentials_ok_def sample_login_def)
    (simp add: sample_event_def setNounce_def Registry_object_def sample_endpoint_def expected_digest_def
      ha2_of_def toUpper_def upper_char_def islower_def ord_def)

lemma registration_life_witness:
  "authenticate sample_qt 60005 sample_login
     (fst (authorize sample_qt 5 sample_login (setNounce ''x'' (Registry_object 0 sample_endpoint)))) = SIP_OK"
proof -
  let ?reg = "setNounce ''x'' (Registry_object 0 sample_endpoint)"
  have nonce: "ev_nonce sample_login = toHex (random ?reg)" "expires_of sample_login = 60"
    by (simp_all add: sample_login_def sample_event_def setNounce_def)
  have ok: "snd (authorize sample_qt 5 sample_login ?reg) = SIP_OK"
    using nonce(1) sample_login_credentials by (simp only: authorize_OK_iff)
  have "timeout ?reg = 60000" by (simp add: setNounce_def Registry_object_def sample_endpoint_def)
  with registration_life[OF ok, of 60005 sample_login] sample_login_credentials nonce(2) show ?thesis by simp
qed

section \<open>An endpoint registered twice\<close>

lemma Registry_new_tables:
  assumes "Registry_new r now ep rs = Some (rs', p)"
  shows "p = fresh rs \<and> fresh rs' = Suc p \<and> map_of (registries rs') (ep_number ep, ep_label ep) = Some p \<and>
    heap rs' p = Some (Registry_object now ep) \<and> (\<forall>q. q \<noteq> p \<longrightarrow> heap rs' q = heap rs q)"
  using assms by (rule Registry_new_SomeE) (simp add: Registry_init_def update_conv')

text \<open>
  A second registration of the same endpoint leaks the first. When two \<open>createRegistration\<close>
  arrive for one number and label (two REGISTER requests answered by the database before either
  was created), the table by number and label holds the newer object only. No cleanup, however
  late, deletes the older one: it keeps its bit in the published mask for ever, and it stays in
  the list by number that messages are routed with.
\<close>

theorem duplicate_registration_leaks:
  assumes "registry_reach Q r rs" "Suc (Suc (length (extensions rs))) < 2 ^ 32"
    and first: "Registry_new r now1 ep rs = Some (rs1, p)"
    and second: "Registry_new r now2 ep rs1 = Some (rs2, q)"
  shows "\<exists>rs3. Registry_cleanup later rs2 = Some rs3 \<and> heap rs3 p = Some (Registry_object now1 ep) \<and>
    online_bit rs3 (ep_number ep) \<and> (ep_number ep, p) \<in> set (extensions rs3)"
proof -
  have inv: "reg_inv rs" using registry_reach_inv[OF assms(1)] by blast
  have inv1: "reg_inv rs1" using Registry_new_inv[OF first inv] assms(2) by simp
  have len: "length (extensions rs1) = Suc (length (extensions rs))" by (rule Registry_new_size[OF first])
  have inv2: "reg_inv rs2" using Registry_new_inv[OF second inv1] assms(2) len by simp
  have size: "size_ok rs2" using Registry_new_size[OF second] len assms(2) by (simp add: size_ok_def)
  note t1 = Registry_new_tables[OF first] and t2 = Registry_new_tables[OF second]
  have "p \<noteq> q" using t1 t2 by simp
  then have held: "heap rs2 p = Some (Registry_object now1 ep)" using t1 t2 by metis
  have "p \<notin> snd ` set (registries rs2)"
  proof
    assume "p \<in> snd ` set (registries rs2)"
    then obtain k where k: "(k, p) \<in> set (registries rs2)" by auto
    moreover have "distinct (map fst (registries rs2))"
      "keyed (\<lambda>r. (reg_number r, userLabel r)) (set (registries rs2)) (heap rs2)"
      using inv2 by (simp_all add: reg_inv_def lists_ok_def tables_ok_def)
    ultimately have "k = (ep_number ep, ep_label ep)" "map_of (registries rs2) k = Some p"
      using held by (auto simp: keyed_def Registry_object_def)
    with t2 \<open>p \<noteq> q\<close> show False by simp
  qed
  with Registry_cleanup_inv[OF inv2 size, of later] held obtain rs3 where
    rs3: "Registry_cleanup later rs2 = Some rs3" "reg_inv rs3" "heap rs3 p = Some (Registry_object now1 ep)"
    by auto
  then have "(ep_number ep, p) \<in> set (extensions rs3)"
    by (simp add: extensions_iff Registry_object_def)
  moreover from this have "online_bit rs3 (ep_number ep)"
    using rs3(2) set_multi_values[of p "ep_number ep"] by (force simp: reg_inv_def counts_ok_def)
  ultimately show ?thesis using rs3 by blast
qed

lemma duplicate_registration_leaks_witness:
  "\<exists>rs rs3. Registry_cleanup 1000000 rs = Some rs3 \<and> online_bit rs3 101 \<and> heap rs3 0 \<noteq> None"
proof -
  obtain rs1 p where first: "Registry_new (100, 699) 0 sample_endpoint registrar_start = Some (rs1, p)"
    using sample_new by auto
  then have "in_tables rs1 101"
    by (rule Registry_new_SomeE) (simp add: Registry_init_def registrar_start_def in_tables_def bit_offset_def)
  moreover have "reg_init rs1" using Registry_init_inv[OF reg_inv_start] first by (auto elim: Registry_new_SomeE)
  ultimately obtain rs2 q where second: "Registry_new (100, 699) 7 sample_endpoint rs1 = Some (rs2, q)"
    by (auto simp: Registry_new_def Registry_init_def Let_def sample_endpoint_def)
  have "p = 0" using Registry_new_tables[OF first] by (simp add: registrar_start_def)
  with duplicate_registration_leaks[where later = 1000000 and Q = sample_qt, OF registry_reach.start _ first second]
  show ?thesis
    by (auto simp: registrar_start_def sample_endpoint_def)
qed

end
