(* ===== verification/Answers.thy ===== *)
theory Answers
  imports RegistryAuth
begin

text \<open>
  \<open>Server/context.cpp\<close>: the answers and requests a context sends. What is handed to eXosip2 and the
  Qt signals emitted are effects, collected in order. \<open>built\<close> says whether
  \<open>eXosip_message_build_answer\<close> produced a message for the transaction.
\<close>

record answer =
  ans_status :: int
  ans_headers :: "(string \<times> string) list"
  ans_content :: "(string \<times> string) option" \<comment> \<open>content type and body\<close>

record request =
  rq_from :: string
  rq_to :: string
  rq_route :: string
  rq_headers :: "(string \<times> string) list"
  rq_type :: string
  rq_body :: string

datatype 's effect =
    Options_answer int int
  | Send_answer int int "answer option"
  | Send_request sip_context request
  | Emit 's

section \<open>Answers\<close>

definition reply :: "event \<Rightarrow> int \<Rightarrow> bool \<times> 's effect list" where
  "reply ev code =
    (if ev_type ev = MESSAGE_NEW then (True, [Options_answer (ev_tid ev) code]) else (False, []))"

definition answerWithJson :: "bool \<Rightarrow> event \<Rightarrow> string \<Rightarrow> bool \<times> 's effect list" where
  "answerWithJson built ev json =
    (if \<not> built then (False, [])
     else (True, [Send_answer (ev_tid ev) SIP_OK (Some \<lparr>ans_status = SIP_OK, ans_headers = [],
            ans_content = (if json \<noteq> [] then Some (''application/json'', json) else None)\<rparr>)]))"

definition answerWithTimestamp :: "qt_lib \<Rightarrow> bool \<Rightarrow> event \<Rightarrow> int \<Rightarrow> bool \<times> 's effect list" where
  "answerWithTimestamp Q built ev result =
    (if \<not> built then (False, [])
     else (True, [Send_answer (ev_tid ev) result (Some \<lparr>ans_status = SIP_OK,
            ans_headers = [(''X-TS'', q_isoDate Q (ev_timestamp ev)), (''X-MS'', number (ev_sequence ev))],
            ans_content = None\<rparr>)]))"

definition context_authorize :: "bool \<Rightarrow> event \<Rightarrow> registry \<Rightarrow> string \<Rightarrow> bool \<times> 's effect list" where
  "context_authorize built ev reg xdp =
    (if \<not> built then (False, [])
     else (True, [Send_answer (ev_tid ev) SIP_OK (Some \<lparr>ans_status = SIP_OK,
            ans_headers = [(''Expires'', number (expires reg))],
            ans_content = (if xdp \<noteq> [] then Some (''application/xdp'', xdp) else None)\<rparr>)]))"

text \<open>\<open>challenge\<close>: \<open>rand\<close> is what \<open>eXosip_generate_random\<close> puts into the 8 byte buffer.\<close>

definition challenge_text :: "registry \<Rightarrow> string \<Rightarrow> string" where
  "challenge_text reg nonce =
    ''Digest realm='' @ quote [CHR 0x22] (authRealm reg) @ '', nonce='' @ quote [CHR 0x22] nonce @
    '', algorithm='' @ quote [CHR 0x22] (authDigest reg)"

definition challenge :: "bool \<Rightarrow> string \<Rightarrow> event \<Rightarrow> registry \<Rightarrow> bool \<Rightarrow> registry \<times> 's effect list" where
  "challenge built rand ev reg reuse =
    (let nounce = (if reuse then random reg else rand);
         nonce = toLower (toHex nounce);
         user = userId reg
     in (if reuse then reg else setNounce nounce reg,
         [Send_answer (ev_tid ev) SIP_UNAUTHORIZED
            (if \<not> built then None else Some \<lparr>ans_status = SIP_UNAUTHORIZED,
               ans_headers = [(''WWW-Authenticate'', challenge_text reg nonce), (''Expires'', number (expires reg))] @
                 (if initialize_of ev = ''label'' \<or> initialize_of ev = ''user'' then [(''X-Authorize'', user)] else []),
               ans_content = None\<rparr>)]))"

section \<open>Requests\<close>

definition context_message ::
  "bool \<Rightarrow> sip_context \<Rightarrow> string \<Rightarrow> string \<Rightarrow> string \<Rightarrow> (string \<times> string) list \<Rightarrow> string \<Rightarrow> string \<Rightarrow>
   bool \<times> 's effect list" where
  "context_message built ctx from to route headers type body =
    (if \<not> built then (False, [])
     else (True, [Send_request ctx \<lparr>rq_from = from, rq_to = to, rq_route = route, rq_headers = headers,
            rq_type = type, rq_body = body\<rparr>]))"

section \<open>Lemmas\<close>

fun effect_code :: "'s effect \<Rightarrow> int option" where
  "effect_code (Options_answer tid code) = Some code"
| "effect_code (Send_answer tid code msg) = Some code"
| "effect_code _ = None"

definition emitted :: "'s effect list \<Rightarrow> 's list" where
  "emitted effs = List.map_filter (\<lambda>e. case e of Emit s \<Rightarrow> Some s | _ \<Rightarrow> None) effs"

definition answers :: "'s effect list \<Rightarrow> int list" where
  "answers effs = List.map_filter effect_code effs"

lemma emitted_simps [simp]:
  "emitted [] = []" "emitted (Emit s # es) = s # emitted es" "emitted (Options_answer t c # es) = emitted es"
  "emitted (Send_answer t c m # es) = emitted es" "emitted (Send_request x r # es) = emitted es"
  "emitted (es @ es') = emitted es @ emitted es'"
  by (simp_all add: emitted_def map_filter_def)

lemma answers_simps [simp]:
  "answers [] = []" "answers (Emit s # es) = answers es" "answers (Options_answer t c # es) = c # answers es"
  "answers (Send_answer t c m # es) = c # answers es" "answers (Send_request x r # es) = answers es"
  "answers (es @ es') = answers es @ answers es'"
  by (simp_all add: answers_def map_filter_def)

lemma reply_effects [simp]:
  "emitted (snd (reply ev code)) = []"
  "ev_type ev = MESSAGE_NEW \<Longrightarrow> answers (snd (reply ev code)) = [code]"
  "ev_type ev = MESSAGE_NEW \<Longrightarrow> fst (reply ev code)"
  by (simp_all add: reply_def)

lemma answer_effects [simp]:
  "emitted (snd (answerWithJson built ev json)) = []"
  "emitted (snd (answerWithTimestamp Q built ev result)) = []"
  "emitted (snd (context_authorize built ev reg xdp)) = []"
  "emitted (snd (challenge built rand ev reg reuse)) = []"
  "emitted (snd (context_message built ctx from to route headers type body)) = []"
  by (simp_all add: answerWithJson_def answerWithTimestamp_def context_authorize_def challenge_def
      context_message_def Let_def)

lemma challenge_reuse [simp]: "fst (challenge built rand ev reg True) = reg"
  by (simp add: challenge_def Let_def)

lemma challenge_fresh: "fst (challenge built rand ev reg False) = setNounce rand reg"
  by (simp add: challenge_def Let_def)

lemma challenge_answers [simp]: "answers (snd (challenge built rand ev reg reuse)) = [SIP_UNAUTHORIZED]"
  by (simp add: challenge_def Let_def)

end
