(* ===== verification/Tables.thy ===== *)
theory Tables
  imports Answers
begin

text \<open>
  The tables of the server's database (\<open>Database/sqldriver.cpp\<close>, \<open>Database/sqlite.sql\<close>) and the
  SQL statements the code runs on them. A table is the list of its rows in insertion order; a
  nullable text column reads as the empty string, as \<open>QVariant::toString\<close> gives it. A statement
  that violates a key leaves the table unchanged (the query fails, and the code ignores it).
  References are enforced, and deletes cascade, only when \<open>db_fkeys\<close> holds: SQLite leaves foreign
  keys off unless a pragma turns them on, and \<open>pragmaQuery\<close> does not. When \<open>db_up\<close> is false the
  database cannot be opened: statements do nothing and queries find nothing.
\<close>

section \<open>Rows\<close>

record authorize_row =
  a_name :: string
  a_type :: string
  a_digest :: string
  a_created :: qdatetime
  a_realm :: string
  a_secret :: string
  a_access :: string
  a_email :: string
  a_fullname :: string
  a_fwdaway :: int
  a_fwdbusy :: int
  a_fwdnoanswer :: int

record extension_row =
  x_number :: int
  x_authname :: string
  x_priority :: int
  x_display :: string
  x_pubkey :: string

record endpoint_row =
  p_endpoint :: int
  p_extnbr :: int
  p_label :: string
  p_agent :: string
  p_devkey :: string
  p_created :: qdatetime
  p_lastaccess :: qdatetime
  p_lasturi :: string

record group_row =
  g_group :: int
  g_extnbr :: int
  g_priority :: int

record admin_row =
  n_authname :: string
  n_extnbr :: int

record calling_row =
  c_authname :: string
  c_extnbr :: int
  c_priority :: int

record speed_row =
  s_authname :: string
  s_target :: string
  s_extnbr :: int

record message_row =
  m_mid :: int
  m_seq :: int
  m_from :: string
  m_to :: string
  m_subject :: string
  m_display :: string
  m_posted :: qdatetime
  m_expires :: qdatetime
  m_type :: string
  m_text :: string

record outbox_row =
  o_mid :: int
  o_endpoint :: int
  o_status :: int

record delete_row =
  d_authname :: string
  d_status :: int
  d_endpoint :: int
  d_created :: qdatetime

record config_row =
  cf_realm :: string
  cf_dialplan :: string

record db_tables =
  t_config :: "config_row list"
  t_switches :: "(string \<times> string) list" \<comment> \<open>uuid and version\<close>
  t_authorize :: "authorize_row list"
  t_extensions :: "extension_row list"
  t_endpoints :: "endpoint_row list"
  t_groups :: "group_row list"
  t_admin :: "admin_row list"
  t_calling :: "calling_row list"
  t_speeds :: "speed_row list"
  t_messages :: "message_row list"
  t_outboxes :: "outbox_row list"
  t_deletes :: "delete_row list"
  next_endpoint :: int
  next_mid :: int

text \<open>The object of class \<open>Database\<close>: its settings and the database behind its connection.\<close>

record database = db_tables +
  operatorPolicy :: string
  operatorDisplay :: string
  firstNumber :: int
  lastNumber :: int
  dbSequence :: int
  expiresNat :: int
  expiresUdp :: int
  expiresTcp :: int
  msgRetention :: int
  db_network :: string \<comment> \<open>\<open>Server::sym (CURRENT_NETWORK)\<close>\<close>
  db_clock :: qdatetime
  db_up :: bool
  db_fkeys :: bool

definition range_of :: "database \<Rightarrow> int \<times> int" where
  "range_of db = (firstNumber db, lastNumber db)"

section \<open>Executing\<close>

definition run :: "(database \<Rightarrow> database) \<Rightarrow> database \<Rightarrow> database" where
  "run stmt db = (if db_up db then stmt db else db)"

definition rows :: "(database \<Rightarrow> 'r list) \<Rightarrow> database \<Rightarrow> 'r list" where
  "rows query db = (if db_up db then query db else [])"

text \<open>\<open>getRecord\<close>: the first row, if any.\<close>

definition record1 :: "(database \<Rightarrow> 'r list) \<Rightarrow> database \<Rightarrow> 'r option" where
  "record1 query db = (case rows query db of [] \<Rightarrow> None | r # _ \<Rightarrow> Some r)"

section \<open>Queries\<close>

definition sel_extension :: "int \<Rightarrow> database \<Rightarrow> extension_row list" where
  "sel_extension num db = filter (\<lambda>x. x_number x = num) (t_extensions db)"

definition sel_extensions_of :: "string \<Rightarrow> database \<Rightarrow> extension_row list" where
  "sel_extensions_of name db = filter (\<lambda>x. x_authname x = name) (t_extensions db)"

definition sel_authorize :: "string \<Rightarrow> database \<Rightarrow> authorize_row list" where
  "sel_authorize name db = filter (\<lambda>a. a_name a = name) (t_authorize db)"

text \<open>\<open>Extensions JOIN Authorize ON Extensions.authname = Authorize.authname\<close>\<close>

definition sel_joined :: "database \<Rightarrow> (extension_row \<times> authorize_row) list" where
  "sel_joined db = concat (map (\<lambda>x. map (\<lambda>a. (x, a)) (sel_authorize (x_authname x) db)) (t_extensions db))"

definition sel_profile :: "int \<Rightarrow> database \<Rightarrow> (extension_row \<times> authorize_row) list" where
  "sel_profile num db = filter (\<lambda>(x, a). x_number x = num) (sel_joined db)"

definition sel_roster :: "database \<Rightarrow> (extension_row \<times> authorize_row) list" where
  "sel_roster db = sort_key (\<lambda>(x, a). x_number x) (sel_joined db)"

definition sel_endpoints :: "int \<Rightarrow> database \<Rightarrow> endpoint_row list" where
  "sel_endpoints num db = filter (\<lambda>p. p_extnbr p = num) (t_endpoints db)"

definition sel_endpoint :: "int \<Rightarrow> string \<Rightarrow> database \<Rightarrow> endpoint_row list" where
  "sel_endpoint num label db = filter (\<lambda>p. p_extnbr p = num \<and> p_label p = label) (t_endpoints db)"

definition sel_labeled :: "database \<Rightarrow> endpoint_row list" where
  "sel_labeled db = filter (\<lambda>p. p_label p \<noteq> ''NONE'') (t_endpoints db)"

text \<open>\<open>Extensions JOIN Endpoints ON Extensions.extnbr = Endpoints.extnbr WHERE Extensions.authname=?\<close>\<close>

definition sel_user_endpoints :: "string \<Rightarrow> database \<Rightarrow> endpoint_row list" where
  "sel_user_endpoints name db =
    concat (map (\<lambda>x. sel_endpoints (x_number x) db) (sel_extensions_of name db))"

definition sel_members :: "int \<Rightarrow> database \<Rightarrow> group_row list" where
  "sel_members grp db = filter (\<lambda>g. g_group g = grp) (t_groups db)"

definition sel_member :: "int \<Rightarrow> int \<Rightarrow> database \<Rightarrow> group_row list" where
  "sel_member grp num db = filter (\<lambda>g. g_group g = grp \<and> g_extnbr g = num) (t_groups db)"

definition sel_admin :: "string \<Rightarrow> int \<Rightarrow> database \<Rightarrow> admin_row list" where
  "sel_admin name num db = filter (\<lambda>n. n_authname n = name \<and> n_extnbr n = num) (t_admin db)"

definition sel_admins :: "string \<Rightarrow> database \<Rightarrow> admin_row list" where
  "sel_admins name db = filter (\<lambda>n. n_authname n = name) (t_admin db)"

definition sel_calling :: "string \<Rightarrow> int \<Rightarrow> database \<Rightarrow> calling_row list" where
  "sel_calling name num db = filter (\<lambda>c. c_authname c = name \<and> c_extnbr c = num) (t_calling db)"

definition sel_speeds :: "string \<Rightarrow> database \<Rightarrow> speed_row list" where
  "sel_speeds name db = filter (\<lambda>s. s_authname s = name \<and> s_extnbr s < 10) (t_speeds db)"

definition sel_outbox :: "int \<Rightarrow> database \<Rightarrow> outbox_row list" where
  "sel_outbox ep db = filter (\<lambda>b. o_endpoint b = ep) (t_outboxes db)"

text \<open>\<open>Outboxes JOIN Messages \<dots> WHERE endpoint=? AND msgstatus != 200\<close>\<close>

definition sel_pending :: "int \<Rightarrow> database \<Rightarrow> message_row list" where
  "sel_pending ep db = concat (map (\<lambda>b. filter (\<lambda>m. m_mid m = o_mid b) (t_messages db))
     (filter (\<lambda>b. o_endpoint b = ep \<and> o_status b \<noteq> 200) (t_outboxes db)))"

definition sel_deletes :: "int \<Rightarrow> database \<Rightarrow> delete_row list" where
  "sel_deletes ep db = filter (\<lambda>d. d_endpoint d = ep) (t_deletes db)"

section \<open>Insertions\<close>

text \<open>Append a row unless its key is taken.\<close>

definition add_row :: "('r \<Rightarrow> 'k) \<Rightarrow> 'r \<Rightarrow> 'r list \<Rightarrow> 'r list" where
  "add_row key r t = (if key r \<in> key ` set t then t else t @ [r])"

definition has_authname :: "string \<Rightarrow> database \<Rightarrow> bool" where
  "has_authname name db \<longleftrightarrow> \<not> db_fkeys db \<or> name \<in> a_name ` set (t_authorize db)"

definition has_extension :: "int \<Rightarrow> database \<Rightarrow> bool" where
  "has_extension num db \<longleftrightarrow> \<not> db_fkeys db \<or> num \<in> x_number ` set (t_extensions db)"

definition has_endpoint :: "int \<Rightarrow> database \<Rightarrow> bool" where
  "has_endpoint ep db \<longleftrightarrow> \<not> db_fkeys db \<or> ep \<in> p_endpoint ` set (t_endpoints db)"

definition has_message :: "int \<Rightarrow> database \<Rightarrow> bool" where
  "has_message mno db \<longleftrightarrow> \<not> db_fkeys db \<or> mno \<in> m_mid ` set (t_messages db)"

definition new_authorize :: "database \<Rightarrow> string \<Rightarrow> authorize_row" where
  "new_authorize db name = \<lparr>a_name = name, a_type = ''USER'', a_digest = ''NONE'', a_created = db_clock db,
    a_realm = [], a_secret = [], a_access = ''LOCAL'', a_email = [], a_fullname = [],
    a_fwdaway = -1, a_fwdbusy = -1, a_fwdnoanswer = -1\<rparr>"

definition ins_authorize :: "authorize_row \<Rightarrow> database \<Rightarrow> database" where
  "ins_authorize r db = db\<lparr>t_authorize := add_row a_name r (t_authorize db)\<rparr>"

definition ins_extension :: "int \<Rightarrow> string \<Rightarrow> string \<Rightarrow> database \<Rightarrow> database" where
  "ins_extension num name display db =
    (if has_authname name db
     then db\<lparr>t_extensions := add_row x_number \<lparr>x_number = num, x_authname = name, x_priority = 0,
            x_display = display, x_pubkey = []\<rparr> (t_extensions db)\<rparr>
     else db)"

definition ins_endpoint :: "int \<Rightarrow> string \<Rightarrow> database \<Rightarrow> database" where
  "ins_endpoint num label db =
    (if has_extension num db \<and> sel_endpoint num label db = []
     then db\<lparr>t_endpoints := t_endpoints db @ [\<lparr>p_endpoint = next_endpoint db, p_extnbr = num, p_label = label,
              p_agent = [], p_devkey = [], p_created = db_clock db,
              p_lastaccess = \<lparr>toMSecs = 0, offsetFromUtc = 0\<rparr>, p_lasturi = []\<rparr>],
            next_endpoint := next_endpoint db + 1\<rparr>
     else db)"

definition ins_group :: "int \<Rightarrow> int \<Rightarrow> database \<Rightarrow> database" where
  "ins_group grp num db =
    (if has_extension grp db \<and> has_extension num db
     then db\<lparr>t_groups := add_row (\<lambda>g. (g_group g, g_extnbr g))
            \<lparr>g_group = grp, g_extnbr = num, g_priority = 0\<rparr> (t_groups db)\<rparr>
     else db)"

definition ins_admin :: "string \<Rightarrow> int \<Rightarrow> database \<Rightarrow> database" where
  "ins_admin name num db =
    (if has_authname name db \<and> has_extension num db
     then db\<lparr>t_admin := t_admin db @ [\<lparr>n_authname = name, n_extnbr = num\<rparr>]\<rparr> else db)"

definition ins_calling :: "string \<Rightarrow> int \<Rightarrow> int \<Rightarrow> database \<Rightarrow> database" where
  "ins_calling name num priority db =
    (if has_authname name db \<and> has_extension num db
     then db\<lparr>t_calling := t_calling db @ [\<lparr>c_authname = name, c_extnbr = num, c_priority = priority\<rparr>]\<rparr> else db)"

definition ins_delete :: "string \<Rightarrow> int \<Rightarrow> qdatetime \<Rightarrow> database \<Rightarrow> database" where
  "ins_delete name ep created db =
    (if has_endpoint ep db
     then db\<lparr>t_deletes := t_deletes db @ [\<lparr>d_authname = name, d_status = 0, d_endpoint = ep, d_created = created\<rparr>]\<rparr>
     else db)"

definition ins_outbox :: "int \<Rightarrow> int \<Rightarrow> int \<Rightarrow> database \<Rightarrow> database" where
  "ins_outbox mno ep status db =
    (if has_message mno db \<and> has_endpoint ep db
     then db\<lparr>t_outboxes := add_row (\<lambda>b. (o_endpoint b, o_mid b))
            \<lparr>o_mid = mno, o_endpoint = ep, o_status = status\<rparr> (t_outboxes db)\<rparr>
     else db)"

text \<open>\<open>insert\<close> into \<open>Messages\<close>: the last insert id, or the invalid variant.\<close>

definition ins_message :: "(int \<Rightarrow> message_row) \<Rightarrow> database \<Rightarrow> database \<times> int option" where
  "ins_message row db =
    (if \<not> db_up db then (db, None)
     else (db\<lparr>t_messages := t_messages db @ [row (next_mid db)], next_mid := next_mid db + 1\<rparr>, Some (next_mid db)))"

section \<open>Updates\<close>

definition update_rows :: "('r \<Rightarrow> bool) \<Rightarrow> ('r \<Rightarrow> 'r) \<Rightarrow> 'r list \<Rightarrow> 'r list" where
  "update_rows cond f t = map (\<lambda>r. if cond r then f r else r) t"

definition upd_authorize :: "string \<Rightarrow> (authorize_row \<Rightarrow> authorize_row) \<Rightarrow> database \<Rightarrow> database" where
  "upd_authorize name f db = db\<lparr>t_authorize := update_rows (\<lambda>a. a_name a = name) f (t_authorize db)\<rparr>"

definition upd_extension :: "int \<Rightarrow> (extension_row \<Rightarrow> extension_row) \<Rightarrow> database \<Rightarrow> database" where
  "upd_extension num f db = db\<lparr>t_extensions := update_rows (\<lambda>x. x_number x = num) f (t_extensions db)\<rparr>"

definition upd_endpoint :: "int \<Rightarrow> (endpoint_row \<Rightarrow> endpoint_row) \<Rightarrow> database \<Rightarrow> database" where
  "upd_endpoint ep f db = db\<lparr>t_endpoints := update_rows (\<lambda>p. p_endpoint p = ep) f (t_endpoints db)\<rparr>"

definition upd_outbox :: "(outbox_row \<Rightarrow> bool) \<Rightarrow> int \<Rightarrow> database \<Rightarrow> database" where
  "upd_outbox cond status db = db\<lparr>t_outboxes := update_rows cond (o_status_update (\<lambda>_. status)) (t_outboxes db)\<rparr>"

definition upd_deletes :: "int \<Rightarrow> database \<Rightarrow> database" where
  "upd_deletes ep db = db\<lparr>t_deletes := update_rows (\<lambda>d. d_endpoint d = ep) (d_status_update (\<lambda>_. 1)) (t_deletes db)\<rparr>"

section \<open>Deletions\<close>

text \<open>With foreign keys enforced, the rows that refer to a deleted row go with it.\<close>

definition orphaned :: "database \<Rightarrow> bool \<Rightarrow> bool" where
  "orphaned db gone \<longleftrightarrow> db_fkeys db \<and> gone"

definition del_endpoints :: "(endpoint_row \<Rightarrow> bool) \<Rightarrow> database \<Rightarrow> database" where
  "del_endpoints cond db =
    (let gone = map p_endpoint (filter cond (t_endpoints db))
     in db\<lparr>t_endpoints := filter (\<lambda>p. \<not> cond p) (t_endpoints db),
           t_outboxes := filter (\<lambda>b. \<not> orphaned db (o_endpoint b \<in> set gone)) (t_outboxes db),
           t_deletes := filter (\<lambda>d. \<not> orphaned db (d_endpoint d \<in> set gone)) (t_deletes db)\<rparr>)"

definition del_messages :: "(message_row \<Rightarrow> bool) \<Rightarrow> database \<Rightarrow> database" where
  "del_messages cond db =
    (let gone = map m_mid (filter cond (t_messages db))
     in db\<lparr>t_messages := filter (\<lambda>m. \<not> cond m) (t_messages db),
           t_outboxes := filter (\<lambda>b. \<not> orphaned db (o_mid b \<in> set gone)) (t_outboxes db)\<rparr>)"

definition del_groups :: "int \<Rightarrow> database \<Rightarrow> database" where
  "del_groups grp db = db\<lparr>t_groups := filter (\<lambda>g. g_group g \<noteq> grp) (t_groups db)\<rparr>"

definition del_admin :: "(admin_row \<Rightarrow> bool) \<Rightarrow> database \<Rightarrow> database" where
  "del_admin cond db = db\<lparr>t_admin := filter (\<lambda>n. \<not> cond n) (t_admin db)\<rparr>"

definition del_calling :: "string \<Rightarrow> int \<Rightarrow> database \<Rightarrow> database" where
  "del_calling name num db =
    db\<lparr>t_calling := filter (\<lambda>c. \<not> (c_authname c = name \<and> c_extnbr c = num)) (t_calling db)\<rparr>"

definition del_sent_deletes :: "int \<Rightarrow> database \<Rightarrow> database" where
  "del_sent_deletes ep db =
    db\<lparr>t_deletes := filter (\<lambda>d. \<not> (d_status d = 1 \<and> d_endpoint d = ep)) (t_deletes db)\<rparr>"

text \<open>\<open>DELETE FROM Authorize\<close>, with the cascade over the extensions of the user.\<close>

definition cascade_authorize :: "string \<Rightarrow> database \<Rightarrow> database" where
  "cascade_authorize name db =
    (let nums = map x_number (sel_extensions_of name db);
         db = del_endpoints (\<lambda>p. p_extnbr p \<in> set nums) db
     in db\<lparr>t_extensions := filter (\<lambda>x. x_authname x \<noteq> name) (t_extensions db),
           t_speeds := filter (\<lambda>s. s_authname s \<noteq> name) (t_speeds db),
           t_calling := filter (\<lambda>c. c_authname c \<noteq> name \<and> c_extnbr c \<notin> set nums) (t_calling db),
           t_admin := filter (\<lambda>n. n_authname n \<noteq> name \<and> n_extnbr n \<notin> set nums) (t_admin db),
           t_groups := filter (\<lambda>g. g_group g \<notin> set nums \<and> g_extnbr g \<notin> set nums) (t_groups db)\<rparr>)"

definition del_authorize :: "string \<Rightarrow> database \<Rightarrow> database" where
  "del_authorize name db =
    (let db' = db\<lparr>t_authorize := filter (\<lambda>a. a_name a \<noteq> name) (t_authorize db)\<rparr>
     in if db_fkeys db \<and> name \<in> a_name ` set (t_authorize db) then cascade_authorize name db' else db')"

lemmas query_defs [sql_defs] =
  run_def rows_def record1_def sel_extension_def sel_extensions_of_def sel_authorize_def sel_joined_def
  sel_profile_def sel_roster_def sel_endpoints_def sel_endpoint_def sel_labeled_def sel_user_endpoints_def
  sel_members_def sel_member_def sel_admin_def sel_admins_def sel_calling_def sel_speeds_def
  sel_outbox_def sel_pending_def sel_deletes_def

lemmas statement_defs [sql_defs] =
  add_row_def has_authname_def has_extension_def has_endpoint_def has_message_def new_authorize_def
  ins_authorize_def ins_extension_def ins_endpoint_def ins_group_def ins_admin_def ins_calling_def
  ins_delete_def ins_outbox_def ins_message_def update_rows_def upd_authorize_def upd_extension_def
  upd_endpoint_def upd_outbox_def upd_deletes_def orphaned_def del_endpoints_def del_messages_def
  del_groups_def del_admin_def del_calling_def del_sent_deletes_def cascade_authorize_def del_authorize_def

end
