(* ===== verification/TableInv.thy ===== *)
theory TableInv
  imports Tables
begin

text \<open>
  The integrity of the database: keys are unique, generated ids are below the next id, and, when
  foreign keys are enforced, no row refers to a missing one. Every statement of the code keeps it.
\<close>

definition keys_ok :: "database \<Rightarrow> bool" where
  "keys_ok db \<longleftrightarrow> distinct (map a_name (t_authorize db)) \<and> distinct (map x_number (t_extensions db)) \<and>
     distinct (map p_endpoint (t_endpoints db)) \<and>
     distinct (map (\<lambda>p. (p_extnbr p, p_label p)) (t_endpoints db)) \<and>
     distinct (map (\<lambda>g. (g_group g, g_extnbr g)) (t_groups db)) \<and>
     distinct (map (\<lambda>b. (o_endpoint b, o_mid b)) (t_outboxes db)) \<and>
     distinct (map m_mid (t_messages db)) \<and>
     (\<forall>p \<in> set (t_endpoints db). p_endpoint p < next_endpoint db) \<and>
     (\<forall>m \<in> set (t_messages db). m_mid m < next_mid db)"

definition refs_ok :: "database \<Rightarrow> bool" where
  "refs_ok db \<longleftrightarrow> db_fkeys db \<longrightarrow>
     x_authname ` set (t_extensions db) \<subseteq> a_name ` set (t_authorize db) \<and>
     p_extnbr ` set (t_endpoints db) \<subseteq> x_number ` set (t_extensions db) \<and>
     g_group ` set (t_groups db) \<union> g_extnbr ` set (t_groups db) \<subseteq> x_number ` set (t_extensions db) \<and>
     n_authname ` set (t_admin db) \<subseteq> a_name ` set (t_authorize db) \<and>
     n_extnbr ` set (t_admin db) \<subseteq> x_number ` set (t_extensions db) \<and>
     c_authname ` set (t_calling db) \<subseteq> a_name ` set (t_authorize db) \<and>
     c_extnbr ` set (t_calling db) \<subseteq> x_number ` set (t_extensions db) \<and>
     s_authname ` set (t_speeds db) \<subseteq> a_name ` set (t_authorize db) \<and>
     o_endpoint ` set (t_outboxes db) \<union> d_endpoint ` set (t_deletes db) \<subseteq> p_endpoint ` set (t_endpoints db) \<and>
     o_mid ` set (t_outboxes db) \<subseteq> m_mid ` set (t_messages db)"

definition db_ok :: "database \<Rightarrow> bool" where
  "db_ok db \<longleftrightarrow> keys_ok db \<and> refs_ok db"

text \<open>The contract of a statement, with its parameters \<open>p\<close>, and what follows for its execution.\<close>

locale db_statement =
  fixes stmt :: "'p \<Rightarrow> database \<Rightarrow> database"
  assumes stmt_keys: "keys_ok db \<Longrightarrow> keys_ok (stmt p db)"
    and stmt_refs: "refs_ok db \<Longrightarrow> refs_ok (stmt p db)"
    and stmt_up: "db_up (stmt p db) = db_up db"
begin

lemma run_ok: "db_ok db \<Longrightarrow> db_ok (run (stmt p) db)"
  by (simp add: run_def db_ok_def stmt_keys stmt_refs)

lemma fold_ok: "db_ok db \<Longrightarrow> db_ok (fold (\<lambda>p. run (stmt p)) ps db)"
  by (induction ps arbitrary: db) (simp_all add: run_ok)

lemma fold_up: "db_up (fold (\<lambda>p. run (stmt p)) ps db) = db_up db"
  by (induction ps arbitrary: db) (simp_all add: run_def stmt_up)

end

section \<open>Tables with a key\<close>

lemma add_row_distinct: "distinct (map key t) \<Longrightarrow> distinct (map key (add_row key r t))"
  by (auto simp: add_row_def)

lemma add_row_key: "key ` set (add_row key r t) = insert (key r) (key ` set t)"
  by (auto simp: add_row_def)

lemma update_rows_map: "(\<And>r. key (f r) = key r) \<Longrightarrow> map key (update_rows cond f t) = map key t"
  by (simp add: update_rows_def)

lemma update_rows_image: "(\<And>r. key (f r) = key r) \<Longrightarrow> key ` set (update_rows cond f t) = key ` set t"
  by (metis list.set_map update_rows_map)

lemma distinct_map_filter_key: "distinct (map key t) \<Longrightarrow> distinct (map key (filter P t))"
  by (rule distinct_map_filter)

section \<open>Insertions\<close>

interpretation authorize_insert: db_statement ins_authorize
proof
  fix db :: database and p
  show "keys_ok (ins_authorize p db)" if "keys_ok db"
    using that by (simp add: keys_ok_def ins_authorize_def add_row_distinct)
  show "refs_ok (ins_authorize p db)" if "refs_ok db"
    using that by (auto simp: refs_ok_def ins_authorize_def add_row_key)
qed (simp add: ins_authorize_def)

interpretation extension_insert: db_statement "\<lambda>(num, name, display). ins_extension num name display"
proof
  fix db :: database and p :: "int \<times> string \<times> string"
  obtain num name display where p: "p = (num, name, display)" by (cases p)
  show "keys_ok ((\<lambda>(num, name, display). ins_extension num name display) p db)" if "keys_ok db"
    using that by (simp add: p keys_ok_def ins_extension_def add_row_distinct)
  show "refs_ok ((\<lambda>(num, name, display). ins_extension num name display) p db)" if "refs_ok db"
    using that by (auto simp: p refs_ok_def ins_extension_def has_authname_def add_row_def)
  show "db_up ((\<lambda>(num, name, display). ins_extension num name display) p db) = db_up db"
    by (simp add: p ins_extension_def)
qed

interpretation endpoint_insert: db_statement "\<lambda>(num, label). ins_endpoint num label"
proof
  fix db :: database and p :: "int \<times> string"
  obtain num label where p: "p = (num, label)" by (cases p)
  show "keys_ok ((\<lambda>(num, label). ins_endpoint num label) p db)" if "keys_ok db"
    using that by (fastforce simp: p keys_ok_def ins_endpoint_def sel_endpoint_def filter_empty_conv)
  show "refs_ok ((\<lambda>(num, label). ins_endpoint num label) p db)" if "refs_ok db"
    using that by (auto simp: p refs_ok_def ins_endpoint_def has_extension_def)
  show "db_up ((\<lambda>(num, label). ins_endpoint num label) p db) = db_up db"
    by (simp add: p ins_endpoint_def)
qed

interpretation group_insert: db_statement "\<lambda>(grp, num). ins_group grp num"
proof
  fix db :: database and p :: "int \<times> int"
  obtain grp num where p: "p = (grp, num)" by (cases p)
  show "keys_ok ((\<lambda>(grp, num). ins_group grp num) p db)" if "keys_ok db"
    using that by (simp add: p keys_ok_def ins_group_def add_row_distinct)
  show "refs_ok ((\<lambda>(grp, num). ins_group grp num) p db)" if "refs_ok db"
    using that by (auto simp: p refs_ok_def ins_group_def has_extension_def add_row_def)
  show "db_up ((\<lambda>(grp, num). ins_group grp num) p db) = db_up db" by (simp add: p ins_group_def)
qed

interpretation admin_insert: db_statement "\<lambda>(name, num). ins_admin name num"
  by unfold_locales
    (auto simp: ins_admin_def keys_ok_def refs_ok_def has_authname_def has_extension_def split: prod.splits)

interpretation calling_insert: db_statement "\<lambda>(name, num, priority). ins_calling name num priority"
  by unfold_locales
    (auto simp: ins_calling_def keys_ok_def refs_ok_def has_authname_def has_extension_def split: prod.splits)

interpretation delete_insert: db_statement "\<lambda>(name, ep, created). ins_delete name ep created"
  by unfold_locales (auto simp: ins_delete_def keys_ok_def refs_ok_def has_endpoint_def split: prod.splits)

interpretation outbox_insert: db_statement "\<lambda>(mno, ep, status). ins_outbox mno ep status"
proof
  fix db :: database and p :: "int \<times> int \<times> int"
  obtain mno ep status where p: "p = (mno, ep, status)" by (cases p)
  show "keys_ok ((\<lambda>(mno, ep, status). ins_outbox mno ep status) p db)" if "keys_ok db"
    using that by (simp add: p keys_ok_def ins_outbox_def add_row_distinct)
  show "refs_ok ((\<lambda>(mno, ep, status). ins_outbox mno ep status) p db)" if "refs_ok db"
    using that by (auto simp: p refs_ok_def ins_outbox_def has_endpoint_def has_message_def add_row_def)
  show "db_up ((\<lambda>(mno, ep, status). ins_outbox mno ep status) p db) = db_up db" by (simp add: p ins_outbox_def)
qed

lemma ins_message_ok:
  assumes "ins_message row db = (db', mno)" "\<And>i. m_mid (row i) = i" "db_ok db"
  shows "db_ok db'"
proof (cases "db_up db")
  case True
  then have db': "db' = db\<lparr>t_messages := t_messages db @ [row (next_mid db)], next_mid := next_mid db + 1\<rparr>"
    using assms(1) by (simp add: ins_message_def)
  have "keys_ok db'" using assms(2,3) by (fastforce simp: db' db_ok_def keys_ok_def)
  moreover have "refs_ok db'" using assms(3) by (auto simp: db' db_ok_def refs_ok_def)
  ultimately show ?thesis by (simp add: db_ok_def)
qed (use assms in \<open>simp add: ins_message_def\<close>)

section \<open>Updates\<close>

lemma upd_authorize_ok:
  "(\<And>r. a_name (f r) = a_name r) \<Longrightarrow> db_ok db \<Longrightarrow> db_ok (run (upd_authorize name f) db)"
  by (simp add: db_ok_def run_def upd_authorize_def keys_ok_def refs_ok_def update_rows_map update_rows_image)

lemma upd_extension_ok:
  "(\<And>r. x_number (f r) = x_number r \<and> x_authname (f r) = x_authname r) \<Longrightarrow> db_ok db \<Longrightarrow>
   db_ok (run (upd_extension num f) db)"
  by (simp add: db_ok_def run_def upd_extension_def keys_ok_def refs_ok_def update_rows_map update_rows_image)

lemma upd_endpoint_ok:
  assumes "\<And>r. p_endpoint (f r) = p_endpoint r \<and> p_extnbr (f r) = p_extnbr r \<and> p_label (f r) = p_label r" "db_ok db"
  shows "db_ok (run (upd_endpoint ep f) db)"
proof -
  let ?t = "update_rows (\<lambda>p. p_endpoint p = ep) f (t_endpoints db)"
  have maps: "map p_endpoint ?t = map p_endpoint (t_endpoints db)"
    "map (\<lambda>p. (p_extnbr p, p_label p)) ?t = map (\<lambda>p. (p_extnbr p, p_label p)) (t_endpoints db)"
    "p_endpoint ` set ?t = p_endpoint ` set (t_endpoints db)" "p_extnbr ` set ?t = p_extnbr ` set (t_endpoints db)"
    using assms(1) by (simp_all add: update_rows_map update_rows_image)
  have "\<forall>p \<in> set ?t. p_endpoint p < next_endpoint db"
    using assms by (auto simp: update_rows_def db_ok_def keys_ok_def)
  with assms(2) maps show ?thesis
    by (simp add: db_ok_def run_def upd_endpoint_def keys_ok_def refs_ok_def)
qed

interpretation outbox_update: db_statement "\<lambda>(cond, status). upd_outbox cond status"
  by unfold_locales
    (auto simp: upd_outbox_def keys_ok_def refs_ok_def update_rows_map update_rows_image split: prod.splits)

interpretation deletes_update: db_statement upd_deletes
  by unfold_locales (auto simp: upd_deletes_def keys_ok_def refs_ok_def update_rows_image)

section \<open>Deletions\<close>

lemma refs_kept: "ref ` A \<subseteq> key ` B \<Longrightarrow> ref ` {x \<in> A. ref x \<notin> key ` {x \<in> B. C x}} \<subseteq> key ` {x \<in> B. \<not> C x}"
  by blast

lemma refs_less: "ref ` A \<subseteq> K \<Longrightarrow> ref ` {x \<in> A. P x} \<subseteq> K"
  by blast

interpretation endpoint_delete: db_statement del_endpoints
proof
  fix db :: database and cond
  show "keys_ok (del_endpoints cond db)" if "keys_ok db"
    using that by (simp add: keys_ok_def del_endpoints_def Let_def distinct_map_filter_key)
  show "refs_ok (del_endpoints cond db)" if "refs_ok db"
    using that by (simp add: refs_ok_def del_endpoints_def Let_def orphaned_def refs_kept refs_less)
qed (simp add: del_endpoints_def Let_def)

interpretation message_delete: db_statement del_messages
proof
  fix db :: database and cond
  show "keys_ok (del_messages cond db)" if "keys_ok db"
    using that by (simp add: keys_ok_def del_messages_def Let_def distinct_map_filter_key)
  show "refs_ok (del_messages cond db)" if "refs_ok db"
    using that by (simp add: refs_ok_def del_messages_def Let_def orphaned_def refs_kept refs_less)
qed (simp add: del_messages_def Let_def)

interpretation group_delete: db_statement del_groups
  by unfold_locales (auto simp: del_groups_def keys_ok_def refs_ok_def distinct_map_filter_key)

interpretation admin_delete: db_statement del_admin
  by unfold_locales (auto simp: del_admin_def keys_ok_def refs_ok_def)

interpretation calling_delete: db_statement "\<lambda>(name, num). del_calling name num"
  by unfold_locales (auto simp: del_calling_def keys_ok_def refs_ok_def split: prod.splits)

interpretation sent_delete: db_statement del_sent_deletes
  by unfold_locales (auto simp: del_sent_deletes_def keys_ok_def refs_ok_def)

lemma del_endpoints_tables:
  "t_authorize (del_endpoints cond db) = t_authorize db" "t_extensions (del_endpoints cond db) = t_extensions db"
  "t_speeds (del_endpoints cond db) = t_speeds db" "t_calling (del_endpoints cond db) = t_calling db"
  "t_admin (del_endpoints cond db) = t_admin db" "t_groups (del_endpoints cond db) = t_groups db"
  "t_messages (del_endpoints cond db) = t_messages db" "db_fkeys (del_endpoints cond db) = db_fkeys db"
  "db_up (del_endpoints cond db) = db_up db"
  "t_endpoints (del_endpoints cond db) = filter (\<lambda>p. \<not> cond p) (t_endpoints db)"
  by (simp_all add: del_endpoints_def Let_def)

lemma del_authorize_keys: "keys_ok db \<Longrightarrow> keys_ok (del_authorize name db)"
proof -
  assume ok: "keys_ok db"
  let ?db = "db\<lparr>t_authorize := filter (\<lambda>a. a_name a \<noteq> name) (t_authorize db)\<rparr>"
  have base: "keys_ok ?db" using ok by (simp add: keys_ok_def distinct_map_filter_key)
  then have "keys_ok (del_endpoints cond ?db)" for cond by (rule endpoint_delete.stmt_keys)
  then have "keys_ok (cascade_authorize name ?db)"
    by (simp add: cascade_authorize_def Let_def keys_ok_def distinct_map_filter_key del_endpoints_tables)
  with base show ?thesis by (simp add: del_authorize_def Let_def)
qed

lemma refs_cascade:
  assumes "ref ` A \<subseteq> key ` B"
  shows "ref ` (A \<inter> {x. P x \<and> ref x \<notin> key ` (B \<inter> {y. C y})}) \<subseteq> key ` (B \<inter> {y. \<not> C y})"
    "ref ` (A \<inter> {x. ref x \<notin> key ` (B \<inter> {y. C y}) \<and> P x}) \<subseteq> key ` (B \<inter> {y. \<not> C y})"
    "ref ` (A \<inter> {x. ref x \<notin> key ` (B \<inter> {y. C y})}) \<subseteq> key ` (B \<inter> {y. \<not> C y})"
  using assms by blast+

lemma refs_names:
  assumes "ref ` A \<subseteq> key ` B"
  shows "ref ` (A \<inter> {x. ref x \<noteq> n}) \<subseteq> key ` (B \<inter> {y. key y \<noteq> n})"
    "ref ` (A \<inter> {x. ref x \<noteq> n \<and> P x}) \<subseteq> key ` (B \<inter> {y. key y \<noteq> n})"
  using assms by blast+

lemma refs_part: "ref ` A \<subseteq> K \<Longrightarrow> ref ` (A \<inter> S) \<subseteq> K"
  by blast

lemma set_filter_Int: "set (filter P t) = set t \<inter> {x. P x}"
  by auto

lemma cascade_refs:
  assumes "refs_ok db" "db_fkeys db"
  shows "refs_ok (cascade_authorize name (db\<lparr>t_authorize := filter (\<lambda>a. a_name a \<noteq> name) (t_authorize db)\<rparr>))"
proof -
  let ?X = "set (t_extensions db)" and ?N = "set (t_authorize db)" and ?P = "set (t_endpoints db)"
  have h: "x_authname ` ?X \<subseteq> a_name ` ?N" "p_extnbr ` ?P \<subseteq> x_number ` ?X"
    "g_group ` set (t_groups db) \<subseteq> x_number ` ?X" "g_extnbr ` set (t_groups db) \<subseteq> x_number ` ?X"
    "n_authname ` set (t_admin db) \<subseteq> a_name ` ?N" "n_extnbr ` set (t_admin db) \<subseteq> x_number ` ?X"
    "c_authname ` set (t_calling db) \<subseteq> a_name ` ?N" "c_extnbr ` set (t_calling db) \<subseteq> x_number ` ?X"
    "s_authname ` set (t_speeds db) \<subseteq> a_name ` ?N" "o_endpoint ` set (t_outboxes db) \<subseteq> p_endpoint ` ?P"
    "d_endpoint ` set (t_deletes db) \<subseteq> p_endpoint ` ?P" "o_mid ` set (t_outboxes db) \<subseteq> m_mid ` set (t_messages db)"
    using assms by (simp_all add: refs_ok_def)
  show ?thesis
    unfolding refs_ok_def cascade_authorize_def Let_def del_endpoints_def orphaned_def sel_extensions_of_def
    by (simp del: set_filter add: assms(2) set_filter_Int refs_cascade[OF h(2)] refs_cascade[OF h(3)]
        refs_cascade[OF h(4)] refs_cascade[OF h(6)] refs_cascade[OF h(8)] refs_names[OF h(1)] refs_names[OF h(5)]
        refs_names[OF h(7)] refs_names[OF h(9)] refs_cascade[OF h(10)] refs_cascade[OF h(11)] refs_part[OF h(12)])
qed

lemma del_authorize_refs:
  assumes "refs_ok db"
  shows "refs_ok (del_authorize name db)"
proof (cases "db_fkeys db \<and> name \<in> a_name ` set (t_authorize db)")
  case True
  then show ?thesis using cascade_refs[OF assms] by (simp add: del_authorize_def Let_def)
next
  case False
  then have "del_authorize name db = db\<lparr>t_authorize := filter (\<lambda>a. a_name a \<noteq> name) (t_authorize db)\<rparr>"
    by (simp only: del_authorize_def Let_def if_False)
  moreover have "db_fkeys db \<Longrightarrow> filter (\<lambda>a. a_name a \<noteq> name) (t_authorize db) = t_authorize db"
    using False by (auto intro!: filter_True)
  ultimately show ?thesis using assms by (simp add: refs_ok_def)
qed

interpretation authorize_delete: db_statement del_authorize
proof
  fix db :: database and name
  show "db_up (del_authorize name db) = db_up db"
    by (simp add: del_authorize_def cascade_authorize_def Let_def del_endpoints_tables)
qed (simp_all add: del_authorize_keys del_authorize_refs)

section \<open>Reading by key\<close>

lemma unique_key:
  assumes "distinct (map key t)"
  shows "filter (\<lambda>r. key r = k) t = [] \<or> (\<exists>r. filter (\<lambda>r. key r = k) t = [r])"
  using assms
proof (induction t)
  case (Cons r t)
  show ?case
  proof (cases "key r = k")
    case True
    with Cons.prems have "\<forall>x \<in> set t. key x \<noteq> k" by (metis distinct.simps(2) image_eqI list.simps(9) list.set_map)
    then have "filter (\<lambda>r. key r = k) t = []" by simp
    with True show ?thesis by simp
  qed (use Cons in simp)
qed simp

lemma sel_extension_unique: "keys_ok db \<Longrightarrow> sel_extension num db = [] \<or> (\<exists>x. sel_extension num db = [x])"
  unfolding sel_extension_def by (rule unique_key) (simp add: keys_ok_def)

lemma sel_authorize_unique: "keys_ok db \<Longrightarrow> sel_authorize name db = [] \<or> (\<exists>a. sel_authorize name db = [a])"
  unfolding sel_authorize_def by (rule unique_key) (simp add: keys_ok_def)

lemma sel_profile_Some:
  "record1 (sel_profile num) db = Some (x, a) \<Longrightarrow>
   x \<in> set (t_extensions db) \<and> x_number x = num \<and> a \<in> set (t_authorize db) \<and> x_authname x = a_name a"
proof -
  assume "record1 (sel_profile num) db = Some (x, a)"
  then have "(x, a) \<in> set (sel_profile num db)"
    by (auto simp: record1_def rows_def split: list.splits if_splits)
  then show ?thesis by (auto simp: sel_profile_def sel_joined_def sel_authorize_def)
qed

lemma record1_down [simp]: "\<not> db_up db \<Longrightarrow> record1 q db = None"
  by (simp add: record1_def rows_def)

lemma run_down [simp]: "\<not> db_up db \<Longrightarrow> run stmt db = db"
  by (simp add: run_def)

lemma rows_down [simp]: "\<not> db_up db \<Longrightarrow> rows q db = []"
  by (simp add: rows_def)

end
