(* ===== verification/Dispatch.thy ===== *)
theory Dispatch
  imports Answers
begin

text \<open>
  \<open>Server/context.cpp\<close>: how a context turns an event of its SIP stack into a reply or a signal to
  the stack and database threads (\<open>Context::process\<close>), which of these signals are connected
  (\<open>Context::run\<close>), and the event loop step around them. The value \<open>None\<close> is a null pointer
  dereference.
\<close>

datatype (plugins only: code size) ctx_signal =
    REQUEST_REGISTER event | REQUEST_OPTIONS event | REQUEST_ROSTER event | REQUEST_DEVLIST event
  | REQUEST_DEVKILL event | REQUEST_PENDING event | REQUEST_PROFILE event | REQUEST_TOPIC event
  | REQUEST_COVERAGE event | REQUEST_AUTHORIZE event | REQUEST_MEMBERSHIP event
  | REQUEST_FORWARDING event | REQUEST_DEAUTHORIZE event | REQUEST_ADMIN event | REQUEST_DROP event
  | ACK_PENDING event | LOCAL_MESSAGE event | OUTBOUND_MESSAGE event
  | MESSAGE_RESPONSE string string int

type_synonym outcome = "bool \<times> ctx_signal effect list"

section \<open>The guards of the requests\<close>

definition unlabeled :: "event \<Rightarrow> bool" where
  "unlabeled ev \<longleftrightarrow> label_of ev = ''NONE'' \<or> netProto (ev_context ev) \<noteq> IPPROTO_TCP"

definition signal :: "ctx_signal \<Rightarrow> outcome" where
  "signal s = (False, [Emit s])"

definition process_register :: "event \<Rightarrow> outcome" where
  "process_register ev =
    (if ctx_allow (ev_context ev) AND ALLOW_REGISTRY = 0 then reply ev SIP_METHOD_NOT_ALLOWED
     else if ev_number ev < 1 then reply ev SIP_FORBIDDEN
     else (True, [Emit (REQUEST_REGISTER ev)]))"

definition process_numbered :: "event \<Rightarrow> ctx_signal \<Rightarrow> outcome" where
  "process_numbered ev s =
    (if ev_number ev < 1 \<or> unlabeled ev then reply ev SIP_METHOD_NOT_ALLOWED else signal s)"

definition process_addressed :: "event \<Rightarrow> osip_message \<Rightarrow> outcome \<Rightarrow> outcome" where
  "process_addressed ev msg rest =
    (if to_username msg = None then reply ev SIP_ADDRESS_INCOMPLETE
     else if ev_number ev < 1 \<or> \<not> ev_toLocal ev then reply ev SIP_FORBIDDEN
     else if unlabeled ev then reply ev SIP_METHOD_NOT_ALLOWED
     else rest)"

definition process_profile :: "event \<Rightarrow> osip_message \<Rightarrow> outcome" where
  "process_profile ev msg = process_addressed ev msg
    (if contentType_of ev \<noteq> ''profile/json'' \<and> length (body_of ev) > 0 then reply ev SIP_NOT_ACCEPTABLE_HERE
     else signal (REQUEST_PROFILE ev))"

definition process_empty :: "event \<Rightarrow> osip_message \<Rightarrow> ctx_signal \<Rightarrow> outcome" where
  "process_empty ev msg s = process_addressed ev msg
    (if length (body_of ev) > 0 then reply ev SIP_NOT_ACCEPTABLE_HERE else signal s)"

definition process_authorizing :: "event \<Rightarrow> osip_message \<Rightarrow> outcome \<Rightarrow> outcome" where
  "process_authorizing ev msg rest =
    (if ev_number ev < 1 \<or> unlabeled ev then reply ev SIP_METHOD_NOT_ALLOWED
     else if to_username msg = None then reply ev SIP_ADDRESS_INCOMPLETE
     else if \<not> ev_toLocal ev then reply ev SIP_FORBIDDEN
     else rest)"

definition process_authorize :: "event \<Rightarrow> osip_message \<Rightarrow> outcome" where
  "process_authorize ev msg = process_authorizing ev msg
    (if contentType_of ev \<noteq> ''authorize/json'' \<or> length (body_of ev) < 1
     then reply ev SIP_NOT_ACCEPTABLE_HERE else signal (REQUEST_AUTHORIZE ev))"

definition process_ack :: "event \<Rightarrow> outcome" where
  "process_ack ev =
    (if ev_number ev < 1 \<or> label_of ev = ''NONE'' then reply ev SIP_METHOD_NOT_ALLOWED
     else signal (ACK_PENDING ev))"

text \<open>
  The \<open>MESSAGE\<close> branch does not return after it has emitted its signal: control falls out of the
  chain of \<open>if\<close>s to the \<open>reply (ev, SIP_NOT_ACCEPTABLE_HERE)\<close> at its end.
\<close>

definition from_complete :: "osip_message \<Rightarrow> bool" where
  "from_complete msg \<longleftrightarrow> (case from_uri msg of None \<Rightarrow> False
     | Some u \<Rightarrow> uri_username u \<noteq> None \<and> uri_host u \<noteq> None)"

definition fall_through :: "event \<Rightarrow> ctx_signal effect list \<Rightarrow> outcome" where
  "fall_through ev effs = (case reply ev SIP_NOT_ACCEPTABLE_HERE of (b, out) \<Rightarrow> (b, effs @ out))"

definition process_message :: "qt_lib \<Rightarrow> bool \<Rightarrow> event \<Rightarrow> osip_message \<Rightarrow> outcome" where
  "process_message Q built ev msg =
    (if to_username msg = None then reply ev SIP_ADDRESS_INCOMPLETE
     else if ev_number ev < 1 \<and> \<not> ev_toLocal ev then reply ev SIP_FORBIDDEN
     else if ev_toLocal ev \<and> ev_number ev < 0 then fall_through ev [Emit (LOCAL_MESSAGE ev)]
     else if \<not> from_complete msg then reply ev SIP_ADDRESS_INCOMPLETE
     else if contentType_of ev \<noteq> ''text/plain'' \<or> length (body_of ev) > 160 then reply ev SIP_FORBIDDEN
     else if ev_toLocal ev then fall_through ev
       ((if ev_number ev > 0 \<and> label_of ev \<noteq> ''NONE'' then snd (answerWithTimestamp Q built ev SIP_OK) else []) @
        [Emit (LOCAL_MESSAGE ev)])
     else fall_through ev [Emit (OUTBOUND_MESSAGE ev)])"

section \<open>The switch\<close>

definition process_new :: "qt_lib \<Rightarrow> bool \<Rightarrow> event \<Rightarrow> osip_message \<Rightarrow> outcome" where
  "process_new Q built ev msg =
    (if MSG_IS ''OPTIONS'' msg then
       (if ev_isLocal ev \<and> \<not> hasUser (ev_target ev) then reply ev SIP_OK else (True, [Emit (REQUEST_OPTIONS ev)]))
     else if MSG_IS ''REGISTER'' msg then process_register ev
     else if MSG_IS ''X-ROSTER'' msg then process_numbered ev (REQUEST_ROSTER ev)
     else if MSG_IS ''X-PROFILE'' msg then process_profile ev msg
     else if MSG_IS ''X-COVERAGE'' msg then process_addressed ev msg (signal (REQUEST_COVERAGE ev))
     else if MSG_IS ''X-FORWARDING'' msg then process_addressed ev msg (signal (REQUEST_FORWARDING ev))
     else if MSG_IS ''X-ADMIN'' msg then process_empty ev msg (REQUEST_ADMIN ev)
     else if MSG_IS ''X-DROP'' msg then process_empty ev msg (REQUEST_DROP ev)
     else if MSG_IS ''X-MEMBERSHIP'' msg then process_empty ev msg (REQUEST_MEMBERSHIP ev)
     else if MSG_IS ''X-TOPIC'' msg then process_addressed ev msg (signal (REQUEST_TOPIC ev))
     else if MSG_IS ''X-DEVLIST'' msg then process_numbered ev (REQUEST_DEVLIST ev)
     else if MSG_IS ''X-DEVKILL'' msg then process_numbered ev (REQUEST_DEVKILL ev)
     else if MSG_IS ''X-DEAUTHORIZE'' msg then process_authorizing ev msg (signal (REQUEST_DEAUTHORIZE ev))
     else if MSG_IS ''X-AUTHORIZE'' msg then process_authorize ev msg
     else if MSG_IS ''X-PENDING'' msg then process_numbered ev (REQUEST_PENDING ev)
     else if MSG_IS ''A-PENDING'' msg then process_ack ev
     else if MSG_IS ''MESSAGE'' msg then process_message Q built ev msg
     else reply ev SIP_NOT_ACCEPTABLE_HERE)"

definition messageResponse :: "event \<Rightarrow> ctx_signal effect list" where
  "messageResponse ev =
    (case ev_sent ev of None \<Rightarrow> []
     | Some msg \<Rightarrow> (case header_get msg ''x-mid'' 0 of None \<Rightarrow> []
       | Some hdr \<Rightarrow> (case (hdr, header_value msg ''x-ep'') of
           (Some m, Some ep) \<Rightarrow> if ev_status ev > 0 then [Emit (MESSAGE_RESPONSE (cstr m) (cstr ep) (ev_status ev))] else []
         | _ \<Rightarrow> [])))"

definition process :: "qt_lib \<Rightarrow> bool \<Rightarrow> event \<Rightarrow> outcome option" where
  "process Q built ev =
    (if ev_type ev \<in> {MESSAGE_REQUESTFAILURE, MESSAGE_ANSWERED} then
       (case ev_sent ev of None \<Rightarrow> None
        | Some msg \<Rightarrow> Some (True, if MSG_IS ''MESSAGE'' msg then messageResponse ev else []))
     else if ev_type ev = MESSAGE_NEW then map_option (process_new Q built ev) (ev_message ev)
     else Some (True, []))"

section \<open>Connections\<close>

text \<open>The signals \<open>run\<close> connects for a context; the others are lost.\<close>

definition connected :: "sip_context \<Rightarrow> ctx_signal \<Rightarrow> bool" where
  "connected ctx s = (case s of
       REQUEST_REGISTER _ \<Rightarrow> ctx_allow ctx AND ALLOW_REGISTRY \<noteq> 0
     | LOCAL_MESSAGE _ \<Rightarrow> True
     | MESSAGE_RESPONSE _ _ _ \<Rightarrow> True
     | REQUEST_OPTIONS _ \<Rightarrow> False
     | OUTBOUND_MESSAGE _ \<Rightarrow> False
     | _ \<Rightarrow> netProto ctx = IPPROTO_TCP)"

text \<open>One turn of the loop of \<open>run\<close> with an event: what is delivered, and the default action.\<close>

definition run_event :: "qt_lib \<Rightarrow> bool \<Rightarrow> bool \<Rightarrow> event \<Rightarrow> (ctx_signal effect list \<times> bool) option" where
  "run_event Q built up ev =
    (if \<not> up then Some ([], False)
     else do { (b, effs) \<leftarrow> process Q built ev;
               Some (filter (\<lambda>e. case e of Emit s \<Rightarrow> connected (ev_context ev) s | _ \<Rightarrow> True) effs, b) })"

section \<open>Lemmas\<close>

text \<open>The request of a signal: its event and what the handlers may rely on.\<close>

fun signal_event :: "ctx_signal \<Rightarrow> event option" where
  "signal_event (MESSAGE_RESPONSE _ _ _) = None"
| "signal_event (REQUEST_REGISTER ev) = Some ev" | "signal_event (REQUEST_OPTIONS ev) = Some ev"
| "signal_event (REQUEST_ROSTER ev) = Some ev" | "signal_event (REQUEST_DEVLIST ev) = Some ev"
| "signal_event (REQUEST_DEVKILL ev) = Some ev" | "signal_event (REQUEST_PENDING ev) = Some ev"
| "signal_event (REQUEST_PROFILE ev) = Some ev" | "signal_event (REQUEST_TOPIC ev) = Some ev"
| "signal_event (REQUEST_COVERAGE ev) = Some ev" | "signal_event (REQUEST_AUTHORIZE ev) = Some ev"
| "signal_event (REQUEST_MEMBERSHIP ev) = Some ev" | "signal_event (REQUEST_FORWARDING ev) = Some ev"
| "signal_event (REQUEST_DEAUTHORIZE ev) = Some ev" | "signal_event (REQUEST_ADMIN ev) = Some ev"
| "signal_event (REQUEST_DROP ev) = Some ev" | "signal_event (ACK_PENDING ev) = Some ev"
| "signal_event (LOCAL_MESSAGE ev) = Some ev" | "signal_event (OUTBOUND_MESSAGE ev) = Some ev"

fun addresses_user :: "ctx_signal \<Rightarrow> bool" where
  "addresses_user (REQUEST_PROFILE _) = True" | "addresses_user (REQUEST_TOPIC _) = True"
| "addresses_user (REQUEST_COVERAGE _) = True" | "addresses_user (REQUEST_AUTHORIZE _) = True"
| "addresses_user (REQUEST_MEMBERSHIP _) = True" | "addresses_user (REQUEST_FORWARDING _) = True"
| "addresses_user (REQUEST_DEAUTHORIZE _) = True" | "addresses_user (REQUEST_ADMIN _) = True"
| "addresses_user (REQUEST_DROP _) = True" | "addresses_user (LOCAL_MESSAGE _) = True"
| "addresses_user (OUTBOUND_MESSAGE _) = True" | "addresses_user _ = False"

fun from_device :: "ctx_signal \<Rightarrow> bool" where
  "from_device (REQUEST_REGISTER _) = False" | "from_device (REQUEST_OPTIONS _) = False"
| "from_device (ACK_PENDING _) = False" | "from_device (LOCAL_MESSAGE _) = False"
| "from_device (OUTBOUND_MESSAGE _) = False" | "from_device (MESSAGE_RESPONSE _ _ _) = False"
| "from_device _ = True"

text \<open>What every outcome of \<open>process_new\<close> satisfies.\<close>

definition outcome_ok :: "event \<Rightarrow> osip_message \<Rightarrow> outcome \<Rightarrow> bool" where
  "outcome_ok ev msg out \<longleftrightarrow> (\<forall>s \<in> set (emitted (snd out)).
     signal_event s = Some ev \<and>
     (addresses_user s \<longrightarrow> to_username msg \<noteq> None) \<and>
     (from_device s \<longrightarrow> ev_number ev \<ge> 1 \<and> label_of ev \<noteq> ''NONE'' \<and> netProto (ev_context ev) = IPPROTO_TCP))"

lemma outcome_ok_reply [simp]: "outcome_ok ev msg (reply ev code)"
  by (simp add: outcome_ok_def)

lemma outcome_ok_numbered: "signal_event s = Some ev \<Longrightarrow> \<not> addresses_user s \<Longrightarrow> outcome_ok ev msg (process_numbered ev s)"
  by (simp add: process_numbered_def outcome_ok_def signal_def unlabeled_def)

lemma outcome_ok_signal:
  "\<lbrakk>signal_event s = Some ev; to_username msg \<noteq> None; ev_number ev \<ge> 1; \<not> unlabeled ev\<rbrakk> \<Longrightarrow> outcome_ok ev msg (signal s)"
  by (simp add: outcome_ok_def signal_def unlabeled_def)

lemma outcome_ok_addressed:
  "(to_username msg \<noteq> None \<Longrightarrow> ev_number ev \<ge> 1 \<Longrightarrow> \<not> unlabeled ev \<Longrightarrow> outcome_ok ev msg rest) \<Longrightarrow>
   outcome_ok ev msg (process_addressed ev msg rest)"
  by (simp add: process_addressed_def)

lemma outcome_ok_authorizing:
  "(to_username msg \<noteq> None \<Longrightarrow> ev_number ev \<ge> 1 \<Longrightarrow> \<not> unlabeled ev \<Longrightarrow> outcome_ok ev msg rest) \<Longrightarrow>
   outcome_ok ev msg (process_authorizing ev msg rest)"
  by (simp add: process_authorizing_def)

lemma outcome_ok_message: "outcome_ok ev msg (process_message Q built ev msg)"
  by (simp add: process_message_def outcome_ok_def fall_through_def split: prod.split)
    (simp add: reply_def)

lemma process_new_ok: "outcome_ok ev msg (process_new Q built ev msg)"
  by (simp add: process_new_def outcome_ok_numbered outcome_ok_message process_profile_def process_empty_def
      process_authorize_def outcome_ok_addressed outcome_ok_authorizing outcome_ok_signal)
    (simp add: process_register_def process_ack_def outcome_ok_def signal_def)

definition one_outcome :: "outcome \<Rightarrow> bool" where
  "one_outcome out \<longleftrightarrow> length (emitted (snd out)) + length (answers (snd out)) = 1"

lemma one_outcome_simps [simp]:
  "ev_type ev = MESSAGE_NEW \<Longrightarrow> one_outcome (reply ev code)" "one_outcome (signal s)"
  "one_outcome (b, [Emit s])"
  by (simp_all add: one_outcome_def signal_def)

lemma one_outcome_addressed:
  "ev_type ev = MESSAGE_NEW \<Longrightarrow> one_outcome rest \<Longrightarrow> one_outcome (process_addressed ev msg rest)"
  "ev_type ev = MESSAGE_NEW \<Longrightarrow> one_outcome rest \<Longrightarrow> one_outcome (process_authorizing ev msg rest)"
  "ev_type ev = MESSAGE_NEW \<Longrightarrow> one_outcome (process_numbered ev s)"
  by (simp_all add: process_addressed_def process_authorizing_def process_numbered_def)

lemma one_outcome_branches:
  assumes "ev_type ev = MESSAGE_NEW"
  shows "one_outcome (process_profile ev msg)" "one_outcome (process_empty ev msg s)"
    "one_outcome (process_authorize ev msg)" "one_outcome (process_register ev)" "one_outcome (process_ack ev)"
  using assms
  by (simp_all add: process_profile_def process_empty_def process_authorize_def process_register_def
      process_ack_def one_outcome_addressed)

lemma process_new_one:
  assumes "ev_type ev = MESSAGE_NEW" "\<not> MSG_IS ''MESSAGE'' msg"
  shows "one_outcome (process_new Q built ev msg)"
  using assms(2) unfolding process_new_def
  by (simp add: one_outcome_branches[OF assms(1)] one_outcome_addressed[OF assms(1)] assms(1) if_bool_eq_conj)

lemma process_message_rejected:
  assumes "ev_type ev = MESSAGE_NEW" "emitted (snd (process_message Q built ev msg)) \<noteq> []"
  shows "answers (snd (process_message Q built ev msg)) \<in> {[SIP_NOT_ACCEPTABLE_HERE], [SIP_OK, SIP_NOT_ACCEPTABLE_HERE]}"
proof -
  have reply: "reply ev SIP_NOT_ACCEPTABLE_HERE = (True, [Options_answer (ev_tid ev) SIP_NOT_ACCEPTABLE_HERE])"
    using assms(1) by (simp add: reply_def)
  have "answers (snd (answerWithTimestamp Q built ev SIP_OK)) \<in> {[], [SIP_OK]}"
    by (simp add: answerWithTimestamp_def)
  with assms show ?thesis
    by (simp add: process_message_def fall_through_def reply split: if_splits) blast
qed

lemma MSG_IS_method: "MSG_IS n msg \<Longrightarrow> MSG_IS m msg \<longleftrightarrow> n = m"
  by (auto simp: MSG_IS_def)

lemma process_new_message: "MSG_IS ''MESSAGE'' msg \<Longrightarrow> process_new Q built ev msg = process_message Q built ev msg"
  by (simp add: process_new_def MSG_IS_method)

section \<open>Properties\<close>

definition sample_uri :: "string \<Rightarrow> osip_uri" where
  "sample_uri user = \<lparr>uri_scheme = Some ''sip'', uri_username = Some user, uri_host = Some ''h'', uri_port = None\<rparr>"

definition sample_request :: "string \<Rightarrow> string option \<Rightarrow> osip_message" where
  "sample_request meth body =
    \<lparr>msg_status = 0, msg_reason = [], msg_method = meth, msg_req_uri = Some (sample_uri ''102''),
     msg_from = Some \<lparr>from_displayname = None, from_url = Some (sample_uri ''101'')\<rparr>,
     msg_to = Some \<lparr>from_displayname = None, from_url = Some (sample_uri ''102'')\<rparr>,
     msg_contacts = [], msg_vias = [], msg_record_routes = [], msg_routes = [], msg_allows = [],
     msg_authorizations = [], msg_content_type = Some \<lparr>ct_type = Some ''text'', ct_subtype = Some ''plain''\<rparr>,
     msg_headers = [], msg_body = body\<rparr>"

definition sample_request_event :: "osip_message \<Rightarrow> event" where
  "sample_request_event msg = (sample_event [] [] 60)\<lparr>ev_message := Some msg,
     ev_parsed := parsed_empty\<lparr>ev_label := ''a'', ev_contentType := ''text/plain''\<rparr>\<rparr>"


lemma sample_request_process:
  "process sample_qt True (sample_request_event (sample_request ''X-TOPIC'' None)) =
    Some (False, [Emit (REQUEST_TOPIC (sample_request_event (sample_request ''X-TOPIC'' None)))])"
  by (simp add: process_def process_new_def sample_request_event_def sample_request_def sample_event_def ev_type_def
      MSG_IS_def process_addressed_def to_username_def to_url_def sample_uri_def unlabeled_def signal_def sample_ctx_def)


text \<open>
  C19. Every request is answered once. For a new request other than \<open>MESSAGE\<close> the context either
  sends exactly one final answer, or emits exactly one signal whose handler answers; never both and
  never neither. A \<open>MESSAGE\<close> that is accepted (a signal is emitted) is also rejected: control falls
  out of its branch into the final \<open>reply (488)\<close>, after an early 200 or without one.
\<close>

theorem request_answered_once:
  assumes "process Q built ev = Some (b, effs)" "ev_type ev = MESSAGE_NEW" "ev_message ev = Some msg"
  shows "if MSG_IS ''MESSAGE'' msg
    then emitted effs = [] \<or> answers effs \<in> {[SIP_NOT_ACCEPTABLE_HERE], [SIP_OK, SIP_NOT_ACCEPTABLE_HERE]}
    else length (emitted effs) + length (answers effs) = 1"
proof -
  have out: "process_new Q built ev msg = (b, effs)"
    using assms by (simp add: process_def)
  show ?thesis
  proof (cases "MSG_IS ''MESSAGE'' msg")
    case True
    with out process_message_rejected[OF assms(2), of Q built msg] show ?thesis
      by (auto simp: process_new_message)
  next
    case False
    with process_new_one[OF assms(2) False, of Q built] out show ?thesis by (simp add: one_outcome_def)
  qed
qed

lemma request_answered_once_witness:
  "\<exists>ev effs b. process sample_qt True ev = Some (b, effs) \<and> emitted effs = [LOCAL_MESSAGE ev] \<and>
     answers effs = [SIP_OK, SIP_NOT_ACCEPTABLE_HERE]"
proof -
  let ?msg = "sample_request ''MESSAGE'' (Some ''hi'')"
  let ?ev = "sample_request_event ?msg"
  have new: "ev_type ?ev = MESSAGE_NEW" "ev_message ?ev = Some ?msg" "MSG_IS ''MESSAGE'' ?msg"
    by (simp_all add: ev_type_def sample_request_event_def sample_event_def sample_request_def MSG_IS_def)
  obtain b effs where out: "process sample_qt True ?ev = Some (b, effs)" "process_message sample_qt True ?ev ?msg = (b, effs)"
    using new by (cases "process_message sample_qt True ?ev ?msg") (simp add: process_def process_new_message)
  have "emitted effs = [LOCAL_MESSAGE ?ev] \<and> length (answers effs) = 2"
    using out(2) by (simp add: process_message_def sample_request_event_def sample_request_def sample_event_def
        to_username_def to_url_def from_complete_def from_uri_def sample_uri_def fall_through_def reply_def ev_type_def
        parsed_empty_def answerWithTimestamp_def) auto
  moreover from this request_answered_once[OF out(1) new(1,2)] new(3)
  have "answers effs = [SIP_OK, SIP_NOT_ACCEPTABLE_HERE]" by auto
  ultimately show ?thesis using out(1) by blast
qed

text \<open>
  A delivery failure is never reported. \<open>Context::process\<close> handles
  \<open>EXOSIP_MESSAGE_REQUESTFAILURE\<close>, but the event constructor decodes the status of answered
  messages only, so the status stays 0 and no \<open>MESSAGE_RESPONSE\<close> is emitted for a failed message.
\<close>

theorem delivery_failure_lost:
  assumes "Event_new Q lhn now stamp evt ctx seq = Some ev" "ex_type evt = MESSAGE_REQUESTFAILURE"
    "process Q built ev = Some (b, effs)"
  shows "effs = []"
  using assms
  by (auto simp: Event_new_def process_def Event_other_def ev_type_def ev_sent_def messageResponse_def
      split: option.splits if_splits)

definition sample_failure :: exosip_event where
  "sample_failure = \<lparr>ex_type = MESSAGE_REQUESTFAILURE,
     ex_request = Some ((sample_request ''MESSAGE'' None)\<lparr>msg_headers := [(''X-MID'', Some ''1''), (''X-EP'', Some ''2'')]\<rparr>),
     ex_response = Some ((sample_request [] None)\<lparr>msg_status := 486\<rparr>), ex_tid = 3, ex_did = 0, ex_cid = 0, ex_rid = 0\<rparr>"

lemma delivery_failure_lost_witness:
  "\<exists>ev. Event_new sample_qt ''h'' 0 \<lparr>toMSecs = 0, offsetFromUtc = 0\<rparr> sample_failure sample_ctx 0 = Some ev \<and>
     process sample_qt True ev = Some (True, [])"
proof -
  obtain ev where ev: "Event_new sample_qt ''h'' 0 \<lparr>toMSecs = 0, offsetFromUtc = 0\<rparr> sample_failure sample_ctx 0 = Some ev"
    by (simp add: Event_new_def sample_failure_def)
  then obtain effs where "process sample_qt True ev = Some (True, effs)"
    by (auto simp: Event_new_def Event_other_def process_def ev_type_def ev_sent_def sample_failure_def)
  with delivery_failure_lost[OF ev _ this] ev show ?thesis by (simp add: sample_failure_def)
qed

end
