(* ===== verification/Managers.thy ===== *)
theory Managers
  imports Dispatch
begin

text \<open>
  \<open>Server/manager.cpp\<close>: the SIP stack thread. Its slots receive the signals of the contexts, keep
  the registrations, authenticate requests and pass the accepted ones on to the database thread as
  signals. \<open>None\<close> is undefined behaviour (a dangling or null pointer).
\<close>

datatype (plugins only: code size) stack_signal =
    FindEndpoint event | ChangePending int | RemoveAuthorize event | ChangeAuthorize event
  | SendPending event int | RemoveDevice event string int | SendDevlist event | ChangeTopic event
  | ChangeForwarding event string int | ChangeCoverage event string int
  | DropExtension event string int | ChangeAdmin event string int
  | ChangeMembership event string int | ChangeProfile event string int | SendRoster event int
  | LastAccess int qdatetime string string string | ChangeRealm string

record manager =
  ServerHostname :: string
  ServerRealm :: string
  ServerBanner :: string
  ServerAliases :: "string list"
  ServerNames :: "string list"
  RosterSequence :: quint32

text \<open>The message the database asks the stack to send (a \<open>QVariantHash\<close> with one letter keys).\<close>

record message_data =
  md_from :: string
  md_to :: int
  md_display :: string
  md_type :: string
  md_body :: string
  md_subject :: string
  md_posted :: qdatetime
  md_sequence :: int
  md_expires :: int
  md_mid :: string

section \<open>Configuration\<close>

definition manager_start :: "string \<Rightarrow> manager" where
  "manager_start version = \<lparr>ServerHostname = [], ServerRealm = [],
    ServerBanner = ''Welcome to SipWitchQt '' @ version, ServerAliases = [], ServerNames = [],
    RosterSequence = 1\<rparr>"

definition updateRoster :: "manager \<Rightarrow> manager" where
  "updateRoster m = m\<lparr>RosterSequence := RosterSequence m + 1\<rparr>"

definition checkRoster :: "manager \<Rightarrow> quint32" where
  "checkRoster m = RosterSequence m mod 8192"

definition applyNames :: "manager \<Rightarrow> sip_context list \<Rightarrow> sip_context list" where
  "applyNames m contexts =
    map (applyHostnames (ServerAliases m @ ServerNames m) (ServerHostname m)) contexts"

text \<open>
  \<open>config key\<close> is \<open>config[key].toString()\<close>, empty when absent. \<open>zeroconf\<close> is the published host
  name when zeroconf is enabled.
\<close>

definition local_realm :: "string \<Rightarrow> string \<Rightarrow> string \<Rightarrow> string" where
  "local_realm realm network uuid =
    (if realm = [] then
       (if network = [] \<or> network = ''local'' \<or> network = ''localhost'' \<or> network = ''localdomain''
        then uuid else network)
     else realm)"

definition default_names :: "string \<Rightarrow> string option \<Rightarrow> string list" where
  "default_names localHostName zeroconf =
    [''127.0.0.1'', ''localhost'', localName localHostName, UtilFns.hostName localHostName] @
    (case zeroconf of Some n \<Rightarrow> [n] | None \<Rightarrow> []) @ [localName localHostName @ ''.local'']"

definition manager_applyConfig ::
  "string \<Rightarrow> string option \<Rightarrow> string \<Rightarrow> string \<Rightarrow> (string \<Rightarrow> string) \<Rightarrow> string list \<Rightarrow>
   manager \<times> sip_context list \<Rightarrow> (manager \<times> sip_context list) \<times> stack_signal effect list" where
  "manager_applyConfig localHostName zeroconf network uuid config lnames st =
    (case st of (m, contexts) \<Rightarrow>
     let m = m\<lparr>ServerNames := (if isEmptyStringList lnames then default_names localHostName zeroconf
               else lnames)\<rparr>;
         m = (if config ''banner'' \<noteq> [] then m\<lparr>ServerBanner := config ''banner''\<rparr> else m);
         realm = local_realm (config ''realm'') network uuid;
         m = m\<lparr>ServerHostname := config ''host''\<rparr>;
         out = (if realm \<noteq> ServerRealm m then [Emit (ChangeRealm realm)] else []);
         m = m\<lparr>ServerRealm := realm\<rparr>
     in ((m, applyNames m contexts), out))"

definition computeDigest :: "qt_lib \<Rightarrow> manager \<Rightarrow> string \<Rightarrow> string \<Rightarrow> algorithm \<Rightarrow> string" where
  "computeDigest Q m ident secret digest =
    (if secret = [] \<or> ident = [] then []
     else q_hash Q digest (ident @ '':'' @ ServerRealm m @ '':'' @ secret))"

section \<open>Authenticated requests\<close>

type_synonym stack_result = "(registrar \<times> stack_signal effect list) option"

text \<open>
  The body the request slots share: the sender must have a registration, else 403; without
  credentials it is challenged again with the same nonce; with wrong ones it gets the code of
  \<open>authenticate\<close>. \<open>granted\<close> is the statement after that.
\<close>

definition request_guard ::
  "qt_lib \<Rightarrow> int \<Rightarrow> bool \<Rightarrow> (event \<Rightarrow> registry \<Rightarrow> stack_signal effect list) \<Rightarrow> event \<Rightarrow> registrar \<Rightarrow> stack_result" where
  "request_guard Q now built granted ev rs = do {
     (rs, found) \<leftarrow> find_event now ev rs;
     case found of None \<Rightarrow> Some (rs, snd (reply ev SIP_FORBIDDEN))
     | Some p \<Rightarrow> do {
         reg \<leftarrow> deref rs p;
         if ev_authorization ev = None then Some (rs, snd (challenge built [] ev reg True))
         else (let result = authenticate Q now ev reg in
               if result \<noteq> SIP_OK then Some (rs, snd (reply ev result)) else Some (rs, granted ev reg)) } }"

definition ackPending :: "qt_lib \<Rightarrow> int \<Rightarrow> bool \<Rightarrow> event \<Rightarrow> registrar \<Rightarrow> stack_result" where
  "ackPending Q now built = request_guard Q now built
     (\<lambda>ev reg. snd (reply ev SIP_OK) @ [Emit (ChangePending (endpointId reg))])"

definition requestDeauthorize :: "qt_lib \<Rightarrow> int \<Rightarrow> bool \<Rightarrow> event \<Rightarrow> registrar \<Rightarrow> stack_result" where
  "requestDeauthorize Q now built = request_guard Q now built (\<lambda>ev reg. [Emit (RemoveAuthorize ev)])"

definition requestAuthorize :: "qt_lib \<Rightarrow> int \<Rightarrow> bool \<Rightarrow> event \<Rightarrow> registrar \<Rightarrow> stack_result" where
  "requestAuthorize Q now built = request_guard Q now built (\<lambda>ev reg. [Emit (ChangeAuthorize ev)])"

definition requestPending :: "qt_lib \<Rightarrow> int \<Rightarrow> bool \<Rightarrow> event \<Rightarrow> registrar \<Rightarrow> stack_result" where
  "requestPending Q now built = request_guard Q now built (\<lambda>ev reg. [Emit (SendPending ev (endpointId reg))])"

definition requestDevkill :: "qt_lib \<Rightarrow> int \<Rightarrow> bool \<Rightarrow> event \<Rightarrow> registrar \<Rightarrow> stack_result" where
  "requestDevkill Q now built = request_guard Q now built
     (\<lambda>ev reg. [Emit (RemoveDevice ev (userId reg) (endpointId reg))])"

definition requestDevlist :: "qt_lib \<Rightarrow> int \<Rightarrow> bool \<Rightarrow> event \<Rightarrow> registrar \<Rightarrow> stack_result" where
  "requestDevlist Q now built = request_guard Q now built (\<lambda>ev reg. [Emit (SendDevlist ev)])"

definition requestTopic :: "qt_lib \<Rightarrow> int \<Rightarrow> bool \<Rightarrow> event \<Rightarrow> registrar \<Rightarrow> stack_result" where
  "requestTopic Q now built = request_guard Q now built (\<lambda>ev reg. [Emit (ChangeTopic ev)])"

definition requestForwarding :: "qt_lib \<Rightarrow> int \<Rightarrow> bool \<Rightarrow> event \<Rightarrow> registrar \<Rightarrow> stack_result" where
  "requestForwarding Q now built = request_guard Q now built
     (\<lambda>ev reg. [Emit (ChangeForwarding ev (userId reg) (endpointId reg))])"

definition requestCoverage :: "qt_lib \<Rightarrow> int \<Rightarrow> bool \<Rightarrow> event \<Rightarrow> registrar \<Rightarrow> stack_result" where
  "requestCoverage Q now built = request_guard Q now built
     (\<lambda>ev reg. [Emit (ChangeCoverage ev (userId reg) (endpointId reg))])"

definition requestDrop :: "qt_lib \<Rightarrow> int \<Rightarrow> bool \<Rightarrow> event \<Rightarrow> registrar \<Rightarrow> stack_result" where
  "requestDrop Q now built = request_guard Q now built
     (\<lambda>ev reg. [Emit (DropExtension ev (userId reg) (endpointId reg))])"

definition requestAdmin :: "qt_lib \<Rightarrow> int \<Rightarrow> bool \<Rightarrow> event \<Rightarrow> registrar \<Rightarrow> stack_result" where
  "requestAdmin Q now built = request_guard Q now built
     (\<lambda>ev reg. [Emit (ChangeAdmin ev (userId reg) (endpointId reg))])"

definition requestMembership :: "qt_lib \<Rightarrow> int \<Rightarrow> bool \<Rightarrow> event \<Rightarrow> registrar \<Rightarrow> stack_result" where
  "requestMembership Q now built = request_guard Q now built
     (\<lambda>ev reg. [Emit (ChangeMembership ev (userId reg) (endpointId reg))])"

definition requestProfile :: "qt_lib \<Rightarrow> int \<Rightarrow> bool \<Rightarrow> event \<Rightarrow> registrar \<Rightarrow> stack_result" where
  "requestProfile Q now built = request_guard Q now built
     (\<lambda>ev reg. [Emit (ChangeProfile ev (userId reg) (endpointId reg))])"

definition requestRoster :: "qt_lib \<Rightarrow> int \<Rightarrow> bool \<Rightarrow> event \<Rightarrow> registrar \<Rightarrow> stack_result" where
  "requestRoster Q now built = request_guard Q now built (\<lambda>ev reg. [Emit (SendRoster ev (endpointId reg))])"

section \<open>Registration\<close>

text \<open>The lines of the \<open>application/xdp\<close> body.\<close>

definition xdp_body ::
  "manager \<Rightarrow> int \<times> int \<Rightarrow> int \<Rightarrow> string \<Rightarrow> registry \<Rightarrow> string" where
  "xdp_body m dbrange dbsequence bits reg =
    concat (map (\<lambda>(k, v). k @ ''='' @ v @ [CHR 0x0A])
     [(''v'', ''0''), (''b'', ServerBanner m), (''p'', userPrivs reg), (''d'', userDisplay reg),
      (''f'', number (fst dbrange)), (''l'', number (snd dbrange)),
      (''r'', number (sint (checkRoster m))), (''s'', number dbsequence),
      (''c'', reg_route reg), (''a'', bits)])"

definition refreshRegistration ::
  "qt_lib \<Rightarrow> int \<Rightarrow> bool \<Rightarrow> string \<Rightarrow> manager \<Rightarrow> int \<times> int \<Rightarrow> int \<Rightarrow> event \<Rightarrow> registrar \<Rightarrow> stack_result" where
  "refreshRegistration Q now built rand m dbrange dbsequence ev rs = do {
     (rs, found) \<leftarrow> find_event now ev rs;
     case found of None \<Rightarrow> Some (rs, [Emit (FindEndpoint ev)])
     | Some p \<Rightarrow> do {
         reg \<leftarrow> deref rs p;
         if ev_authorization ev = None then do {
           rs \<leftarrow> update_object p (\<lambda>reg. fst (challenge built rand ev reg False :: _ \<times> stack_signal effect list)) rs;
           Some (rs, snd (challenge built rand ev reg False)) }
         else do {
           let act = active reg;
           let result = snd (authorize Q now ev reg);
           rs \<leftarrow> update_object p (\<lambda>reg. fst (authorize Q now ev reg)) rs;
           reg \<leftarrow> deref rs p;
           let uri = reg_uri reg;
           out \<leftarrow> (if result = SIP_OK then do {
               bits \<leftarrow> bitmask Q rs;
               let xdp = (if label_of ev \<noteq> ''NONE'' then xdp_body m dbrange dbsequence bits reg else []);
               Some ((if \<not> act then [Emit (LastAccess (endpointId reg) (ev_timestamp ev) (ev_agent (ev_parsed ev))
                          (ev_deviceKey (ev_parsed ev)) uri)] else []) @
                     snd (context_authorize built ev reg xdp)) }
             else Some (snd (reply ev result)));
           rs \<leftarrow> (if hasExpired now reg then Registry_delete p rs else Some rs);
           Some (rs, out) } } }"

definition createRegistration ::
  "bool \<Rightarrow> string \<Rightarrow> int \<times> int \<Rightarrow> int \<Rightarrow> event \<Rightarrow> endpoint_hash option \<Rightarrow> registrar \<Rightarrow> stack_result" where
  "createRegistration built rand dbrange now ev endpoint rs =
    (case endpoint of None \<Rightarrow> Some (rs, snd (reply ev SIP_NOT_FOUND))
     | Some ep \<Rightarrow> do {
         (rs, p) \<leftarrow> Registry_new dbrange now ep rs;
         reg \<leftarrow> deref rs p;
         rs \<leftarrow> update_object p (\<lambda>reg. fst (challenge built rand ev reg False :: _ \<times> stack_signal effect list)) rs;
         Some (rs, snd (challenge built rand ev reg False)) })"

definition dropEndpoint :: "int \<Rightarrow> int \<Rightarrow> registrar \<Rightarrow> registrar option" where
  "dropEndpoint now endpoint rs = do {
     (rs, found) \<leftarrow> find_endpoint now endpoint rs;
     case found of None \<Rightarrow> Some rs | Some p \<Rightarrow> Registry_delete p rs }"

section \<open>Messages\<close>

text \<open>The sender or recipient of a message as the receiving endpoint sees it.\<close>

definition message_party :: "sip_context \<Rightarrow> registry \<Rightarrow> string \<Rightarrow> string" where
  "message_party ctx reg who =
    (if toInt who = reg_number reg \<or> who = userId reg
       then ctx_prefix ctx @ number (reg_number reg) @ ''@'' @ userOrigin reg
     else if indexOf who (CHR ''@'') < 1 then ctx_prefix ctx @ who @ ''@'' @ userOrigin reg
     else who)"

definition message_kind :: "registry \<Rightarrow> message_data \<Rightarrow> string \<times> string" where
  "message_kind reg d =
    (if userLabel reg = ''NONE'' \<and> md_type d = ''text/admin'' then (''text/plain'', ''X-Admin'')
     else (md_type d, md_subject d))"

definition send_to :: "qt_lib \<Rightarrow> bool \<Rightarrow> sip_context \<Rightarrow> registry \<Rightarrow> message_data \<Rightarrow> stack_signal effect list" where
  "send_to Q built ctx reg d =
    (case message_kind reg d of (type, topic) \<Rightarrow>
     if userLabel reg = ''NONE'' \<and> type \<noteq> ''text/plain'' then []
     else snd (context_message built ctx
        ([CHR 0x22] @ md_display d @ [CHR 0x22] @ '' <'' @ message_party ctx reg (md_from d) @ ''>'')
        (''<'' @ message_party ctx reg (number (md_to d)) @ ''>'')
        (ctx_prefix ctx @ reg_route reg)
        [(''Subject'', topic), (''X-MID'', md_mid d), (''X-EP'', number (endpointId reg)),
         (''X-TS'', q_isoDate Q (md_posted d)), (''X-MS'', number (md_sequence d))]
        type (md_body d)))"

definition sendMessage ::
  "qt_lib \<Rightarrow> int \<Rightarrow> bool \<Rightarrow> int \<Rightarrow> message_data \<Rightarrow> registrar \<Rightarrow> stack_result" where
  "sendMessage Q now built endpoint d rs = do {
     (rs, found) \<leftarrow> find_endpoint now endpoint rs;
     case found of None \<Rightarrow> Some (rs, [])
     | Some p \<Rightarrow> do {
         reg \<leftarrow> deref rs p;
         if \<not> active reg then Some (rs, [])
         else do { ctx \<leftarrow> serverContext reg; Some (rs, send_to Q built ctx reg d) } } }"

end
