(* ===== verification/Messaging.thy ===== *)
theory Messaging
  imports TableInv Managers
begin

text \<open>
  \<open>Database/database.cpp\<close>, messages: storing and fanning out text messages and administrative
  messages, the outboxes of the endpoints, pending messages and their acknowledgement. A slot
  gives the new database and its effects; \<open>None\<close> is a null pointer dereference. A \<open>QSet\<close> is a list
  without repetitions in the order of insertion.
\<close>

datatype db_signal =
    SendMessage int message_data | DisconnectEndpoint int | UpdateRoster
  | CreateEndpoint event "endpoint_hash option" | CopyOutboxes int int | SyncOutbox int
  | UpdateAuthorize bool

type_synonym db_result = "database \<times> db_signal effect list"

definition set_insert :: "'a \<Rightarrow> 'a list \<Rightarrow> 'a list" where
  "set_insert x xs = (if x \<in> set xs then xs else xs @ [x])"

definition addSecs :: "int \<Rightarrow> qdatetime \<Rightarrow> qdatetime" where
  "addSecs n when = when\<lparr>toMSecs := toMSecs when + n * 1000\<rparr>"

definition addDays :: "int \<Rightarrow> qdatetime \<Rightarrow> qdatetime" where
  "addDays n when = when\<lparr>toMSecs := toMSecs when + n * 86400000\<rparr>"

section \<open>Outboxes and access\<close>

text \<open>\<open>copyOutbox\<close> walks the rows the query found; the code inserts while it walks.\<close>

definition copyOutbox :: "int \<Rightarrow> int \<Rightarrow> database \<Rightarrow> database" where
  "copyOutbox source target db =
    fold (\<lambda>(mno, ep, status). run (ins_outbox mno ep status))
      (map (\<lambda>b. (o_mid b, target, 0)) (rows (sel_outbox source) db)) db"

definition syncOutbox :: "int \<Rightarrow> database \<Rightarrow> database" where
  "syncOutbox endpoint = run (upd_outbox (\<lambda>b. o_endpoint b = endpoint) 0)"

definition lastAccess :: "int \<Rightarrow> qdatetime \<Rightarrow> string \<Rightarrow> string \<Rightarrow> string \<Rightarrow> database \<Rightarrow> database" where
  "lastAccess endpoint timestamp agent deviceKey uri =
    (if length deviceKey > 0 then run (upd_endpoint endpoint (\<lambda>p. p\<lparr>p_lastaccess := timestamp, p_lasturi := uri,
         p_devkey := deviceKey, p_agent := agent\<rparr>))
     else run (upd_endpoint endpoint (\<lambda>p. p\<lparr>p_lastaccess := timestamp, p_lasturi := uri, p_agent := agent\<rparr>)))"

definition db_messageResponse :: "string \<Rightarrow> string \<Rightarrow> int \<Rightarrow> database \<Rightarrow> database" where
  "db_messageResponse mno ep status =
    (let message = toLongLong mno; endpoint = toLongLong ep
     in run (upd_outbox (\<lambda>b. o_mid b = message \<and> o_endpoint b = endpoint) status))"

definition cleanupMessages :: "database \<Rightarrow> database" where
  "cleanupMessages db =
    (let limit = addDays (- msgRetention db) (db_clock db)
     in run (del_messages (\<lambda>m. toMSecs (m_posted m) < toMSecs limit)) db)"

section \<open>Administrative messages\<close>

definition message_expiry :: "int \<Rightarrow> qdatetime \<Rightarrow> qdatetime" where
  "message_expiry secs posted = (if secs > 0 then addSecs secs posted else addDays 30 posted)"

definition post_outbox :: "int \<Rightarrow> int \<Rightarrow> message_data \<Rightarrow> int \<Rightarrow> db_result \<Rightarrow> db_result" where
  "post_outbox mno status data endpoint st = (case st of (db, out) \<Rightarrow>
     (run (ins_outbox mno endpoint status) db,
      if status = SIP_OK then out else out @ [Emit (SendMessage endpoint data)]))"

definition adminMessage ::
  "event \<Rightarrow> int \<Rightarrow> string \<Rightarrow> int \<Rightarrow> string \<Rightarrow> int \<Rightarrow> database \<Rightarrow> bool \<times> db_result" where
  "adminMessage ev to text from display secs db =
    (let sendList = map p_endpoint (rows (sel_endpoints to) db);
         posted = ev_timestamp ev;
         row = (\<lambda>i. \<lparr>m_mid = i, m_seq = ev_sequence ev, m_from = number from, m_to = number to,
            m_subject = subject_of ev, m_display = display, m_posted = posted,
            m_expires = message_expiry secs posted, m_type = ''admin'', m_text = text\<rparr>)
     in case ins_message row db of
       (db, None) \<Rightarrow> (False, (db, []))
     | (db, Some mno) \<Rightarrow>
         (let data = \<lparr>md_from = number from, md_to = to, md_display = display, md_type = ''text/admin'',
                md_body = text, md_subject = subject_of ev, md_posted = posted, md_sequence = ev_sequence ev,
                md_expires = secs, md_mid = number mno\<rparr>
          in (True, fold (post_outbox mno 0 data) sendList (db, []))))"

section \<open>Local messages\<close>

definition is_labeled :: "event \<Rightarrow> bool" where
  "is_labeled ev \<longleftrightarrow> ev_number ev > 0 \<and> label_of ev \<noteq> ''NONE''"

text \<open>The walk over the sender's own endpoints: its count, \<open>self\<close>, \<open>none\<close> and \<open>sendList\<close>.\<close>

fun sender_loop :: "event \<Rightarrow> endpoint_row list \<Rightarrow> int \<times> int \<times> int list \<Rightarrow> int \<times> int \<times> int list" where
  "sender_loop ev [] st = st"
| "sender_loop ev (r # rs) (self, none, sendList) =
    (if is_labeled ev \<and> p_label r = label_of ev
       then sender_loop ev rs (p_endpoint r, none, set_insert (p_endpoint r) sendList)
     else if \<not> is_labeled ev then sender_loop ev rs (self, none, sendList)
     else if p_label r = ''NONE''
       then sender_loop ev rs (self, p_endpoint r, set_insert (p_endpoint r) sendList)
     else sender_loop ev rs (self, none, set_insert (p_endpoint r) sendList))"

definition message_targets :: "event \<Rightarrow> string \<Rightarrow> database \<Rightarrow> int list" where
  "message_targets ev to db =
    (if isNumber to then
       (let members = map g_extnbr (rows (sel_members (toInt to)) db)
        in if members = [] then [toInt to] else filter (\<lambda>m. m \<noteq> ev_number ev) members)
     else map x_number (rows (sel_extensions_of to) db))"

definition send_list :: "int list \<Rightarrow> int list \<Rightarrow> database \<Rightarrow> int list" where
  "send_list targets sendList db =
    (if targets = [0] \<and> operatorPolicy db = ''public''
     then fold set_insert (map p_endpoint (rows sel_labeled db)) sendList
     else fold (\<lambda>target. fold set_insert (map p_endpoint (rows (sel_endpoints target) db))) targets sendList)"

text \<open>\<open>UString (msg->from->url->username).unquote ()\<close>: the pointers \<open>from\<close> and \<open>url\<close> are not checked.\<close>

definition message_from :: "event \<Rightarrow> osip_message \<Rightarrow> string option" where
  "message_from ev msg = (case from_uri msg of None \<Rightarrow> None | Some u \<Rightarrow>
     Some (if ev_number ev < 1 then Contact_toString (ev_from (ev_parsed ev))
           else unquote [CHR 0x22] (case uri_username u of Some n \<Rightarrow> cstr n | None \<Rightarrow> [])))"

definition outbox_status :: "int \<Rightarrow> int \<Rightarrow> int \<Rightarrow> int" where
  "outbox_status self none endpoint = (if endpoint = self \<or> endpoint = none then SIP_OK else 0)"

definition deliver_message ::
  "event \<Rightarrow> string \<Rightarrow> string \<Rightarrow> int \<Rightarrow> int \<Rightarrow> int list \<Rightarrow> database \<Rightarrow> db_result" where
  "deliver_message ev to from self none sendList db =
    (let posted = ev_timestamp ev;
         row = (\<lambda>i. \<lparr>m_mid = i, m_seq = ev_sequence ev, m_from = from, m_to = to, m_subject = subject_of ev,
            m_display = display_of ev, m_posted = posted, m_expires = message_expiry (expires_of ev) posted,
            m_type = ''text'', m_text = (if contentType_of ev = ''text/plain'' then body_of ev else [])\<rparr>)
     in case ins_message row db of
       (db, None) \<Rightarrow> (db, if \<not> is_labeled ev then snd (reply ev SIP_INTERNAL_SERVER_ERROR) else [])
     | (db, Some mno) \<Rightarrow>
         (let data = \<lparr>md_from = from, md_to = toInt to, md_display = display_of ev,
                md_type = contentType_of ev, md_body = body_of ev, md_subject = subject_of ev,
                md_posted = posted, md_sequence = ev_sequence ev, md_expires = expires_of ev, md_mid = number mno\<rparr>
          in fold (\<lambda>ep. post_outbox mno (outbox_status self none ep) data ep) sendList
               (db, if \<not> is_labeled ev then snd (reply ev SIP_OK) else [])))"

definition localMessage :: "event \<Rightarrow> database \<Rightarrow> db_result option" where
  "localMessage ev db = do {
     msg \<leftarrow> ev_message ev;
     to \<leftarrow> map_option cstr (to_username msg);
     let own = (if ev_number ev > 0 then rows (sel_endpoints (ev_number ev)) db else []);
     let (self, none, sendList) = sender_loop ev own (-1, -1, []);
     if ev_number ev > 0 \<and> own = [] then Some (db, snd (reply ev SIP_FORBIDDEN))
     else do {
       let targets = message_targets ev to db;
       if targets = [] \<and> \<not> is_labeled ev then Some (db, snd (reply ev SIP_NOT_FOUND))
       else do {
         let sendList = send_list targets sendList db;
         if sendList = [] then Some (db, if \<not> is_labeled ev then snd (reply ev SIP_NOT_FOUND) else [])
         else do {
           from \<leftarrow> message_from ev msg;
           Some (deliver_message ev to from self none sendList db) } } } }"

section \<open>Pending messages\<close>

definition changePending :: "int \<Rightarrow> database \<Rightarrow> database" where
  "changePending endpoint = run (upd_outbox (\<lambda>b. o_status b = 100 \<and> o_endpoint b = endpoint) 200)"

definition pending_json :: "qt_lib \<Rightarrow> message_row \<Rightarrow> json" where
  "pending_json Q m = JObject [(''f'', JString (m_from m)), (''t'', JString (m_to m)),
    (''d'', JString (m_display m)), (''b'', JString (m_text m)), (''c'', JString (m_type m)),
    (''s'', JString (m_subject m)), (''p'', JString (q_isoDate Q (m_posted m))), (''u'', JInt (m_seq m)),
    (''e'', JString (q_isoDate Q (m_expires m)))]"

definition sendPending :: "qt_lib \<Rightarrow> bool \<Rightarrow> event \<Rightarrow> int \<Rightarrow> database \<Rightarrow> db_result" where
  "sendPending Q built ev endpoint db =
    (let db = run (del_sent_deletes endpoint) db;
         found = rows (sel_pending endpoint) db;
         db = run (upd_outbox (\<lambda>b. o_status b \<noteq> 200 \<and> o_endpoint b = endpoint) 100) db
     in (db, if length found < 1 then snd (reply ev SIP_OK)
             else snd (answerWithJson built ev (q_toJson Q (JArray (rev (map (pending_json Q) found)))))))"

definition device_json :: "qt_lib \<Rightarrow> endpoint_row \<Rightarrow> json" where
  "device_json Q p = JObject [(''e'', JString (number (p_endpoint p))), (''n'', JString (number (p_extnbr p))),
    (''u'', JString (p_label p)), (''a'', JString (p_agent p)), (''l'', JString (p_lasturi p)),
    (''r'', JString (q_isoDate Q (p_created p))), (''o'', JString (q_isoDate Q (p_lastaccess p)))]"

definition sendDeviceList :: "qt_lib \<Rightarrow> bool \<Rightarrow> event \<Rightarrow> database \<Rightarrow> db_result" where
  "sendDeviceList Q built ev db =
    (db, snd (answerWithJson built ev (q_toJson Q
       (JArray (map (device_json Q) (rows (sel_endpoints (ev_number ev)) db))))))"

end
