(* ===== verification/MessageFacts.thy ===== *)
theory MessageFacts
  imports Messaging
begin

text \<open>
  What the message slots promise: the database stays sound, a message is stored once and sent once
  to every endpoint it is for, and a pending message is offered until it is acknowledged.
\<close>

section \<open>Fan out\<close>

lemma post_outbox_fold:
  "fold (\<lambda>ep. post_outbox mno (status ep) data ep) eps (db, out) =
    (fold (\<lambda>(mno, ep, st). run (ins_outbox mno ep st)) (map (\<lambda>ep. (mno, ep, status ep)) eps) db,
     out @ map (\<lambda>ep. Emit (SendMessage ep data)) (filter (\<lambda>ep. status ep \<noteq> SIP_OK) eps))"
  by (induction eps arbitrary: db out) (simp_all add: post_outbox_def)

definition outbox_fresh :: "database \<Rightarrow> bool" where
  "outbox_fresh db \<longleftrightarrow> (\<forall>b \<in> set (t_outboxes db). o_mid b < next_mid db)"

lemma outbox_fold:
  assumes "db_up db" "has_message mno db" "\<forall>ep \<in> set eps. has_endpoint ep db" "distinct eps"
    "\<forall>b \<in> set (t_outboxes db). o_mid b = mno \<longrightarrow> o_endpoint b \<notin> set eps"
  shows "fold (\<lambda>(mno, ep, st). run (ins_outbox mno ep st)) (map (\<lambda>ep. (mno, ep, status ep)) eps) db =
    db\<lparr>t_outboxes := t_outboxes db @ map (\<lambda>ep. \<lparr>o_mid = mno, o_endpoint = ep, o_status = status ep\<rparr>) eps\<rparr>"
  using assms
proof (induction eps arbitrary: db)
  case (Cons ep eps)
  let ?row = "\<lparr>o_mid = mno, o_endpoint = ep, o_status = status ep\<rparr>"
  let ?db = "db\<lparr>t_outboxes := t_outboxes db @ [?row]\<rparr>"
  have "run (ins_outbox mno ep (status ep)) db = ?db"
    using Cons.prems by (auto simp: run_def ins_outbox_def add_row_def)
  moreover have "fold (\<lambda>(mno, ep, st). run (ins_outbox mno ep st)) (map (\<lambda>ep. (mno, ep, status ep)) eps) ?db =
      ?db\<lparr>t_outboxes := t_outboxes ?db @ map (\<lambda>ep. \<lparr>o_mid = mno, o_endpoint = ep, o_status = status ep\<rparr>) eps\<rparr>"
    using Cons.prems by (intro Cons.IH) (auto simp: has_message_def has_endpoint_def)
  ultimately show ?case by simp
qed simp

lemma set_insert_set [simp]: "set (set_insert x xs) = insert x (set xs)"
  by (auto simp: set_insert_def)

lemma set_insert_distinct: "distinct xs \<Longrightarrow> distinct (set_insert x xs)"
  by (simp add: set_insert_def)

lemma fold_set_insert: "distinct xs \<Longrightarrow> distinct (fold set_insert ys xs) \<and> set (fold set_insert ys xs) = set ys \<union> set xs"
  by (induction ys arbitrary: xs) (auto simp: set_insert_distinct)

lemma sender_loop_sends:
  "sender_loop ev rs (self, none, eps) = (self', none', eps') \<Longrightarrow> distinct eps \<Longrightarrow>
   distinct eps' \<and> set eps' = set eps \<union> (if is_labeled ev then p_endpoint ` set rs else {})"
  by (induction rs arbitrary: self none eps) (auto simp: set_insert_distinct split: if_splits)

lemma send_list_targets:
  "distinct eps \<Longrightarrow> distinct (send_list targets eps db) \<and> set eps \<subseteq> set (send_list targets eps db) \<and>
     (\<not> (targets = [0] \<and> operatorPolicy db = ''public'') \<longrightarrow>
        set (send_list targets eps db) = set eps \<union> p_endpoint ` (\<Union>t \<in> set targets. set (rows (sel_endpoints t) db)))"
proof -
  assume distinct: "distinct eps"
  have "distinct (fold (\<lambda>t. fold set_insert (map p_endpoint (rows (sel_endpoints t) db))) ts xs) \<and>
      set (fold (\<lambda>t. fold set_insert (map p_endpoint (rows (sel_endpoints t) db))) ts xs) =
        set xs \<union> p_endpoint ` (\<Union>t \<in> set ts. set (rows (sel_endpoints t) db))" if "distinct xs" for ts xs
    using that
  proof (induction ts arbitrary: xs)
    case (Cons t ts)
    have "distinct (fold set_insert (map p_endpoint (rows (sel_endpoints t) db)) xs)"
      "set (fold set_insert (map p_endpoint (rows (sel_endpoints t) db)) xs) =
        p_endpoint ` set (rows (sel_endpoints t) db) \<union> set xs"
      using fold_set_insert[OF Cons.prems] by auto
    with Cons.IH[of "fold set_insert (map p_endpoint (rows (sel_endpoints t) db)) xs"] show ?case by auto
  qed simp
  with distinct fold_set_insert[OF distinct] show ?thesis by (auto simp: send_list_def)
qed

lemma rows_endpoints_exist: "p \<in> set (rows (sel_endpoints t) db) \<Longrightarrow> p \<in> set (t_endpoints db) \<and> p_extnbr p = t"
  by (auto simp: rows_def sel_endpoints_def split: if_splits)

lemma send_list_exist:
  "distinct eps \<Longrightarrow> set eps \<subseteq> p_endpoint ` set (t_endpoints db) \<Longrightarrow>
   set (send_list targets eps db) \<subseteq> p_endpoint ` set (t_endpoints db)"
proof (cases "targets = [0] \<and> operatorPolicy db = ''public''")
  case True
  assume "distinct eps" "set eps \<subseteq> p_endpoint ` set (t_endpoints db)"
  with True fold_set_insert[of eps "map p_endpoint (rows sel_labeled db)"] show ?thesis
    by (auto simp: send_list_def rows_def sel_labeled_def)
next
  case False
  assume "distinct eps" "set eps \<subseteq> p_endpoint ` set (t_endpoints db)"
  with False send_list_targets[of eps targets db] rows_endpoints_exist show ?thesis by fastforce
qed

section \<open>The database stays sound\<close>

lemma ins_message_fields:
  assumes "ins_message row db = (db', Some mno)"
  shows "mno = next_mid db \<and> db_up db \<and> db' = db\<lparr>t_messages := t_messages db @ [row mno], next_mid := next_mid db + 1\<rparr>"
  using assms by (auto simp: ins_message_def split: if_splits)

lemma ins_message_None: "ins_message row db = (db', None) \<Longrightarrow> db' = db"
  by (auto simp: ins_message_def split: if_splits)

lemma fold_outbox_ok: "db_ok db \<Longrightarrow> db_ok (fold (\<lambda>(mno, ep, st). run (ins_outbox mno ep st)) ps db)"
  using outbox_insert.fold_ok[of db ps] by (simp add: case_prod_beta')

lemma deliver_message_ok:
  assumes "db_ok db"
  shows "db_ok (fst (deliver_message ev to from self none eps db))"
proof -
  let ?row = "\<lambda>i. \<lparr>m_mid = i, m_seq = ev_sequence ev, m_from = from, m_to = to, m_subject = subject_of ev,
      m_display = display_of ev, m_posted = ev_timestamp ev,
      m_expires = message_expiry (expires_of ev) (ev_timestamp ev),
      m_type = ''text'', m_text = (if contentType_of ev = ''text/plain'' then body_of ev else [])\<rparr>"
  obtain db' mno where ins: "ins_message ?row db = (db', mno)" by fastforce
  with ins_message_ok[OF ins _ assms] show ?thesis
    by (cases mno) (simp_all add: deliver_message_def Let_def post_outbox_fold fold_outbox_ok)
qed

lemma adminMessage_ok:
  assumes "db_ok db"
  shows "db_ok (fst (snd (adminMessage ev to text from display secs db)))"
proof -
  let ?row = "\<lambda>i. \<lparr>m_mid = i, m_seq = ev_sequence ev, m_from = number from, m_to = number to,
      m_subject = subject_of ev, m_display = display, m_posted = ev_timestamp ev,
      m_expires = message_expiry secs (ev_timestamp ev), m_type = ''admin'', m_text = text\<rparr>"
  obtain db' mno where ins: "ins_message ?row db = (db', mno)" by fastforce
  with ins_message_ok[OF ins _ assms] show ?thesis
    by (cases mno) (simp_all add: adminMessage_def Let_def post_outbox_fold fold_outbox_ok)
qed

definition own_endpoints :: "event \<Rightarrow> database \<Rightarrow> endpoint_row list" where
  "own_endpoints ev db = (if ev_number ev > 0 then rows (sel_endpoints (ev_number ev)) db else [])"

lemma localMessage_cases:
  assumes "localMessage ev db = Some (db', out)"
  obtains (refused) code where "db' = db" "out = snd (reply ev code)" "code \<in> {SIP_FORBIDDEN, SIP_NOT_FOUND}"
    | (silent) "db' = db" "out = []" "is_labeled ev"
    | (delivered) msg user sender self none eps where "ev_message ev = Some msg" "to_username msg = Some user"
      "sender_loop ev (own_endpoints ev db) (-1, -1, []) = (self, none, eps)"
      "ev_number ev > 0 \<longrightarrow> own_endpoints ev db \<noteq> []"
      "send_list (message_targets ev (cstr user) db) eps db \<noteq> []" "message_from ev msg = Some sender"
      "(db', out) = deliver_message ev (cstr user) sender self none
         (send_list (message_targets ev (cstr user) db) eps db) db"
proof -
  obtain msg where msg: "ev_message ev = Some msg"
    using assms by (cases "ev_message ev") (simp_all add: localMessage_def)
  obtain user where user: "to_username msg = Some user"
    using assms msg by (cases "to_username msg") (simp_all add: localMessage_def)
  obtain self none eps where loop: "sender_loop ev (own_endpoints ev db) (-1, -1, []) = (self, none, eps)"
    using prod_cases3 by blast
  let ?targets = "message_targets ev (cstr user) db"
  note run = assms[unfolded localMessage_def, folded own_endpoints_def]
  consider (a) "ev_number ev > 0 \<and> own_endpoints ev db = []"
    | (b) "\<not> (ev_number ev > 0 \<and> own_endpoints ev db = [])" "?targets = [] \<and> \<not> is_labeled ev"
    | (c) "\<not> (ev_number ev > 0 \<and> own_endpoints ev db = [])" "\<not> (?targets = [] \<and> \<not> is_labeled ev)"
        "send_list ?targets eps db = []"
    | (d) "\<not> (ev_number ev > 0 \<and> own_endpoints ev db = [])" "\<not> (?targets = [] \<and> \<not> is_labeled ev)"
        "send_list ?targets eps db \<noteq> []" by blast
  then show ?thesis
  proof cases
    case a
    with run msg user loop show ?thesis by (intro refused[of SIP_FORBIDDEN]) auto
  next
    case b
    have "localMessage ev db = Some (db, snd (reply ev SIP_NOT_FOUND))"
      using msg user loop b by (auto simp: localMessage_def Let_def own_endpoints_def[symmetric])
    with assms show ?thesis by (intro refused[of SIP_NOT_FOUND]) auto
  next
    case c
    have "localMessage ev db = Some (db, if \<not> is_labeled ev then snd (reply ev SIP_NOT_FOUND) else [])"
      using msg user loop c by (auto simp: localMessage_def Let_def own_endpoints_def[symmetric])
    with assms show ?thesis
      by (cases "is_labeled ev") (auto intro: silent refused[of SIP_NOT_FOUND])
  next
    case d
    have "localMessage ev db = Option.bind (message_from ev msg) (\<lambda>sender.
        Some (deliver_message ev (cstr user) sender self none (send_list ?targets eps db) db))"
      using msg user loop d by (auto simp: localMessage_def Let_def own_endpoints_def[symmetric])
    with assms obtain sender where "message_from ev msg = Some sender"
      "deliver_message ev (cstr user) sender self none (send_list ?targets eps db) db = (db', out)"
      by (auto simp: bind_eq_Some_conv)
    with msg user loop d show ?thesis by (intro delivered[of msg user self none eps sender]) auto
  qed
qed

lemma localMessage_ok:
  assumes "localMessage ev db = Some (db', out)" "db_ok db"
  shows "db_ok db'"
  using assms(1)
proof (cases rule: localMessage_cases)
  case (delivered msg user sender self none eps)
  then show ?thesis by (metis deliver_message_ok[OF assms(2)] fst_conv)
qed (use assms(2) in simp_all)

lemma message_slots_ok:
  assumes "db_ok db"
  shows "db_ok (copyOutbox source target db)" "db_ok (syncOutbox ep db)" "db_ok (lastAccess ep ts agent key uri db)"
    "db_ok (db_messageResponse m e status db)" "db_ok (cleanupMessages db)" "db_ok (changePending ep db)"
    "db_ok (fst (sendPending Q built ev ep db))" "db_ok (fst (sendDeviceList Q built ev db))"
proof -
  show "db_ok (copyOutbox source target db)" using assms by (simp add: copyOutbox_def fold_outbox_ok)
  show "db_ok (syncOutbox ep db)" "db_ok (db_messageResponse m e status db)" "db_ok (changePending ep db)"
    using outbox_update.run_ok[OF assms, of "(_, _)"]
    by (simp_all add: syncOutbox_def db_messageResponse_def changePending_def Let_def)
  show "db_ok (lastAccess ep ts agent key uri db)"
    using assms by (simp add: lastAccess_def upd_endpoint_ok)
  show "db_ok (cleanupMessages db)" using message_delete.run_ok[OF assms] by (simp add: cleanupMessages_def Let_def)
  show "db_ok (fst (sendPending Q built ev ep db))"
    using outbox_update.run_ok[OF sent_delete.run_ok[OF assms, of ep], of "(_, _)"]
    by (simp add: sendPending_def Let_def)
  show "db_ok (fst (sendDeviceList Q built ev db))" using assms by (simp add: sendDeviceList_def)
qed

section \<open>Properties\<close>

lemma deliver_message_sent:
  assumes "deliver_message ev to sender self none eps db = (db', out)" "db_up db" "distinct eps"
    "\<forall>ep \<in> set eps. has_endpoint ep db" "outbox_fresh db"
  shows "\<exists>data. md_mid data = number (next_mid db) \<and> md_body data = body_of ev \<and>
      emitted out = map (\<lambda>ep. SendMessage ep data) (filter (\<lambda>ep. ep \<noteq> self \<and> ep \<noteq> none) eps) \<and>
    t_outboxes db' = t_outboxes db @ map (\<lambda>ep. \<lparr>o_mid = next_mid db, o_endpoint = ep,
      o_status = outbox_status self none ep\<rparr>) eps \<and>
    length (t_messages db') = Suc (length (t_messages db)) \<and> outbox_fresh db'"
proof -
  let ?row = "\<lambda>i. \<lparr>m_mid = i, m_seq = ev_sequence ev, m_from = sender, m_to = to, m_subject = subject_of ev,
      m_display = display_of ev, m_posted = ev_timestamp ev,
      m_expires = message_expiry (expires_of ev) (ev_timestamp ev),
      m_type = ''text'', m_text = (if contentType_of ev = ''text/plain'' then body_of ev else [])\<rparr>"
  let ?mid = "next_mid db"
  let ?db = "db\<lparr>t_messages := t_messages db @ [?row ?mid], next_mid := ?mid + 1\<rparr>"
  have ins: "ins_message ?row db = (?db, Some ?mid)" using assms(2) by (simp add: ins_message_def)
  have status: "(\<lambda>ep. outbox_status self none ep \<noteq> SIP_OK) = (\<lambda>ep. ep \<noteq> self \<and> ep \<noteq> none)"
    by (auto simp: outbox_status_def)
  have boxes: "fold (\<lambda>(mno, ep, st). run (ins_outbox mno ep st)) (map (\<lambda>ep. (?mid, ep, outbox_status self none ep)) eps) ?db =
      ?db\<lparr>t_outboxes := t_outboxes ?db @ map (\<lambda>ep. \<lparr>o_mid = ?mid, o_endpoint = ep, o_status = outbox_status self none ep\<rparr>) eps\<rparr>"
    using assms(2-5) by (intro outbox_fold) (auto simp: has_message_def has_endpoint_def outbox_fresh_def)
  have "emitted (map (\<lambda>ep. Emit (SendMessage ep data)) xs) = map (\<lambda>ep. SendMessage ep data) xs" for data xs
    by (induction xs) simp_all
  moreover have "emitted (if b then snd (reply ev SIP_OK) else []) = []" for b by simp
  moreover have "\<forall>b \<in> set (t_outboxes db). o_mid b \<le> ?mid"
    using assms(5) by (auto simp: outbox_fresh_def less_imp_le)
  ultimately show ?thesis
    using assms(1,5)
    by (intro exI[of _ "\<lparr>md_from = sender, md_to = toInt to, md_display = display_of ev,
          md_type = contentType_of ev, md_body = body_of ev, md_subject = subject_of ev,
          md_posted = ev_timestamp ev, md_sequence = ev_sequence ev, md_expires = expires_of ev,
          md_mid = number ?mid\<rparr>"])
      (auto simp: deliver_message_def Let_def ins post_outbox_fold boxes status outbox_fresh_def)
qed


lemma pending_rows:
  assumes "\<And>b. o_mid (g b) = o_mid b" "\<And>b. (o_endpoint (g b) = ep \<and> o_status (g b) \<noteq> 200) = P b"
  shows "concat (map (\<lambda>b. F (o_mid b)) (filter (\<lambda>b. o_endpoint b = ep \<and> o_status b \<noteq> 200) (map g boxes))) =
    concat (map (\<lambda>b. F (o_mid b)) (filter P boxes))"
  by (induction boxes) (simp_all add: assms)

text \<open>
  C10. A pending message stays pending until it is acknowledged. Asking for the pending messages of
  an endpoint marks them in progress and changes nothing about what is pending, for any endpoint;
  acknowledging (\<open>changePending\<close>) then empties the list of that endpoint and leaves the others as
  they were. So a client that loses the answer is offered the same messages again.
\<close>

theorem pending_until_acknowledged:
  assumes "sendPending Q built ev ep db = (db1, out)" "db_up db"
  shows "sel_pending ep' db1 = sel_pending ep' db \<and>
    sel_pending ep' (changePending ep db1) = (if ep' = ep then [] else sel_pending ep' db)"
proof -
  let ?mark = "\<lambda>b. if o_status b \<noteq> 200 \<and> o_endpoint b = ep then o_status_update (\<lambda>_. 100) b else b"
  let ?ack = "\<lambda>b. if o_status b = 100 \<and> o_endpoint b = ep then o_status_update (\<lambda>_. 200) b else b"
  let ?find = "\<lambda>boxes P. concat (map (\<lambda>b. filter (\<lambda>m. m_mid m = o_mid b) (t_messages db)) (filter P boxes))"
  let ?pending = "\<lambda>b. o_endpoint b = ep' \<and> o_status b \<noteq> 200"
  have tables: "t_messages db1 = t_messages db" "t_outboxes db1 = map ?mark (t_outboxes db)" "db_up db1"
    using assms by (auto simp: sendPending_def Let_def run_def del_sent_deletes_def upd_outbox_def update_rows_def)
  have acked: "t_messages (changePending ep db1) = t_messages db"
    "t_outboxes (changePending ep db1) = map (\<lambda>b. ?ack (?mark b)) (t_outboxes db)"
    using tables by (simp_all add: changePending_def run_def upd_outbox_def update_rows_def)
  have asked: "sel_pending ep' db1 = sel_pending ep' db"
    unfolding sel_pending_def tables by (rule pending_rows) simp_all
  have "sel_pending ep' (changePending ep db1) = ?find (t_outboxes db) (\<lambda>b. ep' \<noteq> ep \<and> ?pending b)"
    unfolding sel_pending_def acked by (rule pending_rows) auto
  then have "sel_pending ep' (changePending ep db1) = (if ep' = ep then [] else sel_pending ep' db)"
    by (cases "ep' = ep") (simp_all add: sel_pending_def)
  with asked show ?thesis by simp
qed

text \<open>A small database: user 101 with one device, user 102 with another, 101 an administrator.\<close>

definition sample_user :: "string \<Rightarrow> authorize_row" where
  "sample_user name = \<lparr>a_name = name, a_type = ''USER'', a_digest = ''MD5'', a_created = \<lparr>toMSecs = 0, offsetFromUtc = 0\<rparr>,
    a_realm = ''r'', a_secret = ''73'', a_access = ''LOCAL'', a_email = [], a_fullname = [], a_fwdaway = -1,
    a_fwdbusy = -1, a_fwdnoanswer = -1\<rparr>"

definition sample_device :: "int \<Rightarrow> int \<Rightarrow> string \<Rightarrow> endpoint_row" where
  "sample_device ep num label = \<lparr>p_endpoint = ep, p_extnbr = num, p_label = label, p_agent = [], p_devkey = [],
    p_created = \<lparr>toMSecs = 0, offsetFromUtc = 0\<rparr>, p_lastaccess = \<lparr>toMSecs = 0, offsetFromUtc = 0\<rparr>, p_lasturi = []\<rparr>"

definition sample_db :: database where
  "sample_db = \<lparr>t_config = [\<lparr>cf_realm = ''r'', cf_dialplan = ''STD3''\<rparr>], t_switches = [],
    t_authorize = [sample_user ''system'', sample_user ''test'', sample_user ''other''],
    t_extensions = [\<lparr>x_number = 101, x_authname = ''test'', x_priority = 0, x_display = [], x_pubkey = []\<rparr>,
      \<lparr>x_number = 102, x_authname = ''other'', x_priority = 0, x_display = [], x_pubkey = []\<rparr>],
    t_endpoints = [sample_device 1 101 ''a'', sample_device 2 102 ''b''],
    t_groups = [], t_admin = [\<lparr>n_authname = ''system'', n_extnbr = 101\<rparr>], t_calling = [], t_speeds = [],
    t_messages = [], t_outboxes = [], t_deletes = [], next_endpoint = 3, next_mid = 1,
    operatorPolicy = ''system'', operatorDisplay = ''Operators'', firstNumber = 100, lastNumber = 699,
    dbSequence = 0, expiresNat = 80, expiresUdp = 300, expiresTcp = 600, msgRetention = 180,
    db_network = [], db_clock = \<lparr>toMSecs = 0, offsetFromUtc = 0\<rparr>, db_up = True, db_fkeys = False\<rparr>"

definition sample_text :: event where
  "sample_text = sample_request_event (sample_request ''MESSAGE'' (Some ''hi''))"

lemma isNumber_102: "isNumber ''102''" "toInt ''102'' = 102"
  by (simp_all add: isNumber_def text_simps)

lemma sample_text_simps:
  "ev_number sample_text = 101" "is_labeled sample_text" "label_of sample_text = ''a''"
  "ev_message sample_text = Some (sample_request ''MESSAGE'' (Some ''hi''))" "ev_type sample_text = MESSAGE_NEW"
  by (simp_all add: sample_text_def sample_request_event_def sample_event_def is_labeled_def ev_type_def)

lemma sample_db_simps:
  "db_up sample_db" "outbox_fresh sample_db" "next_mid sample_db = 1" "t_outboxes sample_db = []"
  "rows (sel_endpoints 101) sample_db = [sample_device 1 101 ''a'']"
  "rows (sel_endpoints 102) sample_db = [sample_device 2 102 ''b'']"
  "rows (sel_members 102) sample_db = []" "t_messages sample_db = []" "operatorPolicy sample_db = ''system''"
  by (simp_all add: sample_db_def outbox_fresh_def rows_def sel_endpoints_def sel_members_def sample_device_def)

lemma sample_device_simps:
  "p_endpoint (sample_device ep num label) = ep" "p_label (sample_device ep num label) = label"
  "p_extnbr (sample_device ep num label) = num"
  by (simp_all add: sample_device_def)

lemma sample_to: "to_username (sample_request meth body) = Some ''102''" "from_uri (sample_request meth body) = Some (sample_uri ''101'')"
  by (simp_all add: sample_request_def to_username_def to_url_def sample_uri_def from_uri_def)

lemma sample_sent:
  "\<exists>out db'. localMessage sample_text sample_db = Some (db', out) \<and> length (t_messages db') = 1"
proof -
  have "cstr ''102'' = ''102''" by (simp add: NUL_def)
  then show ?thesis
    by (simp add: localMessage_def sample_text_simps sample_db_simps sample_to Let_def sample_device_simps set_insert_def
        message_targets_def isNumber_102 send_list_def message_from_def deliver_message_def ins_message_def
        post_outbox_fold)
      (simp add: post_outbox_def run_def ins_outbox_def has_message_def has_endpoint_def add_row_def sample_db_def)
qed


lemma pending_until_acknowledged_witness:
  "\<exists>db1 out. sendPending sample_qt True sample_text 2 sample_db = (db1, out) \<and> sel_pending 2 (changePending 2 db1) = []"
proof -
  obtain db1 out where sent: "sendPending sample_qt True sample_text 2 sample_db = (db1, out)"
    by fastforce
  from pending_until_acknowledged[OF sent sample_db_simps(1), of 2] sent show ?thesis by simp
qed

end
