(* ===== verification/Profiles.thy ===== *)
theory Profiles
  imports MessageFacts "HOL-Library.AList"
begin

text \<open>
  \<open>Database/database.cpp\<close>: the profile of an extension (\<open>sendProfile\<close>, which also changes it), the
  roster, and the configuration and creation of the database. A \<open>QJsonObject\<close> is an association
  list.
\<close>

type_synonym json_object = "(string \<times> json) list"

text \<open>\<open>object[key].toString ()\<close>: empty unless the value is a string.\<close>

definition json_string :: "json_object \<Rightarrow> string \<Rightarrow> string" where
  "json_string obj key = (case map_of obj key of Some (JString s) \<Rightarrow> s | _ \<Rightarrow> [])"

definition json_set :: "string \<Rightarrow> json \<Rightarrow> json_object \<Rightarrow> json_object" where
  "json_set key v obj = AList.update key v obj"

text \<open>\<open>atoi (event.message ()->to->url->username)\<close>; \<open>None\<close> is a null pointer.\<close>

definition target_number :: "event \<Rightarrow> int option" where
  "target_number ev = do { msg \<leftarrow> ev_message ev; user \<leftarrow> to_username msg; Some (atoi user) }"

definition out_of_range :: "int \<Rightarrow> database \<Rightarrow> bool" where
  "out_of_range target db \<longleftrightarrow> target < firstNumber db \<or> target > lastNumber db"

definition is_sysadmin :: "int \<Rightarrow> database \<Rightarrow> bool" where
  "is_sysadmin num db \<longleftrightarrow> record1 (sel_admin ''system'' num) db \<noteq> None"

definition is_operator :: "int \<Rightarrow> database \<Rightarrow> bool" where
  "is_operator num db \<longleftrightarrow> record1 (sel_member 0 num) db \<noteq> None"

definition is_group :: "string \<Rightarrow> bool" where
  "is_group type \<longleftrightarrow> type = ''GROUP'' \<or> type = ''PILOT''"

section \<open>The parts of a profile\<close>

definition alt_display :: "authorize_row \<Rightarrow> string" where
  "alt_display a = (if a_fullname a = [] then a_name a else a_fullname a)"

definition row_display :: "extension_row \<Rightarrow> authorize_row \<Rightarrow> string" where
  "row_display x a = (if x_display x = [] then (if a_fullname a = [] then a_name a else a_fullname a) else x_display x)"

definition clamp_priority :: "int \<Rightarrow> int" where
  "clamp_priority p = (if p > 3 then 3 else if p < 0 then -1 else p)"

definition group_priority :: "string \<Rightarrow> int \<Rightarrow> int \<Rightarrow> database \<Rightarrow> int" where
  "group_priority type target num db =
    (if is_group type \<or> target = 0 then
       (case record1 (sel_member target num) db of None \<Rightarrow> -1
        | Some g \<Rightarrow> if target = 0 then 0 else g_priority g)
     else -1)"

definition coverage_priority :: "string \<Rightarrow> int \<Rightarrow> database \<Rightarrow> int" where
  "coverage_priority userid num db =
    (case record1 (sel_calling userid num) db of None \<Rightarrow> -1 | Some c \<Rightarrow> c_priority c)"

definition public_uri :: "string \<Rightarrow> string \<Rightarrow> database \<Rightarrow> string" where
  "public_uri access userid db = (if access = ''REMOTE'' then userid @ ''@'' @ db_network db else [])"

definition profile_privs :: "string \<Rightarrow> int \<Rightarrow> database \<Rightarrow> string" where
  "profile_privs access target db =
    (if access = ''SUSPEND'' then ''suspend''
     else if is_sysadmin target db then ''sysadmin''
     else if is_operator target db then ''operator''
     else ''none'')"

fun join_numbers :: "string \<Rightarrow> int list \<Rightarrow> string" where
  "join_numbers sep [] = []"
| "join_numbers sep (n # ns) = sep @ number n @ join_numbers '','' ns"

definition group_access :: "string \<Rightarrow> string \<Rightarrow> int \<Rightarrow> int \<Rightarrow> database \<Rightarrow> string \<times> string" where
  "group_access type userid target num db =
    (if is_group type \<or> target = 0 then
       (let (listAccess, groupAccess) =
          (if record1 (sel_admin userid num) db \<noteq> None then (True, ''admin'')
           else if record1 (sel_member target num) db \<noteq> None then
             (True, case rows (sel_admins userid) db of [] \<Rightarrow> ''member'' | n # _ \<Rightarrow> number (n_extnbr n))
           else (is_sysadmin num db, ''none''))
        in (groupAccess, if listAccess then join_numbers [] (map g_extnbr (rows (sel_members target) db)) else []))
     else (''none'', []))"

definition profile_object :: "qt_lib \<Rightarrow> event \<Rightarrow> int \<Rightarrow> extension_row \<Rightarrow> authorize_row \<Rightarrow> database \<Rightarrow> json_object" where
  "profile_object Q ev target x a db =
    (case group_access (a_type a) (a_name a) target (ev_number ev) db of (groupAccess, groupList) \<Rightarrow>
     [(''a'', JString (a_name a)), (''c'', JString (q_isoDate Q (a_created a))), (''k'', JString (toHex (x_pubkey x))),
      (''n'', JInt target), (''d'', JString (if target = 0 then operatorDisplay db else row_display x a)),
      (''g'', JString groupAccess), (''m'', JString groupList),
      (''u'', JString (ev_uriTo ev (number (x_number x)))), (''t'', JString (a_type a)), (''e'', JString (a_email a)),
      (''p'', JString (public_uri (a_access a) (a_name a) db)), (''i'', JString []),
      (''s'', JString (profile_privs (a_access a) target db)), (''busy'', JInt (a_fwdbusy a)),
      (''noanswer'', JInt (a_fwdnoanswer a)), (''away'', JInt (a_fwdaway a)),
      (''cc'', JInt (clamp_priority (coverage_priority (a_name a) (ev_number ev) db))),
      (''gp'', JInt (clamp_priority (group_priority (a_type a) target (ev_number ev) db))),
      (''rp'', JInt (clamp_priority (x_priority x)))])"

text \<open>\<open>operator<\<close> of two strings.\<close>

fun str_less :: "string \<Rightarrow> string \<Rightarrow> bool" where
  "str_less _ [] = False"
| "str_less [] _ = True"
| "str_less (a # as) (b # bs) = (ord a < ord b \<or> (a = b \<and> str_less as bs))"

fun add_speeds :: "speed_row list \<Rightarrow> json_object \<Rightarrow> json_object" where
  "add_speeds [] obj = obj"
| "add_speeds (s # ss) obj = add_speeds ss
     (if str_less (number (s_extnbr s)) ''1'' then obj else json_set (number (s_extnbr s)) (JString (s_target s)) obj)"

definition own_device_json :: "qt_lib \<Rightarrow> endpoint_row \<Rightarrow> json" where
  "own_device_json Q p = JObject [(''e'', JString (number (p_endpoint p))), (''k'', JString (toHex (p_devkey p))),
    (''u'', JString (p_label p)), (''a'', JString (p_agent p)), (''r'', JString (q_isoDate Q (p_created p))),
    (''l'', JString (p_lasturi p)), (''o'', JString (q_isoDate Q (p_lastaccess p)))]"

text \<open>\<open>\<dots> (label != 'NONE') AND (label != ?) ORDER BY label\<close>: an insertion sort by \<open>str_less\<close>.\<close>

fun insert_label :: "endpoint_row \<Rightarrow> endpoint_row list \<Rightarrow> endpoint_row list" where
  "insert_label p [] = [p]"
| "insert_label p (q # qs) = (if str_less (p_label p) (p_label q) then p # q # qs else q # insert_label p qs)"

definition sel_other_devices :: "int \<Rightarrow> string \<Rightarrow> database \<Rightarrow> endpoint_row list" where
  "sel_other_devices num label db =
    fold insert_label (filter (\<lambda>p. p_extnbr p = num \<and> p_label p \<noteq> ''NONE'' \<and> p_label p \<noteq> label) (t_endpoints db)) []"

definition profile_self :: "qt_lib \<Rightarrow> event \<Rightarrow> int \<Rightarrow> authorize_row \<Rightarrow> database \<Rightarrow> json_object \<Rightarrow> json_object" where
  "profile_self Q ev target a db obj =
    (if target = ev_number ev then
       json_set ''ep'' (JArray (map (own_device_json Q) (rows (sel_other_devices (ev_number ev) (label_of ev)) db)))
         (add_speeds (rows (sel_speeds (a_name a)) db) obj)
     else obj)"

section \<open>Changing a profile\<close>

text \<open>\<open>Inl\<close> is the code of the reply that refuses; \<open>Inr\<close> the new access and profile.\<close>

definition change_access ::
  "string \<Rightarrow> authorize_row \<Rightarrow> database \<Rightarrow> json_object \<Rightarrow> int + (string \<times> json_object)" where
  "change_access changed a db obj =
    (if changed = ''LOCAL'' \<and> a_access a = ''REMOTE'' then Inr (''LOCAL'', json_set ''p'' (JString []) obj)
     else if changed = ''REMOTE'' \<and> a_access a = ''LOCAL''
       then Inr (''REMOTE'', json_set ''p'' (JString (a_name a @ ''@'' @ db_network db)) obj)
     else if changed \<noteq> [] then Inl SIP_FORBIDDEN
     else Inr (a_access a, obj))"

definition change_texts ::
  "string \<Rightarrow> bool \<Rightarrow> authorize_row \<Rightarrow> string \<Rightarrow> string \<Rightarrow> json_object \<Rightarrow> string \<times> string \<times> json_object" where
  "change_texts changed allowed a display email obj =
    (if changed = [] then
       (let display = (if display = [] then alt_display a else display);
            obj = json_set ''d'' (JString display) obj
        in if allowed then (display, email, json_set ''e'' (JString email) obj)
           else (display, json_string obj ''e'', obj))
     else (json_string obj ''d'', json_string obj ''e'', obj))"

definition change_profile ::
  "qt_lib \<Rightarrow> event \<Rightarrow> string \<Rightarrow> int \<Rightarrow> int \<Rightarrow> authorize_row \<Rightarrow> json_object \<Rightarrow> database \<Rightarrow>
   int + (db_result \<times> json_object)" where
  "change_profile Q ev authuser endpoint target a obj db =
    (let admin = is_sysadmin (ev_number ev) db;
         allowed = (a_name a = authuser \<or> admin);
         operAllowed = (admin \<or> is_operator (ev_number ev) db);
         json = q_fromJson Q (body_of ev);
         changedAccess = toUpper (json_string json ''a'');
         changedSecret = json_string json ''s''
     in if \<not> allowed \<and> \<not> operAllowed then Inl SIP_FORBIDDEN
        else if changedAccess \<noteq> [] \<and> \<not> admin then Inl SIP_FORBIDDEN
        else case change_access changedAccess a db obj of Inl code \<Rightarrow> Inl code
        | Inr (access, obj) \<Rightarrow>
          (case change_texts changedAccess allowed a (json_string json ''d'') (json_string json ''e'') obj of
             (display, email, obj) \<Rightarrow>
             let renew = (length changedSecret = length (a_secret a) \<and> length changedSecret > 0);
                 secret = (if renew then changedSecret else a_secret a);
                 db = run (upd_extension target (\<lambda>x. x\<lparr>x_display := display\<rparr>)) db;
                 db = run (upd_authorize (a_name a) (\<lambda>a. a\<lparr>a_email := email, a_access := access, a_secret := secret\<rparr>)) db
             in Inr ((db, (if renew then [Emit (DisconnectEndpoint endpoint)] else []) @ [Emit UpdateRoster]), obj)))"

definition sendProfile :: "qt_lib \<Rightarrow> bool \<Rightarrow> event \<Rightarrow> string \<Rightarrow> int \<Rightarrow> database \<Rightarrow> db_result option" where
  "sendProfile Q built ev authuser endpoint db = do {
     target \<leftarrow> target_number ev;
     if target \<noteq> 0 \<and> out_of_range target db then Some (db, snd (reply ev SIP_FORBIDDEN))
     else Some (case record1 (sel_profile target) db of None \<Rightarrow> (db, snd (reply ev SIP_NOT_FOUND))
       | Some (x, a) \<Rightarrow>
         (let obj = profile_self Q ev target a db (profile_object Q ev target x a db)
          in if length (body_of ev) > 0 then
               (case change_profile Q ev authuser endpoint target a obj db of
                  Inl code \<Rightarrow> (db, snd (reply ev code))
                | Inr ((db, out), obj) \<Rightarrow> (db, out @ snd (answerWithJson built ev (q_toJson Q (JObject obj)))))
             else (db, snd (answerWithJson built ev (q_toJson Q (JObject obj)))))) }"

section \<open>The roster\<close>

definition removed_json :: "qt_lib \<Rightarrow> delete_row \<Rightarrow> json" where
  "removed_json Q d = JObject [(''a'', JString (d_authname d)), (''c'', JString (q_isoDate Q (d_created d))),
    (''s'', JString ''remove'')]"

definition roster_display :: "extension_row \<Rightarrow> authorize_row \<Rightarrow> database \<Rightarrow> string" where
  "roster_display x a db =
    (if x_number x = 0 then (if operatorPolicy db = ''public'' then ''Lobby'' else ''Operators'')
     else row_display x a)"

definition roster_json :: "qt_lib \<Rightarrow> event \<Rightarrow> database \<Rightarrow> extension_row \<times> authorize_row \<Rightarrow> json" where
  "roster_json Q ev db = (\<lambda>(x, a). JObject
    ([(''a'', JString (a_name a)), (''k'', JString (toHex (x_pubkey x))), (''c'', JString (q_isoDate Q (a_created a))),
      (''n'', JInt (x_number x)), (''u'', JString (ev_uriTo ev (number (x_number x)))),
      (''d'', JString (roster_display x a db)), (''t'', JString (a_type a)), (''e'', JString (a_email a)),
      (''p'', JString (public_uri (a_access a) (a_name a) db))] @
     (if x_number x = ev_number ev then [(''rp'', JInt (x_priority x))] else [])))"

definition sendRoster :: "qt_lib \<Rightarrow> bool \<Rightarrow> event \<Rightarrow> int \<Rightarrow> database \<Rightarrow> db_result" where
  "sendRoster Q built ev endpoint db =
    (let db = run (upd_deletes endpoint) db;
         gone = map (removed_json Q) (rows (sel_deletes endpoint) db);
         listed = map (roster_json Q ev db) (filter (\<lambda>(x, a). a_name a \<noteq> ''anonymous'') (rows sel_roster db))
     in (db, snd (answerWithJson built ev (q_toJson Q (JArray (gone @ listed))))))"

end
