(* ===== verification/Administration.thy ===== *)
theory Administration
  imports Profiles
begin

text \<open>
  \<open>Database/database.cpp\<close>: the administrative requests. Each slot reads the number it is about from
  \<open>to->url->username\<close> without a check (\<open>None\<close> when a pointer is null), looks up who is asking,
  changes the tables and answers.
\<close>

definition header_text :: "osip_message \<Rightarrow> string \<Rightarrow> string option" where
  "header_text msg name = map_option cstr (header_value msg name)"

section \<open>Authorizations\<close>

definition authorize_user ::
  "json_object \<Rightarrow> bool \<Rightarrow> database \<Rightarrow> int + (string \<times> bool \<times> database)" where
  "authorize_user json exist db =
    (let user = json_string json ''a'' in
     if user \<noteq> [] then
       (if exist \<or> record1 (sel_authorize user) db \<noteq> None then Inl SIP_CONFLICT
        else (let type = json_string json ''t''; fresh = new_authorize db user in
          if is_group type then
            Inr (user, True, run (ins_authorize (fresh\<lparr>a_fullname := json_string json ''f'', a_type := type\<rparr>)) db)
          else Inr (user, False, run (ins_authorize (fresh\<lparr>a_digest := json_string json ''d'',
            a_realm := json_string json ''r'', a_secret := json_string json ''s'',
            a_fullname := json_string json ''f'', a_type := type\<rparr>)) db)))
     else (let user = json_string json ''e'' in
       if record1 (sel_authorize user) db = None then Inl SIP_NOT_FOUND else Inr (user, False, db)))"

definition changeAuthorize :: "qt_lib \<Rightarrow> event \<Rightarrow> database \<Rightarrow> db_result option" where
  "changeAuthorize Q ev db = do {
     target \<leftarrow> target_number ev;
     if out_of_range target db then Some (db, snd (reply ev SIP_FORBIDDEN))
     else if \<not> is_sysadmin (ev_number ev) db then Some (db, snd (reply ev SIP_FORBIDDEN))
     else (let exist = record1 (sel_extension target) db \<noteq> None in
       Some (case authorize_user (q_fromJson Q (body_of ev)) exist db of
         Inl code \<Rightarrow> (db, snd (reply ev code))
       | Inr (user, grouped, db) \<Rightarrow>
         if user \<noteq> [] \<and> exist then (db, snd (reply ev SIP_CONFLICT))
         else if user \<noteq> [] then
           (let db = run (ins_extension target user []) db;
                db = (if \<not> grouped then run (ins_endpoint target ''NONE'') db else db)
            in (db, Emit UpdateRoster # snd (reply ev SIP_OK)))
         else (db, snd (reply ev SIP_OK)))) }"

section \<open>Topics\<close>

definition topic_text :: "event \<Rightarrow> string" where
  "topic_text ev = (if length (body_of ev) > 0 then ''--- '' @ body_of ev
     else ''--- changing topic to '' @ [CHR 0x22] @ subject_of ev @ [CHR 0x22])"

text \<open>Administrative messages to a list of numbers, in order.\<close>

definition notify_all :: "event \<Rightarrow> string \<Rightarrow> int \<Rightarrow> string \<Rightarrow> int list \<Rightarrow> db_result \<Rightarrow> db_result" where
  "notify_all ev text from display tos st = fold (\<lambda>to (db, out).
     case adminMessage ev to text from display 0 db of (ok, db, sent) \<Rightarrow> (db, out @ sent)) tos st"

definition changeTopic :: "event \<Rightarrow> database \<Rightarrow> db_result option" where
  "changeTopic ev db = do {
     target \<leftarrow> target_number ev;
     if out_of_range target db then Some (db, snd (reply ev SIP_FORBIDDEN))
     else Some (case record1 (sel_profile target) db of None \<Rightarrow> (db, snd (reply ev SIP_NOT_FOUND))
       | Some (x, a) \<Rightarrow>
         if ev_sent ev = None then (db, snd (reply ev SIP_AMBIGUOUS))
         else if \<not> is_group (a_type a) then
           notify_all ev (topic_text ev) target (display_of ev) [ev_number ev]
             (notify_all ev (topic_text ev) (ev_number ev) (row_display x a) [target] (db, snd (reply ev SIP_OK)))
         else if record1 (sel_member target (ev_number ev)) db = None then (db, snd (reply ev SIP_FORBIDDEN))
         else notify_all ev (topic_text ev) target (display_of ev)
           (map g_extnbr (rows (sel_members target) db)) (db, snd (reply ev SIP_OK))) }"

section \<open>Forwarding and coverage\<close>

text \<open>Who may forward \<open>target\<close>: the code of the refusal, or none.\<close>

definition forwarding_refused :: "int \<Rightarrow> int \<Rightarrow> authorize_row \<Rightarrow> database \<Rightarrow> int option" where
  "forwarding_refused target num a db =
    (if is_sysadmin num db then None
     else if target \<noteq> 0 \<and> \<not> is_group (a_type a) then
       (if target \<noteq> num then Some SIP_NOT_ACCEPTABLE_HERE else None)
     else if record1 (sel_admin (a_name a) num) db = None then Some SIP_FORBIDDEN else None)"

definition set_forwarding :: "string \<Rightarrow> int \<Rightarrow> (authorize_row \<Rightarrow> authorize_row) option" where
  "set_forwarding fwd fwdTo =
    (if fwd = ''NA'' then Some (\<lambda>a. a\<lparr>a_fwdnoanswer := fwdTo\<rparr>)
     else if fwd = ''BUSY'' then Some (\<lambda>a. a\<lparr>a_fwdbusy := fwdTo\<rparr>)
     else if fwd = ''AWAY'' then Some (\<lambda>a. a\<lparr>a_fwdaway := fwdTo\<rparr>) else None)"

definition changeForwarding :: "qt_lib \<Rightarrow> bool \<Rightarrow> event \<Rightarrow> string \<Rightarrow> int \<Rightarrow> database \<Rightarrow> db_result option" where
  "changeForwarding Q built ev authUser endpoint db = do {
     target \<leftarrow> target_number ev;
     if target \<noteq> 0 \<and> out_of_range target db then Some (db, snd (reply ev SIP_FORBIDDEN))
     else case record1 (sel_profile target) db of None \<Rightarrow> Some (db, snd (reply ev SIP_NOT_FOUND))
     | Some (x, a) \<Rightarrow> (case forwarding_refused target (ev_number ev) a db of
         Some code \<Rightarrow> Some (db, snd (reply ev code))
       | None \<Rightarrow> do {
           msg \<leftarrow> ev_sent ev;
           case header_text msg ''x-destination'' of None \<Rightarrow> Some (db, snd (reply ev SIP_NOT_ACCEPTABLE_HERE))
           | Some destination \<Rightarrow>
             (let fwdTo = (if isNumber destination then toInt destination else -1) in
              if fwdTo > 0 \<and> out_of_range fwdTo db then Some (db, snd (reply ev SIP_FORBIDDEN))
              else case header_text msg ''subject'' of None \<Rightarrow> Some (db, snd (reply ev SIP_NOT_ACCEPTABLE_HERE))
              | Some fwd \<Rightarrow> (case set_forwarding fwd fwdTo of
                  None \<Rightarrow> Some (db, snd (reply ev SIP_NOT_ACCEPTABLE_HERE))
                | Some f \<Rightarrow> sendProfile Q built ev authUser endpoint (run (upd_authorize (a_name a) f) db))) }) }"

text \<open>A user's own priority is in \<open>Extensions\<close>, that for another user in \<open>Calling\<close>.\<close>

definition set_coverage :: "string \<Rightarrow> int \<Rightarrow> int \<Rightarrow> string \<Rightarrow> database \<Rightarrow> database" where
  "set_coverage authUser num priority coveringUser db =
    (if coveringUser = authUser then run (upd_extension num (\<lambda>x. x\<lparr>x_priority := priority\<rparr>)) db
     else (let db = run (del_calling coveringUser num) db in
           if priority > -1 then run (ins_calling coveringUser num priority) db else db))"

definition changeCoverage :: "qt_lib \<Rightarrow> bool \<Rightarrow> event \<Rightarrow> string \<Rightarrow> int \<Rightarrow> database \<Rightarrow> db_result option" where
  "changeCoverage Q built ev authUser endpoint db = do {
     target \<leftarrow> target_number ev;
     if target \<noteq> 0 \<and> out_of_range target db then Some (db, snd (reply ev SIP_FORBIDDEN))
     else case record1 (sel_profile target) db of None \<Rightarrow> Some (db, snd (reply ev SIP_NOT_FOUND))
     | Some (x, a) \<Rightarrow> do {
         msg \<leftarrow> ev_sent ev;
         case header_text msg ''x-priority'' of None \<Rightarrow> Some (db, snd (reply ev SIP_NOT_ACCEPTABLE_HERE))
         | Some text \<Rightarrow>
           (let priority = (if isNumber text then toInt text else -1); num = ev_number ev in
            if priority < -1 \<or> priority > 3 then Some (db, snd (reply ev SIP_NOT_ACCEPTABLE_HERE))
            else sendProfile Q built ev authUser endpoint (set_coverage authUser num priority (a_name a) db)) } }"

section \<open>Dropping, administrators and members\<close>

definition disconnects :: "endpoint_row list \<Rightarrow> db_signal effect list" where
  "disconnects ps = map (\<lambda>p. Emit (DisconnectEndpoint (p_endpoint p))) ps"

definition dropExtension :: "qt_lib \<Rightarrow> bool \<Rightarrow> event \<Rightarrow> string \<Rightarrow> int \<Rightarrow> database \<Rightarrow> db_result option" where
  "dropExtension Q built ev authUser endpoint db = do {
     target \<leftarrow> target_number ev;
     if target \<noteq> 0 \<and> out_of_range target db then Some (db, snd (reply ev SIP_FORBIDDEN))
     else case record1 (sel_profile target) db of None \<Rightarrow> Some (db, snd (reply ev SIP_NOT_FOUND))
     | Some (x, a) \<Rightarrow>
       if \<not> is_sysadmin (ev_number ev) db then Some (db, snd (reply ev SIP_FORBIDDEN))
       else if a_type a \<noteq> ''DEVICE'' \<and> a_type a \<noteq> ''USER'' then Some (db, snd (reply ev SIP_NOT_ACCEPTABLE_HERE))
       else do {
         (db, out) \<leftarrow> sendProfile Q built ev authUser endpoint db;
         Some (db, out @ disconnects (rows (sel_endpoints target) db)) } }"

definition change_system :: "osip_message \<Rightarrow> int \<Rightarrow> database \<Rightarrow> database" where
  "change_system msg target db = (case header_text msg ''x-system'' of None \<Rightarrow> db
     | Some v \<Rightarrow> if toBool v then run (ins_admin ''system'' target) db
         else run (del_admin (\<lambda>n. n_authname n = ''system'' \<and> n_extnbr n = target)) db)"

text \<open>The \<open>x-suspend\<close> header: refused for groups; the flag tells whether to disconnect.\<close>

definition change_suspend :: "osip_message \<Rightarrow> authorize_row \<Rightarrow> database \<Rightarrow> (database \<times> bool) option" where
  "change_suspend msg a db = (case header_text msg ''x-suspend'' of None \<Rightarrow> Some (db, False)
     | Some v \<Rightarrow>
       if a_type a \<noteq> ''DEVICE'' \<and> a_type a \<noteq> ''USER'' then None
       else if toBool v then Some (run (upd_authorize (a_name a) (\<lambda>a. a\<lparr>a_access := ''SUSPEND''\<rparr>)) db, True)
       else Some (run (upd_authorize (a_name a) (\<lambda>a. a\<lparr>a_access := ''LOCAL''\<rparr>)) db, False))"

definition changeAdmin :: "qt_lib \<Rightarrow> bool \<Rightarrow> event \<Rightarrow> string \<Rightarrow> int \<Rightarrow> database \<Rightarrow> db_result option" where
  "changeAdmin Q built ev authUser endpoint db = do {
     target \<leftarrow> target_number ev;
     if target \<noteq> 0 \<and> out_of_range target db then Some (db, snd (reply ev SIP_FORBIDDEN))
     else case record1 (sel_profile target) db of None \<Rightarrow> Some (db, snd (reply ev SIP_NOT_FOUND))
     | Some (x, a) \<Rightarrow>
       if \<not> is_sysadmin (ev_number ev) db then Some (db, snd (reply ev SIP_FORBIDDEN))
       else do {
         msg \<leftarrow> ev_sent ev;
         let db = change_system msg target db;
         case change_suspend msg a db of None \<Rightarrow> Some (db, snd (reply ev SIP_NOT_ACCEPTABLE_HERE))
         | Some (db, disconnect) \<Rightarrow> do {
             (db, out) \<leftarrow> sendProfile Q built ev authUser endpoint db;
             Some (db, out @ (if disconnect then disconnects (rows (sel_user_endpoints (a_name a)) db) else [])) } } }"

text \<open>
  The loops over repeated headers: \<open>osip_message_header_get_byname (msg, name, pos++, \<dots>)\<close> searches
  from position \<open>pos\<close>, so a header is seen again until \<open>pos\<close> has passed it; the results are sets.
\<close>

fun scan_headers :: "osip_params \<Rightarrow> string \<Rightarrow> int list \<Rightarrow> int list" where
  "scan_headers [] name acc = acc"
| "scan_headers (h # hs) name acc =
    (case header_find (h # hs) name of None \<Rightarrow> acc
     | Some value \<Rightarrow> scan_headers hs name
         (case value of None \<Rightarrow> acc | Some v \<Rightarrow> if atoi v > 0 then set_insert (atoi v) acc else acc))"

definition change_group :: "osip_message \<Rightarrow> int \<Rightarrow> string \<Rightarrow> database \<Rightarrow> database" where
  "change_group msg target groupName db =
    (let db = run (del_groups target) db;
         members = scan_headers (msg_headers msg) ''x-group-member'' [];
         db = fold (\<lambda>(grp, num). run (ins_group grp num)) (map (\<lambda>m. (target, m)) members) db;
         groupAdmin = (if target \<noteq> 0 then (case header_value msg ''x-group-admin'' of Some v \<Rightarrow> atoi v | None \<Rightarrow> 0) else 0)
     in if groupAdmin > 0 then
          run (ins_admin groupName groupAdmin) (run (del_admin (\<lambda>n. n_authname n = groupName))
            (run (ins_group target groupAdmin) db))
        else db)"

definition changeMembership :: "qt_lib \<Rightarrow> bool \<Rightarrow> event \<Rightarrow> string \<Rightarrow> int \<Rightarrow> database \<Rightarrow> db_result option" where
  "changeMembership Q built ev authUser endpoint db = do {
     target \<leftarrow> target_number ev;
     if target \<noteq> 0 \<and> out_of_range target db then Some (db, snd (reply ev SIP_FORBIDDEN))
     else case record1 (sel_profile target) db of None \<Rightarrow> Some (db, snd (reply ev SIP_NOT_FOUND))
     | Some (x, a) \<Rightarrow>
       if target \<noteq> 0 \<and> \<not> is_group (a_type a) then Some (db, snd (reply ev SIP_NOT_ACCEPTABLE_HERE))
       else if \<not> is_sysadmin (ev_number ev) db \<and> record1 (sel_admin (a_name a) (ev_number ev)) db = None
         then Some (db, snd (reply ev SIP_FORBIDDEN))
       else (case ev_sent ev of None \<Rightarrow> Some (db, snd (reply ev SIP_AMBIGUOUS))
         | Some msg \<Rightarrow> do {
             (db, out) \<leftarrow> sendProfile Q built ev authUser endpoint (change_group msg target (a_name a) db);
             Some (case header_text msg ''x-reason'' of None \<Rightarrow> (db, out)
               | Some reason \<Rightarrow> notify_all ev (''--- '' @ unescape reason) target (row_display x a)
                   (scan_headers (msg_headers msg) ''x-notify'' []) (db, out)) }) }"

definition removeDevice :: "qt_lib \<Rightarrow> bool \<Rightarrow> event \<Rightarrow> string \<Rightarrow> int \<Rightarrow> database \<Rightarrow> db_result option" where
  "removeDevice Q built ev authUser endpoint db = do {
     target \<leftarrow> target_number ev;
     let num = ev_number ev;
     if target \<noteq> num \<or> out_of_range num db then Some (db, snd (reply ev SIP_FORBIDDEN))
     else (case ev_sent ev of None \<Rightarrow> Some (db, snd (reply ev SIP_AMBIGUOUS))
       | Some msg \<Rightarrow> (case header_text msg ''x-remove'' of None \<Rightarrow> Some (db, snd (reply ev SIP_NOT_ACCEPTABLE_HERE))
         | Some removeLabel \<Rightarrow>
           if removeLabel = label_of ev then Some (db, snd (reply ev SIP_FORBIDDEN))
           else (case record1 (sel_endpoint num removeLabel) db of None \<Rightarrow> Some (db, snd (reply ev SIP_NOT_FOUND))
             | Some p \<Rightarrow> do {
                 (db, out) \<leftarrow> sendProfile Q built ev authUser endpoint
                   (run (del_endpoints (\<lambda>q. p_endpoint q = p_endpoint p)) db);
                 Some (db, Emit (DisconnectEndpoint (p_endpoint p)) # out) }))) }"

end
