(* ===== verification/AdminFacts.thy ===== *)
theory AdminFacts
  imports Administration
begin

text \<open>
  The contract of the database slots: each request is answered exactly once, keeps the integrity
  of the tables, and dereferences no null pointer when its target and its message are there.
\<close>

text \<open>The registrations a database slot asks the stack to create.\<close>

definition created :: "db_signal effect list \<Rightarrow> db_signal list" where
  "created out = filter (\<lambda>s. case s of CreateEndpoint _ _ \<Rightarrow> True | _ \<Rightarrow> False) (emitted out)"

lemma created_simps [simp]:
  "created [] = []" "created (out @ out') = created out @ created out'"
  "created (Emit s # out) = (case s of CreateEndpoint _ _ \<Rightarrow> [s] | _ \<Rightarrow> []) @ created out"
  "created (snd (reply ev code)) = []" "created (snd (answerWithJson built ev json)) = []"
  by (simp_all add: created_def split: db_signal.split)

locale database_slot =
  fixes slot :: "qt_lib \<Rightarrow> bool \<Rightarrow> event \<Rightarrow> string \<Rightarrow> int \<Rightarrow> database \<Rightarrow> db_result option"
  assumes sound: "\<lbrakk>slot Q built ev user ep db = Some (db', out); db_ok db\<rbrakk> \<Longrightarrow> db_ok db'"
    and defined: "\<lbrakk>target_number ev \<noteq> None; ev_sent ev \<noteq> None\<rbrakk> \<Longrightarrow> slot Q built ev user ep db \<noteq> None"
    and answered: "\<lbrakk>slot Q True ev user ep db = Some (db', out); ev_type ev = MESSAGE_NEW\<rbrakk> \<Longrightarrow>
      length (answers out) = 1 \<and> created out = []"
begin

lemma completes:
  assumes "target_number ev \<noteq> None" "ev_sent ev \<noteq> None" "ev_type ev = MESSAGE_NEW" "db_ok db"
  shows "\<exists>db' out. slot Q True ev user ep db = Some (db', out) \<and> db_ok db' \<and>
    length (answers out) = 1 \<and> created out = []"
proof -
  obtain db' out where "slot Q True ev user ep db = Some (db', out)"
    using defined[OF assms(1,2), of Q True user ep db] by (cases "slot Q True ev user ep db") auto
  then show ?thesis using sound answered assms(3,4) by blast
qed

end

section \<open>Profiles\<close>

lemma answers_json [simp]: "answers (snd (answerWithJson True ev json)) = [SIP_OK]"
  by (simp add: answerWithJson_def)

lemma change_profile_db:
  assumes "change_profile Q ev user ep target a obj db = Inr ((db', out), obj')"
  shows "\<exists>display email access secret. db' =
      run (upd_authorize (a_name a) (\<lambda>a. a\<lparr>a_email := email, a_access := access, a_secret := secret\<rparr>))
        (run (upd_extension target (\<lambda>x. x\<lparr>x_display := display\<rparr>)) db) \<and> answers out = [] \<and> created out = []"
proof -
  let ?json = "q_fromJson Q (body_of ev)"
  let ?allowed = "a_name a = user \<or> is_sysadmin (ev_number ev) db"
  obtain access obj1 where ok: "change_access (toUpper (json_string ?json ''a'')) a db obj = Inr (access, obj1)"
    using assms by (auto simp: change_profile_def Let_def split: if_splits sum.splits)
  obtain display email obj2 where texts: "change_texts (toUpper (json_string ?json ''a'')) ?allowed a (json_string ?json ''d'')
      (json_string ?json ''e'') obj1 = (display, email, obj2)"
    using prod_cases3 by blast
  show ?thesis
    using assms ok texts by (auto simp: change_profile_def Let_def split: if_splits)
qed

lemma sendProfile_cases:
  assumes "sendProfile Q built ev user ep db = Some (db', out)"
  obtains (refused) code where "db' = db" "out = snd (reply ev code)"
    | (shown) json where "db' = db" "out = snd (answerWithJson built ev json)"
    | (changed) target x a display email access secret out1 json where "target_number ev = Some target"
      "record1 (sel_profile target) db = Some (x, a)"
      "db' = run (upd_authorize (a_name a) (\<lambda>a. a\<lparr>a_email := email, a_access := access, a_secret := secret\<rparr>))
        (run (upd_extension target (\<lambda>x. x\<lparr>x_display := display\<rparr>)) db)"
      "out = out1 @ snd (answerWithJson built ev json)" "answers out1 = []" "created out1 = []"
proof -
  obtain target where target: "target_number ev = Some target"
    using assms by (cases "target_number ev") (simp_all add: sendProfile_def)
  show ?thesis
  proof (cases "target \<noteq> 0 \<and> out_of_range target db")
    case True
    with assms target show ?thesis by (intro refused[of SIP_FORBIDDEN]) (simp_all add: sendProfile_def)
  next
    case inside: False
    show ?thesis
    proof (cases "record1 (sel_profile target) db")
      case None
      with assms target inside show ?thesis by (intro refused[of SIP_NOT_FOUND]) (auto simp: sendProfile_def)
    next
      case (Some r)
      then obtain x a where xa: "record1 (sel_profile target) db = Some (x, a)" by (cases r) auto
      let ?obj = "profile_self Q ev target a db (profile_object Q ev target x a db)"
      have run: "(if length (body_of ev) > 0 then
          (case change_profile Q ev user ep target a ?obj db of
             Inl code \<Rightarrow> (db, snd (reply ev code))
           | Inr ((db, out), obj) \<Rightarrow> (db, out @ snd (answerWithJson built ev (q_toJson Q (JObject obj)))))
        else (db, snd (answerWithJson built ev (q_toJson Q (JObject ?obj))))) = (db', out)"
        using assms target inside xa by (auto simp: sendProfile_def Let_def)
      show ?thesis
      proof (cases "length (body_of ev) > 0")
        case False
        with run show ?thesis by (intro shown) auto
      next
        case True
        show ?thesis
        proof (cases "change_profile Q ev user ep target a ?obj db")
          case (Inl code)
          with run True show ?thesis by (intro refused[of code]) auto
        next
          case (Inr res)
          then obtain db1 out1 obj1 where res: "change_profile Q ev user ep target a ?obj db = Inr ((db1, out1), obj1)"
            by (metis prod.exhaust)
          from change_profile_db[OF this] obtain display email access secret where
            "db1 = run (upd_authorize (a_name a) (\<lambda>a. a\<lparr>a_email := email, a_access := access, a_secret := secret\<rparr>))
              (run (upd_extension target (\<lambda>x. x\<lparr>x_display := display\<rparr>)) db)" "answers out1 = []" "created out1 = []" by blast
          with run True res target xa show ?thesis by (intro changed) auto
        qed
      qed
    qed
  qed
qed

interpretation profile_slot: database_slot sendProfile
proof
  fix Q built ev user ep and db db' :: database and out
  assume run: "sendProfile Q built ev user ep db = Some (db', out)" and ok: "db_ok db"
  from run show "db_ok db'"
  proof (cases rule: sendProfile_cases)
    case (changed target x a display email access secret out1 json)
    have "db_ok (run (upd_extension target (\<lambda>x. x\<lparr>x_display := display\<rparr>)) db)"
      using ok by (simp add: upd_extension_ok)
    then show ?thesis unfolding changed(3) by (intro upd_authorize_ok) simp_all
  qed (use ok in simp_all)
next
  fix Q built ev user ep and db :: database
  assume "target_number ev \<noteq> None"
  then show "sendProfile Q built ev user ep db \<noteq> None" by (auto simp: sendProfile_def)
next
  fix Q ev user ep and db db' :: database and out
  assume run: "sendProfile Q True ev user ep db = Some (db', out)" and type: "ev_type ev = MESSAGE_NEW"
  from run show "length (answers out) = 1 \<and> created out = []"
    by (cases rule: sendProfile_cases) (simp_all add: type)
qed

section \<open>Notifications\<close>

lemma adminMessage_answers:
  "answers (snd (snd (adminMessage ev to body sender display secs db))) = []"
  "created (snd (snd (adminMessage ev to body sender display secs db))) = []"
proof -
  let ?row = "\<lambda>i. \<lparr>m_mid = i, m_seq = ev_sequence ev, m_from = number sender, m_to = number to,
      m_subject = subject_of ev, m_display = display, m_posted = ev_timestamp ev,
      m_expires = message_expiry secs (ev_timestamp ev), m_type = ''admin'', m_text = body\<rparr>"
  obtain db1 mno where ins: "ins_message ?row db = (db1, mno)" by fastforce
  have "answers (map (\<lambda>ep. Emit (SendMessage ep data)) xs) = []" "created (map (\<lambda>ep. Emit (SendMessage ep data)) xs) = []"
    for data xs by (induction xs) simp_all
  with ins show "answers (snd (snd (adminMessage ev to body sender display secs db))) = []"
    "created (snd (snd (adminMessage ev to body sender display secs db))) = []"
    by (cases mno; simp add: adminMessage_def Let_def post_outbox_fold del: filter_True)+
qed

lemma notify_all_answers:
  "notify_all ev body sender display tos (db, out) = (db', out') \<Longrightarrow>
    answers out' = answers out \<and> created out' = created out"
proof (induction tos arbitrary: db out)
  case (Cons to tos)
  obtain ok db1 sent where msg: "adminMessage ev to body sender display 0 db = (ok, db1, sent)"
    using prod_cases3 by blast
  then have "notify_all ev body sender display tos (db1, out @ sent) = (db', out')"
    using Cons.prems by (simp add: notify_all_def)
  moreover have "answers sent = []" "created sent = []"
    using adminMessage_answers[of ev to body sender display 0 db] msg by simp_all
  ultimately show ?case using Cons.IH by fastforce
qed (simp add: notify_all_def)

lemma notify_all_ok:
  "\<lbrakk>notify_all ev body sender display tos (db, out) = (db', out'); db_ok db\<rbrakk> \<Longrightarrow> db_ok db'"
proof (induction tos arbitrary: db out)
  case (Cons to tos)
  obtain ok db1 sent where msg: "adminMessage ev to body sender display 0 db = (ok, db1, sent)"
    using prod_cases3 by blast
  then have "notify_all ev body sender display tos (db1, out @ sent) = (db', out')"
    using Cons.prems(1) by (simp add: notify_all_def)
  moreover have "db_ok db1"
    using adminMessage_ok[OF Cons.prems(2), of ev to body sender display 0] msg by simp
  ultimately show ?case using Cons.IH[of db1 "out @ sent"] by simp
qed (simp add: notify_all_def)

lemma disconnects_answers [simp]: "answers (disconnects ps) = []" "created (disconnects ps) = []"
  by (induction ps) (simp_all add: disconnects_def)

end
