(* ===== verification/AdminSlots.thy ===== *)
theory AdminSlots
  imports AdminFacts
begin

text \<open>
  Every administrative slot of the database fulfils the contract \<open>database_slot\<close>; who may change
  what: the privileges the slots check before they change a table.
\<close>

lemma run_insert_ok:
  "db_ok db \<Longrightarrow> db_ok (run (ins_authorize a) db)"
  "db_ok db \<Longrightarrow> db_ok (run (ins_extension num name display) db)"
  "db_ok db \<Longrightarrow> db_ok (run (ins_endpoint num label) db)"
  "db_ok db \<Longrightarrow> db_ok (run (ins_group grp num) db)"
  "db_ok db \<Longrightarrow> db_ok (run (ins_admin name num) db)"
  "db_ok db \<Longrightarrow> db_ok (run (ins_calling name num priority) db)"
  using authorize_insert.run_ok extension_insert.run_ok[of db "(num, name, display)"]
    endpoint_insert.run_ok[of db "(num, label)"] group_insert.run_ok[of db "(grp, num)"]
    admin_insert.run_ok[of db "(name, num)"] calling_insert.run_ok[of db "(name, num, priority)"] by simp_all

lemma run_delete_ok:
  "db_ok db \<Longrightarrow> db_ok (run (del_groups grp) db)"
  "db_ok db \<Longrightarrow> db_ok (run (del_admin cond) db)"
  "db_ok db \<Longrightarrow> db_ok (run (del_calling name num) db)"
  "db_ok db \<Longrightarrow> db_ok (run (del_endpoints gone) db)"
  using group_delete.run_ok admin_delete.run_ok calling_delete.run_ok[of db "(name, num)"]
    endpoint_delete.run_ok by simp_all

lemmas run_ok = run_insert_ok run_delete_ok upd_authorize_ok upd_extension_ok

lemma profile_defined: "target_number ev = Some t \<Longrightarrow> \<exists>db' out. sendProfile Q built ev user ep db = Some (db', out)"
  using profile_slot.defined[of ev] by (auto simp: sendProfile_def)

lemma profile_function:
  assumes "target_number ev \<noteq> None"
  obtains t P where "target_number ev = Some t" "\<And>db. sendProfile Q built ev user ep db = Some (P db)"
proof -
  obtain t where t: "target_number ev = Some t" using assms by blast
  then have "\<forall>db. \<exists>r. sendProfile Q built ev user ep db = Some r" using profile_defined by blast
  then show ?thesis using that[OF t] by metis
qed

section \<open>Authorizations and topics\<close>

lemma authorize_user_ok: "\<lbrakk>authorize_user json exist db = Inr (user, grouped, db'); db_ok db\<rbrakk> \<Longrightarrow> db_ok db'"
  by (auto simp: authorize_user_def Let_def run_ok split: if_splits)

lemma changeAuthorize_cases:
  assumes "changeAuthorize Q ev db = Some (db', out)"
  obtains (refused) code where "db' = db" "out = snd (reply ev code)"
    | (granted) target user grouped db1 where "target_number ev = Some target" "is_sysadmin (ev_number ev) db"
        "\<not> out_of_range target db"
        "authorize_user (q_fromJson Q (body_of ev)) (record1 (sel_extension target) db \<noteq> None) db = Inr (user, grouped, db1)"
        "answers out = answers (snd (reply ev SIP_OK) :: db_signal effect list) \<or>
         answers out = answers (snd (reply ev SIP_CONFLICT) :: db_signal effect list)" "created out = []"
        "db' = db1 \<or> db' = run (ins_extension target user []) db1 \<or>
         db' = run (ins_endpoint target ''NONE'') (run (ins_extension target user []) db1)"
proof -
  obtain target where target: "target_number ev = Some target"
    using assms by (cases "target_number ev") (simp_all add: changeAuthorize_def)
  show ?thesis
  proof (cases "out_of_range target db \<or> \<not> is_sysadmin (ev_number ev) db")
    case True
    then show ?thesis using assms target
      by (intro refused[of SIP_FORBIDDEN]) (auto simp: changeAuthorize_def split: if_splits)
  next
    case False
    let ?exist = "record1 (sel_extension target) db \<noteq> None"
    show ?thesis
    proof (cases "authorize_user (q_fromJson Q (body_of ev)) ?exist db")
      case (Inl code)
      then show ?thesis using assms target False
        by (intro refused[of code]) (auto simp: changeAuthorize_def Let_def)
    next
      case (Inr r)
      then obtain user grouped db1 where
        r: "authorize_user (q_fromJson Q (body_of ev)) ?exist db = Inr (user, grouped, db1)" by (cases r) auto
      with assms target False show ?thesis
        by (intro granted[of target user grouped db1]) (auto simp: changeAuthorize_def Let_def split: if_splits)
    qed
  qed
qed

interpretation authorize_slot: database_slot "\<lambda>Q built ev user ep. changeAuthorize Q ev"
proof
  fix Q built ev user ep and db db' :: database and out
  assume run: "changeAuthorize Q ev db = Some (db', out)" and ok: "db_ok db"
  from run show "db_ok db'"
  proof (cases rule: changeAuthorize_cases)
    case (granted target user grouped db1)
    from authorize_user_ok[OF granted(4) ok] granted(7) show ?thesis by (auto intro!: run_ok)
  qed (use ok in simp)
next
  fix Q built ev user ep and db :: database
  assume "target_number ev \<noteq> None"
  then show "changeAuthorize Q ev db \<noteq> None" by (auto simp: changeAuthorize_def Let_def)
next
  fix Q ev user ep and db db' :: database and out
  assume run: "changeAuthorize Q ev db = Some (db', out)" and type: "ev_type ev = MESSAGE_NEW"
  from run show "length (answers out) = 1 \<and> created out = []"
    by (cases rule: changeAuthorize_cases) (auto simp: type)
qed

lemma changeTopic_cases:
  assumes "changeTopic ev db = Some (db', out)"
  obtains (refused) code where "db' = db" "out = snd (reply ev code)"
    | (told) msgs where "(db', out) = fold (\<lambda>(sender, display, tos) st. notify_all ev (topic_text ev) sender display tos st)
        msgs (db, snd (reply ev SIP_OK))"
proof -
  obtain target where target: "target_number ev = Some target"
    using assms by (cases "target_number ev") (simp_all add: changeTopic_def)
  show ?thesis
  proof (cases "out_of_range target db")
    case True
    then show ?thesis using assms target by (intro refused[of SIP_FORBIDDEN]) (auto simp: changeTopic_def)
  next
    case inside: False
    show ?thesis
    proof (cases "record1 (sel_profile target) db")
      case None
      with assms target inside show ?thesis by (intro refused[of SIP_NOT_FOUND]) (auto simp: changeTopic_def)
    next
      case (Some r)
      then obtain x a where xa: "record1 (sel_profile target) db = Some (x, a)" by (cases r) auto
      consider (unsent) "ev_sent ev = None" | (single) "ev_sent ev \<noteq> None" "\<not> is_group (a_type a)"
        | (stranger) "ev_sent ev \<noteq> None" "is_group (a_type a)" "record1 (sel_member target (ev_number ev)) db = None"
        | (member) "ev_sent ev \<noteq> None" "is_group (a_type a)" "record1 (sel_member target (ev_number ev)) db \<noteq> None"
        by blast
      then show ?thesis
      proof cases
        case unsent
        with assms target inside xa show ?thesis by (intro refused[of SIP_AMBIGUOUS]) (auto simp: changeTopic_def)
      next
        case single
        with assms target inside xa show ?thesis
          by (intro told[of "[(ev_number ev, row_display x a, [target]), (target, display_of ev, [ev_number ev])]"])
            (auto simp: changeTopic_def)
      next
        case stranger
        with assms target inside xa show ?thesis by (intro refused[of SIP_FORBIDDEN]) (auto simp: changeTopic_def)
      next
        case member
        with assms target inside xa show ?thesis
          by (intro told[of "[(target, display_of ev, map g_extnbr (rows (sel_members target) db))]"])
            (auto simp: changeTopic_def)
      qed
    qed
  qed
qed

lemma notify_fold_answers:
  "fold (\<lambda>(sender, display, tos) st. notify_all ev body sender display tos st) msgs (db, out) = (db', out') \<Longrightarrow>
    answers out' = answers out \<and> created out' = created out"
proof (induction msgs arbitrary: db out)
  case (Cons m msgs)
  obtain sender display tos where m: "m = (sender, display, tos)" by (cases m)
  obtain db1 out1 where step: "notify_all ev body sender display tos (db, out) = (db1, out1)" by fastforce
  from notify_all_answers[OF this] Cons.IH[of db1 out1] Cons.prems show ?case by (simp add: m step)
qed simp

lemma notify_fold_ok:
  "\<lbrakk>fold (\<lambda>(sender, display, tos) st. notify_all ev body sender display tos st) msgs (db, out) = (db', out'); db_ok db\<rbrakk> \<Longrightarrow>
    db_ok db'"
proof (induction msgs arbitrary: db out)
  case (Cons m msgs)
  obtain sender display tos where m: "m = (sender, display, tos)" by (cases m)
  obtain db1 out1 where step: "notify_all ev body sender display tos (db, out) = (db1, out1)" by fastforce
  from notify_all_ok[OF this Cons.prems(2)] Cons.IH[of db1 out1] Cons.prems(1) show ?case by (simp add: m step)
qed simp

interpretation topic_slot: database_slot "\<lambda>Q built ev user ep. changeTopic ev"
proof
  fix Q built ev user ep and db db' :: database and out
  assume run: "changeTopic ev db = Some (db', out)" and ok: "db_ok db"
  from run show "db_ok db'"
    by (cases rule: changeTopic_cases) (use ok notify_fold_ok[OF sym] in blast)+
next
  fix Q built ev user ep and db :: database
  assume "target_number ev \<noteq> None"
  then show "changeTopic ev db \<noteq> None" by (auto simp: changeTopic_def)
next
  fix Q ev user ep and db db' :: database and out
  assume run: "changeTopic ev db = Some (db', out)" and type: "ev_type ev = MESSAGE_NEW"
  from run show "length (answers out) = 1 \<and> created out = []"
  proof (cases rule: changeTopic_cases)
    case (told msgs)
    obtain db2 out2 where "fold (\<lambda>(sender, display, tos) st. notify_all ev (topic_text ev) sender display tos st)
        msgs (db, snd (reply ev SIP_OK)) = (db2, out2)" by fastforce
    then show ?thesis using told type notify_fold_answers by fastforce
  qed (simp add: type)
qed

section \<open>Requests that end with the profile\<close>

text \<open>
  Most requests refuse with a reply or change the tables and answer with the profile; what they send
  besides are signals.
\<close>

locale profile_request =
  fixes slot :: "qt_lib \<Rightarrow> bool \<Rightarrow> event \<Rightarrow> string \<Rightarrow> int \<Rightarrow> database \<Rightarrow> db_result option"
  assumes outcome: "slot Q built ev user ep db = Some (db', out) \<Longrightarrow>
      (db_ok db \<longrightarrow> db_ok db') \<and> (\<exists>code. out = snd (reply ev code)) \<or>
      (\<exists>db1 db2 shown. (db_ok db \<longrightarrow> db_ok db1) \<and> sendProfile Q built ev user ep db1 = Some (db2, shown) \<and>
         answers out = answers shown \<and> created out = created shown \<and> (db_ok db2 \<longrightarrow> db_ok db'))"
    and total: "\<lbrakk>target_number ev \<noteq> None; ev_sent ev \<noteq> None\<rbrakk> \<Longrightarrow> slot Q built ev user ep db \<noteq> None"

sublocale profile_request \<subseteq> database_slot slot
proof
  fix Q built ev user ep and db db' :: database and out
  assume "slot Q built ev user ep db = Some (db', out)" "db_ok db"
  then show "db_ok db'" using outcome profile_slot.sound by blast
next
  fix Q ev user ep and db db' :: database and out
  assume "slot Q True ev user ep db = Some (db', out)" and type: "ev_type ev = MESSAGE_NEW"
  then consider (refused) code where "out = snd (reply ev code)"
    | (shown) db1 db2 shown where "sendProfile Q True ev user ep db1 = Some (db2, shown)" "answers out = answers shown" "created out = created shown"
    using outcome by blast
  then show "length (answers out) = 1 \<and> created out = []"
    by cases (use profile_slot.answered[OF _ type] in \<open>simp_all add: type\<close>)
qed (rule total)

interpretation forwarding_slot: profile_request changeForwarding
proof
  fix Q built ev user ep and db db' :: database and out
  assume "changeForwarding Q built ev user ep db = Some (db', out)"
  then have "db' = db \<and> (\<exists>code. out = snd (reply ev code)) \<or>
      (\<exists>fwd fwdTo f name. set_forwarding fwd fwdTo = Some f \<and>
         sendProfile Q built ev user ep (run (upd_authorize name f) db) = Some (db', out))"
    by (auto simp: changeForwarding_def Let_def split: if_splits option.splits bind_splits)
  moreover have "\<lbrakk>set_forwarding fwd fwdTo = Some f; db_ok db\<rbrakk> \<Longrightarrow> db_ok (run (upd_authorize name f) db)" for fwd fwdTo f name
    by (rule upd_authorize_ok) (auto simp: set_forwarding_def split: if_splits)
  ultimately show "(db_ok db \<longrightarrow> db_ok db') \<and> (\<exists>code. out = snd (reply ev code)) \<or>
      (\<exists>db1 db2 shown. (db_ok db \<longrightarrow> db_ok db1) \<and> sendProfile Q built ev user ep db1 = Some (db2, shown) \<and>
         answers out = answers shown \<and> created out = created shown \<and> (db_ok db2 \<longrightarrow> db_ok db'))" by blast
next
  fix Q built ev user ep and db :: database
  assume addressed: "target_number ev \<noteq> None" and sent: "ev_sent ev \<noteq> None"
  obtain t P where "target_number ev = Some t" "\<And>db. sendProfile Q built ev user ep db = Some (P db)"
    using profile_function[OF addressed] by blast
  moreover obtain msg where "ev_sent ev = Some msg" using sent by blast
  ultimately show "changeForwarding Q built ev user ep db \<noteq> None"
    by (auto simp: changeForwarding_def Let_def case_prod_unfold split: option.split)
qed

interpretation coverage_slot: profile_request changeCoverage
proof
  fix Q built ev user ep and db db' :: database and out
  assume run: "changeCoverage Q built ev user ep db = Some (db', out)"
  then have "db' = db \<and> (\<exists>code. out = snd (reply ev code)) \<or>
      (\<exists>name priority. sendProfile Q built ev user ep (set_coverage user (ev_number ev) priority name db) = Some (db', out))"
    by (auto simp: changeCoverage_def Let_def split: if_splits option.splits bind_splits)
  moreover have "db_ok db \<Longrightarrow> db_ok (set_coverage user num priority name db)" for num priority name
    by (simp add: set_coverage_def Let_def run_ok)
  ultimately show "(db_ok db \<longrightarrow> db_ok db') \<and> (\<exists>code. out = snd (reply ev code)) \<or>
      (\<exists>db1 db2 shown. (db_ok db \<longrightarrow> db_ok db1) \<and> sendProfile Q built ev user ep db1 = Some (db2, shown) \<and>
         answers out = answers shown \<and> created out = created shown \<and> (db_ok db2 \<longrightarrow> db_ok db'))" by blast
next
  fix Q built ev user ep and db :: database
  assume addressed: "target_number ev \<noteq> None" and sent: "ev_sent ev \<noteq> None"
  obtain t P where "target_number ev = Some t" "\<And>db. sendProfile Q built ev user ep db = Some (P db)"
    using profile_function[OF addressed] by blast
  moreover obtain msg where "ev_sent ev = Some msg" using sent by blast
  ultimately show "changeCoverage Q built ev user ep db \<noteq> None"
    by (auto simp: changeCoverage_def Let_def case_prod_unfold split: option.split)
qed

lemma scan_groups_ok:
  "db_ok db \<Longrightarrow> db_ok (fold (\<lambda>(grp, num). run (ins_group grp num)) ps db)"
  using group_insert.fold_ok[of db ps] by (simp add: case_prod_unfold)

lemma change_group_ok: "db_ok db \<Longrightarrow> db_ok (change_group msg target name db)"
  by (simp add: change_group_def Let_def run_ok scan_groups_ok)

lemma change_system_ok: "db_ok db \<Longrightarrow> db_ok (change_system msg target db)"
  by (simp add: change_system_def run_ok split: option.split)

lemma change_suspend_ok: "\<lbrakk>change_suspend msg a db = Some (db', d); db_ok db\<rbrakk> \<Longrightarrow> db_ok db'"
  by (auto simp: change_suspend_def run_ok split: option.splits if_splits)

interpretation drop_slot: profile_request dropExtension
proof
  fix Q built ev user ep and db db' :: database and out
  assume "dropExtension Q built ev user ep db = Some (db', out)"
  then have "db' = db \<and> (\<exists>code. out = snd (reply ev code)) \<or>
      (\<exists>shown ps. sendProfile Q built ev user ep db = Some (db', shown) \<and> out = shown @ disconnects ps)"
    by (auto simp: dropExtension_def split: if_splits option.splits bind_splits)
  then show "(db_ok db \<longrightarrow> db_ok db') \<and> (\<exists>code. out = snd (reply ev code)) \<or>
      (\<exists>db1 db2 shown. (db_ok db \<longrightarrow> db_ok db1) \<and> sendProfile Q built ev user ep db1 = Some (db2, shown) \<and>
         answers out = answers shown \<and> created out = created shown \<and> (db_ok db2 \<longrightarrow> db_ok db'))" by fastforce
next
  fix Q built ev user ep and db :: database
  assume addressed: "target_number ev \<noteq> None" and sent: "ev_sent ev \<noteq> None"
  obtain t P where "target_number ev = Some t" "\<And>db. sendProfile Q built ev user ep db = Some (P db)"
    using profile_function[OF addressed] by blast
  moreover obtain msg where "ev_sent ev = Some msg" using sent by blast
  ultimately show "dropExtension Q built ev user ep db \<noteq> None"
    by (auto simp: dropExtension_def Let_def case_prod_unfold split: option.split)
qed

interpretation admin_slot: profile_request changeAdmin
proof
  fix Q built ev user ep and db db' :: database and out
  assume "changeAdmin Q built ev user ep db = Some (db', out)"
  then have "db' = db \<and> (\<exists>code. out = snd (reply ev code)) \<or>
      (\<exists>msg target code. db' = change_system msg target db \<and> out = snd (reply ev code)) \<or>
      (\<exists>msg target a db1 d shown ps. change_suspend msg a (change_system msg target db) = Some (db1, d) \<and>
         sendProfile Q built ev user ep db1 = Some (db', shown) \<and> out = shown @ (if d then disconnects ps else []))"
    by (auto simp: changeAdmin_def Let_def split: if_splits option.splits bind_splits) fastforce+
  then show "(db_ok db \<longrightarrow> db_ok db') \<and> (\<exists>code. out = snd (reply ev code)) \<or>
      (\<exists>db1 db2 shown. (db_ok db \<longrightarrow> db_ok db1) \<and> sendProfile Q built ev user ep db1 = Some (db2, shown) \<and>
         answers out = answers shown \<and> created out = created shown \<and> (db_ok db2 \<longrightarrow> db_ok db'))"
  proof (elim disjE exE conjE)
    fix msg target a db1 d shown ps
    assume "change_suspend msg a (change_system msg target db) = Some (db1, d)"
      "sendProfile Q built ev user ep db1 = Some (db', shown)" "out = shown @ (if d then disconnects ps else [])"
    then show ?thesis using change_suspend_ok change_system_ok
      by (intro disjI2 exI[of _ db1] exI[of _ db'] exI[of _ shown]) auto
  qed (use change_system_ok in blast)+
next
  fix Q built ev user ep and db :: database
  assume addressed: "target_number ev \<noteq> None" and sent: "ev_sent ev \<noteq> None"
  obtain t P where "target_number ev = Some t" "\<And>db. sendProfile Q built ev user ep db = Some (P db)"
    using profile_function[OF addressed] by blast
  moreover obtain msg where "ev_sent ev = Some msg" using sent by blast
  ultimately show "changeAdmin Q built ev user ep db \<noteq> None"
    by (auto simp: changeAdmin_def Let_def case_prod_unfold split: option.split)
qed

interpretation device_slot: profile_request removeDevice
proof
  fix Q built ev user ep and db db' :: database and out
  assume "removeDevice Q built ev user ep db = Some (db', out)"
  then have "db' = db \<and> (\<exists>code. out = snd (reply ev code)) \<or>
      (\<exists>n shown. sendProfile Q built ev user ep (run (del_endpoints (\<lambda>q. p_endpoint q = n)) db) = Some (db', shown) \<and>
         out = Emit (DisconnectEndpoint n) # shown)"
    by (auto simp: removeDevice_def Let_def split: if_splits option.splits bind_splits)
  then show "(db_ok db \<longrightarrow> db_ok db') \<and> (\<exists>code. out = snd (reply ev code)) \<or>
      (\<exists>db1 db2 shown. (db_ok db \<longrightarrow> db_ok db1) \<and> sendProfile Q built ev user ep db1 = Some (db2, shown) \<and>
         answers out = answers shown \<and> created out = created shown \<and> (db_ok db2 \<longrightarrow> db_ok db'))"
    using run_delete_ok(4) by fastforce
next
  fix Q built ev user ep and db :: database
  assume addressed: "target_number ev \<noteq> None" and sent: "ev_sent ev \<noteq> None"
  obtain t P where "target_number ev = Some t" "\<And>db. sendProfile Q built ev user ep db = Some (P db)"
    using profile_function[OF addressed] by blast
  moreover obtain msg where "ev_sent ev = Some msg" using sent by blast
  ultimately show "removeDevice Q built ev user ep db \<noteq> None"
    by (auto simp: removeDevice_def Let_def case_prod_unfold split: option.split)
qed

interpretation membership_slot: profile_request changeMembership
proof
  fix Q built ev user ep and db db' :: database and out
  assume "changeMembership Q built ev user ep db = Some (db', out)"
  then have "db' = db \<and> (\<exists>code. out = snd (reply ev code)) \<or>
      (\<exists>msg target name db2 shown. sendProfile Q built ev user ep (change_group msg target name db) = Some (db2, shown) \<and>
         ((db', out) = (db2, shown) \<or> (\<exists>body sender display tos. notify_all ev body sender display tos (db2, shown) = (db', out))))"
    by (auto simp: changeMembership_def Let_def split: if_splits option.splits bind_splits) metis+
  then show "(db_ok db \<longrightarrow> db_ok db') \<and> (\<exists>code. out = snd (reply ev code)) \<or>
      (\<exists>db1 db2 shown. (db_ok db \<longrightarrow> db_ok db1) \<and> sendProfile Q built ev user ep db1 = Some (db2, shown) \<and>
         answers out = answers shown \<and> created out = created shown \<and> (db_ok db2 \<longrightarrow> db_ok db'))"
  proof (elim disjE exE conjE)
    fix msg target name db2 shown
    assume shown: "sendProfile Q built ev user ep (change_group msg target name db) = Some (db2, shown)"
    note rest = change_group_ok[of db msg target name]
    { assume "(db', out) = (db2, shown)"
      with shown rest show ?thesis by blast
    next
      fix body sender display tos
      assume told: "notify_all ev body sender display tos (db2, shown) = (db', out)"
      from notify_all_answers[OF told] notify_all_ok[OF told] shown rest show ?thesis by metis
    }
  qed blast
next
  fix Q built ev user ep and db :: database
  assume addressed: "target_number ev \<noteq> None" and sent: "ev_sent ev \<noteq> None"
  obtain t P where "target_number ev = Some t" "\<And>db. sendProfile Q built ev user ep db = Some (P db)"
    using profile_function[OF addressed] by blast
  moreover obtain msg where "ev_sent ev = Some msg" using sent by blast
  ultimately show "changeMembership Q built ev user ep db \<noteq> None"
    by (auto simp: changeMembership_def Let_def case_prod_unfold split: option.split)
qed

end
