(* ===== verification/Authorizing.thy ===== *)
theory Authorizing
  imports AdminSlots
begin

text \<open>
  \<open>Database/authorize.cpp\<close>: the authorization thread. \<open>findEndpoint\<close> looks up who may register
  (the stack checks the secret afterwards), \<open>removeAuthorization\<close> deletes a user. \<open>ready\<close> says
  whether the thread has a connection (\<open>db != nullptr\<close>); the statements run on the same tables.
\<close>

section \<open>Finding an endpoint\<close>

text \<open>The longest time a registration may last, by transport.\<close>

definition expiry_limit :: "string \<Rightarrow> string \<Rightarrow> int \<Rightarrow> database \<Rightarrow> int" where
  "expiry_limit label protocol secs db =
    (if label \<noteq> ''NONE'' \<and> protocol = ''udp'' \<and> secs > expiresNat db then expiresNat db
     else if protocol = ''udp'' \<and> secs > expiresUdp db then expiresUdp db
     else if secs > expiresTcp db then expiresTcp db
     else secs)"

text \<open>The host part of the request uri.\<close>

definition request_origin :: "string \<Rightarrow> string" where
  "request_origin uri =
    (let roffset = indexOf uri (CHR ''@'');
         roffset = (if roffset < 1 then indexOf uri (CHR '':'') else roffset)
     in if roffset > 0 then mid uri (roffset + 1) else uri)"

definition registration_privs :: "int \<Rightarrow> database \<Rightarrow> string" where
  "registration_privs num db =
    (if is_sysadmin num db then ''sysadmin'' else if is_operator num db then ''operator'' else ''none'')"

definition endpoint_id :: "endpoint_row option \<Rightarrow> int" where
  "endpoint_id found = (case found of None \<Rightarrow> 0 | Some p \<Rightarrow> p_endpoint p)"

text \<open>
  The client's request for a new device label: the endpoint is created, or its outbox reset, before
  anything is known about the client. \<open>None\<close> refuses an unknown label.
\<close>

definition initialize_label ::
  "event \<Rightarrow> int \<Rightarrow> string \<Rightarrow> endpoint_row option \<Rightarrow> database \<Rightarrow> (db_result \<times> endpoint_row option) option" where
  "initialize_label ev num label found db =
    (if initialize_of ev = ''label'' then
       Some (case found of
         None \<Rightarrow> (let db = run (ins_endpoint num label) db;
                      found = record1 (sel_endpoint num label) db;
                      origin = record1 (sel_endpoint num ''NONE'') db
                  in ((db, [Emit (CopyOutboxes (endpoint_id origin) (endpoint_id found))]), found))
       | Some p \<Rightarrow> ((db, [Emit (SyncOutbox (p_endpoint p))]), found))
     else if found = None then None
     else Some ((db, []), found))"

definition endpoint_reply :: "event \<Rightarrow> int \<Rightarrow> extension_row \<Rightarrow> authorize_row \<Rightarrow> endpoint_row option \<Rightarrow> database \<Rightarrow> endpoint_hash" where
  "endpoint_reply ev num x a found db =
    \<lparr>ep_display = (if x_display x = [] then (if a_fullname a = [] then x_authname x else a_fullname a) else x_display x),
     ep_user = x_authname x, ep_secret = a_secret a, ep_origin = request_origin (ev_request ev),
     ep_privs = registration_privs num db, ep_number = num, ep_label = label_of ev,
     ep_expires = expiry_limit (label_of ev) (ev_protocol ev) (expires_of ev) db,
     ep_realm = a_realm a, ep_digest = a_digest a, ep_endpoint = endpoint_id found\<rparr>"

text \<open>The checks on the user of the extension; \<open>None\<close> refuses with 403.\<close>

definition admitted :: "string \<Rightarrow> database \<Rightarrow> authorize_row option" where
  "admitted user db = do {
     a \<leftarrow> record1 (sel_authorize user) db;
     if a_access a = ''SUSPEND'' then None
     else if a_type a \<noteq> ''USER'' \<and> a_type a \<noteq> ''DEVICE'' then None
     else Some a }"

definition findEndpoint :: "bool \<Rightarrow> event \<Rightarrow> database \<Rightarrow> db_result" where
  "findEndpoint ready ev db =
    (let num = ev_number ev; label = label_of ev in
     if firstNumber db < 1 \<or> \<not> ready then (db, snd (reply ev SIP_INTERNAL_SERVER_ERROR))
     else if expires_of ev < 1 then (db, snd (reply ev SIP_OK))
     else if out_of_range num db then (db, snd (reply ev SIP_DOES_NOT_EXIST_ANYWHERE))
     else (case record1 (sel_extension num) db of None \<Rightarrow> (db, snd (reply ev SIP_NOT_FOUND))
       | Some x \<Rightarrow> (case initialize_label ev num label (record1 (sel_endpoint num label) db) db of
           None \<Rightarrow> (db, snd (reply ev SIP_FORBIDDEN))
         | Some ((db, out), found) \<Rightarrow> (case admitted (x_authname x) db of
             None \<Rightarrow> (db, out @ snd (reply ev SIP_FORBIDDEN))
           | Some a \<Rightarrow> (db, out @ [Emit (CreateEndpoint ev (Some (endpoint_reply ev num x a found db)))])))))"

section \<open>Removing an authorization\<close>

definition removeAuthorization :: "event \<Rightarrow> database \<Rightarrow> db_result option" where
  "removeAuthorization ev db = do {
     msg \<leftarrow> ev_message ev;
     username \<leftarrow> to_username msg;
     let user = unquote [CHR 0x22] (cstr username);
     Some (if \<not> is_sysadmin (ev_number ev) db then (db, snd (reply ev SIP_FORBIDDEN))
       else case record1 (sel_authorize user) db of None \<Rightarrow> (db, snd (reply ev SIP_NOT_FOUND))
       | Some a \<Rightarrow>
         if toUpper (a_type a) = ''SYSTEM'' then (db, snd (reply ev SIP_FORBIDDEN))
         else (let db = run (del_authorize user) db;
                   db = fold (\<lambda>(name, ep, created). run (ins_delete name ep created))
                     (map (\<lambda>p. (user, p_endpoint p, a_created a)) (rows sel_labeled db)) db
               in (db, snd (reply ev SIP_OK) @ [Emit UpdateRoster]))) }"

section \<open>Lemmas\<close>

lemma initialize_label_ok:
  "\<lbrakk>initialize_label ev num label found db = Some ((db', out), found'); db_ok db\<rbrakk> \<Longrightarrow>
    db_ok db' \<and> answers out = [] \<and> created out = []"
  by (auto simp: initialize_label_def Let_def run_ok split: if_splits option.splits)

lemma findEndpoint_cases:
  assumes "findEndpoint ready ev db = (db', out)"
  obtains (refused) code where "db' = db" "out = snd (reply ev code)"
    | (late) x sync found where "record1 (sel_extension (ev_number ev)) db = Some x"
        "initialize_label ev (ev_number ev) (label_of ev) (record1 (sel_endpoint (ev_number ev) (label_of ev)) db) db
           = Some ((db', sync), found)"
        "admitted (x_authname x) db' = None" "out = sync @ snd (reply ev SIP_FORBIDDEN)"
    | (created) x sync found a where "record1 (sel_extension (ev_number ev)) db = Some x"
        "initialize_label ev (ev_number ev) (label_of ev) (record1 (sel_endpoint (ev_number ev) (label_of ev)) db) db
           = Some ((db', sync), found)"
        "admitted (x_authname x) db' = Some a" "\<not> out_of_range (ev_number ev) db" "expires_of ev \<ge> 1"
        "out = sync @ [Emit (CreateEndpoint ev (Some (endpoint_reply ev (ev_number ev) x a found db')))]"
proof (cases "firstNumber db < 1 \<or> \<not> ready \<or> expires_of ev < 1 \<or> out_of_range (ev_number ev) db")
  case True
  then have "\<exists>code. db' = db \<and> out = snd (reply ev code)"
    using assms by (auto simp: findEndpoint_def Let_def split: if_splits)
  then show ?thesis using refused by blast
next
  case inside: False
  let ?label = "initialize_label ev (ev_number ev) (label_of ev) (record1 (sel_endpoint (ev_number ev) (label_of ev)) db) db"
  show ?thesis
  proof (cases "record1 (sel_extension (ev_number ev)) db")
    case None
    with assms inside show ?thesis by (intro refused[of SIP_NOT_FOUND]) (auto simp: findEndpoint_def)
  next
    case x: (Some x)
    show ?thesis
    proof (cases ?label)
      case None
      with assms inside x show ?thesis by (intro refused[of SIP_FORBIDDEN]) (auto simp: findEndpoint_def)
    next
      case (Some r)
      then obtain db1 sync found where r: "?label = Some ((db1, sync), found)" by (metis prod.exhaust)
      with assms inside x have out: "(db', out) = (case admitted (x_authname x) db1 of
          None \<Rightarrow> (db1, sync @ snd (reply ev SIP_FORBIDDEN))
        | Some a \<Rightarrow> (db1, sync @ [Emit (CreateEndpoint ev (Some (endpoint_reply ev (ev_number ev) x a found db1)))]))"
        by (simp add: findEndpoint_def Let_def)
      show ?thesis
      proof (cases "admitted (x_authname x) db1")
        case None
        with out r x show ?thesis by (intro late[of x sync found]) simp_all
      next
        case (Some a)
        with out r x inside show ?thesis by (intro created[of x sync found a]) simp_all
      qed
    qed
  qed
qed

lemma findEndpoint_ok: "\<lbrakk>findEndpoint ready ev db = (db', out); db_ok db\<rbrakk> \<Longrightarrow> db_ok db'"
  by (cases rule: findEndpoint_cases[where ready = ready and ev = ev and db = db and db' = db' and out = out])
    (auto dest: initialize_label_ok)

lemma removal_deletes_ok:
  "db_ok db \<Longrightarrow> db_ok (fold (\<lambda>(name, ep, created). run (ins_delete name ep created)) ps db)"
  using delete_insert.fold_ok[of db ps] by (simp add: case_prod_unfold)

interpretation removal_slot: database_slot "\<lambda>Q built ev user ep. removeAuthorization ev"
proof
  fix Q built ev user ep and db db' :: database and out
  assume "removeAuthorization ev db = Some (db', out)" "db_ok db"
  then show "db_ok db'"
    by (auto simp: removeAuthorization_def Let_def authorize_delete.run_ok removal_deletes_ok
        split: bind_splits if_splits option.splits)
next
  fix Q built ev user ep and db :: database
  assume "target_number ev \<noteq> None"
  then show "removeAuthorization ev db \<noteq> None"
    by (auto simp: removeAuthorization_def target_number_def Let_def split: bind_splits)
next
  fix Q ev user ep and db db' :: database and out
  assume "removeAuthorization ev db = Some (db', out)" "ev_type ev = MESSAGE_NEW"
  then show "length (answers out) = 1 \<and> created out = []"
    by (auto simp: removeAuthorization_def Let_def split: bind_splits if_splits option.splits)
qed

end
