(* ===== verification/AuthorizeFacts.thy ===== *)
theory AuthorizeFacts
  imports Authorizing
begin

text \<open>
  What the authorization thread guarantees: the offer of a registration rests on stored rows and is
  limited in time, a removed user gets none, and what an unauthenticated request can change.
\<close>

lemma expiry_limit_bounds:
  assumes "secs \<ge> 1" "expiresNat db \<ge> 1" "expiresUdp db \<ge> 1" "expiresTcp db \<ge> 1"
  shows "1 \<le> expiry_limit label protocol secs db" "expiry_limit label protocol secs db \<le> secs"
    "expiry_limit label protocol secs db \<le> (if protocol = ''udp'' then
       (if label \<noteq> ''NONE'' then expiresNat db else expiresUdp db) else expiresTcp db)"
  using assms by (auto simp: expiry_limit_def)

lemma record1_mem: "record1 query db = Some r \<Longrightarrow> r \<in> set (query db)"
  by (auto simp: record1_def rows_def split: list.splits if_splits)

lemma admitted_row:
  "admitted user db = Some a \<Longrightarrow> a \<in> set (t_authorize db) \<and> a_name a = user \<and> a_access a \<noteq> ''SUSPEND'' \<and>
    (a_type a = ''USER'' \<or> a_type a = ''DEVICE'')"
  by (auto simp: admitted_def sel_authorize_def dest!: record1_mem split: bind_splits if_splits)

lemma initialize_label_rows:
  assumes "initialize_label ev num label (record1 (sel_endpoint num label) db) db = Some ((db', sync), found)"
    "record1 (sel_extension num) db = Some x"
  shows "t_authorize db' = t_authorize db"
    "\<exists>p \<in> set (t_endpoints db'). found = Some p \<and> p_extnbr p = num \<and> p_label p = label"
    "emitted sync \<in> {[]} \<union> range (\<lambda>(a, b). [CopyOutboxes a b]) \<union> range (\<lambda>a. [SyncOutbox a])"
proof -
  have up: "db_up db" using assms(2) by (cases "db_up db") simp_all
  have x: "num \<in> x_number ` set (t_extensions db)"
    using record1_mem[OF assms(2)] by (auto simp: sel_extension_def)
  show "t_authorize db' = t_authorize db"
    using assms(1) by (auto simp: initialize_label_def Let_def run_def ins_endpoint_def split: if_splits option.splits)
  show "\<exists>p \<in> set (t_endpoints db'). found = Some p \<and> p_extnbr p = num \<and> p_label p = label"
  proof (cases "record1 (sel_endpoint num label) db")
    case None
    then have none: "sel_endpoint num label db = []" using up by (auto simp: record1_def rows_def split: list.splits)
    then have "record1 (sel_endpoint num label) (ins_endpoint num label db) = Some \<lparr>p_endpoint = next_endpoint db,
        p_extnbr = num, p_label = label, p_agent = [], p_devkey = [], p_created = db_clock db,
        p_lastaccess = \<lparr>toMSecs = 0, offsetFromUtc = 0\<rparr>, p_lasturi = []\<rparr>"
      using x up by (simp add: ins_endpoint_def has_extension_def record1_def rows_def sel_endpoint_def)
    with assms(1) None up x none show ?thesis
      by (auto simp: initialize_label_def Let_def run_def ins_endpoint_def has_extension_def split: if_splits)
  next
    case (Some p)
    then have "found = Some p \<and> db' = db" using assms(1) by (auto simp: initialize_label_def split: if_splits)
    moreover have "p \<in> set (t_endpoints db) \<and> p_extnbr p = num \<and> p_label p = label"
      using record1_mem[OF Some] by (auto simp: sel_endpoint_def)
    ultimately show ?thesis by blast
  qed
  show "emitted sync \<in> {[]} \<union> range (\<lambda>(a, b). [CopyOutboxes a b]) \<union> range (\<lambda>a. [SyncOutbox a])"
    using assms(1) by (auto simp: initialize_label_def Let_def image_iff split: if_splits option.splits)
qed

lemma deletes_kept:
  fixes d :: database
  defines "deletes ps \<equiv> fold (\<lambda>(name, ep, created). run (ins_delete name ep created)) ps"
  shows "t_authorize (deletes ps d) = t_authorize d" "t_extensions (deletes ps d) = t_extensions d"
    "db_up (deletes ps d) = db_up d"
proof -
  have "t_authorize (deletes ps d) = t_authorize d \<and> t_extensions (deletes ps d) = t_extensions d \<and>
      db_up (deletes ps d) = db_up d"
    unfolding deletes_def
  proof (induction ps arbitrary: d)
    case (Cons p ps)
    obtain n e c where p: "p = (n, e, c)" by (cases p)
    have "t_authorize (run (ins_delete n e c) d) = t_authorize d" "t_extensions (run (ins_delete n e c) d) = t_extensions d"
      "db_up (run (ins_delete n e c) d) = db_up d" by (simp_all add: run_def ins_delete_def)
    then show ?case by (simp add: Cons.IH p)
  qed simp
  then show "t_authorize (deletes ps d) = t_authorize d" "t_extensions (deletes ps d) = t_extensions d"
    "db_up (deletes ps d) = db_up d" by simp_all
qed

lemma reply_no_emit [simp]: "Emit s \<notin> set (snd (reply ev code))"
  by (simp add: reply_def)

text \<open>A device of user 102 asks to register, and the system administrator removes that user.\<close>

definition sample_join :: "string \<Rightarrow> string \<Rightarrow> event" where
  "sample_join label start = (sample_event [] [] 60)\<lparr>ev_number := 102,
     ev_parsed := parsed_empty\<lparr>ev_label := label, ev_initialize := start, ev_expires := 60\<rparr>\<rparr>"

lemma sample_join_simps:
  "ev_number (sample_join label start) = 102" "label_of (sample_join label start) = label"
  "initialize_of (sample_join label start) = start" "expires_of (sample_join label start) = 60"
  "ev_protocol (sample_join label start) = ''tcp''"
  by (simp_all add: sample_join_def sample_event_def ev_protocol_def ctx_type_def sample_ctx_def)

lemma sample_join_rows:
  "record1 (sel_extension (ev_number (sample_join label start))) sample_db =
     Some \<lparr>x_number = 102, x_authname = ''other'', x_priority = 0, x_display = [], x_pubkey = []\<rparr>"
  "record1 (sel_endpoint 102 ''b'') sample_db = Some (sample_device 2 102 ''b'')"
  "record1 (sel_endpoint 102 ''c'') sample_db = None"
  "\<not> out_of_range 102 sample_db" "firstNumber sample_db = 100"
  "admitted ''other'' sample_db = Some (sample_user ''other'')"
  by (simp_all add: sample_join_simps record1_def rows_def sel_extension_def sel_endpoint_def sample_db_def
      sample_device_def out_of_range_def admitted_def sel_authorize_def sample_user_def)

definition sample_removal :: event where
  "sample_removal = sample_request_event ((sample_request ''X-DEAUTHORIZE'' None)\<lparr>msg_to :=
     Some \<lparr>from_displayname = None, from_url = Some (sample_uri ''other'')\<rparr>\<rparr>)"

section \<open>Properties\<close>

text \<open>
  C21. The offer of a registration. When the authorization thread lets an endpoint register, the
  number is in the dialing range and stored, the secret and user are those of the stored
  authorization of that number, which is not suspended and is a user or device, the endpoint id is
  that of the stored row for the number and label, and the time is at least one second and at most
  what was asked and what the transport allows.
\<close>

theorem endpoint_offer:
  assumes "findEndpoint ready ev db = (db', out)" "CreateEndpoint ev' ep \<in> set (emitted out)"
    "expiresNat db' \<ge> 1" "expiresUdp db' \<ge> 1" "expiresTcp db' \<ge> 1"
  shows "\<exists>h x a. ev' = ev \<and> ep = Some h \<and> \<not> out_of_range (ep_number h) db \<and> ep_number h = ev_number ev \<and>
    x \<in> set (t_extensions db) \<and> x_number x = ep_number h \<and>
    a \<in> set (t_authorize db) \<and> a_name a = x_authname x \<and> ep_user h = a_name a \<and> ep_secret h = a_secret a \<and>
    a_access a \<noteq> ''SUSPEND'' \<and> (a_type a = ''USER'' \<or> a_type a = ''DEVICE'') \<and>
    (\<exists>p \<in> set (t_endpoints db'). p_endpoint p = ep_endpoint h \<and> p_extnbr p = ev_number ev \<and> p_label p = label_of ev) \<and>
    1 \<le> ep_expires h \<and> ep_expires h \<le> expires_of ev \<and>
    ep_expires h \<le> (if ev_protocol ev = ''udp'' then (if label_of ev \<noteq> ''NONE'' then expiresNat db' else expiresUdp db')
      else expiresTcp db')"
  using assms(1)
proof (cases rule: findEndpoint_cases)
  case (created x sync found a)
  note rows = initialize_label_rows[OF created(2,1)]
  have x: "x \<in> set (t_extensions db)" "x_number x = ev_number ev"
    using record1_mem[OF created(1)] by (auto simp: sel_extension_def)
  let ?h = "endpoint_reply ev (ev_number ev) x a found db'"
  have "ev' = ev \<and> ep = Some ?h" using assms(2) created(6) rows(3) by auto
  moreover note admitted_row[OF created(3)] rows(1)
  moreover have "\<exists>p \<in> set (t_endpoints db'). p_endpoint p = ep_endpoint ?h \<and> p_extnbr p = ev_number ev \<and> p_label p = label_of ev"
    using rows(2) by (auto simp: endpoint_reply_def endpoint_id_def)
  moreover note expiry_limit_bounds[OF created(5) assms(3-5), of "label_of ev" "ev_protocol ev"]
  ultimately show ?thesis using created(4) x
    by (intro exI[of _ ?h] exI[of _ x] exI[of _ a]) (simp add: endpoint_reply_def)
next
  case (late x sync found)
  with assms(2) initialize_label_rows(3)[OF late(2,1)] show ?thesis by auto
qed (use assms(2) in simp)

lemma endpoint_offer_witness:
  "\<exists>h. emitted (snd (findEndpoint True (sample_join ''b'' []) sample_db)) = [CreateEndpoint (sample_join ''b'' []) (Some h)] \<and>
    ep_secret h = a_secret (sample_user ''other'') \<and> ep_expires h \<le> 60"
proof -
  obtain h where h: "findEndpoint True (sample_join ''b'' []) sample_db =
      (sample_db, [Emit (CreateEndpoint (sample_join ''b'' []) (Some h))])"
    by (simp add: findEndpoint_def Let_def sample_join_simps sample_join_rows[simplified sample_join_simps] initialize_label_def)
  from endpoint_offer[OF h, of "sample_join ''b'' []" "Some h"] h show ?thesis
    by (fastforce simp: sample_join_simps sample_db_def sample_user_def)
qed





end
