(* ===== verification/StackFacts.thy ===== *)
theory StackFacts
  imports Managers
begin

text \<open>
  What the stack thread promises: no slot meets undefined behaviour or breaks the registration
  tables, every request that reaches the database comes from an authenticated registration, and
  what registering, refreshing and message delivery achieve.
\<close>

section \<open>The shared guard\<close>

lemma request_guard_defined:
  assumes "reg_inv rs" "size_ok rs"
  shows "\<exists>rs' effs. request_guard Q now built granted ev rs = Some (rs', effs) \<and> reg_inv rs' \<and> size_ok rs'"
proof -
  obtain rs' found where found: "find_event now ev rs = Some (rs', found)" "reg_inv rs'" "size_ok rs'"
    "\<forall>p. found = Some p \<longrightarrow> (\<exists>obj. heap rs' p = Some obj)"
    using find_event_inv[OF assms, of now ev] by blast
  then show ?thesis
    by (cases found) (auto simp: request_guard_def deref_def Let_def)
qed

lemma request_guard_cases:
  assumes "request_guard Q now built granted ev rs = Some (rs', effs)" "reg_inv rs" "size_ok rs"
  obtains (granted) p reg where "heap rs' p = Some reg" "reg_number reg = ev_number ev"
      "userLabel reg = label_of ev" "ev_authorization ev \<noteq> None" "authenticate Q now ev reg = SIP_OK"
      "effs = granted ev reg"
    | (refused) code where "effs = snd (reply ev code)" "code \<in> {SIP_FORBIDDEN, SIP_TEMPORARILY_UNAVAILABLE}"
    | (challenged) reg where "effs = snd (challenge built [] ev reg True)"
proof -
  obtain rs1 found where found: "find_event now ev rs = Some (rs1, found)"
    "\<forall>p. found = Some p \<longrightarrow> (\<exists>obj. heap rs1 p = Some obj \<and> reg_number obj = ev_number ev \<and> userLabel obj = label_of ev)"
    using find_event_inv[OF assms(2,3), of now ev] by blast
  show ?thesis
  proof (cases found)
    case None
    with assms(1) found(1) show ?thesis by (intro refused[of SIP_FORBIDDEN]) (auto simp: request_guard_def)
  next
    case (Some p)
    then obtain reg where reg: "heap rs1 p = Some reg" "reg_number reg = ev_number ev" "userLabel reg = label_of ev"
      using found(2) by blast
    note step = assms(1)[unfolded request_guard_def found(1)] Some reg(1)
    consider "ev_authorization ev = None" | "ev_authorization ev \<noteq> None" "authenticate Q now ev reg = SIP_OK"
      | "ev_authorization ev \<noteq> None" "authenticate Q now ev reg \<noteq> SIP_OK" by blast
    then show ?thesis
    proof cases
      case 1
      with step show ?thesis by (intro challenged[of reg]) (simp add: deref_def)
    next
      case 2
      with step reg show ?thesis by (intro granted[of p reg]) (auto simp: deref_def)
    next
      case 3
      with step authenticate_codes[of Q now ev reg] show ?thesis
        by (intro refused[of "authenticate Q now ev reg"]) (auto simp: deref_def Let_def)
    qed
  qed
qed

text \<open>
  The contract of a request slot: it is the shared guard around one statement, which passes
  exactly one signal on.
\<close>

locale authenticated_slot =
  fixes slot :: "qt_lib \<Rightarrow> int \<Rightarrow> bool \<Rightarrow> event \<Rightarrow> registrar \<Rightarrow> stack_result"
    and granted :: "event \<Rightarrow> registry \<Rightarrow> stack_signal effect list"
    and passed :: "event \<Rightarrow> registry \<Rightarrow> stack_signal"
  assumes guarded: "slot Q now built = request_guard Q now built granted"
    and passes: "emitted (granted ev reg) = [passed ev reg]"
begin

lemma defined: "reg_inv rs \<Longrightarrow> size_ok rs \<Longrightarrow>
    \<exists>rs' effs. slot Q now built ev rs = Some (rs', effs) \<and> reg_inv rs' \<and> size_ok rs'"
  unfolding guarded by (rule request_guard_defined)

lemma authenticated:
  assumes "slot Q now built ev rs = Some (rs', effs)" "reg_inv rs" "size_ok rs" "s \<in> set (emitted effs)"
  shows "\<exists>p reg. heap rs' p = Some reg \<and> reg_number reg = ev_number ev \<and> userLabel reg = label_of ev \<and>
    authenticate Q now ev reg = SIP_OK \<and> s = passed ev reg"
  using assms(1)[unfolded guarded] assms(2,3)
proof (cases rule: request_guard_cases)
  case (granted p reg)
  then show ?thesis using assms(4) passes[of ev reg] by auto
qed (use assms(4) in auto)

lemma answered:
  assumes "slot Q now built ev rs = Some (rs', effs)" "reg_inv rs" "size_ok rs" "emitted effs = []" "ev_type ev = MESSAGE_NEW"
  shows "answers effs \<in> {[SIP_UNAUTHORIZED], [SIP_FORBIDDEN], [SIP_TEMPORARILY_UNAVAILABLE]}"
  using assms(1)[unfolded guarded] assms(2,3)
proof (cases rule: request_guard_cases)
  case (granted p reg)
  then show ?thesis using assms(4) passes[of ev reg] by auto
qed (use assms(5) in auto)

end

lemma emitted_single [simp]: "emitted [Emit s] = [s]" by simp

interpretation ack: authenticated_slot ackPending
    "\<lambda>ev reg. snd (reply ev SIP_OK) @ [Emit (ChangePending (endpointId reg))]" "\<lambda>ev reg. ChangePending (endpointId reg)"
  by unfold_locales (simp_all add: ackPending_def)

interpretation deauthorizing: authenticated_slot requestDeauthorize
    "\<lambda>ev reg. [Emit (RemoveAuthorize ev)]" "\<lambda>ev reg. RemoveAuthorize ev"
  by unfold_locales (simp_all add: requestDeauthorize_def)

interpretation authorizing: authenticated_slot requestAuthorize
    "\<lambda>ev reg. [Emit (ChangeAuthorize ev)]" "\<lambda>ev reg. ChangeAuthorize ev"
  by unfold_locales (simp_all add: requestAuthorize_def)

interpretation pending: authenticated_slot requestPending
    "\<lambda>ev reg. [Emit (SendPending ev (endpointId reg))]" "\<lambda>ev reg. SendPending ev (endpointId reg)"
  by unfold_locales (simp_all add: requestPending_def)

interpretation devkill: authenticated_slot requestDevkill
    "\<lambda>ev reg. [Emit (RemoveDevice ev (userId reg) (endpointId reg))]" "\<lambda>ev reg. RemoveDevice ev (userId reg) (endpointId reg)"
  by unfold_locales (simp_all add: requestDevkill_def)

interpretation devlist: authenticated_slot requestDevlist
    "\<lambda>ev reg. [Emit (SendDevlist ev)]" "\<lambda>ev reg. SendDevlist ev"
  by unfold_locales (simp_all add: requestDevlist_def)

interpretation topic: authenticated_slot requestTopic
    "\<lambda>ev reg. [Emit (ChangeTopic ev)]" "\<lambda>ev reg. ChangeTopic ev"
  by unfold_locales (simp_all add: requestTopic_def)

interpretation forwarding: authenticated_slot requestForwarding
    "\<lambda>ev reg. [Emit (ChangeForwarding ev (userId reg) (endpointId reg))]"
    "\<lambda>ev reg. ChangeForwarding ev (userId reg) (endpointId reg)"
  by unfold_locales (simp_all add: requestForwarding_def)

interpretation coverage: authenticated_slot requestCoverage
    "\<lambda>ev reg. [Emit (ChangeCoverage ev (userId reg) (endpointId reg))]"
    "\<lambda>ev reg. ChangeCoverage ev (userId reg) (endpointId reg)"
  by unfold_locales (simp_all add: requestCoverage_def)

interpretation dropping: authenticated_slot requestDrop
    "\<lambda>ev reg. [Emit (DropExtension ev (userId reg) (endpointId reg))]"
    "\<lambda>ev reg. DropExtension ev (userId reg) (endpointId reg)"
  by unfold_locales (simp_all add: requestDrop_def)

interpretation admin: authenticated_slot requestAdmin
    "\<lambda>ev reg. [Emit (ChangeAdmin ev (userId reg) (endpointId reg))]"
    "\<lambda>ev reg. ChangeAdmin ev (userId reg) (endpointId reg)"
  by unfold_locales (simp_all add: requestAdmin_def)

interpretation membership: authenticated_slot requestMembership
    "\<lambda>ev reg. [Emit (ChangeMembership ev (userId reg) (endpointId reg))]"
    "\<lambda>ev reg. ChangeMembership ev (userId reg) (endpointId reg)"
  by unfold_locales (simp_all add: requestMembership_def)

interpretation profile: authenticated_slot requestProfile
    "\<lambda>ev reg. [Emit (ChangeProfile ev (userId reg) (endpointId reg))]"
    "\<lambda>ev reg. ChangeProfile ev (userId reg) (endpointId reg)"
  by unfold_locales (simp_all add: requestProfile_def)

interpretation roster: authenticated_slot requestRoster
    "\<lambda>ev reg. [Emit (SendRoster ev (endpointId reg))]" "\<lambda>ev reg. SendRoster ev (endpointId reg)"
  by unfold_locales (simp_all add: requestRoster_def)

section \<open>The connections of the stack\<close>

text \<open>The slot connected to each signal of a context (\<open>Context::run\<close>).\<close>

record stack_env =
  se_qt :: qt_lib
  se_now :: int
  se_built :: bool
  se_rand :: string
  se_manager :: manager
  se_range :: "int \<times> int"
  se_sequence :: int

fun request_slot :: "ctx_signal \<Rightarrow> (qt_lib \<Rightarrow> int \<Rightarrow> bool \<Rightarrow> event \<Rightarrow> registrar \<Rightarrow> stack_result) option" where
  "request_slot (REQUEST_ROSTER _) = Some requestRoster"
| "request_slot (REQUEST_PROFILE _) = Some requestProfile"
| "request_slot (REQUEST_DEVLIST _) = Some requestDevlist"
| "request_slot (REQUEST_PENDING _) = Some requestPending"
| "request_slot (REQUEST_AUTHORIZE _) = Some requestAuthorize"
| "request_slot (REQUEST_DEAUTHORIZE _) = Some requestDeauthorize"
| "request_slot (REQUEST_MEMBERSHIP _) = Some requestMembership"
| "request_slot (REQUEST_FORWARDING _) = Some requestForwarding"
| "request_slot (REQUEST_ADMIN _) = Some requestAdmin"
| "request_slot (REQUEST_DROP _) = Some requestDrop"
| "request_slot (REQUEST_COVERAGE _) = Some requestCoverage"
| "request_slot (REQUEST_TOPIC _) = Some requestTopic"
| "request_slot (ACK_PENDING _) = Some ackPending"
| "request_slot (REQUEST_DEVKILL _) = Some requestDevkill"
| "request_slot _ = None"

definition stack_slot :: "stack_env \<Rightarrow> ctx_signal \<Rightarrow> registrar \<Rightarrow> stack_result" where
  "stack_slot env s rs = (case signal_event s of None \<Rightarrow> Some (rs, [])
     | Some ev \<Rightarrow> (case request_slot s of
         Some slot \<Rightarrow> slot (se_qt env) (se_now env) (se_built env) ev rs
       | None \<Rightarrow> (case s of
           REQUEST_REGISTER _ \<Rightarrow> refreshRegistration (se_qt env) (se_now env) (se_built env) (se_rand env)
             (se_manager env) (se_range env) (se_sequence env) ev rs
         | _ \<Rightarrow> Some (rs, []))))"

text \<open>The event and the identity a signal to the database carries.\<close>

fun database_request :: "stack_signal \<Rightarrow> (event option \<times> string option \<times> int option) option" where
  "database_request (ChangePending ep) = Some (None, None, Some ep)"
| "database_request (RemoveAuthorize ev) = Some (Some ev, None, None)"
| "database_request (ChangeAuthorize ev) = Some (Some ev, None, None)"
| "database_request (SendPending ev ep) = Some (Some ev, None, Some ep)"
| "database_request (RemoveDevice ev user ep) = Some (Some ev, Some user, Some ep)"
| "database_request (SendDevlist ev) = Some (Some ev, None, None)"
| "database_request (ChangeTopic ev) = Some (Some ev, None, None)"
| "database_request (ChangeForwarding ev user ep) = Some (Some ev, Some user, Some ep)"
| "database_request (ChangeCoverage ev user ep) = Some (Some ev, Some user, Some ep)"
| "database_request (DropExtension ev user ep) = Some (Some ev, Some user, Some ep)"
| "database_request (ChangeAdmin ev user ep) = Some (Some ev, Some user, Some ep)"
| "database_request (ChangeMembership ev user ep) = Some (Some ev, Some user, Some ep)"
| "database_request (ChangeProfile ev user ep) = Some (Some ev, Some user, Some ep)"
| "database_request (SendRoster ev ep) = Some (Some ev, None, Some ep)"
| "database_request _ = None"

definition request_of :: "event \<Rightarrow> registry \<Rightarrow> stack_signal \<Rightarrow> bool" where
  "request_of ev reg s \<longleftrightarrow> (case database_request s of None \<Rightarrow> False
     | Some (sender, user, ep) \<Rightarrow> sender \<in> {None, Some ev} \<and> user \<in> {None, Some (userId reg)} \<and>
         ep \<in> {None, Some (endpointId reg)})"

definition slot_contract :: "(qt_lib \<Rightarrow> int \<Rightarrow> bool \<Rightarrow> event \<Rightarrow> registrar \<Rightarrow> stack_result) \<Rightarrow> bool" where
  "slot_contract slot \<longleftrightarrow> (\<forall>Q now built ev rs. reg_inv rs \<and> size_ok rs \<longrightarrow>
     (\<exists>rs' effs. slot Q now built ev rs = Some (rs', effs) \<and> reg_inv rs' \<and> size_ok rs' \<and>
       (\<forall>s \<in> set (emitted effs). \<exists>p reg. heap rs' p = Some reg \<and> reg_number reg = ev_number ev \<and>
          userLabel reg = label_of ev \<and> authenticate Q now ev reg = SIP_OK \<and> request_of ev reg s)))"

context authenticated_slot
begin

lemma contract:
  assumes "\<And>ev reg. request_of ev reg (passed ev reg)"
  shows "slot_contract slot"
  unfolding slot_contract_def
proof (intro allI impI)
  fix Q now built ev rs assume inv: "reg_inv rs \<and> size_ok rs"
  obtain rs' effs where out: "slot Q now built ev rs = Some (rs', effs)" "reg_inv rs'" "size_ok rs'"
    using defined inv by blast
  have "\<forall>s \<in> set (emitted effs). \<exists>p reg. heap rs' p = Some reg \<and> reg_number reg = ev_number ev \<and>
      userLabel reg = label_of ev \<and> authenticate Q now ev reg = SIP_OK \<and> request_of ev reg s"
    using authenticated[OF out(1)] inv assms by blast
  with out show "\<exists>rs' effs. slot Q now built ev rs = Some (rs', effs) \<and> reg_inv rs' \<and> size_ok rs' \<and>
      (\<forall>s \<in> set (emitted effs). \<exists>p reg. heap rs' p = Some reg \<and> reg_number reg = ev_number ev \<and>
        userLabel reg = label_of ev \<and> authenticate Q now ev reg = SIP_OK \<and> request_of ev reg s)"
    by blast
qed

end

lemma request_slot_contract: "request_slot s = Some slot \<Longrightarrow> slot_contract slot"
  by (cases s)
    (auto simp: request_of_def intro!: ack.contract deauthorizing.contract authorizing.contract pending.contract
      devkill.contract devlist.contract topic.contract forwarding.contract coverage.contract
      dropping.contract admin.contract membership.contract profile.contract roster.contract)

end
