(* ===== verification/StackProps.thy ===== *)
theory StackProps
  imports StackFacts
begin

text \<open>
  Registration and message delivery through the slots of the stack thread, and the properties of
  the stack as a whole.
\<close>

section \<open>Slots stay within the reachable tables\<close>

lemma reach_find_event:
  "registry_reach Q r rs \<Longrightarrow> find_event now ev rs = Some (rs', found) \<Longrightarrow> registry_reach Q r rs'"
  using registry_reach.step registry_step.found_event by blast

lemma reach_find_endpoint:
  "registry_reach Q r rs \<Longrightarrow> find_endpoint now key rs = Some (rs', found) \<Longrightarrow> registry_reach Q r rs'"
  using registry_reach.step registry_step.found_endpoint by blast

lemma reach_delete: "registry_reach Q r rs \<Longrightarrow> Registry_delete p rs = Some rs' \<Longrightarrow> registry_reach Q r rs'"
  using registry_reach.step registry_step.destroy by blast

lemma reach_authorize:
  "registry_reach Q r rs \<Longrightarrow> update_object p (\<lambda>reg. fst (authorize Q now ev reg)) rs = Some rs' \<Longrightarrow> registry_reach Q r rs'"
  using registry_reach.step registry_step.authorized by blast

lemma reach_challenge:
  "registry_reach Q r rs \<Longrightarrow> update_object p (\<lambda>reg. fst (challenge built rand ev reg False)) rs = Some rs' \<Longrightarrow>
   registry_reach Q r rs'"
  unfolding challenge_fresh using registry_reach.step registry_step.nounced by blast

lemma update_object_Some:
  "heap rs p = Some obj \<Longrightarrow> update_object p f rs = Some (rs\<lparr>heap := (heap rs)(p \<mapsto> f obj)\<rparr>)"
  by (simp add: update_object_def)

lemma update_object_SomeD:
  "update_object p f rs = Some rs' \<Longrightarrow> \<exists>obj. heap rs p = Some obj \<and> rs' = rs\<lparr>heap := (heap rs)(p \<mapsto> f obj)\<rparr>"
  by (auto simp: update_object_def split: option.splits)

lemma Registry_delete_size: "Registry_delete p rs = Some rs' \<Longrightarrow> reg_size rs' = reg_size rs"
  by (auto simp: Registry_delete_def Let_def unset_online_def split: option.splits if_splits)

lemma find_event_size: "find_event now ev rs = Some (rs', found) \<Longrightarrow> reg_size rs' = reg_size rs"
  by (auto simp: find_event_def drop_expired_def bind_eq_Some_conv Registry_delete_size split: option.splits if_splits)

lemma bitmask_defined: "reg_size rs \<le> 125 \<Longrightarrow> \<exists>bits. bitmask Q rs = Some bits"
  by (simp add: bitmask_def)

lemma refresh_defined:
  assumes "registry_reach Q r rs" "reg_size rs \<le> 125"
  shows "\<exists>rs' effs. refreshRegistration Q now built rand m dbrange seq ev rs = Some (rs', effs) \<and>
    registry_reach Q r rs'"
proof -
  have inv: "reg_inv rs" "size_ok rs" using registry_reach_inv assms(1) by auto
  obtain rs1 found where found: "find_event now ev rs = Some (rs1, found)"
    "\<forall>p. found = Some p \<longrightarrow> (\<exists>obj. heap rs1 p = Some obj)"
    using find_event_inv[OF inv, of now ev] by blast
  note reach1 = reach_find_event[OF assms(1) found(1)]
  have size1: "reg_size rs1 \<le> 125" using find_event_size[OF found(1)] assms(2) by simp
  show ?thesis
  proof (cases found)
    case None
    with found(1) reach1 show ?thesis by (simp add: refreshRegistration_def)
  next
    case (Some p)
    then obtain reg where reg: "heap rs1 p = Some reg" using found(2) by blast
    show ?thesis
    proof (cases "ev_authorization ev = None")
      case True
      note upd = update_object_Some[OF reg, of "\<lambda>reg. fst (challenge built rand ev reg False :: _ \<times> stack_signal effect list)"]
      from reach_challenge[OF reach1 upd] True Some reg found(1) upd show ?thesis
        by (simp add: refreshRegistration_def deref_def)
    next
      case False
      then obtain au where au: "ev_authorization ev = Some au" by blast
      let ?rs = "rs1\<lparr>heap := (heap rs1)(p \<mapsto> fst (authorize Q now ev reg))\<rparr>"
      note upd = update_object_Some[OF reg, of "\<lambda>reg. fst (authorize Q now ev reg)"]
      note reach2 = reach_authorize[OF reach1 upd]
      obtain bits where bits: "bitmask Q ?rs = Some bits"
        using bitmask_defined[of ?rs Q] size1 by auto
      have inv2: "reg_inv ?rs" using registry_reach_inv[OF reach2] by blast
      obtain rs3 where rs3: "Registry_delete p ?rs = Some rs3"
        using Registry_delete_Some[OF inv2, of p] by auto
      note reach3 = reach_delete[OF reach2 rs3]
      show ?thesis
        using au Some reg found(1) upd bits rs3 reach2 reach3
        by (cases "snd (authorize Q now ev reg) = SIP_OK"; cases "hasExpired now (fst (authorize Q now ev reg))")
          (simp_all add: refreshRegistration_def deref_def)
    qed
  qed
qed

lemma refresh_signals:
  assumes "refreshRegistration Q now built rand m dbrange seq ev rs = Some (rs', effs)" "t \<in> set (emitted effs)"
  shows "database_request t = None"
proof -
  obtain rs1 found where found: "find_event now ev rs = Some (rs1, found)"
    using assms(1) by (cases "find_event now ev rs") (auto simp: refreshRegistration_def)
  show ?thesis
  proof (cases found)
    case None
    with assms found show ?thesis by (auto simp: refreshRegistration_def)
  next
    case (Some p)
    with assms(1) found obtain reg where reg: "heap rs1 p = Some reg"
      by (cases "heap rs1 p") (auto simp: refreshRegistration_def deref_def)
    let ?rs = "rs1\<lparr>heap := (heap rs1)(p \<mapsto> fst (authorize Q now ev reg))\<rparr>"
    note upd = update_object_Some[OF reg, of "\<lambda>reg. fst (authorize Q now ev reg)"]
      update_object_Some[OF reg, of "\<lambda>reg. fst (challenge built rand ev reg False :: _ \<times> stack_signal effect list)"]
    note run = assms(1)[unfolded refreshRegistration_def found deref_def Some]
    consider "ev_authorization ev = None" | au where "ev_authorization ev = Some au" "snd (authorize Q now ev reg) = SIP_OK"
      | au where "ev_authorization ev = Some au" "snd (authorize Q now ev reg) \<noteq> SIP_OK" by blast
    then show ?thesis
    proof cases
      case 1
      with run reg upd assms(2) show ?thesis by auto
    next
      case 2
      with run reg upd obtain bits where "bitmask Q ?rs = Some bits"
        by (cases "bitmask Q ?rs") (auto simp: Let_def)
      with 2 run reg upd assms(2) show ?thesis
        by (auto simp: Let_def bind_eq_Some_conv split: if_splits)
    next
      case 3
      with run reg upd assms(2) show ?thesis by (auto simp: bind_eq_Some_conv)
    qed
  qed
qed

lemma request_slot_reach:
  assumes "request_slot s = Some slot" "registry_reach Q r rs" "slot Q now built ev rs = Some (rs', effs)"
  shows "registry_reach Q r rs'"
proof -
  have "\<exists>granted. slot Q now built = request_guard Q now built granted"
    using assms(1) by (cases s) (auto simp: ack.guarded deauthorizing.guarded authorizing.guarded pending.guarded
        devkill.guarded devlist.guarded topic.guarded forwarding.guarded coverage.guarded
        dropping.guarded admin.guarded membership.guarded profile.guarded roster.guarded)
  then obtain rs1 found where "find_event now ev rs = Some (rs1, found)" "rs' = rs1"
    using assms(3) by (auto simp: request_guard_def Let_def bind_eq_Some_conv split: option.splits if_splits)
  with reach_find_event[OF assms(2)] show ?thesis by blast
qed

section \<open>Properties\<close>

text \<open>
  C12. The stack thread never meets undefined behaviour on a signal of a context, and its tables
  stay reachable: whatever signal is delivered, with whatever event, the connected slot is defined
  and every later lookup is safe again. (A mask of at most 125 bytes: extension numbers below
  1000.)
\<close>

theorem stack_slots_safe:
  assumes "registry_reach (se_qt env) r rs" "reg_size rs \<le> 125"
  shows "\<exists>rs' effs. stack_slot env s rs = Some (rs', effs) \<and> registry_reach (se_qt env) r rs'"
proof -
  have inv: "reg_inv rs" "size_ok rs" using registry_reach_inv assms(1) by auto
  have same: ?thesis if "stack_slot env s rs = Some (rs, [])" using that assms(1) by blast
  show ?thesis
  proof (cases "signal_event s")
    case None
    then show ?thesis by (intro same) (simp add: stack_slot_def)
  next
    case (Some ev)
    show ?thesis
    proof (cases "request_slot s")
      case None
      with Some refresh_defined[OF assms, of "se_now env" "se_built env" "se_rand env" "se_manager env"
          "se_range env" "se_sequence env" ev] show ?thesis
        by (cases s) (auto simp: stack_slot_def assms(1))
    next
      case (Some slot)
      then obtain rs' effs where out: "slot (se_qt env) (se_now env) (se_built env) ev rs = Some (rs', effs)"
        using request_slot_contract[OF Some] inv by (fastforce simp: slot_contract_def)
      with request_slot_reach[OF Some assms(1) out] Some \<open>signal_event s = Some ev\<close> show ?thesis
        by (simp add: stack_slot_def)
    qed
  qed
qed

definition sample_env :: stack_env where
  "sample_env = \<lparr>se_qt = sample_qt, se_now = 0, se_built = True, se_rand = ''x'', se_manager = manager_start ''1'',
    se_range = (100, 699), se_sequence = 0\<rparr>"

lemma sample_reach_size:
  "\<exists>rs. registry_reach sample_qt (100, 699) rs \<and> heap rs 0 \<noteq> None \<and> reg_size rs \<le> 125"
proof -
  obtain rs p where new: "Registry_new (100, 699) 0 sample_endpoint registrar_start = Some (rs, p)"
    using sample_new by auto
  then have "registry_step sample_qt (100, 699) registrar_start rs"
    by (rule registry_step.create) (simp add: registrar_start_def)
  then have "registry_reach sample_qt (100, 699) rs"
    using registry_reach.step registry_reach.start by blast
  moreover have "heap rs 0 \<noteq> None"
    using Registry_new_tables[OF new] by (auto simp: registrar_start_def)
  moreover have "reg_size rs = 75"
    using new by (auto simp: Registry_new_def Registry_init_def registrar_start_def set_online_def Let_def
        signed_divide_int_def split: if_splits)
  ultimately show ?thesis by auto
qed

lemma stack_slots_safe_witness:
  "\<exists>rs rs' effs. heap rs 0 \<noteq> None \<and>
     stack_slot sample_env (REQUEST_TOPIC (sample_request_event (sample_request ''X-TOPIC'' None))) rs = Some (rs', effs)"
proof -
  obtain rs where rs: "registry_reach sample_qt (100, 699) rs" "heap rs 0 \<noteq> None" "reg_size rs \<le> 125"
    using sample_reach_size by blast
  have "se_qt sample_env = sample_qt" by (simp add: sample_env_def)
  with stack_slots_safe[of sample_env "(100, 699)" rs] rs show ?thesis by metis
qed


section \<open>The registration handshake\<close>

lemma find_event_live:
  assumes "map_of (registries rs) (ev_number ev, label_of ev) = Some p" "heap rs p = Some reg" "\<not> hasExpired now reg"
  shows "find_event now ev rs = Some (rs, Some p)"
  using assms by (simp add: find_event_def drop_expired_def deref_def)

lemma createRegistration_result:
  assumes "createRegistration built rand r now ev (Some ep) rs = Some (rs', effs)"
  shows "\<exists>p. map_of (registries rs') (ep_number ep, ep_label ep) = Some p \<and>
    heap rs' p = Some (setNounce rand (Registry_object now ep)) \<and> answers effs = [SIP_UNAUTHORIZED] \<and>
    (\<exists>rs1. Registry_new r now ep rs = Some (rs1, p) \<and>
      update_object p (setNounce rand) rs1 = Some rs')"
proof -
  obtain rs1 p where new: "Registry_new r now ep rs = Some (rs1, p)"
    using assms by (cases "Registry_new r now ep rs") (auto simp: createRegistration_def)
  note held = Registry_new_tables[OF new]
  have rs': "rs' = rs1\<lparr>heap := (heap rs1)(p \<mapsto> setNounce rand (Registry_object now ep))\<rparr>"
    "effs = snd (challenge built rand ev (Registry_object now ep) False)"
    using assms new held by (auto simp: createRegistration_def deref_def challenge_fresh update_object_def)
  then have "update_object p (setNounce rand) rs1 = Some rs'"
    using held by (auto simp: update_object_def)
  with rs' held new show ?thesis by auto
qed

lemma refresh_accepted:
  assumes "map_of (registries rs) (ev_number ev, label_of ev) = Some p" "heap rs p = Some reg"
    "\<not> hasExpired now reg" "0 \<le> timeout reg" "ev_authorization ev \<noteq> None" "reg_size rs \<le> 125"
    "ev_nonce ev = toHex (random reg)" "credentials_ok Q ev reg" "expires_of ev \<ge> 1"
  shows "\<exists>effs. refreshRegistration Q now True rand m dbrange seq ev rs =
      Some (rs\<lparr>heap := (heap rs)(p \<mapsto> fst (authorize Q now ev reg))\<rparr>, effs) \<and>
    answers effs = [SIP_OK] \<and> (\<not> active reg \<longrightarrow>
      (\<exists>uri. emitted effs = [LastAccess (endpointId reg) (ev_timestamp ev) (ev_agent (ev_parsed ev)) (ev_deviceKey (ev_parsed ev)) uri]))"
proof -
  let ?reg = "fst (authorize Q now ev reg)"
  let ?rs = "rs\<lparr>heap := (heap rs)(p \<mapsto> ?reg)\<rparr>"
  obtain au where au: "ev_authorization ev = Some au" using assms(5) by blast
  have ok: "snd (authorize Q now ev reg) = SIP_OK" using assms(7,8) by (simp only: authorize_OK_iff)
  have live: "\<not> hasExpired now ?reg" "endpointId ?reg = endpointId reg"
    using registration_life[OF ok assms(4), of now] assms(4,9) by (simp_all add: reg_simps)
  obtain bits where bits: "bitmask Q ?rs = Some bits" using bitmask_defined[of ?rs Q] assms(6) by auto
  note found = find_event_live[OF assms(1-3)]
  note upd = update_object_Some[OF assms(2), of "\<lambda>reg. fst (authorize Q now ev reg)"]
  show ?thesis
    using found upd bits au ok live assms(2)
    by (simp add: refreshRegistration_def deref_def context_authorize_def Let_def)
qed

text \<open>
  C13. The registration handshake succeeds. The database's answer for an endpoint creates an
  inactive registration and challenges the client; when the client comes back in time with the
  nonce and the digest under the stored secret, it is answered 200, the database learns of the
  access, and for the whole expiry time from then on a lookup by its number and label finds an
  active registration.
\<close>

theorem registration_handshake:
  assumes create: "createRegistration built rand r now1 ev1 (Some ep) rs = Some (rs1, effs1)"
    and client: "ev_number ev2 = ep_number ep" "label_of ev2 = ep_label ep" "ev_authorization ev2 \<noteq> None"
      "ev_nonce ev2 = toHex rand" "credentials_ok Q ev2 (Registry_object now1 ep)" "expires_of ev2 \<ge> 1"
    and time: "now2 \<le> now1 + ep_expires ep * 1000" "0 \<le> ep_expires ep"
      "t \<le> now2 + ep_expires ep * 1000"
    and size: "reg_size rs1 \<le> 125"
  shows "answers effs1 = [SIP_UNAUTHORIZED] \<and>
    (\<exists>rs2 effs2 p reg. refreshRegistration Q now2 True rand2 m dbrange seq ev2 rs1 = Some (rs2, effs2) \<and>
      answers effs2 = [SIP_OK] \<and> (\<exists>uri. emitted effs2 = [LastAccess (ep_endpoint ep) (ev_timestamp ev2)
        (ev_agent (ev_parsed ev2)) (ev_deviceKey (ev_parsed ev2)) uri]) \<and>
      find_event t ev2 rs2 = Some (rs2, Some p) \<and> heap rs2 p = Some reg \<and> active reg)"
proof -
  obtain p where p: "map_of (registries rs1) (ep_number ep, ep_label ep) = Some p"
    "heap rs1 p = Some (setNounce rand (Registry_object now1 ep))" and answered: "answers effs1 = [SIP_UNAUTHORIZED]"
    using createRegistration_result[OF create] by blast
  let ?reg = "setNounce rand (Registry_object now1 ep)"
  have reg: "timeout ?reg = ep_expires ep * 1000" "updated ?reg = now1" "random ?reg = rand" "\<not> active ?reg"
    "endpointId ?reg = ep_endpoint ep"
    by (simp_all add: setNounce_def Registry_object_def)
  have key: "map_of (registries rs1) (ev_number ev2, label_of ev2) = Some p" using p client by simp
  have live: "\<not> hasExpired now2 ?reg" using time reg by (simp add: hasExpired_def)
  have cred: "ev_nonce ev2 = toHex (random ?reg)" "credentials_ok Q ev2 ?reg" using client reg by simp_all
  obtain effs2 where run: "refreshRegistration Q now2 True rand2 m dbrange seq ev2 rs1 =
      Some (rs1\<lparr>heap := (heap rs1)(p \<mapsto> fst (authorize Q now2 ev2 ?reg))\<rparr>, effs2)" "answers effs2 = [SIP_OK]"
      "\<exists>uri. emitted effs2 = [LastAccess (ep_endpoint ep) (ev_timestamp ev2)
        (ev_agent (ev_parsed ev2)) (ev_deviceKey (ev_parsed ev2)) uri]"
    using refresh_accepted[OF key p(2) live _ client(3) size cred client(6), of rand2 m dbrange seq] reg time(2)
    by auto
  let ?rs2 = "rs1\<lparr>heap := (heap rs1)(p \<mapsto> fst (authorize Q now2 ev2 ?reg))\<rparr>"
  have ok: "snd (authorize Q now2 ev2 ?reg) = SIP_OK" using cred by (simp only: authorize_OK_iff)
  have after: "active (fst (authorize Q now2 ev2 ?reg))" "\<not> hasExpired t (fst (authorize Q now2 ev2 ?reg))"
    using registration_life[OF ok, of t] reg time client(6) by simp_all
  have "find_event t ev2 ?rs2 = Some (?rs2, Some p)" using find_event_live[of ?rs2] key after by simp
  with run after answered show ?thesis by auto
qed

definition sample_register :: event where
  "sample_register = sample_login\<lparr>ev_authorization :=
     Some \<lparr>au_username = None, au_realm = None, au_nonce = None, au_response = None, au_algorithm = None\<rparr>\<rparr>"

lemma sample_register_simps:
  "ev_number sample_register = 101" "label_of sample_register = ''a''" "expires_of sample_register = 60"
  "ev_nonce sample_register = toHex ''x''" "ev_authorization sample_register \<noteq> None"
  by (simp_all add: sample_register_def sample_login_def sample_event_def)

lemma sample_register_credentials: "credentials_ok sample_qt sample_register (Registry_object 0 sample_endpoint)"
proof -
  have "credentials_ok sample_qt sample_login (Registry_object 0 sample_endpoint)"
    using sample_login_credentials by simp
  then show ?thesis by (simp add: credentials_ok_def sample_register_def expected_digest_def ha2_of_def)
qed

lemma sample_created:
  "\<exists>rs effs. createRegistration True ''x'' (100, 699) 0 sample_register (Some sample_endpoint) registrar_start = Some (rs, effs) \<and>
     reg_size rs = 75"
proof -
  obtain rs p where new: "Registry_new (100, 699) 0 sample_endpoint registrar_start = Some (rs, p)"
    using sample_new by auto
  moreover have "reg_size rs = 75"
    using new by (auto simp: Registry_new_def Registry_init_def registrar_start_def set_online_def Let_def
        signed_divide_int_def split: if_splits)
  ultimately show ?thesis
    using Registry_new_tables[OF new] by (auto simp: createRegistration_def deref_def update_object_def)
qed

lemma registration_handshake_witness:
  "\<exists>rs p reg. find_event 60000 sample_register rs = Some (rs, Some p) \<and> heap rs p = Some reg \<and> active reg"
proof -
  obtain rs effs where created: "createRegistration True ''x'' (100, 699) 0 sample_register (Some sample_endpoint) registrar_start =
      Some (rs, effs)" "reg_size rs = 75"
    using sample_created by blast
  have ep: "ep_number sample_endpoint = 101" "ep_label sample_endpoint = ''a''" "ep_expires sample_endpoint = 60"
    by (simp_all add: sample_endpoint_def)
  show ?thesis
    using registration_handshake[OF created(1), of sample_register sample_qt 0 60000 "''r''" "manager_start ''1''" "(100, 699)" 0]
      sample_register_simps sample_register_credentials ep created(2) by auto
qed

lemma sample_active:
  "\<exists>rs p reg. registry_reach sample_qt (100, 699) rs \<and> find_event 0 sample_register rs = Some (rs, Some p) \<and>
     heap rs p = Some reg \<and> authenticate sample_qt 0 sample_register reg = SIP_OK"
proof -
  obtain rs effs where created: "createRegistration True ''x'' (100, 699) 0 sample_register (Some sample_endpoint) registrar_start =
      Some (rs, effs)" "reg_size rs = 75"
    using sample_created by blast
  then obtain p rs1 where p: "map_of (registries rs) (101, ''a'') = Some p"
    "heap rs p = Some (setNounce ''x'' (Registry_object 0 sample_endpoint))"
    "Registry_new (100, 699) 0 sample_endpoint registrar_start = Some (rs1, p)"
    "update_object p (setNounce ''x'') rs1 = Some rs"
    using createRegistration_result[OF created(1)] by (auto simp: sample_endpoint_def)
  let ?reg = "setNounce ''x'' (Registry_object 0 sample_endpoint)"
  let ?new = "fst (authorize sample_qt 0 sample_register ?reg)"
  let ?rs = "rs\<lparr>heap := (heap rs)(p \<mapsto> ?new)\<rparr>"
  have "registry_step sample_qt (100, 699) registrar_start rs1"
    using p(3) by (rule registry_step.create) (simp add: registrar_start_def)
  then have reach: "registry_reach sample_qt (100, 699) rs"
    using registry_reach.step registry_reach.start registry_step.nounced[OF p(4)] by blast
  have reg: "random ?reg = ''x''" "timeout ?reg = 60000" "updated ?reg = 0"
    by (simp_all add: setNounce_def Registry_object_def sample_endpoint_def)
  have ok: "snd (authorize sample_qt 0 sample_register ?reg) = SIP_OK"
    using sample_register_simps(4) sample_register_credentials reg(1) by (simp only: authorize_OK_iff credentials_setNounce)
  have "authenticate sample_qt 0 sample_register ?new = SIP_OK" "\<not> hasExpired 0 ?new"
    using registration_life[OF ok, of 0 sample_register] reg sample_register_simps sample_register_credentials by auto
  moreover have "registry_reach sample_qt (100, 699) ?rs"
    using reach_authorize[OF reach update_object_Some[OF p(2)]] by simp
  moreover have "find_event 0 sample_register ?rs = Some (?rs, Some p)"
    using find_event_live[of ?rs] p(1) sample_register_simps calculation(2) by simp
  ultimately show ?thesis by (intro exI[of _ ?rs] exI[of _ p] exI[of _ ?new]) simp
qed


end
