(* ===== verification/DatabaseThread.thy ===== *)
theory DatabaseThread
  imports AuthorizeFacts StackProps
begin

text \<open>
  The signals of the stack thread and the slots of the database and authorization threads they are
  connected to (the constructors in \<open>Database/database.cpp\<close> and \<open>Database/authorize.cpp\<close>), and what
  these connections give together: every authenticated request is answered exactly once.
\<close>

fun deliver :: "qt_lib \<Rightarrow> bool \<Rightarrow> bool \<Rightarrow> stack_signal \<Rightarrow> database \<Rightarrow> db_result option" where
  "deliver Q built ready (FindEndpoint ev) db = Some (findEndpoint ready ev db)"
| "deliver Q built ready (RemoveAuthorize ev) db = removeAuthorization ev db"
| "deliver Q built ready (SendRoster ev ep) db = Some (sendRoster Q built ev ep db)"
| "deliver Q built ready (ChangeProfile ev user ep) db = sendProfile Q built ev user ep db"
| "deliver Q built ready (RemoveDevice ev user ep) db = removeDevice Q built ev user ep db"
| "deliver Q built ready (SendDevlist ev) db = Some (sendDeviceList Q built ev db)"
| "deliver Q built ready (SendPending ev ep) db = Some (sendPending Q built ev ep db)"
| "deliver Q built ready (ChangePending ep) db = Some (changePending ep db, [])"
| "deliver Q built ready (ChangeAuthorize ev) db = changeAuthorize Q ev db"
| "deliver Q built ready (ChangeMembership ev user ep) db = changeMembership Q built ev user ep db"
| "deliver Q built ready (ChangeAdmin ev user ep) db = changeAdmin Q built ev user ep db"
| "deliver Q built ready (DropExtension ev user ep) db = dropExtension Q built ev user ep db"
| "deliver Q built ready (ChangeForwarding ev user ep) db = changeForwarding Q built ev user ep db"
| "deliver Q built ready (ChangeCoverage ev user ep) db = changeCoverage Q built ev user ep db"
| "deliver Q built ready (ChangeTopic ev) db = changeTopic ev db"
| "deliver Q built ready (LastAccess ep stamp agent key uri) db = Some (lastAccess ep stamp agent key uri db, [])"
| "deliver Q built ready (ChangeRealm realm) db = Some (db, [])"

text \<open>The event of a signal whose slot reads the target user without a check.\<close>

fun addressed_request :: "stack_signal \<Rightarrow> event option" where
  "addressed_request (RemoveAuthorize ev) = Some ev"
| "addressed_request (ChangeProfile ev _ _) = Some ev"
| "addressed_request (RemoveDevice ev _ _) = Some ev"
| "addressed_request (ChangeAuthorize ev) = Some ev"
| "addressed_request (ChangeMembership ev _ _) = Some ev"
| "addressed_request (ChangeAdmin ev _ _) = Some ev"
| "addressed_request (DropExtension ev _ _) = Some ev"
| "addressed_request (ChangeForwarding ev _ _) = Some ev"
| "addressed_request (ChangeCoverage ev _ _) = Some ev"
| "addressed_request (ChangeTopic ev) = Some ev"
| "addressed_request _ = None"

definition deliverable :: "stack_signal \<Rightarrow> bool" where
  "deliverable t \<longleftrightarrow> (\<forall>ev. addressed_request t = Some ev \<longrightarrow> target_number ev \<noteq> None \<and> ev_sent ev \<noteq> None)"

section \<open>The slots of the two threads\<close>

lemma sendRoster_ok: "db_ok db \<Longrightarrow> db_ok (fst (sendRoster Q built ev ep db))"
  using deletes_update.run_ok by (simp add: sendRoster_def Let_def)

lemma deliver_ok:
  assumes "deliver Q built ready t db = Some (db', out)" "db_ok db"
  shows "db_ok db'"
proof (cases t)
  case (FindEndpoint ev)
  with assms show ?thesis using findEndpoint_ok[of ready ev db db' out] by simp
next
  case (SendRoster ev ep)
  with assms show ?thesis using sendRoster_ok[of db Q built ev ep] by simp
next
  case (SendPending ev ep)
  with assms show ?thesis using message_slots_ok(7)[of db Q built ev ep] by simp
next
  case (SendDevlist ev)
  with assms show ?thesis using message_slots_ok(8)[of db Q built ev] by simp
next
  case (ChangePending ep)
  with assms show ?thesis using message_slots_ok(6)[of db ep] by simp
next
  case (LastAccess ep stamp agent key uri)
  with assms show ?thesis using message_slots_ok(3)[of db ep stamp agent key uri] by simp
qed (use assms in \<open>simp_all add: profile_slot.sound removal_slot.sound device_slot.sound
      authorize_slot.sound membership_slot.sound admin_slot.sound drop_slot.sound forwarding_slot.sound
      coverage_slot.sound topic_slot.sound\<close>)

lemma deliver_defined:
  assumes "deliverable t"
  shows "\<exists>db' out. deliver Q built ready t db = Some (db', out)"
proof -
  have "deliver Q built ready t db \<noteq> None"
  proof (cases t)
    case (FindEndpoint ev)
    then show ?thesis by simp
  qed (use assms in \<open>simp_all add: deliverable_def profile_slot.defined removal_slot.defined device_slot.defined
      authorize_slot.defined membership_slot.defined admin_slot.defined drop_slot.defined forwarding_slot.defined
      coverage_slot.defined topic_slot.defined del: not_None_eq\<close>)
  then show ?thesis by auto
qed

end
