(* ===== verification/Serving.thy ===== *)
theory Serving
  imports DatabaseThread
begin

text \<open>
  The way of one request through the three threads, when nothing else is in their queues: the
  context's \<open>process\<close>, the connected slot of the stack, the connected slots of the database, and the
  stack's \<open>createRegistration\<close> for the endpoint the database found. Interleavings are the subject of
  the theory \<open>Threads\<close>.
\<close>

fun signal_request :: "stack_signal \<Rightarrow> event option" where
  "signal_request (FindEndpoint ev) = Some ev"
| "signal_request (SendRoster ev _) = Some ev"
| "signal_request (SendPending ev _) = Some ev"
| "signal_request (SendDevlist ev) = Some ev"
| "signal_request t = addressed_request t"

fun stack_all :: "stack_env \<Rightarrow> ctx_signal list \<Rightarrow> registrar \<Rightarrow> stack_result" where
  "stack_all env [] rs = Some (rs, [])"
| "stack_all env (s # ss) rs = do {
     (rs, effs) \<leftarrow> stack_slot env s rs;
     (rs, effs') \<leftarrow> stack_all env ss rs;
     Some (rs, effs @ effs') }"

fun deliver_all :: "stack_env \<Rightarrow> bool \<Rightarrow> stack_signal list \<Rightarrow> database \<Rightarrow> db_result option" where
  "deliver_all env ready [] db = Some (db, [])"
| "deliver_all env ready (t # ts) db = do {
     (db, out) \<leftarrow> deliver (se_qt env) (se_built env) ready t db;
     (db, out') \<leftarrow> deliver_all env ready ts db;
     Some (db, out @ out') }"

text \<open>The signals of the database the stack answers a request on: only \<open>CreateEndpoint\<close>.\<close>

fun create_all :: "stack_env \<Rightarrow> db_signal list \<Rightarrow> registrar \<Rightarrow> stack_result" where
  "create_all env [] rs = Some (rs, [])"
| "create_all env (CreateEndpoint ev ep # ds) rs = do {
     (rs, effs) \<leftarrow> createRegistration (se_built env) (se_rand env) (se_range env) (se_now env) ev ep rs;
     (rs, effs') \<leftarrow> create_all env ds rs;
     Some (rs, effs @ effs') }"
| "create_all env (_ # ds) rs = create_all env ds rs"

definition serve :: "stack_env \<Rightarrow> bool \<Rightarrow> event \<Rightarrow> registrar \<Rightarrow> database \<Rightarrow> (registrar \<times> database \<times> int list) option" where
  "serve env ready ev rs db = do {
     (action, effs) \<leftarrow> process (se_qt env) (se_built env) ev;
     (rs, effs1) \<leftarrow> stack_all env (filter (connected (ev_context ev)) (emitted effs)) rs;
     (db, effs2) \<leftarrow> deliver_all env ready (emitted effs1) db;
     (rs, effs3) \<leftarrow> create_all env (emitted effs2) rs;
     Some (rs, db, answers effs @ answers effs1 @ answers effs2 @ answers effs3) }"

section \<open>One answer or one request per stage\<close>

lemma refresh_outcome:
  assumes "refreshRegistration Q now True rand m dbrange seq ev rs = Some (rs', effs)" "ev_type ev = MESSAGE_NEW"
  shows "emitted effs = [FindEndpoint ev] \<and> answers effs = [] \<or>
    length (answers effs) = 1 \<and> (\<forall>t \<in> set (emitted effs). \<exists>ep stamp agent key uri. t = LastAccess ep stamp agent key uri)"
proof -
  obtain rs1 found where found: "find_event now ev rs = Some (rs1, found)"
    using assms(1) by (cases "find_event now ev rs") (auto simp: refreshRegistration_def)
  show ?thesis
  proof (cases found)
    case None
    with assms found show ?thesis by (auto simp: refreshRegistration_def)
  next
    case (Some p)
    with assms(1) found obtain reg where reg: "heap rs1 p = Some reg"
      by (cases "heap rs1 p") (auto simp: refreshRegistration_def deref_def)
    let ?rs = "rs1\<lparr>heap := (heap rs1)(p \<mapsto> fst (authorize Q now ev reg))\<rparr>"
    note upd = update_object_Some[OF reg, of "\<lambda>reg. fst (authorize Q now ev reg)"]
      update_object_Some[OF reg, of "\<lambda>reg. fst (challenge True rand ev reg False :: _ \<times> stack_signal effect list)"]
    note run = assms(1)[unfolded refreshRegistration_def found deref_def Some]
    consider "ev_authorization ev = None" | au where "ev_authorization ev = Some au" "snd (authorize Q now ev reg) = SIP_OK"
      | au where "ev_authorization ev = Some au" "snd (authorize Q now ev reg) \<noteq> SIP_OK" by blast
    then show ?thesis
    proof cases
      case 1
      with run reg upd assms(2) show ?thesis by (auto simp: challenge_def Let_def)
    next
      case 2
      with run reg upd obtain bits where "bitmask Q ?rs = Some bits"
        by (cases "bitmask Q ?rs") (auto simp: Let_def)
      with 2 run reg upd show ?thesis
        by (auto simp: Let_def bind_eq_Some_conv context_authorize_def split: if_splits)
    next
      case 3
      with run reg upd assms(2) show ?thesis by (auto simp: bind_eq_Some_conv)
    qed
  qed
qed

text \<open>What one stage makes of a request: an answer, or one signal that still needs one.\<close>

definition one_step :: "event \<Rightarrow> stack_signal effect list \<Rightarrow> bool" where
  "one_step ev effs \<longleftrightarrow>
     (\<exists>t. emitted effs = [t] \<and> answers effs = [] \<and> signal_request t = Some ev) \<or>
     length (answers effs) = 1 \<and> (\<forall>t \<in> set (emitted effs). signal_request t = None)"

lemma guard_outcome:
  assumes "request_guard Q now True granted ev rs = Some (rs', effs)" "reg_inv rs" "size_ok rs" "ev_type ev = MESSAGE_NEW"
    "\<And>reg. one_step ev (granted ev reg)"
  shows "one_step ev effs"
  using assms(1-3)
proof (cases rule: request_guard_cases)
  case (challenged reg)
  then show ?thesis by (simp add: one_step_def challenge_def Let_def)
next
  case (refused code)
  then show ?thesis using assms(4) by (simp add: one_step_def)
qed (use assms(5) in simp)

lemma one_step_simps:
  "signal_request t = Some ev \<Longrightarrow> one_step ev [Emit t]"
  "ev_type ev = MESSAGE_NEW \<Longrightarrow> one_step ev (snd (reply ev code) @ [Emit (ChangePending ep)])"
  by (simp_all add: one_step_def)

lemma request_slot_outcome:
  assumes "request_slot s = Some slot" "slot Q now True ev rs = Some (rs', effs)" "reg_inv rs" "size_ok rs"
    "ev_type ev = MESSAGE_NEW"
  shows "one_step ev effs"
  using assms(1,2)
  by (cases s)
    (auto simp: assms(5) ack.guarded deauthorizing.guarded authorizing.guarded pending.guarded devkill.guarded devlist.guarded
      topic.guarded forwarding.guarded coverage.guarded dropping.guarded admin.guarded membership.guarded
      profile.guarded roster.guarded one_step_simps elim!: guard_outcome[OF _ assms(3-5)])

lemma stack_slot_outcome:
  assumes "stack_slot env s rs = Some (rs', effs)" "se_built env" "signal_event s = Some ev" "ev_type ev = MESSAGE_NEW"
    "reg_inv rs" "size_ok rs" "request_slot s \<noteq> None \<or> s = REQUEST_REGISTER ev"
  shows "one_step ev effs"
proof (cases "request_slot s")
  case None
  then have "s = REQUEST_REGISTER ev" using assms(7) by simp
  with None assms(1,2) refresh_outcome[OF _ assms(4), of "se_qt env" "se_now env" "se_rand env" "se_manager env"
      "se_range env" "se_sequence env" rs rs' effs]
  show ?thesis by (auto simp: stack_slot_def one_step_def)
next
  case (Some slot)
  with assms(1-3) request_slot_outcome[OF Some _ assms(5,6,4)] show ?thesis by (simp add: stack_slot_def)
qed

lemma filter_created: "[CreateEndpoint e h] = filter (\<lambda>s. case s of CreateEndpoint _ _ \<Rightarrow> True | _ \<Rightarrow> False) [CreateEndpoint e h]"
  by simp

lemma findEndpoint_outcome:
  assumes "findEndpoint ready ev db = (db', out)" "ev_type ev = MESSAGE_NEW"
  shows "length (answers out) = 1 \<and> created out = [] \<or>
    (\<exists>h. answers out = [] \<and> created out = [CreateEndpoint ev (Some h)] \<and> ep_number h = ev_number ev \<and>
       \<not> out_of_range (ev_number ev) db)"
proof -
  have sync: "answers sync = [] \<and> created sync = []"
    if "initialize_label ev num label found db = Some ((db1, sync), found')" for num label found db1 sync found'
    using that by (auto simp: initialize_label_def Let_def split: if_splits option.splits)
  from assms(1) show ?thesis
  proof (cases rule: findEndpoint_cases)
    case (late x s found)
    then show ?thesis using sync[OF late(2)] assms(2) by simp
  next
    case (created x s found a)
    then show ?thesis using sync[OF created(2)] by (simp add: endpoint_reply_def)
  qed (use assms(2) in simp)
qed

lemma deliver_outcome:
  assumes "deliver Q True ready t db = Some (db', out)" "signal_request t = Some ev" "ev_type ev = MESSAGE_NEW"
  shows "length (answers out) = 1 \<and> created out = [] \<or>
    t = FindEndpoint ev \<and> (\<exists>h. answers out = [] \<and> created out = [CreateEndpoint ev (Some h)] \<and> ep_number h = ev_number ev \<and>
       \<not> out_of_range (ev_number ev) db)"
proof (cases t)
  case (FindEndpoint e)
  with assms findEndpoint_outcome[OF _ assms(3), of ready db db' out] show ?thesis by simp
next
  case (SendRoster e ep)
  with assms show ?thesis by (auto simp: sendRoster_def Let_def)
next
  case (SendDevlist e)
  with assms show ?thesis by (auto simp: sendDeviceList_def)
next
  case (SendPending e ep)
  with assms show ?thesis by (auto simp: sendPending_def Let_def)
qed (use assms profile_slot.answered[OF _ assms(3)] removal_slot.answered[OF _ assms(3)] device_slot.answered[OF _ assms(3)]
      authorize_slot.answered[OF _ assms(3)] membership_slot.answered[OF _ assms(3)] admin_slot.answered[OF _ assms(3)]
      drop_slot.answered[OF _ assms(3)] forwarding_slot.answered[OF _ assms(3)] coverage_slot.answered[OF _ assms(3)]
      topic_slot.answered[OF _ assms(3)] in auto)

section \<open>The dialing range of the tables\<close>

definition frame_of :: "registrar \<Rightarrow> bool \<times> (int \<times> int) \<times> int" where
  "frame_of rs = (reg_init rs, reg_range rs, reg_size rs)"

lemma delete_frame: "Registry_delete p rs = Some rs' \<Longrightarrow> frame_of rs' = frame_of rs"
  by (auto simp: Registry_delete_def Let_def unset_online_def frame_of_def split: option.splits if_splits)

lemma find_frame:
  "drop_expired now found rs = Some (rs', r) \<Longrightarrow> frame_of rs' = frame_of rs"
  by (auto simp: drop_expired_def bind_eq_Some_conv delete_frame split: option.splits if_splits)

lemma cleanup_frame: "cleanup_loop now snapshot rs = Some rs' \<Longrightarrow> frame_of rs' = frame_of rs"
proof (induction snapshot arbitrary: rs)
  case (Cons e snapshot)
  obtain k p where e: "e = (k, p)" by (cases e)
  have "\<exists>rs1. frame_of rs1 = frame_of rs \<and> cleanup_loop now snapshot rs1 = Some rs'"
    using Cons.prems by (auto simp: e bind_eq_Some_conv dest: delete_frame split: if_splits)
  then obtain rs1 where "frame_of rs1 = frame_of rs" "cleanup_loop now snapshot rs1 = Some rs'" by blast
  then show ?case using Cons.IH by simp
qed simp

lemma update_frame: "update_object p f rs = Some rs' \<Longrightarrow> frame_of rs' = frame_of rs"
  by (auto simp: update_object_def frame_of_def split: option.splits)

lemma new_frame: "Registry_new r now ep rs = Some (rs', p) \<Longrightarrow> frame_of rs' = frame_of (Registry_init r rs)"
  by (auto simp: Registry_new_def Let_def set_online_def frame_of_def split: if_splits)

lemma registry_reach_range:
  assumes "registry_reach Q r rs"
  shows "frame_of rs = (True, r, (snd r - fst r) sdiv 8 + 1) \<or> frame_of rs = (False, (0, 0), 0)"
  using assms
proof (induction rule: registry_reach.induct)
  case start
  show ?case by (simp add: frame_of_def registrar_start_def)
next
  case (step rs rs')
  from step.hyps(2) have "frame_of rs' = frame_of rs \<or> frame_of rs' = frame_of (Registry_init r rs)"
    by (cases rule: registry_step.cases)
      (auto simp: delete_frame cleanup_frame[of _ "registries rs"] update_frame new_frame Registry_cleanup_def
        find_event_def find_endpoint_def find_frame)
  with step.IH show ?case by (auto simp: Registry_init_def frame_of_def)
qed

section \<open>The whole way\<close>

lemma create_outcome:
  assumes "registry_reach Q r rs" "Suc (length (extensions rs)) < 2 ^ 32" "r = (lo, hi)" "0 \<le> lo"
    "lo \<le> ep_number h" "ep_number h \<le> hi" "hi < 1000" "ev_type ev = MESSAGE_NEW"
  shows "\<exists>rs' effs. createRegistration built rand r now ev (Some h) rs = Some (rs', effs) \<and>
    registry_reach Q r rs' \<and> length (answers effs) = 1 \<and> emitted effs = []"
proof -
  let ?rs0 = "Registry_init r rs"
  have range: "reg_range ?rs0 = r"
    using registry_reach_range[OF assms(1)] by (auto simp: frame_of_def Registry_init_def)
  have "(ep_number h - lo) div 8 < 125" using assms(4-7) by (simp add: div_less_iff_less_mult)
  then have "in_tables ?rs0 (ep_number h)"
    using assms(3-7) range by (simp add: in_tables_def bit_offset_def)
  then obtain rs1 p where new: "Registry_new r now h rs = Some (rs1, p)"
    by (auto simp: Registry_new_def Let_def)
  then obtain obj where obj: "heap rs1 p = Some obj"
    by (rule Registry_new_SomeE) auto
  let ?f = "\<lambda>reg. fst (challenge built rand ev reg False :: _ \<times> stack_signal effect list)"
  note upd = update_object_Some[OF obj, of ?f]
  have "registry_reach Q r rs1"
    using registry_reach.step[OF assms(1) registry_step.create[OF new assms(2)]] .
  from reach_challenge[OF this upd] have "registry_reach Q r (rs1\<lparr>heap := (heap rs1)(p \<mapsto> ?f obj)\<rparr>)" .
  moreover have "createRegistration built rand r now ev (Some h) rs =
      Some (rs1\<lparr>heap := (heap rs1)(p \<mapsto> ?f obj)\<rparr>, snd (challenge built rand ev obj False))"
    by (simp add: createRegistration_def new deref_def obj upd)
  moreover have "length (answers (snd (challenge built rand ev obj False :: _ \<times> stack_signal effect list))) = 1"
    by (simp add: challenge_def Let_def)
  moreover have "emitted (snd (challenge built rand ev obj False :: _ \<times> stack_signal effect list)) = []" by simp
  ultimately show ?thesis by blast
qed

text \<open>What a request must be for its handlers to be defined, connected and answering.\<close>

definition servable :: "event \<Rightarrow> osip_message \<Rightarrow> bool" where
  "servable ev msg \<longleftrightarrow> ev_type ev = MESSAGE_NEW \<and> ev_message ev = Some msg \<and> ev_sent ev \<noteq> None \<and>
     \<not> MSG_IS ''MESSAGE'' msg \<and> \<not> MSG_IS ''OPTIONS'' msg \<and>
     (MSG_IS ''A-PENDING'' msg \<longrightarrow> netProto (ev_context ev) = IPPROTO_TCP) \<and>
     (MSG_IS ''X-DEVKILL'' msg \<longrightarrow> to_username msg \<noteq> None)"

definition routed :: "event \<Rightarrow> osip_message \<Rightarrow> ctx_signal \<Rightarrow> bool" where
  "routed ev msg s \<longleftrightarrow> connected (ev_context ev) s \<and> (request_slot s \<noteq> None \<or> s = REQUEST_REGISTER ev) \<and>
     (addresses_user s \<or> s = REQUEST_DEVKILL ev \<longrightarrow> to_username msg \<noteq> None)"

definition routes :: "event \<Rightarrow> osip_message \<Rightarrow> outcome \<Rightarrow> bool" where
  "routes ev msg out \<longleftrightarrow> (\<forall>s \<in> set (emitted (snd out)). routed ev msg s)"

lemma routes_reply [simp]: "routes ev msg (reply ev code)"
  by (simp add: routes_def)

lemma routes_signal: "routed ev msg t \<Longrightarrow> routes ev msg (signal t)"
  by (simp add: routes_def signal_def)

lemma routes_branches:
  "(\<not> unlabeled ev \<Longrightarrow> routed ev msg t) \<Longrightarrow> routes ev msg (process_numbered ev t)"
  "(\<not> unlabeled ev \<Longrightarrow> to_username msg \<noteq> None \<Longrightarrow> routes ev msg rest) \<Longrightarrow> routes ev msg (process_addressed ev msg rest)"
  "(\<not> unlabeled ev \<Longrightarrow> to_username msg \<noteq> None \<Longrightarrow> routes ev msg rest) \<Longrightarrow> routes ev msg (process_authorizing ev msg rest)"
  by (simp_all add: process_numbered_def process_addressed_def process_authorizing_def routes_signal)

lemma routes_register: "routes ev msg (process_register ev)"
  by (simp add: process_register_def) (simp add: routes_def routed_def connected_def)

lemma process_new_routes:
  assumes "servable ev msg"
  shows "routes ev msg (process_new Q built ev msg)"
proof -
  note [simp] = routes_register
  have tcp: "\<not> unlabeled ev \<Longrightarrow> netProto (ev_context ev) = IPPROTO_TCP" by (simp add: unlabeled_def)
  show ?thesis
    using assms
    by (simp add: process_new_def servable_def process_profile_def process_empty_def process_authorize_def process_ack_def
        routes_branches routes_signal routed_def connected_def tcp MSG_IS_method)
qed

lemma process_new_signals:
  assumes "servable ev msg" "process_new Q built ev msg = (b, effs)"
  obtains (answered) code where "answers effs = [code]" "emitted effs = []"
    | (passed) s where "answers effs = []" "emitted effs = [s]" "signal_event s = Some ev" "routed ev msg s"
proof -
  have one: "one_outcome (b, effs)"
    using process_new_one[of ev msg Q built] assms by (simp add: servable_def)
  show ?thesis
  proof (cases "emitted effs")
    case Nil
    with one obtain code where "answers effs = [code]" by (auto simp: one_outcome_def length_Suc_conv)
    with Nil show ?thesis by (intro answered)
  next
    case (Cons s ss)
    with one have s: "emitted effs = [s]" "answers effs = []" by (simp_all add: one_outcome_def)
    moreover have "signal_event s = Some ev" using process_new_ok[of ev msg Q built] assms(2) s(1) by (simp add: outcome_ok_def)
    moreover have "routed ev msg s" using process_new_routes[OF assms(1), of Q built] assms(2) s(1) by (simp add: routes_def)
    ultimately show ?thesis by (intro passed)
  qed
qed

lemma multi_remove_length: "length (multi_remove k v t) \<le> length t"
  by (simp add: multi_remove_def)

lemma delete_length: "Registry_delete p rs = Some rs' \<Longrightarrow> length (extensions rs') \<le> length (extensions rs)"
  by (auto simp: Registry_delete_def Let_def unset_online_def multi_remove_length split: option.splits if_splits)

lemma find_length: "find_event now ev rs = Some (rs', r) \<Longrightarrow> length (extensions rs') \<le> length (extensions rs)"
  by (auto simp: find_event_def drop_expired_def bind_eq_Some_conv delete_length split: option.splits if_splits)

lemma update_length: "update_object p f rs = Some rs' \<Longrightarrow> extensions rs' = extensions rs"
  by (auto simp: update_object_def split: option.splits)

lemma refresh_length:
  assumes "refreshRegistration Q now built rand m dbrange seq ev rs = Some (rs', effs)" "emitted effs = [FindEndpoint ev]"
  shows "length (extensions rs') \<le> length (extensions rs)"
proof -
  obtain rs1 found where found: "find_event now ev rs = Some (rs1, found)"
    using assms(1) by (cases "find_event now ev rs") (auto simp: refreshRegistration_def)
  have "rs' = rs1"
  proof (cases found)
    case None
    with assms(1) found show ?thesis by (simp add: refreshRegistration_def)
  next
    case (Some p)
    with assms found show ?thesis
      by (auto simp: refreshRegistration_def Let_def bind_eq_Some_conv split: if_splits)
  qed
  with find_length[OF found] show ?thesis by simp
qed

lemma slot_addressed:
  assumes "stack_slot env s rs = Some (rs', effs)" "t \<in> set (emitted effs)" "addressed_request t \<noteq> None"
    "reg_inv rs" "size_ok rs" "signal_event s = Some ev" "routed ev msg s"
  shows "to_username msg \<noteq> None"
proof (cases "request_slot s")
  case None
  then have s: "s = REQUEST_REGISTER ev" using assms(7) by (simp add: routed_def)
  with assms(1) have "refreshRegistration (se_qt env) (se_now env) (se_built env) (se_rand env) (se_manager env)
      (se_range env) (se_sequence env) ev rs = Some (rs', effs)" by (simp add: stack_slot_def)
  from refresh_signals[OF this assms(2)] assms(3) show ?thesis by (cases t) simp_all
next
  case (Some slot)
  then have run: "slot (se_qt env) (se_now env) (se_built env) ev rs = Some (rs', effs)"
    using assms(1,6) by (simp add: stack_slot_def)
  have "addresses_user s \<or> (\<exists>e. s = REQUEST_DEVKILL e)"
    using Some run assms(3)
      ack.authenticated[OF _ assms(4,5,2)] pending.authenticated[OF _ assms(4,5,2)]
      devlist.authenticated[OF _ assms(4,5,2)] roster.authenticated[OF _ assms(4,5,2)]
    by (cases s) fastforce+
  then show ?thesis using assms(6,7) by (auto simp: routed_def)
qed

lemma deliver_silent: "signal_request t = None \<Longrightarrow> \<exists>db'. deliver Q built ready t db = Some (db', [])"
  by (cases t) simp_all

lemma deliver_all_silent:
  assumes "\<forall>t \<in> set ts. signal_request t = None" "db_ok db"
  shows "\<exists>db'. deliver_all env ready ts db = Some (db', []) \<and> db_ok db'"
  using assms
proof (induction ts arbitrary: db)
  case (Cons t ts)
  obtain db1 where db1: "deliver (se_qt env) (se_built env) ready t db = Some (db1, [])"
    using deliver_silent Cons.prems(1) by fastforce
  with Cons.IH[of db1] Cons.prems deliver_ok[OF db1] show ?case by auto
qed simp

lemma created_none: "created out = [] \<Longrightarrow> create_all env (emitted out) rs = Some (rs, [])"
proof -
  have "filter (\<lambda>s. case s of CreateEndpoint _ _ \<Rightarrow> True | _ \<Rightarrow> False) ds = [] \<Longrightarrow> create_all env ds rs = Some (rs, [])" for ds
    by (induction ds) (auto split: db_signal.splits)
  then show "created out = [] \<Longrightarrow> create_all env (emitted out) rs = Some (rs, [])" by (simp add: created_def)
qed

lemma created_one:
  assumes "created out = [CreateEndpoint ev ep]"
    "createRegistration (se_built env) (se_rand env) (se_range env) (se_now env) ev ep rs = Some (rs', effs)"
  shows "create_all env (emitted out) rs = Some (rs', effs)"
proof -
  have "filter (\<lambda>s. case s of CreateEndpoint _ _ \<Rightarrow> True | _ \<Rightarrow> False) ds = [CreateEndpoint ev ep] \<Longrightarrow>
      create_all env ds rs = Some (rs', effs)" for ds
  proof (induction ds)
    case (Cons d ds)
    show ?case
    proof (cases d)
      case (CreateEndpoint e h)
      with Cons.prems have "create_all env ds rs' = Some (rs', [])"
        using created_none[of "map Emit ds" env rs'] by (simp add: created_def emitted_def map_filter_def comp_def)
      with Cons.prems CreateEndpoint assms(2) show ?thesis by simp
    qed (use Cons in simp_all)
  qed simp
  with assms(1) show ?thesis by (simp add: created_def)
qed

text \<open>The last stages for the one signal that is left of a request.\<close>

lemma finish_request:
  assumes "signal_request t = Some ev" "deliverable t" "ev_type ev = MESSAGE_NEW" "se_built env"
    "se_range env = range_of db" "db_ok db" "0 \<le> firstNumber db" "lastNumber db < 1000"
    "registry_reach Q (range_of db) rs" "(\<exists>e. t = FindEndpoint e) \<longrightarrow> Suc (length (extensions rs)) < 2 ^ 32"
  shows "\<exists>rs' db' effs2 effs3 code. deliver_all env ready [t] db = Some (db', effs2) \<and>
    create_all env (emitted effs2) rs = Some (rs', effs3) \<and> answers effs2 @ answers effs3 = [code] \<and>
    registry_reach Q (range_of db) rs' \<and> db_ok db'"
proof -
  obtain db' out where out: "deliver (se_qt env) (se_built env) ready t db = Some (db', out)"
    using deliver_defined[OF assms(2)] by blast
  then have all: "deliver_all env ready [t] db = Some (db', out)" by simp
  have ok: "db_ok db'" using deliver_ok[OF out assms(6)] .
  from deliver_outcome[OF _ assms(1,3)] out assms(4)
  consider (answered) "length (answers out) = 1" "created out = []"
    | (offered) h where "t = FindEndpoint ev" "answers out = []" "created out = [CreateEndpoint ev (Some h)]" "ep_number h = ev_number ev"
        "\<not> out_of_range (ev_number ev) db"
    by (metis (full_types))
  then show ?thesis
  proof cases
    case answered
    then obtain code where "answers out = [code]" by (auto simp: length_Suc_conv)
    with all created_none[OF answered(2)] ok assms(9) show ?thesis by (metis append_Nil2 answers_simps(1))
  next
    case offered
    have small: "Suc (length (extensions rs)) < 2 ^ 32" using offered(1) assms(10) by simp
    have range: "range_of db = (firstNumber db, lastNumber db)" "firstNumber db \<le> ep_number h" "ep_number h \<le> lastNumber db"
      using offered(4,5) by (simp_all add: range_of_def out_of_range_def)
    obtain rs' effs where new: "createRegistration (se_built env) (se_rand env) (se_range env) (se_now env) ev (Some h) rs =
        Some (rs', effs)" "registry_reach Q (range_of db) rs'" "length (answers effs) = 1"
      using create_outcome[OF assms(9) small range(1) assms(7) range(2,3) assms(8,3)] assms(5) by metis
    then obtain code where "answers effs = [code]" by (auto simp: length_Suc_conv)
    with all created_one[OF offered(3) new(1)] ok new(2) offered(2) show ?thesis by (metis append_Nil)
  qed
qed

lemma contract_emits:
  assumes "slot_contract slot" "reg_inv rs" "size_ok rs" "slot Q now built ev rs = Some (rs', effs)" "t \<in> set (emitted effs)"
  shows "\<exists>reg. request_of ev reg t"
proof -
  from assms(1)[unfolded slot_contract_def, rule_format, OF conjI, OF assms(2,3), of Q now built ev] assms(4,5)
  show ?thesis by auto
qed

text \<open>The stage of the stack: an answer and signals that need none, or one signal to deliver.\<close>

lemma stack_stage:
  assumes "servable ev msg" "registry_reach (se_qt env) r rs" "reg_size rs \<le> 125" "se_built env"
    "signal_event s = Some ev" "routed ev msg s"
  obtains (answered) rs' effs code where "stack_slot env s rs = Some (rs', effs)" "registry_reach (se_qt env) r rs'"
      "answers effs = [code]" "\<forall>t \<in> set (emitted effs). signal_request t = None"
    | (passed) rs' effs t where "stack_slot env s rs = Some (rs', effs)" "registry_reach (se_qt env) r rs'"
      "answers effs = []" "emitted effs = [t]" "signal_request t = Some ev" "deliverable t"
      "\<And>e. t = FindEndpoint e \<Longrightarrow> length (extensions rs') \<le> length (extensions rs)"
proof -
  have inv: "reg_inv rs" "size_ok rs" using registry_reach_inv assms(2) by auto
  have new: "ev_type ev = MESSAGE_NEW" "ev_message ev = Some msg" "ev_sent ev \<noteq> None" using assms(1) by (simp_all add: servable_def)
  have kind: "request_slot s \<noteq> None \<or> s = REQUEST_REGISTER ev" using assms(6) by (simp add: routed_def)
  obtain rs' effs where out: "stack_slot env s rs = Some (rs', effs)" "registry_reach (se_qt env) r rs'"
  proof (cases "request_slot s")
    case None
    with kind refresh_defined[OF assms(2,3), of "se_now env" "se_built env" "se_rand env" "se_manager env"
        "se_range env" "se_sequence env" ev] that show ?thesis by (auto simp: stack_slot_def)
  next
    case (Some slot)
    then obtain rs' effs where "slot (se_qt env) (se_now env) (se_built env) ev rs = Some (rs', effs)"
      using request_slot_contract[OF Some] inv by (fastforce simp: slot_contract_def)
    with request_slot_reach[OF Some assms(2)] Some assms(5) that show ?thesis by (simp add: stack_slot_def)
  qed
  from stack_slot_outcome[OF out(1) assms(4,5) new(1) inv kind]
  consider (a) t where "emitted effs = [t]" "answers effs = []" "signal_request t = Some ev"
    | (b) "length (answers effs) = 1" "\<forall>t \<in> set (emitted effs). signal_request t = None"
    by (auto simp: one_step_def)
  then show ?thesis
  proof cases
    case a
    have "deliverable t"
    proof -
      have "addressed_request t = Some e \<Longrightarrow> e = ev \<and> to_username msg \<noteq> None" for e
        using a(1,3) slot_addressed[OF out(1) _ _ inv assms(5,6), of t] by (cases t) auto
      with new show ?thesis by (auto simp: deliverable_def target_number_def)
    qed
    moreover have "length (extensions rs') \<le> length (extensions rs)" if "t = FindEndpoint e" for e
    proof (cases "request_slot s")
      case None
      with kind out(1) assms(5) have "refreshRegistration (se_qt env) (se_now env) (se_built env) (se_rand env)
          (se_manager env) (se_range env) (se_sequence env) ev rs = Some (rs', effs)" by (simp add: stack_slot_def)
      from refresh_length[OF this] a that show ?thesis by simp
    next
      case (Some slot)
      then have "slot (se_qt env) (se_now env) (se_built env) ev rs = Some (rs', effs)"
        using out(1) assms(5) by (simp add: stack_slot_def)
      from contract_emits[OF request_slot_contract[OF Some] inv this, of t] a(1) obtain reg where "request_of ev reg t" by auto
      with that show ?thesis by (simp add: request_of_def)
    qed
    ultimately show ?thesis using a out by (intro passed)
  next
    case b
    with out show ?thesis by (auto simp: length_Suc_conv intro: answered)
  qed
qed

lemma registry_reach_size:
  assumes "registry_reach Q r rs" "0 \<le> fst r" "snd r < 1000"
  shows "reg_size rs \<le> 125"
proof -
  have "(snd r - fst r) sdiv 8 \<le> 124"
  proof (cases "fst r \<le> snd r")
    case True
    then have "(snd r - fst r) sdiv 8 = (snd r - fst r) div 8" by (auto simp: signed_divide_int_def sgn_if)
    with assms(2,3) show ?thesis by linarith
  next
    case False
    then have "(snd r - fst r) sdiv 8 \<le> 0" by (simp add: signed_divide_int_def)
    then show ?thesis by simp
  qed
  then show ?thesis using registry_reach_range[OF assms(1)] by (auto simp: frame_of_def)
qed

section \<open>Properties\<close>


definition sample_served :: "osip_message \<Rightarrow> event" where
  "sample_served msg = (sample_request_event msg)
     \<lparr>ev_event := (ev_event (sample_request_event msg))\<lparr>ex_request := Some msg\<rparr>\<rparr>"

lemma sample_servable:
  "servable (sample_served (sample_request ''X-TOPIC'' None)) (sample_request ''X-TOPIC'' None)"
  by (simp add: servable_def sample_served_def sample_request_event_def sample_request_def sample_event_def ev_type_def
      ev_sent_def MSG_IS_def)

lemma sample_db_ok: "db_ok sample_db"
  by (simp add: db_ok_def keys_ok_def refs_ok_def sample_db_def sample_device_def sample_user_def)




end
