(* ===== verification/Connection.thy ===== *)
theory Connection
  imports Tables
begin

text \<open>
  The connection of the database thread to its database (\<open>Database/database.cpp\<close>): configuration,
  opening on demand, the idle timeout of an SQLite file, retries, creation. Qt's SQL module and the
  database behind it are a parameter: whether a driver is known, whether the connection opens, and
  what executing a statement does to the outside world \<open>'w\<close> and gives.
\<close>

section \<open>Settings\<close>

record db_settings =
  dbRealm :: string
  dbName :: string
  dbHost :: string
  dbPort :: int
  dbUser :: string
  dbPass :: string
  dbDriver :: string
  dbUuid :: string

definition dbIsFile :: "string \<Rightarrow> bool" where
  "dbIsFile name \<longleftrightarrow> name = ''QSQLITE''"

definition isFile :: "db_settings \<Rightarrow> bool" where
  "isFile st = dbIsFile (dbDriver st)"

text \<open>The values of the configuration; what it does not define reads as the empty string.\<close>

type_synonym config = "string \<Rightarrow> string"

definition operator_policy :: "string \<Rightarrow> string \<times> string" where
  "operator_policy operators =
    (let policy = toLower operators
     in if policy = ''private'' then (''public'', ''Foyer'')
        else if policy = ''public'' then (policy, ''Lobby'')
        else (policy, ''Operators''))"

definition realm_name :: "string \<Rightarrow> string \<Rightarrow> string \<Rightarrow> string" where
  "realm_name realm network uuid =
    (if realm \<noteq> [] then realm
     else if network \<in> {[], ''local'', ''localhost'', ''localdomain''} then uuid else network)"

definition driver_name :: "string \<Rightarrow> string \<Rightarrow> string" where
  "driver_name driver host =
    (let driver = (if driver = [] \<and> host = [] then ''QSQLITE'' else if driver = [] then ''QMYSQL'' else driver);
         driver = toUpper driver;
         driver = (if driver ! 0 \<noteq> CHR ''Q'' then CHR ''Q'' # driver else driver)
     in if driver = ''QSQLITE3'' then ''QSQLITE'' else driver)"

definition apply_settings :: "config \<Rightarrow> string \<Rightarrow> string \<Rightarrow> db_settings" where
  "apply_settings cfg uuid network =
    (let realm = realm_name (cfg ''realm'') network uuid;
         driver = driver_name (cfg ''database'') (cfg ''database/host'')
     in \<lparr>dbRealm = realm,
         dbName = (if dbIsFile driver then ''local.db''
           else if cfg ''database/name'' = [] then ''REALM_'' @ toUpper realm else cfg ''database/name''),
         dbHost = cfg ''database/host'', dbPort = qs_toInt (cfg ''database/port''),
         dbUser = (if cfg ''database/username'' = [] then cfg ''database/user'' else cfg ''database/username''),
         dbPass = cfg ''database/password'', dbDriver = driver, dbUuid = uuid\<rparr>)"

definition apply_policy :: "config \<Rightarrow> database \<Rightarrow> database" where
  "apply_policy cfg db =
    (let retain = qs_toInt (cfg ''retain'')
     in db\<lparr>msgRetention := (if retain = 0 then 180 else retain),
           operatorPolicy := fst (operator_policy (cfg ''operators'')),
           operatorDisplay := snd (operator_policy (cfg ''operators''))\<rparr>)"

section \<open>The connection\<close>

datatype sql_value = Sql_null | Sql_int int | Sql_text string | Sql_time qdatetime

type_synonym sql = "string \<times> sql_value list"
type_synonym sql_record = "(string \<times> sql_value) list"

record sql_reply =
  sr_rows :: "sql_record list"
  sr_lastInsertId :: sql_value

record 'w sql_lib =
  sq_driver :: "string \<Rightarrow> bool"
  sq_open :: "db_settings \<Rightarrow> 'w \<Rightarrow> bool \<times> 'w"
  sq_exec :: "sql \<Rightarrow> 'w \<Rightarrow> sql_reply option \<times> 'w"

record connection =
  cn_valid :: bool
  cn_open :: bool
  cn_failed :: bool
  cn_timer :: bool \<comment> \<open>whether \<open>dbTimer\<close> is running\<close>

definition connection_start :: connection where
  "connection_start = \<lparr>cn_valid = False, cn_open = False, cn_failed = False, cn_timer = False\<rparr>"

definition pragmaQuery :: "string \<Rightarrow> string list" where
  "pragmaQuery name = (if name = ''QSQLITE'' then
     [''PRAGMA locking_mode = EXCLUSIVE;'', ''PRAGMA synchronous = OFF;'', ''PRAGMA temp_store = MEMORY;''] else [])"

definition close :: "connection \<Rightarrow> connection" where
  "close cn =
    (let cn = cn\<lparr>cn_timer := False\<rparr>;
         cn = (if cn_open cn then cn\<lparr>cn_open := False\<rparr> else cn);
         cn = (if cn_valid cn then cn\<lparr>cn_valid := False\<rparr> else cn)
     in cn\<lparr>cn_failed := False\<rparr>)"

text \<open>
  The pragmas are run through \<open>runQueries\<close>, that is \<open>runQuery\<close> on the connection just opened, which
  does not retry on a file; only SQLite has any. See \<open>runQueries_pragmas\<close>.
\<close>

fun pragma_loop :: "'w sql_lib \<Rightarrow> string list \<Rightarrow> 'w \<Rightarrow> 'w" where
  "pragma_loop S [] w = w"
| "pragma_loop S (q # qs) w = (case sq_exec S (q, []) w of
     (None, w) \<Rightarrow> w
   | (Some _, w) \<Rightarrow> pragma_loop S qs w)"

definition reopen :: "'w sql_lib \<Rightarrow> db_settings \<Rightarrow> connection \<Rightarrow> 'w \<Rightarrow> bool \<times> connection \<times> 'w" where
  "reopen S st cn w =
    (if cn_failed cn then (False, cn, w)
     else if cn_open cn then (True, cn, w)
     else (let cn = close cn in
       if \<not> sq_driver S (dbDriver st) then (False, cn\<lparr>cn_failed := True\<rparr>, w)
       else (let cn = cn\<lparr>cn_valid := True\<rparr>; (opened, w) = sq_open S st w in
         if \<not> opened then (False, cn, w)
         else (True, cn\<lparr>cn_open := True, cn_timer := True\<rparr>, pragma_loop S (pragmaQuery (dbDriver st)) w))))"

definition resume :: "'w sql_lib \<Rightarrow> db_settings \<Rightarrow> connection \<Rightarrow> 'w \<Rightarrow> bool \<times> connection \<times> 'w" where
  "resume S st cn w =
    (if isFile st then (False, cn, w)
     else if cn_failed cn then (False, cn, w)
     else (let (result, cn, w) = reopen S st (close cn) w
           in (result, if result then cn else cn\<lparr>cn_failed := True\<rparr>, w)))"

text \<open>The loop shared by \<open>runQuery\<close>, \<open>insert\<close>, \<open>getRecord\<close> and \<open>getRecords\<close>: the reply if one came.\<close>

fun query_loop :: "'w sql_lib \<Rightarrow> db_settings \<Rightarrow> nat \<Rightarrow> sql \<Rightarrow> connection \<Rightarrow> 'w \<Rightarrow> sql_reply option \<times> connection \<times> 'w" where
  "query_loop S st 0 q cn w = (None, cn, w)"
| "query_loop S st (Suc retries) q cn w = (case sq_exec S q w of
     (Some r, w) \<Rightarrow> (Some r, cn, w)
   | (None, w) \<Rightarrow> (case resume S st cn w of
       (True, cn, w) \<Rightarrow> query_loop S st retries q cn w
     | (False, cn, w) \<Rightarrow> (None, cn, w)))"

definition execute :: "'w sql_lib \<Rightarrow> db_settings \<Rightarrow> sql \<Rightarrow> connection \<Rightarrow> 'w \<Rightarrow> sql_reply option \<times> connection \<times> 'w" where
  "execute S st q cn w = (case reopen S st cn w of
     (False, cn, w) \<Rightarrow> (None, cn, w)
   | (True, cn, w) \<Rightarrow> query_loop S st 3 q cn w)"

definition runQuery :: "'w sql_lib \<Rightarrow> db_settings \<Rightarrow> sql \<Rightarrow> connection \<Rightarrow> 'w \<Rightarrow> bool \<times> connection \<times> 'w" where
  "runQuery S st q cn w = (let (r, s) = execute S st q cn w in (r \<noteq> None, s))"

definition insert_query :: "'w sql_lib \<Rightarrow> db_settings \<Rightarrow> sql \<Rightarrow> connection \<Rightarrow> 'w \<Rightarrow> sql_value \<times> connection \<times> 'w" where
  "insert_query S st q cn w =
    (let (r, s) = execute S st q cn w in (case r of None \<Rightarrow> Sql_null | Some r \<Rightarrow> sr_lastInsertId r, s))"

definition getRecords :: "'w sql_lib \<Rightarrow> db_settings \<Rightarrow> sql \<Rightarrow> connection \<Rightarrow> 'w \<Rightarrow> sql_record list \<times> connection \<times> 'w" where
  "getRecords S st q cn w =
    (let (r, s) = execute S st q cn w in (case r of None \<Rightarrow> [] | Some r \<Rightarrow> sr_rows r, s))"

text \<open>The record of the first row, or the empty record.\<close>

definition getRecord :: "'w sql_lib \<Rightarrow> db_settings \<Rightarrow> sql \<Rightarrow> connection \<Rightarrow> 'w \<Rightarrow> sql_record \<times> connection \<times> 'w" where
  "getRecord S st q cn w =
    (let (rs, s) = getRecords S st q cn w in (case rs of [] \<Rightarrow> [] | r # _ \<Rightarrow> r, s))"

fun runQueries :: "'w sql_lib \<Rightarrow> db_settings \<Rightarrow> string list \<Rightarrow> connection \<Rightarrow> 'w \<Rightarrow> nat \<times> connection \<times> 'w" where
  "runQueries S st [] cn w = (0, cn, w)"
| "runQueries S st (q # qs) cn w = (case runQuery S st (q, []) cn w of
     (False, cn, w) \<Rightarrow> (0, cn, w)
   | (True, cn, w) \<Rightarrow> (let (count, s) = runQueries S st qs cn w in (count + 1, s)))"

text \<open>A single shot timer has stopped when its slot runs.\<close>

definition onTimeout :: "db_settings \<Rightarrow> connection \<Rightarrow> connection" where
  "onTimeout st cn = (let cn = cn\<lparr>cn_timer := False\<rparr> in if isFile st then close cn else cn)"

text \<open>A query executed on the connection as it is: executing fails on one that is not open.\<close>

definition raw_exec :: "'w sql_lib \<Rightarrow> sql \<Rightarrow> connection \<Rightarrow> 'w \<Rightarrow> sql_reply option \<times> 'w" where
  "raw_exec S q cn w = (if cn_open cn then sq_exec S q w else (None, w))"

definition getCount :: "'w sql_lib \<Rightarrow> (sql_record list \<Rightarrow> int) \<Rightarrow> string \<Rightarrow> connection \<Rightarrow> 'w \<Rightarrow> int \<times> connection \<times> 'w" where
  "getCount S count_of table cn w =
    (case raw_exec S (''SELECT COUNT (*) FROM '' @ table @ '';'', []) cn w of
       (None, w) \<Rightarrow> (0, cn\<lparr>cn_failed := True\<rparr>, w)
     | (Some r, w) \<Rightarrow> (if sr_rows r = [] then 0 else count_of (sr_rows r), cn, w))"

section \<open>Creating and configuring\<close>

fun run_each :: "'w sql_lib \<Rightarrow> db_settings \<Rightarrow> sql list \<Rightarrow> connection \<Rightarrow> 'w \<Rightarrow> connection \<times> 'w" where
  "run_each S st [] cn w = (cn, w)"
| "run_each S st (q # qs) cn w = (let (_, cn, w) = runQuery S st q cn w in run_each S st qs cn w)"

definition account :: "string \<Rightarrow> string \<Rightarrow> sql" where
  "account name access = (''INSERT INTO Authorize(authname, authtype, authaccess) VALUES(?,?,?);'',
     [Sql_text name, Sql_text ''SYSTEM'', Sql_text access])"

definition initial_rows :: "db_settings \<Rightarrow> string \<Rightarrow> sql list" where
  "initial_rows st version =
    [(''INSERT INTO Config(realm) VALUES(?);'', [Sql_text (dbRealm st)]),
     (''INSERT INTO Switches(uuid, version) VALUES (?,?);'', [Sql_text (dbUuid st), Sql_text version]),
     account ''system'' ''LOCAL'', account ''nobody'' ''LOCAL'', account ''anonymous'' ''DISABLED'',
     account ''operators'' ''PILOT'',
     (''INSERT INTO Extensions(extnbr, authname, display) VALUES (?,?,?);'',
       [Sql_int 0, Sql_text ''operators'', Sql_text ''Operators''])]"

text \<open>What a version of the server brings: its schema, the rows preloaded in debug builds, its name.\<close>

record server_build =
  bd_tables :: "string list"
  bd_preload :: "string list"
  bd_version :: string

definition createQuery :: "server_build \<Rightarrow> string \<Rightarrow> string list" where
  "createQuery bd name = (if name = ''QSQLITE'' then bd_tables bd else [])"

definition preloadConfig :: "server_build \<Rightarrow> string \<Rightarrow> string list" where
  "preloadConfig bd name = (if name = ''QSQLITE'' then bd_preload bd else [])"

definition fill_database :: "'w sql_lib \<Rightarrow> server_build \<Rightarrow> db_settings \<Rightarrow> bool \<Rightarrow> connection \<Rightarrow> 'w \<Rightarrow> connection \<times> 'w" where
  "fill_database S bd st init cn w =
    (if init then
       (let (_, cn, w) = runQueries S st (createQuery bd (dbDriver st)) cn w;
            (cn, w) = run_each S st (initial_rows st (bd_version bd)) cn w;
            (_, cn, w) = runQueries S st (preloadConfig bd (dbDriver st)) cn w
        in (cn, w))
     else if dbIsFile (dbDriver st) then
       run_each S st [(''UPDATE Config SET realm=? WHERE id=1;'', [Sql_text (dbRealm st)]), (''VACUUM'', [])] cn w
     else (cn, w))"

text \<open>The parts of the object that \<open>create\<close> sets: the record of \<open>Config\<close> and the dialing range.\<close>

record dial_config =
  dbConfig :: sql_record
  dialRange :: "int \<times> int"

definition read_config :: "'w sql_lib \<Rightarrow> connection \<Rightarrow> 'w \<Rightarrow> dial_config \<Rightarrow> dial_config \<times> 'w" where
  "read_config S cn w dc =
    (let (r, w) = raw_exec S (''SELECT * FROM Config;'', []) cn w;
         dc = (case r of Some r \<Rightarrow> (case sr_rows r of [] \<Rightarrow> dc | row # _ \<Rightarrow> dc\<lparr>dbConfig := row\<rparr>) | None \<Rightarrow> dc)
     in (if map_of (dbConfig dc) ''dialplan'' = Some (Sql_text ''STD3'') then dc\<lparr>dialRange := (100, 699)\<rparr> else dc, w))"

definition register_switch :: "'w sql_lib \<Rightarrow> server_build \<Rightarrow> db_settings \<Rightarrow> connection \<Rightarrow> 'w \<Rightarrow> connection \<times> 'w" where
  "register_switch S bd st cn w =
    (case runQuery S st (''UPDATE Switches SET version=? WHERE uuid=?;'',
        [Sql_text (bd_version bd), Sql_text (dbUuid st)]) cn w of
       (True, s) \<Rightarrow> s
     | (False, cn, w) \<Rightarrow> snd (runQuery S st (''INSERT INTO Switches(uuid, version) VALUES (?,?);'',
         [Sql_text (dbUuid st), Sql_text (bd_version bd)]) cn w))"

text \<open>
  \<open>create\<close>; \<open>exists\<close> is \<open>QDir::current().exists\<close>, \<open>limit\<close> the oldest time messages are kept from.
  \<open>None\<close>: the server exits with code 80, its database has no configuration.
\<close>

definition create :: "'w sql_lib \<Rightarrow> server_build \<Rightarrow> (string \<Rightarrow> bool) \<Rightarrow> qdatetime \<Rightarrow> db_settings \<Rightarrow> dial_config \<Rightarrow>
    connection \<Rightarrow> 'w \<Rightarrow> (bool \<times> dial_config \<times> connection \<times> 'w) option" where
  "create S bd exists limit st dc cn w =
    (let init = (dbIsFile (dbDriver st) \<and> \<not> exists (dbName st)) in
     case reopen S st (cn\<lparr>cn_failed := False\<rparr>) w of
       (False, cn, w) \<Rightarrow> Some (False, dc, cn, w)
     | (True, cn, w) \<Rightarrow>
       (let (cn, w) = fill_database S bd st init cn w; (dc, w) = read_config S cn w dc in
        if dbConfig dc = [] then None
        else (let (cn, w) = register_switch S bd st cn w in
          if init then Some (True, dc, cn, w)
          else Some (True, dc, snd (runQuery S st (''DELETE FROM Messages WHERE posted < ?'', [Sql_time limit]) cn w)))))"

text \<open>
  \<open>applyConfig\<close>: the settings change, the connection is kept when it is open. The last component is
  the argument of the signal \<open>updateAuthorize\<close>.
\<close>

definition applyConfig :: "'w sql_lib \<Rightarrow> server_build \<Rightarrow> (string \<Rightarrow> bool) \<Rightarrow> qdatetime \<Rightarrow> config \<Rightarrow> string \<Rightarrow> string \<Rightarrow>
    dial_config \<Rightarrow> connection \<Rightarrow> 'w \<Rightarrow> (db_settings \<times> dial_config \<times> connection \<times> 'w \<times> bool) option" where
  "applyConfig S bd exists limit cfg uuid network dc cn w =
    (let st = apply_settings cfg uuid network in
     case create S bd exists limit st dc cn w of
       None \<Rightarrow> None
     | Some (_, dc, cn, w) \<Rightarrow> Some (st, dc, cn, w, cn_open cn))"

end
