(* ===== verification/ConnectionFacts.thy ===== *)
theory ConnectionFacts
  imports Connection
begin

text \<open>
  What the connection of the database thread promises: the state it is in, how often a statement is
  tried, that a statement executed through it is a statement run on the tables (theory \<open>Tables\<close>),
  and what a new configuration changes.
\<close>

lemma reopen_cases:
  assumes "reopen S st cn w = (b, cn', w')"
  obtains (failed) "\<not> b" "cn_failed cn" "cn' = cn" "w' = w"
    | (kept) "b" "\<not> cn_failed cn" "cn_open cn" "cn' = cn" "w' = w"
    | (driver) "\<not> b" "\<not> cn_open cn" "cn' = (close cn)\<lparr>cn_failed := True\<rparr>" "w' = w"
    | (refused) w1 where "\<not> b" "\<not> cn_open cn" "\<not> cn_failed cn" "sq_driver S (dbDriver st)" "sq_open S st w = (False, w1)"
        "cn' = (close cn)\<lparr>cn_valid := True\<rparr>" "w' = w1"
    | (opened) w1 where "b" "\<not> cn_open cn" "\<not> cn_failed cn" "sq_driver S (dbDriver st)" "sq_open S st w = (True, w1)"
        "cn' = (close cn)\<lparr>cn_valid := True, cn_open := True, cn_timer := True\<rparr>"
        "w' = pragma_loop S (pragmaQuery (dbDriver st)) w1"
proof (cases "cn_failed cn \<or> cn_open cn \<or> \<not> sq_driver S (dbDriver st)")
  case True
  then consider "cn_failed cn" | "\<not> cn_failed cn" "cn_open cn" | "\<not> cn_failed cn" "\<not> cn_open cn" "\<not> sq_driver S (dbDriver st)"
    by blast
  then show thesis
  proof cases
    case 1
    with assms show ?thesis by (intro failed) (simp_all add: reopen_def)
  next
    case 2
    with assms show ?thesis by (intro kept) (simp_all add: reopen_def)
  next
    case 3
    with assms show ?thesis by (intro driver) (simp_all add: reopen_def Let_def)
  qed
next
  case False
  obtain ok w1 where sq: "sq_open S st w = (ok, w1)" by (metis prod.exhaust)
  show thesis
  proof (cases ok)
    case True
    with sq False assms show ?thesis by (intro opened[of w1]) (simp_all add: reopen_def Let_def)
  next
    case closed: False
    with sq False assms show ?thesis by (intro refused[of w1]) (simp_all add: reopen_def Let_def)
  qed
qed

lemma close_state [simp]:
  "close cn = cn\<lparr>cn_timer := False, cn_open := False, cn_valid := False, cn_failed := False\<rparr>"
  by (cases cn) (simp add: close_def Let_def)

section \<open>The state of the connection\<close>

text \<open>The timer that closes an idle file runs whenever the file is open.\<close>

definition connection_ok :: "db_settings \<Rightarrow> connection \<Rightarrow> bool" where
  "connection_ok st cn \<longleftrightarrow> (cn_open cn \<longrightarrow> cn_valid cn) \<and> (cn_timer cn \<longrightarrow> cn_open cn) \<and>
     (isFile st \<and> cn_open cn \<longrightarrow> cn_timer cn)"

text \<open>The operations of the thread between two configurations.\<close>

inductive connection_step :: "'w sql_lib \<Rightarrow> db_settings \<Rightarrow> connection \<times> 'w \<Rightarrow> connection \<times> 'w \<Rightarrow> bool"
  for S st where
  statement: "execute S st q cn w = (r, cn', w') \<Longrightarrow> connection_step S st (cn, w) (cn', w')"
| timeout: "cn_timer cn \<Longrightarrow> connection_step S st (cn, w) (onTimeout st cn, w)"
| counted: "getCount S count_of table cn w = (n, cn', w') \<Longrightarrow> connection_step S st (cn, w) (cn', w')"
| outside: "connection_step S st (cn, w) (cn, w')" \<comment> \<open>the world changes by itself\<close>

inductive_cases connection_stepE: "connection_step S st (cn, w) s"

lemma reopen_ok: "\<lbrakk>reopen S st cn w = (b, cn', w'); connection_ok st cn\<rbrakk> \<Longrightarrow>
    connection_ok st cn' \<and> (b \<longrightarrow> cn_open cn' \<and> \<not> cn_failed cn')"
  by (erule reopen_cases) (simp_all add: connection_ok_def)

lemma resume_ok:
  assumes "resume S st cn w = (b, cn', w')" "connection_ok st cn"
  shows "connection_ok st cn' \<and> (b \<longrightarrow> cn_open cn' \<and> \<not> cn_failed cn')"
proof (cases "isFile st \<or> cn_failed cn")
  case False
  obtain b1 cn1 w1 where r: "reopen S st (close cn) w = (b1, cn1, w1)" by (metis prod.exhaust)
  have "connection_ok st (close cn)" by (simp add: connection_ok_def)
  from reopen_ok[OF r this] r False assms(1) show ?thesis
    by (auto simp: resume_def connection_ok_def simp del: close_state split: if_splits)
next
  case True
  then have "b = False \<and> cn' = cn" using assms(1) by (auto simp: resume_def simp del: close_state split: if_splits)
  with assms(2) show ?thesis by simp
qed

lemma query_loop_ok: "\<lbrakk>query_loop S st n q cn w = (r, cn', w'); connection_ok st cn\<rbrakk> \<Longrightarrow> connection_ok st cn'"
proof (induction n arbitrary: cn w)
  case (Suc n)
  obtain r1 w1 where x: "sq_exec S q w = (r1, w1)" by fastforce
  show ?case
  proof (cases r1)
    case None
    obtain b cn2 w2 where res: "resume S st cn w1 = (b, cn2, w2)" by (metis prod.exhaust)
    with Suc.prems x None resume_ok[OF res] Suc.IH[of cn2 w2] show ?thesis by (cases b) auto
  qed (use Suc.prems x in auto)
qed simp

lemma execute_ok: "\<lbrakk>execute S st q cn w = (r, cn', w'); connection_ok st cn\<rbrakk> \<Longrightarrow> connection_ok st cn'"
proof -
  obtain b cn1 w1 where r: "reopen S st cn w = (b, cn1, w1)" by (metis prod.exhaust)
  assume "execute S st q cn w = (r, cn', w')" "connection_ok st cn"
  with r reopen_ok[OF r] query_loop_ok[of S st 3 q cn1 w1] show ?thesis by (cases b) (auto simp: execute_def)
qed

lemma getCount_state:
  assumes "getCount S count_of table cn w = (n, cn', w')"
  shows "cn' = cn \<or> cn' = cn\<lparr>cn_failed := True\<rparr>"
proof -
  obtain r w1 where "raw_exec S (''SELECT COUNT (*) FROM '' @ table @ '';'', []) cn w = (r, w1)" by (metis prod.exhaust)
  with assms show ?thesis by (cases r) (simp_all add: getCount_def)
qed

lemma connection_step_ok:
  assumes "connection_step S st (cn, w) (cn', w')" "connection_ok st cn"
  shows "connection_ok st cn'"
  using assms(1)
proof (cases rule: connection_step.cases)
  case (statement q r)
  from execute_ok[OF statement assms(2)] show ?thesis .
next
  case (counted count_of table n)
  from getCount_state[OF counted] assms(2) show ?thesis by (auto simp: connection_ok_def)
qed (use assms(2) in \<open>auto simp: onTimeout_def connection_ok_def Let_def\<close>)

lemma connection_steps_ok:
  assumes "(connection_step S st)\<^sup>*\<^sup>* s s'" "connection_ok st (fst s)"
  shows "connection_ok st (fst s')"
  using assms(1)
proof (induction rule: rtranclp_induct)
  case base
  show ?case by (rule assms(2))
next
  case (step t u)
  show ?case
    using connection_step_ok[of S st "fst t" "snd t" "fst u" "snd u"] step.hyps(2) step.IH by simp
qed

text \<open>The pragmas of \<open>reopen\<close> are run as \<open>runQueries\<close> runs them.\<close>

lemma runQueries_pragmas:
  assumes "cn_open cn" "\<not> cn_failed cn" "isFile st"
  shows "snd (runQueries S st qs cn w) = (cn, pragma_loop S qs w)"
  using assms
proof (induction qs arbitrary: w)
  case (Cons q qs)
  obtain r w1 where x: "sq_exec S (q, []) w = (r, w1)" by fastforce
  have "execute S st (q, []) cn w = (r, cn, w1)"
    using Cons.prems x by (cases r) (auto simp: execute_def reopen_def numeral_3_eq_3 resume_def)
  moreover obtain n s where "runQueries S st qs cn w1 = (n, s)" by (metis prod.exhaust)
  ultimately show ?case using x Cons.IH[of w1] Cons.prems by (cases r) (auto simp: runQuery_def)
qed simp

end
