(* ===== verification/ConnectionProps.thy ===== *)
theory ConnectionProps
  imports ConnectionFacts MessageFacts
begin

text \<open>The properties of the connection of the database thread.\<close>

section \<open>Counting what is executed\<close>

text \<open>The same library with a counter of executed statements in the outside world.\<close>

definition counting :: "'w sql_lib \<Rightarrow> (nat \<times> 'w) sql_lib" where
  "counting S = \<lparr>sq_driver = sq_driver S,
     sq_open = (\<lambda>st (k, w). let (b, w) = sq_open S st w in (b, (k, w))),
     sq_exec = (\<lambda>q (k, w). let (r, w) = sq_exec S q w in (r, (Suc k, w)))\<rparr>"

lemma counting_simps [simp]:
  "sq_driver (counting S) = sq_driver S"
  "sq_open (counting S) st (k, w) = (fst (sq_open S st w), k, snd (sq_open S st w))"
  "sq_exec (counting S) q (k, w) = (fst (sq_exec S q w), Suc k, snd (sq_exec S q w))"
  by (simp_all add: counting_def case_prod_unfold Let_def)

lemma counting_pragmas: "fst (pragma_loop (counting S) qs (k, w)) \<le> k + length qs"
proof (induction qs arbitrary: k w)
  case (Cons q qs)
  show ?case using Cons[of "Suc k" "snd (sq_exec S (q, []) w)"]
    by (cases "fst (sq_exec S (q, []) w)") simp_all
qed simp

lemma counting_reopen:
  assumes "reopen (counting S) st cn (k, w) = (b, cn', (k', w'))"
  shows "k' \<le> k + length (pragmaQuery (dbDriver st)) \<and> (cn_open cn \<longrightarrow> k' = k)"
  using assms
proof (cases rule: reopen_cases)
  case (opened w1)
  then have "fst w1 = k" by (cases w1) auto
  with opened counting_pragmas[of S "pragmaQuery (dbDriver st)" "fst w1" "snd w1"] show ?thesis
    by (metis fst_conv prod.collapse)
qed auto

lemma counting_resume:
  assumes "resume (counting S) st cn (k, w) = (b, cn', (k', w'))"
  shows "k' = k"
proof (cases "isFile st \<or> cn_failed cn")
  case True
  with assms show ?thesis by (auto simp: resume_def split: if_splits)
next
  case False
  obtain b1 cn1 k1 w1 where r: "reopen (counting S) st (close cn) (k, w) = (b1, cn1, (k1, w1))" by (metis prod.exhaust)
  have "k1 = k"
    using r
  proof (cases rule: reopen_cases)
    case (opened v)
    then show ?thesis using False by (cases v) (auto simp: pragmaQuery_def isFile_def dbIsFile_def)
  qed auto
  with r False assms show ?thesis by (auto simp: resume_def split: if_splits)
qed

lemma counting_loop:
  "query_loop (counting S) st n q cn (k, w) = (r, cn', (k', w')) \<Longrightarrow> k' \<le> k + (if isFile st then min n 1 else n)"
proof (induction n arbitrary: cn k w)
  case (Suc n)
  show ?case
  proof (cases "fst (sq_exec S q w)")
    case None
    obtain b cn2 k2 w2 where res: "resume (counting S) st cn (Suc k, snd (sq_exec S q w)) = (b, cn2, (k2, w2))"
      by (metis prod.exhaust)
    have once: "isFile st \<Longrightarrow> \<not> b" using res by (auto simp: resume_def)
    with Suc.prems None res counting_resume[OF res] Suc.IH[of cn2 k2 w2] show ?thesis by (cases b) auto
  qed (use Suc.prems in auto)
qed simp

section \<open>Properties\<close>

text \<open>
  A statement is tried at most three times. Whatever fails, executing one statement on a
  network database executes at most three statements; on an SQLite file it is tried once, after at
  most the three pragmas of opening it.
\<close>

theorem statement_tries:
  assumes "execute (counting S) st q cn (0, w) = (r, cn', (k, w'))"
  shows "k \<le> (if isFile st then (if cn_open cn then 1 else 4) else 3)"
proof -
  obtain b cn1 k1 w1 where re: "reopen (counting S) st cn (0, w) = (b, cn1, (k1, w1))" by (metis prod.exhaust)
  have one: "k1 \<le> (if isFile st \<and> \<not> cn_open cn then 3 else 0)"
    using counting_reopen[OF re] by (auto simp: pragmaQuery_def isFile_def dbIsFile_def)
  show ?thesis
  proof (cases b)
    case True
    with assms re have "query_loop (counting S) st 3 q cn1 (k1, w1) = (r, cn', (k, w'))" by (simp add: execute_def)
    from counting_loop[OF this] one show ?thesis by (auto split: if_splits)
  next
    case False
    with assms re one show ?thesis by (auto simp: execute_def split: if_splits)
  qed
qed

text \<open>
  An open SQLite file is always closed again when idle. In every state the thread can reach from
  its start, an open connection is valid, the timer runs only while it is open, and for a file it
  runs whenever it is open: the step of its timeout is then possible and closes the connection
  completely.
\<close>

theorem idle_file_closes:
  assumes "(connection_step S st)\<^sup>*\<^sup>* (connection_start, w) (cn, w')"
  shows "(cn_open cn \<longrightarrow> cn_valid cn) \<and> (cn_timer cn \<longrightarrow> cn_open cn) \<and>
    (isFile st \<and> cn_open cn \<longrightarrow> connection_step S st (cn, w') (connection_start, w'))"
proof -
  have ok: "connection_ok st cn"
    using connection_steps_ok[OF assms] by (simp add: connection_ok_def connection_start_def)
  have "onTimeout st cn = connection_start" if "isFile st"
    using that by (simp add: onTimeout_def connection_start_def)
  then have "isFile st \<and> cn_open cn \<longrightarrow> connection_step S st (cn, w') (connection_start, w')"
    using connection_step.timeout[of cn S st w'] ok by (auto simp: connection_ok_def)
  with ok show ?thesis by (simp add: connection_ok_def)
qed

text \<open>A driver on which the pragmas of a connection change nothing, and which runs \<open>q\<close> as \<open>stmt\<close>.\<close>

lemma pragmas_silent:
  assumes "\<forall>p \<in> set ps. \<forall>db. snd (sq_exec S (p, []) db) = db"
  shows "pragma_loop S ps db = db"
  using assms
proof (induction ps)
  case (Cons p ps)
  then have "snd (sq_exec S (p, []) db) = db" by simp
  then obtain r where "sq_exec S (p, []) db = (r, db)" by (metis prod.collapse)
  with Cons show ?case by (cases r) auto
qed simp

lemma reopen_silent:
  assumes "\<forall>p \<in> set (pragmaQuery (dbDriver st)). \<forall>db. snd (sq_exec S (p, []) db) = db" "sq_driver S (dbDriver st)"
    "\<forall>db. sq_open S st db = (db_up db, db)" "\<not> cn_failed c" "db_up db"
  shows "\<exists>c'. reopen S st c db = (True, c', db) \<and> \<not> cn_failed c'"
  using assms pragmas_silent[OF assms(1)] by (simp add: reopen_def)

lemma loop_runs:
  assumes "\<forall>db. snd (sq_exec S q db) = stmt db" "\<forall>db. fst (sq_exec S q db) = None \<longrightarrow> stmt db = db"
    "\<And>c. \<not> cn_failed c \<Longrightarrow> \<exists>c'. reopen S st c db = (True, c', db) \<and> \<not> cn_failed c'" "\<not> cn_failed c" "0 < n"
  shows "\<exists>cn'. query_loop S st n q c db = (fst (sq_exec S q db), cn', stmt db)"
  using assms(4,5)
proof (induction n arbitrary: c)
  case (Suc n)
  obtain r where r: "sq_exec S q db = (r, stmt db)" using assms(1) by (metis prod.collapse)
  show ?case
  proof (cases r)
    case None
    with r assms(2) have same: "stmt db = db" by (metis fst_conv)
    have "\<not> cn_failed (close c)" using Suc.prems(1) by simp
    from assms(3)[OF this] obtain b c2 where res: "resume S st c db = (b, c2, db)" "b \<longrightarrow> \<not> cn_failed c2"
      using Suc.prems(1) by (cases "isFile st") (auto simp: resume_def)
    show ?thesis
    proof (cases "b \<and> n > 0")
      case True
      with Suc.IH[of c2] res show ?thesis using r None same by auto
    next
      case False
      with res r None same show ?thesis by (cases b; cases n) auto
    qed
  qed (use r in simp)
qed simp

text \<open>
  C25. A statement executed through the connection is the statement run on the tables. Suppose Qt's
  driver executes the statement \<open>q\<close> as the function \<open>stmt\<close> on the tables, a failed statement changes
  nothing, pragmas change nothing, and the database opens when it is up. Then executing \<open>q\<close> with all
  reconnections and retries is \<open>run stmt\<close> of the theory \<open>Tables\<close>, and the reply is the driver's.
\<close>

theorem execute_runs:
  assumes "\<forall>db. snd (sq_exec S q db) = stmt db" "\<forall>db. fst (sq_exec S q db) = None \<longrightarrow> stmt db = db"
    "\<forall>p \<in> set (pragmaQuery (dbDriver st)). \<forall>db. snd (sq_exec S (p, []) db) = db"
    "sq_driver S (dbDriver st)" "\<forall>db. sq_open S st db = (db_up db, db)"
    "\<not> cn_failed cn" "cn_open cn \<longrightarrow> db_up db"
  shows "\<exists>cn'. execute S st q cn db = (if db_up db then fst (sq_exec S q db) else None, cn', run stmt db)"
proof (cases "db_up db")
  case True
  have open_ok: "\<exists>c'. reopen S st c db = (True, c', db) \<and> \<not> cn_failed c'" if "\<not> cn_failed c" for c
    using reopen_silent[OF assms(3-5) that True] .
  obtain c where c: "reopen S st cn db = (True, c, db)" "\<not> cn_failed c" using open_ok[OF assms(6)] by blast
  from loop_runs[of S q stmt st db c 3, OF assms(1,2) open_ok c(2)] c(1) True show ?thesis by (simp add: execute_def run_def)
next
  case False
  with assms(4-7) show ?thesis by (simp add: execute_def reopen_def run_def)
qed

text \<open>
  A database of a single statement: emptying the outboxes. It opens when it is up and ignores the
  pragmas.
\<close>

definition sample_sql :: "database sql_lib" where
  "sample_sql = \<lparr>sq_driver = (\<lambda>_. True), sq_open = (\<lambda>_ db. (db_up db, db)),
     sq_exec = (\<lambda>q db. (Some \<lparr>sr_rows = [], sr_lastInsertId = Sql_null\<rparr>,
        if fst q = ''DELETE FROM Outboxes;'' then db\<lparr>t_outboxes := []\<rparr> else db))\<rparr>"

definition sample_settings :: "string \<Rightarrow> db_settings" where
  "sample_settings driver = apply_settings (\<lambda>_. []) ''uuid'' []\<lparr>dbDriver := driver\<rparr>"

lemma sample_settings_driver [simp]: "dbDriver (sample_settings driver) = driver"
  by (simp add: sample_settings_def)

lemma execute_runs_witness:
  "\<exists>cn. execute sample_sql (sample_settings ''QSQLITE'') (''DELETE FROM Outboxes;'', []) connection_start (sample_db\<lparr>db_up := True\<rparr>) =
     (Some \<lparr>sr_rows = [], sr_lastInsertId = Sql_null\<rparr>, cn, sample_db\<lparr>db_up := True, t_outboxes := []\<rparr>)"
proof -
  have "\<exists>cn. execute sample_sql (sample_settings ''QSQLITE'') (''DELETE FROM Outboxes;'', []) connection_start
      (sample_db\<lparr>db_up := True\<rparr>) = (if db_up (sample_db\<lparr>db_up := True\<rparr>)
        then fst (sq_exec sample_sql (''DELETE FROM Outboxes;'', []) (sample_db\<lparr>db_up := True\<rparr>)) else None, cn,
       run (\<lambda>db. db\<lparr>t_outboxes := []\<rparr>) (sample_db\<lparr>db_up := True\<rparr>))"
    by (rule execute_runs) (simp_all add: sample_sql_def pragmaQuery_def connection_start_def)
  then show ?thesis by (simp add: sample_sql_def run_def)
qed

lemma statement_tries_witness:
  "\<exists>r cn k db'. execute (counting sample_sql) (sample_settings ''QMYSQL'') (''VACUUM'', []) connection_start (0, sample_db) =
     (r, cn, (k, db')) \<and> k \<le> 3"
proof -
  obtain r cn k db' where out: "execute (counting sample_sql) (sample_settings ''QMYSQL'') (''VACUUM'', []) connection_start (0, sample_db) =
     (r, cn, (k, db'))" by (metis prod.exhaust)
  from statement_tries[OF out] out show ?thesis by (simp add: isFile_def dbIsFile_def)
qed

lemma idle_file_closes_witness:
  "\<exists>cn. cn_open cn \<and> connection_step sample_sql (sample_settings ''QSQLITE'') (cn, sample_db\<lparr>db_up := True\<rparr>)
     (connection_start, sample_db\<lparr>db_up := True\<rparr>)"
proof -
  let ?db = "sample_db\<lparr>db_up := True\<rparr>" and ?st = "sample_settings ''QSQLITE''"
  let ?cn = "\<lparr>cn_valid = True, cn_open = True, cn_failed = False, cn_timer = True\<rparr>"
  have "execute sample_sql ?st (''VACUUM'', []) connection_start ?db =
      (Some \<lparr>sr_rows = [], sr_lastInsertId = Sql_null\<rparr>, ?cn, ?db)"
    by (simp add: execute_def reopen_def sample_sql_def connection_start_def pragmaQuery_def numeral_3_eq_3)
  from r_into_rtranclp[of "connection_step sample_sql ?st", OF connection_step.statement[OF this]]
  have "cn_open ?cn \<and> connection_step sample_sql ?st (?cn, ?db) (connection_start, ?db)"
    using idle_file_closes[of sample_sql ?st ?db ?cn ?db] by (simp add: isFile_def dbIsFile_def)
  then show ?thesis by blast
qed

text \<open>
  One failed reconnection of a network database is final. When a statement fails and the
  reconnection fails too, that statement and every later one, in every state reached without a new
  configuration, fails without being executed, even if the database is back; the flag is reset only
  by \<open>applyConfig\<close>.
\<close>

theorem failed_until_configured:
  assumes "\<not> isFile st" "\<not> cn_failed cn" "cn_open cn" "sq_exec S q w = (None, w1)"
    "sq_driver S (dbDriver st)" "sq_open S st w1 = (False, w2)"
    "(connection_step S st)\<^sup>*\<^sup>* (snd (execute S st q cn w)) s"
  shows "fst (execute S st q cn w) = None \<and> execute S st q' (fst s) (snd s) = (None, s) \<and>
    fst (reopen S st ((fst s)\<lparr>cn_failed := False\<rparr>) v) = fst (sq_open S st v)"
proof -
  let ?dead = "\<lambda>cn. cn_failed cn \<and> \<not> cn_open cn \<and> \<not> cn_timer cn"
  have first: "execute S st q cn w = (None, (close cn)\<lparr>cn_valid := True, cn_failed := True\<rparr>, w2)"
    using assms(1-6) by (simp add: execute_def reopen_def numeral_3_eq_3 resume_def)
  have "?dead (fst s)"
    using assms(7)
  proof (induction rule: rtranclp_induct)
    case base
    show ?case by (simp add: first)
  next
    case (step t u)
    from step.hyps(2) show ?case
    proof (cases rule: connection_step.cases)
      case (statement p c v r c' v')
      then show ?thesis using step.IH by (auto simp: execute_def reopen_def)
    next
      case (counted count_of table c v n c' v')
      then show ?thesis using step.IH getCount_state[OF counted(3)] by auto
    qed (use step.IH in auto)
  qed
  then have "execute S st q' (fst s) (snd s) = (None, s)" by (simp add: execute_def reopen_def)
  moreover have "fst (reopen S st ((fst s)\<lparr>cn_failed := False\<rparr>) v) = fst (sq_open S st v)"
    using \<open>?dead (fst s)\<close> assms(5) by (cases "sq_open S st v"; cases "fst (sq_open S st v)") (simp_all add: reopen_def Let_def)
  ultimately show ?thesis by (simp add: first)
qed

lemma failed_until_configured_witness:
  "execute (sample_sql\<lparr>sq_open := \<lambda>_ db. (False, db), sq_exec := \<lambda>_ db. (None, db)\<rparr>) (sample_settings ''QMYSQL'')
     (''VACUUM'', []) \<lparr>cn_valid = True, cn_open = False, cn_failed = True, cn_timer = False\<rparr> sample_db =
   (None, \<lparr>cn_valid = True, cn_open = False, cn_failed = True, cn_timer = False\<rparr>, sample_db)"
proof -
  let ?S = "sample_sql\<lparr>sq_open := \<lambda>_ db. (False, db), sq_exec := \<lambda>_ db. (None, db)\<rparr>"
  let ?st = "sample_settings ''QMYSQL''"
  let ?cn = "\<lparr>cn_valid = True, cn_open = True, cn_failed = False, cn_timer = True\<rparr>"
  have "snd (execute ?S ?st (''VACUUM'', []) ?cn sample_db) =
      (\<lparr>cn_valid = True, cn_open = False, cn_failed = True, cn_timer = False\<rparr>, sample_db)"
    by (simp add: execute_def reopen_def numeral_3_eq_3 resume_def isFile_def dbIsFile_def sample_sql_def)
  then show ?thesis
    using failed_until_configured[of ?st ?cn ?S "(''VACUUM'', [])" sample_db sample_db sample_db
        "(\<lparr>cn_valid = True, cn_open = False, cn_failed = True, cn_timer = False\<rparr>, sample_db)" "(''VACUUM'', [])" sample_db]
    by (simp add: isFile_def dbIsFile_def sample_sql_def)
qed

section \<open>Configuration\<close>

lemma upper_idem [simp]: "toUpper (toUpper s) = toUpper s"
proof -
  have "upper_char (upper_char c) = upper_char c" for c
    using ord_less[of c] by (auto simp: upper_char_def ord_char_of)
  then show ?thesis by (simp add: toUpper_def)
qed

lemma upper_Cons: "toUpper (c # s) = upper_char c # toUpper s"
  by (simp add: toUpper_def)

lemma driver_name_normal:
  "driver_name driver host \<noteq> [] \<and> driver_name driver host ! 0 = CHR ''Q'' \<and> toUpper (driver_name driver host) = driver_name driver host \<and>
   driver_name driver host \<noteq> ''QSQLITE3''"
proof -
  have plain: "toUpper ''QSQLITE'' = ''QSQLITE''" "upper_char CHR ''Q'' = CHR ''Q''"
    by (simp_all add: toUpper_def upper_char_def ord_def)
  define base where "base = (if driver = [] \<and> host = [] then ''QSQLITE'' else if driver = [] then ''QMYSQL'' else driver)"
  define full where "full = (if toUpper base ! 0 \<noteq> CHR ''Q'' then CHR ''Q'' # toUpper base else toUpper base)"
  have "toUpper base \<noteq> []" by (simp add: base_def toUpper_def)
  then have "full \<noteq> []" "full ! 0 = CHR ''Q''" "toUpper full = full"
    by (simp_all add: full_def) (simp add: upper_Cons plain)
  moreover have "driver_name driver host = (if full = ''QSQLITE3'' then ''QSQLITE'' else full)"
    by (simp only: driver_name_def Let_def base_def[symmetric] full_def[symmetric])
  ultimately show ?thesis using plain(1) by simp
qed

text \<open>
  What a configuration amounts to. The driver's name is a Qt plugin name: it starts with Q, is in
  upper case, is never the alias \<open>QSQLITE3\<close>, and normalising it again changes nothing; a file
  database is always \<open>local.db\<close>, any database has a name; messages are kept for a nonzero time; the
  operators' policy is lower case and never \<open>private\<close>.
\<close>

theorem configuration_normal:
  fixes cfg uuid network db
  defines "st \<equiv> apply_settings cfg uuid network"
  shows "dbDriver st ! 0 = CHR ''Q'' \<and> toUpper (dbDriver st) = dbDriver st \<and> dbDriver st \<noteq> ''QSQLITE3'' \<and>
    driver_name (dbDriver st) host = dbDriver st \<and> (isFile st \<longleftrightarrow> dbName st = ''local.db'' \<and> dbDriver st = ''QSQLITE'') \<and>
    dbName st \<noteq> [] \<and> (uuid \<noteq> [] \<longrightarrow> dbRealm st \<noteq> []) \<and>
    msgRetention (apply_policy cfg db) \<noteq> 0 \<and> operatorPolicy (apply_policy cfg db) \<noteq> ''private'' \<and>
    toLower (operatorPolicy (apply_policy cfg db)) = operatorPolicy (apply_policy cfg db)"
proof -
  have driver: "dbDriver st = driver_name (cfg ''database'') (cfg ''database/host'')"
    by (simp add: st_def apply_settings_def Let_def)
  note normal = driver_name_normal[of "cfg ''database''" "cfg ''database/host''", folded driver]
  have again: "driver_name (dbDriver st) host = dbDriver st"
    using normal by (simp add: driver_name_def)
  have local: "isFile st \<longleftrightarrow> dbName st = ''local.db'' \<and> dbDriver st = ''QSQLITE''"
    by (auto simp: isFile_def dbIsFile_def st_def apply_settings_def Let_def)
  have names: "dbName st \<noteq> []" "uuid \<noteq> [] \<longrightarrow> dbRealm st \<noteq> []"
    by (simp_all add: st_def apply_settings_def Let_def realm_name_def)
  have lower: "toLower (toLower s) = toLower s" for s
  proof -
    have "lower_char (lower_char c) = lower_char c" for c
      using ord_less[of c] by (auto simp: lower_char_def ord_char_of)
    then show ?thesis by (simp add: toLower_def)
  qed
  have public: "toLower ''public'' = ''public''" by (simp add: toLower_def lower_char_def ord_def)
  have policy: "operatorPolicy (apply_policy cfg db) \<noteq> ''private''"
    "toLower (operatorPolicy (apply_policy cfg db)) = operatorPolicy (apply_policy cfg db)"
    by (simp_all add: apply_policy_def operator_policy_def Let_def lower public)
  have "msgRetention (apply_policy cfg db) \<noteq> 0" by (simp add: apply_policy_def Let_def)
  with normal again local names policy show ?thesis by blast
qed

lemma configuration_normal_witness:
  "dbRealm (apply_settings (\<lambda>_. []) ''uuid'' []) \<noteq> [] \<and> isFile (apply_settings (\<lambda>_. []) ''uuid'' [])"
proof -
  have "isFile (apply_settings (\<lambda>_. []) ''uuid'' [])"
    by (simp add: isFile_def dbIsFile_def apply_settings_def Let_def driver_name_def toUpper_def upper_char_def ord_def)
  then show ?thesis
    using configuration_normal[of "\<lambda>_. []" "''uuid''" "[]"] by simp
qed

text \<open>
  A new configuration does not reach an open database. While the connection is open and its
  statements succeed, \<open>applyConfig\<close> executes all its statements, even the creation of the tables of a
  new file, on the connection opened with the old settings: whatever opening with the new settings
  would do is never asked.
\<close>

theorem configuration_keeps_connection:
  assumes "cn_open cn" "\<forall>q w. fst (sq_exec S q w) \<noteq> None"
    "applyConfig S bd exists limit cfg uuid network dc cn w = Some (st, dc', cn', w', opened)"
  shows "cn' = cn\<lparr>cn_failed := False\<rparr> \<and> opened \<and>
    applyConfig (S\<lparr>sq_open := f, sq_driver := g\<rparr>) bd exists limit cfg uuid network dc cn w = Some (st, dc', cn', w', opened)"
proof -
  let ?cn = "cn\<lparr>cn_failed := False\<rparr>" and ?S = "S\<lparr>sq_open := f, sq_driver := g\<rparr>"
  have one: "runQuery T st q ?cn w = (True, ?cn, snd (sq_exec S q w))" if "sq_exec T = sq_exec S" for T :: "'a sql_lib" and st q w
  proof -
    have "fst (sq_exec S q w) \<noteq> None" using assms(2) by blast
    then obtain r w1 where "sq_exec S q w = (Some r, w1)" by (metis not_None_eq prod.collapse)
    then show ?thesis using assms(1) that by (simp add: runQuery_def execute_def reopen_def numeral_3_eq_3)
  qed
  have each: "run_each T st qs ?cn w = (?cn, fold (\<lambda>q w. snd (sq_exec S q w)) qs w)"
    if "sq_exec T = sq_exec S" for T :: "'a sql_lib" and st qs w
    by (induction qs arbitrary: w) (simp_all add: one[OF that])
  have list: "snd (runQueries T st qs ?cn w) = (?cn, fold (\<lambda>q w. snd (sq_exec S (q, []) w)) qs w)"
    if "sq_exec T = sq_exec S" for T :: "'a sql_lib" and st qs w
    by (induction qs arbitrary: w) (simp_all add: one[OF that] case_prod_unfold Let_def)
  have fill: "fill_database ?S bd st init ?cn w = fill_database S bd st init ?cn w \<and>
      fst (fill_database S bd st init ?cn w) = ?cn" for st init w
    by (simp add: fill_database_def case_prod_unfold Let_def each list one)
  have config: "read_config ?S ?cn w dc = read_config S ?cn w dc" for w dc
    by (simp add: read_config_def raw_exec_def)
  have switch: "register_switch T bd st ?cn w = (?cn, snd (sq_exec S (''UPDATE Switches SET version=? WHERE uuid=?;'',
      [Sql_text (bd_version bd), Sql_text (dbUuid st)]) w))" if "sq_exec T = sq_exec S" for T :: "'a sql_lib" and st w
    by (simp add: register_switch_def one[OF that])
  have re: "reopen T st ?cn w = (True, ?cn, w)" for T :: "'a sql_lib" and st w using assms(1) by (simp add: reopen_def)
  have "create ?S bd exists limit st dc cn w = create S bd exists limit st dc cn w" for st
    using fill[of st] config by (simp add: create_def re Let_def case_prod_unfold switch one)
  moreover have "create S bd exists limit st dc cn w = Some (b, dc1, cn1, w1) \<Longrightarrow> cn1 = ?cn" for st b dc1 cn1 w1
    using fill[of st] by (auto simp: create_def re Let_def case_prod_unfold switch one split: if_splits)
  moreover obtain b where "create S bd exists limit st dc cn w = Some (b, dc', cn', w')"
    and st: "st = apply_settings cfg uuid network" "opened = cn_open cn'"
    using assms(3) by (auto simp: applyConfig_def Let_def split: option.splits)
  ultimately have "cn' = ?cn" "create ?S bd exists limit st dc cn w = Some (b, dc', cn', w')" by simp_all
  with st assms(1) show ?thesis by (simp add: applyConfig_def)
qed

lemma configuration_keeps_connection_witness:
  "\<exists>st dc cn. applyConfig (sample_sql\<lparr>sq_exec := \<lambda>_ db. (Some \<lparr>sr_rows = [[(''dialplan'', Sql_text ''STD3'')]],
       sr_lastInsertId = Sql_null\<rparr>, db)\<rparr>\<lparr>sq_open := \<lambda>_ db. (False, db), sq_driver := \<lambda>_. False\<rparr>)
     \<lparr>bd_tables = [], bd_preload = [], bd_version = ''1''\<rparr> (\<lambda>_. True) \<lparr>toMSecs = 0, offsetFromUtc = 0\<rparr> (\<lambda>_. []) ''uuid'' []
     \<lparr>dbConfig = [], dialRange = (-1, -1)\<rparr> \<lparr>cn_valid = True, cn_open = True, cn_failed = False, cn_timer = True\<rparr> sample_db =
       Some (st, dc, cn, sample_db, True) \<and> cn_open cn"
proof -
  let ?S = "sample_sql\<lparr>sq_exec := \<lambda>_ db. (Some \<lparr>sr_rows = [[(''dialplan'', Sql_text ''STD3'')]], sr_lastInsertId = Sql_null\<rparr>, db)\<rparr>"
  let ?bd = "\<lparr>bd_tables = [], bd_preload = [], bd_version = ''1''\<rparr>"
  let ?dc = "\<lparr>dbConfig = [], dialRange = (-1, -1)\<rparr>"
  let ?cn = "\<lparr>cn_valid = True, cn_open = True, cn_failed = False, cn_timer = True\<rparr>"
  have run: "runQuery ?S st q ?cn sample_db = (True, ?cn, sample_db)" for st q
    by (simp add: runQuery_def execute_def reopen_def numeral_3_eq_3)
  have "\<exists>st dc. applyConfig ?S ?bd (\<lambda>_. True) \<lparr>toMSecs = 0, offsetFromUtc = 0\<rparr> (\<lambda>_. []) ''uuid'' [] ?dc ?cn sample_db = Some (st, dc, ?cn, sample_db, True)"
    by (simp add: applyConfig_def create_def reopen_def fill_database_def run read_config_def raw_exec_def register_switch_def Let_def)
  then obtain st dc where out: "applyConfig ?S ?bd (\<lambda>_. True) \<lparr>toMSecs = 0, offsetFromUtc = 0\<rparr> (\<lambda>_. []) ''uuid'' [] ?dc ?cn sample_db = Some (st, dc, ?cn, sample_db, True)"
    by blast
  from configuration_keeps_connection[where f = "\<lambda>_ db. (False, db)" and g = "\<lambda>_. False", OF _ _ out] show ?thesis by auto
qed

end
