(* ===== verification/AuthConnection.thy ===== *)
theory AuthConnection
  imports ConnectionFacts
begin

text \<open>
  The connection of the authorization thread (\<open>Database/authorize.cpp\<close>): an SQLite file is shared
  with the database thread, any other database gets a connection of its own, activated after every
  configuration. The world \<open>'w\<close> is the one of the theory \<open>Connection\<close>.
\<close>

datatype auth_db = No_db | Shared_db | Local_db

record auth_connection =
  au_db :: auth_db \<comment> \<open>\<open>nullptr\<close>, \<open>&database->db\<close>, \<open>&local\<close>\<close>
  au_valid :: bool
  au_open :: bool
  au_failed :: bool

definition auth_start :: auth_connection where
  "auth_start = \<lparr>au_db = No_db, au_valid = False, au_open = False, au_failed = False\<rparr>"

definition activate :: "'w sql_lib \<Rightarrow> db_settings \<Rightarrow> bool \<Rightarrow> auth_connection \<Rightarrow> 'w \<Rightarrow> auth_connection \<times> 'w" where
  "activate S st opened ac w =
    (let ac = (if au_valid ac \<and> au_open ac then ac\<lparr>au_valid := False, au_open := False\<rparr> else ac);
         ac = ac\<lparr>au_db := No_db\<rparr>
     in if isFile st \<and> opened then (ac\<lparr>au_db := Shared_db\<rparr>, w)
        else if opened then
          (if \<not> sq_driver S (dbDriver st) then (ac\<lparr>au_valid := False, au_open := False, au_db := No_db\<rparr>, w)
           else (let ac = ac\<lparr>au_valid := True, au_open := False, au_db := Local_db\<rparr>; (ok, w) = sq_open S st w in
             if \<not> ok then (ac\<lparr>au_failed := True, au_valid := False, au_db := No_db\<rparr>, w)
             else (ac\<lparr>au_open := True, au_failed := False\<rparr>, w)))
        else (ac, w))"

definition checkConnection :: "'w sql_lib \<Rightarrow> db_settings \<Rightarrow> auth_connection \<Rightarrow> 'w \<Rightarrow> bool \<times> auth_connection \<times> 'w" where
  "checkConnection S st ac w =
    (if au_db ac = Local_db then
       (if au_open ac \<and> au_valid ac then (True, ac, w)
        else (let (ok, w) = sq_open S st w in
          if \<not> ok then (False, ac\<lparr>au_open := False, au_failed := True\<rparr>, w)
          else (True, ac\<lparr>au_open := True, au_failed := False\<rparr>, w)))
     else (au_db ac \<noteq> No_db, ac, w))"

definition auth_resume :: "'w sql_lib \<Rightarrow> db_settings \<Rightarrow> auth_connection \<Rightarrow> 'w \<Rightarrow> bool \<times> auth_connection \<times> 'w" where
  "auth_resume S st ac w =
    (if au_failed ac \<or> au_db ac \<noteq> Local_db then (False, ac, w)
     else checkConnection S st (ac\<lparr>au_open := False\<rparr>) w)"

fun auth_loop :: "'w sql_lib \<Rightarrow> db_settings \<Rightarrow> nat \<Rightarrow> sql \<Rightarrow> auth_connection \<Rightarrow> 'w \<Rightarrow> sql_reply option \<times> auth_connection \<times> 'w" where
  "auth_loop S st 0 q ac w = (None, ac, w)"
| "auth_loop S st (Suc retries) q ac w = (case sq_exec S q w of
     (Some r, w) \<Rightarrow> (Some r, ac, w)
   | (None, w) \<Rightarrow> (case auth_resume S st ac w of
       (True, ac, w) \<Rightarrow> auth_loop S st retries q ac w
     | (False, ac, w) \<Rightarrow> (None, ac, w)))"

text \<open>
  The loop of \<open>runQuery\<close>, \<open>getRecord\<close> and \<open>getRecords\<close>: on a connection that is not its own the query is
  the database thread's, with that thread's connection.
\<close>

definition auth_execute :: "'w sql_lib \<Rightarrow> db_settings \<Rightarrow> sql \<Rightarrow> auth_connection \<Rightarrow> connection \<Rightarrow> 'w \<Rightarrow>
    sql_reply option \<times> auth_connection \<times> connection \<times> 'w" where
  "auth_execute S st q ac cn w =
    (if au_db ac \<noteq> Local_db then (let (r, cn, w) = execute S st q cn w in (r, ac, cn, w))
     else (case checkConnection S st ac w of
       (False, ac, w) \<Rightarrow> (None, ac, cn, w)
     | (True, ac, w) \<Rightarrow> (let (r, ac, w) = auth_loop S st 3 q ac w in (r, ac, cn, w))))"

definition auth_runQuery :: "'w sql_lib \<Rightarrow> db_settings \<Rightarrow> sql \<Rightarrow> auth_connection \<Rightarrow> connection \<Rightarrow> 'w \<Rightarrow>
    bool \<times> auth_connection \<times> connection \<times> 'w" where
  "auth_runQuery S st q ac cn w = (let (r, s) = auth_execute S st q ac cn w in (r \<noteq> None, s))"

definition auth_getRecords :: "'w sql_lib \<Rightarrow> db_settings \<Rightarrow> sql \<Rightarrow> auth_connection \<Rightarrow> connection \<Rightarrow> 'w \<Rightarrow>
    sql_record list \<times> auth_connection \<times> connection \<times> 'w" where
  "auth_getRecords S st q ac cn w =
    (let (r, s) = auth_execute S st q ac cn w in (case r of None \<Rightarrow> [] | Some r \<Rightarrow> sr_rows r, s))"

definition auth_getRecord :: "'w sql_lib \<Rightarrow> db_settings \<Rightarrow> sql \<Rightarrow> auth_connection \<Rightarrow> connection \<Rightarrow> 'w \<Rightarrow>
    sql_record \<times> auth_connection \<times> connection \<times> 'w" where
  "auth_getRecord S st q ac cn w =
    (let (rs, s) = auth_getRecords S st q ac cn w in (case rs of [] \<Rightarrow> [] | r # _ \<Rightarrow> r, s))"

section \<open>Properties\<close>

text \<open>The connection is the thread's own and open exactly as its pointer says.\<close>

definition auth_ok :: "auth_connection \<Rightarrow> bool" where
  "auth_ok ac \<longleftrightarrow> (au_db ac = Local_db \<longrightarrow> au_valid ac \<and> (au_failed ac \<longrightarrow> \<not> au_open ac)) \<and>
     (au_db ac \<noteq> Local_db \<longrightarrow> \<not> au_open ac)"

lemma check_ok: "\<lbrakk>checkConnection S st ac w = (b, ac', w'); auth_ok ac\<rbrakk> \<Longrightarrow>
    auth_ok ac' \<and> au_db ac' = au_db ac \<and> (b \<and> au_db ac = Local_db \<longrightarrow> au_open ac')"
  by (auto simp: checkConnection_def auth_ok_def split: if_splits prod.splits)

lemma auth_resume_ok: "\<lbrakk>auth_resume S st ac w = (b, ac', w'); auth_ok ac\<rbrakk> \<Longrightarrow> auth_ok ac' \<and> au_db ac' = au_db ac"
  using check_ok[of S st "ac\<lparr>au_open := False\<rparr>" w b ac' w'] by (auto simp: auth_resume_def auth_ok_def split: if_splits)

lemma auth_loop_ok: "\<lbrakk>auth_loop S st n q ac w = (r, ac', w'); auth_ok ac\<rbrakk> \<Longrightarrow> auth_ok ac' \<and> au_db ac' = au_db ac"
proof (induction n arbitrary: ac w)
  case (Suc n)
  obtain r1 w1 where x: "sq_exec S q w = (r1, w1)" by (metis prod.exhaust)
  show ?case
  proof (cases r1)
    case None
    obtain b ac2 w2 where res: "auth_resume S st ac w1 = (b, ac2, w2)" by (metis prod.exhaust)
    with Suc.prems x None auth_resume_ok[OF res] Suc.IH[of ac2 w2] show ?thesis by (cases b) auto
  qed (use Suc.prems x in auto)
qed simp

text \<open>
  The authorization thread is ready exactly when it can be. After a configuration that opened the
  database, it shares the connection of a file and otherwise has an open connection of its own; when
  opening it failed, or the database is not open, it has none and \<open>findEndpoint\<close> refuses. Whatever
  statements follow, the connection stays the same kind, and one of its own that was lost is opened
  again by the next statement that finds the database up: no failure is final.
\<close>

theorem authorization_ready:
  assumes "auth_ok ac" "activate S st opened ac w = (ac1, w1)"
    "fold (\<lambda>q (ac, cn, w). snd (auth_execute S st q ac cn w)) qs (ac1, cn, w1) = (ac2, cn2, w2)"
  shows "(au_db ac1 = Shared_db \<longleftrightarrow> opened \<and> isFile st) \<and>
    (au_db ac1 = Local_db \<longleftrightarrow> opened \<and> \<not> isFile st \<and> sq_driver S (dbDriver st) \<and> fst (sq_open S st w)) \<and>
    (au_db ac1 = Local_db \<longrightarrow> au_open ac1) \<and> auth_ok ac2 \<and> au_db ac2 = au_db ac1 \<and>
    (au_db ac2 = Local_db \<and> fst (sq_open S st w2) \<longrightarrow>
       fst (checkConnection S st ac2 w2) \<and> au_open (fst (snd (checkConnection S st ac2 w2))))"
proof -
  have started: "auth_ok ac1 \<and> (au_db ac1 = Shared_db \<longleftrightarrow> opened \<and> isFile st) \<and>
      (au_db ac1 = Local_db \<longleftrightarrow> opened \<and> \<not> isFile st \<and> sq_driver S (dbDriver st) \<and> fst (sq_open S st w)) \<and>
      (au_db ac1 = Local_db \<longrightarrow> au_open ac1)"
    using assms(1,2)
    by (cases "sq_open S st w"; cases "au_db ac")
      (auto simp: activate_def Let_def auth_ok_def split: if_splits)
  have step: "auth_ok ac' \<and> au_db ac' = au_db ac"
    if "auth_execute S st q ac cn w = (r, ac', cn', w')" "auth_ok ac" for q ac cn w r ac' cn' w'
  proof (cases "au_db ac = Local_db")
    case False
    with that show ?thesis by (auto simp: auth_execute_def case_prod_unfold Let_def)
  next
    case True
    obtain b ac1 w1 where c: "checkConnection S st ac w = (b, ac1, w1)" by (metis prod.exhaust)
    obtain r2 ac2 w2 where l: "auth_loop S st 3 q ac1 w1 = (r2, ac2, w2)" by (metis prod.exhaust)
    from check_ok[OF c that(2)] auth_loop_ok[OF l] that True c l show ?thesis
      by (cases b) (auto simp: auth_execute_def)
  qed
  have "auth_ok ac2 \<and> au_db ac2 = au_db ac1"
    using assms(3) started[THEN conjunct1]
  proof (induction qs arbitrary: ac1 cn w1)
    case (Cons q qs)
    obtain r ac' cn' w' where x: "auth_execute S st q ac1 cn w1 = (r, ac', cn', w')" by (metis prod.exhaust)
    with Cons.prems Cons.IH[of ac' cn' w'] step[OF x] show ?case by simp
  qed simp
  moreover have "fst (checkConnection S st ac2 w2) \<and> au_open (fst (snd (checkConnection S st ac2 w2)))"
    if "au_db ac2 = Local_db" "fst (sq_open S st w2)"
    using that by (cases "sq_open S st w2") (auto simp: checkConnection_def Let_def)
  ultimately show ?thesis using started by blast
qed

definition sample_net :: "nat sql_lib" where
  "sample_net = \<lparr>sq_driver = (\<lambda>_. True), sq_open = (\<lambda>_ n. (True, n)), sq_exec = (\<lambda>_ n. (None, n + 1))\<rparr>"

lemma authorization_ready_witness:
  "\<exists>ac. activate sample_net (apply_settings (\<lambda>_. []) ''uuid'' []\<lparr>dbDriver := ''QMYSQL''\<rparr>) True auth_start 0 = (ac, 0) \<and>
     au_db ac = Local_db \<and> au_open ac"
proof -
  let ?st = "apply_settings (\<lambda>_. []) ''uuid'' []\<lparr>dbDriver := ''QMYSQL''\<rparr>"
  obtain ac n where a: "activate sample_net ?st True auth_start 0 = (ac, n)" by (metis prod.exhaust)
  then have "n = 0" by (simp add: activate_def sample_net_def isFile_def dbIsFile_def auth_start_def)
  with authorization_ready[of auth_start sample_net ?st True 0 ac n "[]" connection_start ac connection_start n] a
  show ?thesis by (simp add: auth_ok_def auth_start_def sample_net_def isFile_def dbIsFile_def)
qed

end
