(* ===== verification/Requests.thy ===== *)
theory Requests
  imports Connection
begin

text \<open>
  \<open>Database/request.cpp\<close>: a query running in another thread on behalf of a SIP event, which is
  answered by a reply of the database or by its timer, whichever comes first.
\<close>

datatype error_result = Success | Timeout | DbFailed | NotFound | Partial | Invalid | Immediate

datatype request_event =
    Request_success error_result "sql_record list"
  | Request_failed error_result
  | Request_other \<comment> \<open>any other user event\<close>

record request_state =
  rq_event :: event
  rq_signalled :: bool
  rq_deleted :: bool \<comment> \<open>\<open>deleteLater\<close> was called\<close>

type_synonym request_results = "error_result \<times> event \<times> sql_record list"

text \<open>The time the request still has, from the time the event may take and what has elapsed.\<close>

definition remaining :: "int \<Rightarrow> int \<Rightarrow> int" where
  "remaining secs elapsed = secs - (elapsed - 20)"

definition Request_timeout :: "request_state \<Rightarrow> request_state \<times> request_results list" where
  "Request_timeout rq = (if \<not> rq_signalled rq then (rq\<lparr>rq_signalled := True\<rparr>, [(Timeout, rq_event rq, [])]) else (rq, []))"

text \<open>The first constructor: the delay of the timer.\<close>

definition Request_new :: "event \<Rightarrow> int \<Rightarrow> int \<Rightarrow> request_state \<times> int" where
  "Request_new ev secs elapsed =
    (let secs = remaining secs elapsed; secs = (if secs < 10 then 10 else secs)
     in (\<lparr>rq_event = ev, rq_signalled = False, rq_deleted = False\<rparr>, secs))"

text \<open>The second constructor, with a method to call: out of time, it is called at once.\<close>

definition Request_call :: "event \<Rightarrow> int \<Rightarrow> int \<Rightarrow> request_state \<times> request_results list \<times> int option" where
  "Request_call ev secs elapsed =
    (let secs = remaining secs elapsed; rq = \<lparr>rq_event = ev, rq_signalled = False, rq_deleted = False\<rparr>
     in if secs < 10 then (let (rq, out) = Request_timeout rq in (rq, out, None))
        else (rq, [], Some secs))"

definition Request_cancelled :: "request_state \<Rightarrow> request_state \<times> bool" where
  "Request_cancelled rq = (if rq_signalled rq then (rq\<lparr>rq_deleted := True\<rparr>, True) else (rq, False))"

definition Request_reply :: "request_event \<Rightarrow> request_state \<Rightarrow> request_state \<times> request_results list" where
  "Request_reply answer rq =
    (if \<not> rq_signalled rq then
       (rq\<lparr>rq_signalled := True, rq_deleted := True\<rparr>,
        case answer of Request_success err rs \<Rightarrow> [(err, rq_event rq, rs)]
          | Request_failed err \<Rightarrow> [(err, rq_event rq, [])]
          | Request_other \<Rightarrow> [])
     else (rq\<lparr>rq_deleted := True\<rparr>, []))"

text \<open>The replies of the database thread.\<close>

definition notifySuccess :: "sql_record list \<Rightarrow> error_result \<Rightarrow> request_event" where
  "notifySuccess rs err = Request_success err rs"

definition notifyFailed :: "error_result \<Rightarrow> request_event" where
  "notifyFailed err = Request_failed err"

text \<open>What happens to a request, in any order.\<close>

datatype request_input = Timer_fires | Replied request_event | Asked_cancelled

fun request_step :: "request_input \<Rightarrow> request_state \<Rightarrow> request_state \<times> request_results list" where
  "request_step Timer_fires rq = Request_timeout rq"
| "request_step (Replied answer) rq = Request_reply answer rq"
| "request_step Asked_cancelled rq = (fst (Request_cancelled rq), [])"

fun request_run :: "request_input list \<Rightarrow> request_state \<Rightarrow> request_state \<times> request_results list" where
  "request_run [] rq = (rq, [])"
| "request_run (s # ss) rq = (let (rq, out) = request_step s rq; (rq, out') = request_run ss rq in (rq, out @ out'))"

text \<open>What the first thing that is not a question gives.\<close>

fun first_result :: "event \<Rightarrow> request_input list \<Rightarrow> request_results option" where
  "first_result ev [] = None"
| "first_result ev (Timer_fires # ss) = Some (Timeout, ev, [])"
| "first_result ev (Replied (Request_success err rs) # ss) = Some (err, ev, rs)"
| "first_result ev (Replied (Request_failed err) # ss) = Some (err, ev, [])"
| "first_result ev (Replied Request_other # ss) = None"
| "first_result ev (Asked_cancelled # ss) = first_result ev ss"

lemma signalled_silent: "rq_signalled rq \<Longrightarrow> snd (request_run ss rq) = [] \<and> rq_signalled (fst (request_run ss rq))"
proof (induction ss arbitrary: rq)
  case (Cons s ss)
  have "snd (request_step s rq) = [] \<and> rq_signalled (fst (request_step s rq))"
    using Cons.prems by (cases s) (simp_all add: Request_timeout_def Request_reply_def Request_cancelled_def)
  with Cons.IH show ?case by (simp add: case_prod_unfold Let_def)
qed simp

text \<open>
  A request gives its result once. In whatever order its timer, the reply of the database thread
  and questions for cancellation come, the results are signalled at most once, for the event of the
  request, and they are those of whatever comes first: the answer's rows, or a timeout with none.
\<close>

theorem request_result_once:
  "snd (request_run ss (fst (Request_new ev secs elapsed))) =
    (case first_result ev ss of None \<Rightarrow> [] | Some r \<Rightarrow> [r]) \<and> snd (Request_new ev secs elapsed) \<ge> 10"
proof -
  have "snd (request_run ss rq) = (case first_result (rq_event rq) ss of None \<Rightarrow> [] | Some r \<Rightarrow> [r])"
    if "\<not> rq_signalled rq" for rq
    using that
  proof (induction ss arbitrary: rq)
    case (Cons s ss)
    show ?case
    proof (cases s)
      case (Replied answer)
      with Cons.prems signalled_silent[of "rq\<lparr>rq_signalled := True, rq_deleted := True\<rparr>" ss] show ?thesis
        by (cases answer) (simp_all add: Request_reply_def case_prod_unfold Let_def)
    next
      case Timer_fires
      with Cons.prems signalled_silent[of "rq\<lparr>rq_signalled := True\<rparr>" ss] show ?thesis
        by (simp add: Request_timeout_def case_prod_unfold Let_def)
    next
      case Asked_cancelled
      with Cons show ?thesis by (simp add: Request_cancelled_def case_prod_unfold Let_def)
    qed
  qed simp
  then show ?thesis by (simp add: Request_new_def Let_def)
qed

end
