(* ===== verification/ServerLife.thy ===== *)
theory ServerLife
  imports Connection
begin

text \<open>
  The life of the service (\<open>Server/server.cpp\<close>, \<open>Server/main.cpp\<close>): its environment and
  configuration, the threads it manages and their order, and the events of its main loop. What the
  machine provides (environment, command line, configuration file) is an argument; what the service
  does to the outside is an effect.
\<close>

datatype run_state = START | UP | SUSPENDED | DOWN

datatype server_event = SERVER_STARTUP | SERVER_SHUTDOWN int | SERVER_RELOAD | SERVER_SUSPEND | SERVER_RESUME

record managed_thread =
  th_name :: string
  th_order :: nat

type_synonym symbols = "string \<rightharpoonup> string"

record server =
  runState :: run_state
  exitReason :: int
  staticConfig :: bool
  contexts :: "managed_thread list"
  maxOrder :: quint32
  currentConfig :: symbols
  defaultConfig :: symbols
  server_env :: symbols
  posted :: "server_event list" \<comment> \<open>the events of the main loop, oldest first\<close>

datatype server_effect =
    AboutToSuspend | AboutToResume | ChangeConfig symbols | Started | AboutToFinish | Finished
  | Start_thread string | Stop_thread string | Start_timer | App_exit int

definition up :: "server \<Rightarrow> bool" where
  "up sv \<longleftrightarrow> runState sv \<noteq> START \<and> runState sv \<noteq> DOWN"

definition sym :: "string \<Rightarrow> server \<Rightarrow> string" where
  "sym key sv = (case server_env sv key of None \<Rightarrow> [] | Some v \<Rightarrow> v)"

section \<open>Environment\<close>

text \<open>The text of \<open>QUuid::createUuid\<close>, in braces, as the new identity of the switch.\<close>

definition fresh_uuid :: "string \<Rightarrow> string" where
  "fresh_uuid text = butlast (mid text 2)"

definition is_symbol :: "string \<Rightarrow> bool" where
  "is_symbol key \<longleftrightarrow> key \<noteq> [] \<and> (hd key = CHR ''_'' \<or> (isupper (hd key) \<and> indexOf key (CHR ''/'') < 0))"

definition symbol_value :: "symbols \<Rightarrow> string \<Rightarrow> string" where
  "symbol_value env key = (case env key of None \<Rightarrow> [] | Some v \<Rightarrow> v)"

definition is_option :: "string \<Rightarrow> bool" where
  "is_option v \<longleftrightarrow> qleft v 2 = ''--''"

text \<open>One entry \<open>KEY=value\<close> of the system environment.\<close>

definition import_variable :: "string \<Rightarrow> symbols \<Rightarrow> symbols" where
  "import_variable entry env =
    (let pos = indexOf entry (CHR ''=''); value = mid entry (pos + 1); key = qleft entry pos in
     if entry = [] \<or> \<not> isupper (hd entry) then env
     else if pos < 2 then env
     else if indexOf key (CHR ''_'') > -1 then env
     else if symbol_value env key \<noteq> [] \<and> \<not> is_option (symbol_value env key) then env
     else env(key \<mapsto> value))"

text \<open>The command line: which options are set, and the value of an option or its default.\<close>

record command_line =
  cl_isSet :: "string \<Rightarrow> bool"
  cl_value :: "string \<Rightarrow> string"

definition apply_option :: "command_line \<Rightarrow> string \<times> string \<Rightarrow> symbols \<Rightarrow> symbols" where
  "apply_option args pair env =
    (let (key, value) = pair; arg = mid value 2 in
     if is_option value \<and> (cl_isSet args arg \<or> is_option (symbol_value env key))
     then env(key \<mapsto> cl_value args arg) else env)"

definition paste_option :: "symbols \<Rightarrow> string \<Rightarrow> string" where
  "paste_option cfg v = (if qleft v 2 = ''%%'' then symbol_value cfg (mid v 2) else v)"

definition server_symbols :: "(string \<times> string) list \<Rightarrow> string list \<Rightarrow> command_line \<Rightarrow> symbols" where
  "server_symbols keypairs environment args =
    (let env = map_of (filter (\<lambda>(key, _). is_symbol key) keypairs);
         env = fold import_variable environment env
     in fold (apply_option args) keypairs env)"

definition default_config :: "(string \<times> string) list \<Rightarrow> symbols" where
  "default_config keypairs = map_of (filter (\<lambda>(key, _). \<not> is_symbol key) keypairs)"

section \<open>Configuration\<close>

text \<open>
  The configuration files: the settings of the one named by \<open>CONFIG\<close>, and those compiled into the
  program, if there are any.
\<close>

record config_files =
  cf_named :: "string \<Rightarrow> symbols"
  cf_embedded :: "symbols option"

definition reconfig :: "config_files \<Rightarrow> server \<Rightarrow> server \<times> server_effect list" where
  "reconfig fs sv =
    (if staticConfig sv then (sv, [])
     else (let (sv, settings) = (case cf_embedded fs of
                 Some s \<Rightarrow> (sv\<lparr>staticConfig := True\<rparr>, s)
               | None \<Rightarrow> (sv, cf_named fs (sym ''CONFIG'' sv)));
               updated = defaultConfig sv ++ settings;
               sv = sv\<lparr>currentConfig := updated\<rparr>
           in (sv, if runState sv \<noteq> START \<and> runState sv \<noteq> DOWN then [ChangeConfig updated] else [])))"

text \<open>The constructor; \<open>created\<close> is the system's host name and directory.\<close>

definition Server_new :: "(string \<times> string) list \<Rightarrow> string list \<Rightarrow> command_line \<Rightarrow> config_files \<Rightarrow> string \<Rightarrow> string \<Rightarrow> server" where
  "Server_new keypairs environment args fs host cwd =
    (let sv = \<lparr>runState = START, exitReason = 0, staticConfig = False, contexts = [], maxOrder = 1,
           currentConfig = Map.empty, defaultConfig = default_config keypairs,
           server_env = server_symbols keypairs environment args, posted = []\<rparr>;
         sv = fst (reconfig fs sv);
         env = (\<lambda>key. map_option (paste_option (currentConfig sv)) (server_env sv key))
     in sv\<lparr>server_env := env(''HOSTNAME'' \<mapsto> host, ''CWD'' \<mapsto> cwd), posted := [SERVER_STARTUP]\<rparr>)"

section \<open>Threads\<close>

text \<open>\<open>None\<close> is the null pointer.\<close>

definition createThread :: "string \<Rightarrow> nat \<Rightarrow> server \<Rightarrow> (server \<times> managed_thread) option" where
  "createThread name order sv =
    (if runState sv \<noteq> START then None
     else (let thread = \<lparr>th_name = name, th_order = order\<rparr>
           in Some (sv\<lparr>contexts := contexts sv @ [thread],
                  maxOrder := (if order \<ge> unat (maxOrder sv) then of_nat (order + 1) else maxOrder sv)\<rparr>, thread)))"

definition create_threads :: "(string \<times> nat) list \<Rightarrow> server \<Rightarrow> server" where
  "create_threads cs sv = fold (\<lambda>(name, order) sv. case createThread name order sv of None \<Rightarrow> sv | Some (sv, _) \<Rightarrow> sv) cs sv"

definition findThread :: "string \<Rightarrow> server \<Rightarrow> managed_thread option" where
  "findThread name sv = find (\<lambda>t. th_name t = name) (contexts sv)"

definition start_threads :: "nat \<Rightarrow> managed_thread list \<Rightarrow> string list" where
  "start_threads m ts = concat (map (\<lambda>order. map th_name (filter (\<lambda>t. th_order t = order) ts)) [0..<m])"

definition stop_threads :: "nat \<Rightarrow> managed_thread list \<Rightarrow> string list" where
  "stop_threads m ts = concat (map (\<lambda>order. map th_name (filter (\<lambda>t. th_order t = order) ts)) (List.rev [0..<m]))"

definition startup :: "server \<Rightarrow> server \<times> server_effect list" where
  "startup sv =
    (if runState sv \<noteq> START then (sv, [])
     else (sv\<lparr>runState := UP\<rparr>, map Start_thread (start_threads (unat (maxOrder sv)) (contexts sv)) @
            [ChangeConfig (currentConfig sv), Started, Start_timer]))"

section \<open>The main loop\<close>

text \<open>Every event but the shutdown.\<close>

definition server_step :: "config_files \<Rightarrow> server_event \<Rightarrow> server \<Rightarrow> server \<times> server_effect list" where
  "server_step fs e sv = (case e of
      SERVER_STARTUP \<Rightarrow> startup sv
    | SERVER_RELOAD \<Rightarrow> reconfig fs sv
    | SERVER_SUSPEND \<Rightarrow> (if runState sv \<noteq> SUSPENDED then (sv\<lparr>runState := SUSPENDED\<rparr>, [AboutToSuspend]) else (sv, []))
    | SERVER_RESUME \<Rightarrow> (if runState sv = SUSPENDED then (sv\<lparr>runState := UP\<rparr>, [AboutToResume]) else (sv, []))
    | SERVER_SHUTDOWN _ \<Rightarrow> (sv, []))"

text \<open>
  Processing the posted events in their order. \<open>exit\<close> itself processes the events still pending,
  in the middle of the shutdown, and then stops the threads; counting down leaves \<open>maxOrder\<close> at
  \<open>-1\<close>.
\<close>

fun process_events :: "config_files \<Rightarrow> server_event list \<Rightarrow> server \<Rightarrow> server \<times> server_effect list" where
  "process_events fs [] sv = (sv, [])"
| "process_events fs (SERVER_SHUTDOWN reason # es) sv =
    (if runState sv = START then (let (sv, out) = process_events fs es sv in (sv, App_exit reason # out))
     else if runState sv = DOWN then process_events fs es sv
     else (let (sv, pending) = process_events fs es (sv\<lparr>runState := DOWN\<rparr>)
           in (sv\<lparr>maxOrder := - 1\<rparr>, pending @ AboutToFinish #
                 map Stop_thread (stop_threads (unat (maxOrder sv)) (contexts sv)) @ [Finished, App_exit reason])))"
| "process_events fs (e # es) sv =
    (let (sv, out) = server_step fs e sv; (sv, out') = process_events fs es sv in (sv, out @ out'))"

definition main_loop :: "config_files \<Rightarrow> server \<Rightarrow> server \<times> server_effect list" where
  "main_loop fs sv = process_events fs (posted sv) (sv\<lparr>posted := []\<rparr>)"

section \<open>Requests from signals and other threads\<close>

definition post :: "server_event \<Rightarrow> server \<Rightarrow> server" where
  "post e sv = sv\<lparr>posted := posted sv @ [e]\<rparr>"

definition suspend :: "server \<Rightarrow> server" where
  "suspend sv = post SERVER_SUSPEND sv"

definition resume_service :: "server \<Rightarrow> server" where
  "resume_service sv = post SERVER_RESUME sv"

definition shutdown :: "int \<Rightarrow> server \<Rightarrow> server \<times> bool" where
  "shutdown reason sv =
    (if exitReason sv \<noteq> 0 then (sv, False)
     else (post (SERVER_SHUTDOWN reason) (sv\<lparr>exitReason := reason\<rparr>), True))"

definition reload :: "config_files \<Rightarrow> server \<Rightarrow> server \<times> server_effect list" where
  "reload fs sv =
    (if runState sv \<noteq> START \<and> runState sv \<noteq> DOWN \<and> exitReason sv = 0 then (post SERVER_RELOAD sv, [])
     else reconfig fs sv)"

definition ipcRequest :: "config_files \<Rightarrow> string \<Rightarrow> server \<Rightarrow> server \<times> server_effect list" where
  "ipcRequest fs command sv =
    (if qleft command 2 \<noteq> ''s:'' then (sv, [])
     else if command = ''s:reload'' then reload fs sv else (sv, []))"

text \<open>The Posix signals the service handles.\<close>

datatype posix_signal = SIGINT | SIGKILL | SIGTERM | SIGUSR1 | SIGUSR2 | SIGHUP | Other_signal

definition handleSignals :: "config_files \<Rightarrow> (posix_signal \<Rightarrow> int) \<Rightarrow> posix_signal \<Rightarrow> server \<Rightarrow> server \<times> server_effect list" where
  "handleSignals fs signo s sv = (case s of
      SIGINT \<Rightarrow> (fst (shutdown (signo s) sv), [])
    | SIGKILL \<Rightarrow> (fst (shutdown (signo s) sv), [])
    | SIGTERM \<Rightarrow> (fst (shutdown (signo s) sv), [])
    | SIGUSR1 \<Rightarrow> (suspend sv, [])
    | SIGUSR2 \<Rightarrow> (resume_service sv, [])
    | SIGHUP \<Rightarrow> reload fs sv
    | Other_signal \<Rightarrow> (sv, []))"

section \<open>The program\<close>

text \<open>The port the program accepts; \<open>port\<close> is the value \<open>toUShort\<close> reads, 0 when there is none.\<close>

definition valid_port :: "quint16 \<Rightarrow> bool" where
  "valid_port port \<longleftrightarrow> \<not> (port < 100 \<or> port > 65534 \<or> port mod 2 \<noteq> 0)"

text \<open>The order of the thread of \<open>Authorize\<close>; 0 puts it into the thread of the database.\<close>

definition authorize_order :: "server \<Rightarrow> nat" where
  "authorize_order sv = (if dbIsFile (toUpper (sym ''DATABASE'' sv)) then 0 else 6)"

text \<open>The managers and databases as \<open>main\<close> creates them.\<close>

definition create_services :: "server \<Rightarrow> server" where
  "create_services sv =
    (let threads = [(''stack'', 2), (''database'', 3)] @ (if authorize_order sv = 0 then [] else [(''authorize'', 6)])
     in create_threads threads sv)"

end
