(* ===== verification/ServerProps.thy ===== *)
theory ServerProps
  imports ServerLife AuthConnection "HOL-Library.Multiset"
begin

text \<open>The properties of the service's life cycle.\<close>

section \<open>Orders\<close>

definition orders_ok :: "server \<Rightarrow> bool" where
  "orders_ok sv \<longleftrightarrow> (\<forall>t \<in> set (contexts sv). th_order t < unat (maxOrder sv))"

definition by_order :: "nat list \<Rightarrow> managed_thread list \<Rightarrow> managed_thread list" where
  "by_order os ts = concat (map (\<lambda>order. filter (\<lambda>t. th_order t = order) ts) os)"

lemma by_order_simps [simp]:
  "by_order [] ts = []" "by_order (k # os) ts = filter (\<lambda>t. th_order t = k) ts @ by_order os ts"
  by (simp_all add: by_order_def)

lemma start_stop_order:
  "start_threads m ts = map th_name (by_order [0..<m] ts)"
  "stop_threads m ts = map th_name (by_order (List.rev [0..<m]) ts)"
  by (simp_all add: start_threads_def stop_threads_def by_order_def map_concat comp_def)

lemma by_order_set: "set (by_order os ts) = {t \<in> set ts. th_order t \<in> set os}"
  by (induction os) auto

lemma by_order_mset: "distinct os \<Longrightarrow> mset (by_order os ts) = filter_mset (\<lambda>t. th_order t \<in> set os) (mset ts)"
proof (induction os)
  case (Cons k os)
  have "filter_mset (\<lambda>t. th_order t = k) M + filter_mset (\<lambda>t. th_order t \<in> set os) M =
      filter_mset (\<lambda>t. th_order t = k \<or> th_order t \<in> set os) M" for M
    using Cons.prems by (induction M) auto
  with Cons show ?case by (simp add: mset_filter)
qed simp

lemma by_order_all:
  assumes "\<forall>t \<in> set ts. th_order t < m"
  shows "mset (by_order [0..<m] ts) = mset ts" "mset (by_order (List.rev [0..<m]) ts) = mset ts"
proof -
  have "filter_mset (\<lambda>t. th_order t < m) (mset ts) = mset ts"
    using assms by (induction ts) auto
  then show "mset (by_order [0..<m] ts) = mset ts" "mset (by_order (List.rev [0..<m]) ts) = mset ts"
    by (simp_all add: by_order_mset)
qed

lemma by_order_filter: "distinct os \<Longrightarrow> k \<in> set os \<Longrightarrow>
    filter (\<lambda>t. th_order t = k) (by_order os ts) = filter (\<lambda>t. th_order t = k) ts"
proof (induction os)
  case (Cons j os)
  have none: "k \<notin> set ks \<Longrightarrow> filter (\<lambda>t. th_order t = k) (by_order ks ts) = []" for ks
    by (induction ks) (auto simp: filter_empty_conv)
  have "filter (\<lambda>t. th_order t = k) (filter (\<lambda>t. th_order t = j) ts) = (if k = j then filter (\<lambda>t. th_order t = k) ts else [])"
    by (auto simp: filter_empty_conv)
  with Cons none[of os] show ?case by auto
qed simp

lemma by_order_sorted: "sorted os \<Longrightarrow> sorted (map th_order (by_order os ts))"
proof (induction os)
  case (Cons k os)
  have "sorted (map th_order (filter (\<lambda>t. th_order t = k) ts))" by (induction ts) auto
  with Cons show ?case by (auto simp: sorted_append by_order_set)
qed simp

lemma by_order_sorted_rev: "sorted_wrt (\<ge>) os \<Longrightarrow> sorted_wrt (\<ge>) (map th_order (by_order os ts))"
proof (induction os)
  case (Cons k os)
  have "sorted_wrt (\<ge>) (map th_order (filter (\<lambda>t. th_order t = k) ts))" by (induction ts) auto
  with Cons show ?case by (auto simp: sorted_wrt_append by_order_set)
qed simp

lemma by_order_sort_key:
  assumes "\<forall>t \<in> set ts. th_order t < m"
  shows "by_order [0..<m] ts = sort_key th_order ts"
proof (rule properties_for_sort_key[symmetric])
  show "mset (by_order [0..<m] ts) = mset ts" using by_order_all(1)[OF assms] .
  show "filter (\<lambda>x. th_order t = th_order x) (by_order [0..<m] ts) = filter (\<lambda>x. th_order t = th_order x) ts"
    if "t \<in> set (by_order [0..<m] ts)" for t
  proof -
    have flip: "(\<lambda>x. th_order t = th_order x) = (\<lambda>x. th_order x = th_order t)" by auto
    show ?thesis unfolding flip using that by (intro by_order_filter) (simp_all add: by_order_set)
  qed
  show "sorted (map th_order (by_order [0..<m] ts))" by (rule by_order_sorted) simp
qed

section \<open>Creating threads\<close>

lemma create_threads_simps:
  "create_threads [] sv = sv"
  "runState sv = START \<Longrightarrow> create_threads ((name, order) # cs) sv = create_threads cs
     (sv\<lparr>contexts := contexts sv @ [\<lparr>th_name = name, th_order = order\<rparr>],
        maxOrder := (if order \<ge> unat (maxOrder sv) then of_nat (order + 1) else maxOrder sv)\<rparr>)"
  by (simp_all add: create_threads_def createThread_def Let_def)

lemma create_threads_contexts:
  assumes "runState sv = START" "orders_ok sv" "\<forall>(name, order) \<in> set cs. order < 2 ^ 32 - 1"
  shows "contexts (create_threads cs sv) = contexts sv @ map (\<lambda>(name, order). \<lparr>th_name = name, th_order = order\<rparr>) cs \<and>
    orders_ok (create_threads cs sv) \<and> runState (create_threads cs sv) = START \<and>
    currentConfig (create_threads cs sv) = currentConfig sv"
  using assms
proof (induction cs arbitrary: sv)
  case (Cons c cs)
  obtain name order where c: "c = (name, order)" by fastforce
  let ?sv = "sv\<lparr>contexts := contexts sv @ [\<lparr>th_name = name, th_order = order\<rparr>],
      maxOrder := (if order \<ge> unat (maxOrder sv) then of_nat (order + 1) else maxOrder sv)\<rparr>"
  have n: "unat (of_nat (order + 1) :: quint32) = order + 1" using Cons.prems(3) c by (subst unat_of_nat) simp
  have "orders_ok ?sv"
    using Cons.prems(2) n by (auto simp: orders_ok_def)
  with Cons.IH[of ?sv] Cons.prems c create_threads_simps(2)[OF Cons.prems(1), of name order cs] show ?case by simp
qed (simp add: create_threads_simps)

section \<open>The main loop\<close>

definition is_shutdown :: "server_event \<Rightarrow> bool" where
  "is_shutdown e \<longleftrightarrow> (\<exists>reason. e = SERVER_SHUTDOWN reason)"

lemma process_cons: "\<not> is_shutdown e \<Longrightarrow> process_events fs (e # es) sv =
    (let (sv, out) = server_step fs e sv; (sv, out') = process_events fs es sv in (sv, out @ out'))"
  by (cases e) (simp_all add: is_shutdown_def)

lemma process_append: "\<forall>e \<in> set es. \<not> is_shutdown e \<Longrightarrow> process_events fs (es @ es') sv =
    (let (sv, out) = process_events fs es sv; (sv, out') = process_events fs es' sv in (sv, out @ out'))"
  by (induction es arbitrary: sv) (simp_all add: process_cons case_prod_unfold Let_def)

lemma reconfig_frame: "reconfig fs sv = (sv', out) \<Longrightarrow>
    runState sv' = runState sv \<and> contexts sv' = contexts sv \<and> maxOrder sv' = maxOrder sv \<and>
    set out \<subseteq> range ChangeConfig \<and> (runState sv = DOWN \<longrightarrow> out = [])"
  by (auto simp: reconfig_def Let_def split: if_splits option.splits)

text \<open>Between the start and the shutdown the service is up or suspended and its threads are left alone.\<close>

lemma step_running:
  assumes "\<not> is_shutdown e" "up sv" "server_step fs e sv = (sv', out)"
  shows "up sv' \<and> contexts sv' = contexts sv \<and> maxOrder sv' = maxOrder sv \<and>
    (\<forall>n. Start_thread n \<notin> set out \<and> Stop_thread n \<notin> set out)"
proof (cases e)
  case SERVER_RELOAD
  with assms reconfig_frame[of fs sv sv' out] show ?thesis by (auto simp: server_step_def up_def)
qed (use assms in \<open>auto simp: server_step_def startup_def up_def is_shutdown_def split: if_splits\<close>)

lemma process_running:
  "\<lbrakk>\<forall>e \<in> set es. \<not> is_shutdown e; up sv; process_events fs es sv = (sv', out)\<rbrakk> \<Longrightarrow>
    up sv' \<and> contexts sv' = contexts sv \<and> maxOrder sv' = maxOrder sv \<and>
    (\<forall>n. Start_thread n \<notin> set out \<and> Stop_thread n \<notin> set out)"
proof (induction es arbitrary: sv out)
  case (Cons e es)
  obtain sv1 out1 where s: "server_step fs e sv = (sv1, out1)" by fastforce
  obtain sv2 out2 where r: "process_events fs es sv1 = (sv2, out2)" by fastforce
  from Cons.prems s r have "sv' = sv2" "out = out1 @ out2" by (simp_all add: process_cons)
  with r have tail: "process_events fs es sv1 = (sv', out2)" by simp
  from step_running[OF _ Cons.prems(2) s] Cons.prems(1)
  have "up sv1 \<and> contexts sv1 = contexts sv \<and> maxOrder sv1 = maxOrder sv \<and>
    (\<forall>n. Start_thread n \<notin> set out1 \<and> Stop_thread n \<notin> set out1)" by simp
  with Cons.IH[OF _ _ tail] Cons.prems(1) \<open>out = out1 @ out2\<close> show ?case by auto
qed simp

definition started :: "server_effect list \<Rightarrow> string list" where
  "started out = List.map_filter (\<lambda>e. case e of Start_thread n \<Rightarrow> Some n | _ \<Rightarrow> None) out"

definition stopped :: "server_effect list \<Rightarrow> string list" where
  "stopped out = List.map_filter (\<lambda>e. case e of Stop_thread n \<Rightarrow> Some n | _ \<Rightarrow> None) out"

lemma effects_simps [simp]:
  "started (out @ out') = started out @ started out'" "stopped (out @ out') = stopped out @ stopped out'"
  "started [] = []" "stopped [] = []"
  "started (e # out) = (case e of Start_thread n \<Rightarrow> [n] | _ \<Rightarrow> []) @ started out"
  "stopped (e # out) = (case e of Stop_thread n \<Rightarrow> [n] | _ \<Rightarrow> []) @ stopped out"
  by (simp_all add: started_def stopped_def map_filter_def split: server_effect.split)

lemma effects_maps [simp]:
  "started (map Start_thread ns) = ns" "stopped (map Start_thread ns) = []"
  "started (map Stop_thread ns) = []" "stopped (map Stop_thread ns) = ns"
  by (induction ns) simp_all

lemma effects_image [simp]:
  "started (map (\<lambda>t. Start_thread (f t)) ts) = map f ts" "stopped (map (\<lambda>t. Start_thread (f t)) ts) = []"
  "started (map (\<lambda>t. Stop_thread (f t)) ts) = []" "stopped (map (\<lambda>t. Stop_thread (f t)) ts) = map f ts"
  by (induction ts) simp_all

lemma effects_none:
  "\<forall>n. Start_thread n \<notin> set out \<and> Stop_thread n \<notin> set out \<Longrightarrow> started out = [] \<and> stopped out = []"
  by (induction out) (auto split: server_effect.split)

section \<open>Properties\<close>

lemma sort_key_map: "sort_key f (map g xs) = map g (sort_key (f \<circ> g) xs)"
proof (induction xs)
  case (Cons x xs)
  have "insort_key f (g x) (map g ys) = map g (insort_key (f \<circ> g) x ys)" for ys
    by (induction ys) simp_all
  with Cons show ?case by (simp add: sort_key_def comp_def)
qed simp

text \<open>The threads of a list of names and orders, as they are started and stopped.\<close>

abbreviation thread_of :: "string \<times> nat \<Rightarrow> managed_thread" where
  "thread_of \<equiv> \<lambda>(name, order). \<lparr>th_name = name, th_order = order\<rparr>"

lemma start_names:
  assumes "\<forall>t \<in> set (map thread_of cs). th_order t < m"
  shows "map th_name (by_order [0..<m] (map thread_of cs)) = map fst (sort_key snd cs)"
proof -
  have "sort_key th_order (map thread_of cs) = map thread_of (sort_key (th_order \<circ> thread_of) cs)"
    by (rule sort_key_map)
  moreover have "th_order \<circ> thread_of = snd" "th_name \<circ> thread_of = fst" by auto
  ultimately show ?thesis using by_order_sort_key[OF assms] by simp
qed

lemma stop_pairs:
  assumes "\<forall>t \<in> set (map thread_of cs). th_order t < m"
  shows "mset (map (\<lambda>t. (th_name t, th_order t)) (by_order (List.rev [0..<m]) (map thread_of cs))) = mset cs \<and>
    sorted_wrt (\<ge>) (map snd (map (\<lambda>t. (th_name t, th_order t)) (by_order (List.rev [0..<m]) (map thread_of cs))))"
proof -
  have "map (\<lambda>t. (th_name t, th_order t)) (map thread_of cs) = cs" by (induction cs) auto
  moreover have "mset (map (\<lambda>t. (th_name t, th_order t)) (by_order (List.rev [0..<m]) (map thread_of cs))) =
      mset (map (\<lambda>t. (th_name t, th_order t)) (map thread_of cs))"
    using by_order_all(2)[OF assms] by (simp only: mset_map)
  moreover have "sorted_wrt (\<ge>) (List.rev [0..<m])" by (simp add: sorted_wrt_rev)
  ultimately show ?thesis using by_order_sorted_rev[of "List.rev [0..<m]" "map thread_of cs"] by (simp add: comp_def)
qed

text \<open>
  C26. Threads start in order and stop in the reverse order, each exactly once. Whatever threads are
  created before the service starts, starting it starts them sorted by their order, first created
  first among equals; nothing that happens before the shutdown (reloads, suspends, resumes, further
  starts) starts or stops any; the shutdown stops every one of them once, none before those of
  higher order, and ends the program with the reason given.
\<close>

theorem threads_ordered:
  assumes "runState sv = START" "contexts sv = []" "\<forall>(name, order) \<in> set cs. order < 2 ^ 32 - 1"
    "\<forall>e \<in> set es. \<not> is_shutdown e"
    "process_events fs (SERVER_STARTUP # es @ [SERVER_SHUTDOWN reason]) (create_threads cs sv) = (sv', out)"
  shows "started out = map fst (sort_key snd cs) \<and>
    (\<exists>ts. stopped out = map fst ts \<and> mset ts = mset cs \<and> sorted_wrt (\<ge>) (map snd ts)) \<and>
    runState sv' = DOWN \<and> last out = App_exit reason"
proof -
  let ?sv = "create_threads cs sv" and ?ts = "map thread_of cs"
  let ?m = "unat (maxOrder ?sv)"
  have "orders_ok sv" using assms(2) by (simp add: orders_ok_def)
  from create_threads_contexts[OF assms(1) this assms(3)] assms(2)
  have sv: "contexts ?sv = ?ts" "orders_ok ?sv" "runState ?sv = START" by simp_all
  have below: "\<forall>t \<in> set ?ts. th_order t < ?m" using sv(1,2) by (simp add: orders_ok_def)
  let ?up = "?sv\<lparr>runState := UP\<rparr>"
  obtain sv1 out1 where mid: "process_events fs es ?up = (sv1, out1)" by fastforce
  from process_running[OF assms(4) _ mid] have run: "up sv1" "contexts sv1 = ?ts" "maxOrder sv1 = maxOrder ?sv"
    "started out1 = []" "stopped out1 = []"
    using effects_none[of out1] sv(1) by (simp_all add: up_def)
  let ?start = "map Start_thread (start_threads ?m ?ts) @ [ChangeConfig (currentConfig ?sv), Started, Start_timer]"
  let ?stop = "AboutToFinish # map Stop_thread (stop_threads ?m ?ts) @ [Finished, App_exit reason]"
  have "server_step fs SERVER_STARTUP ?sv = (?up, ?start)"
    using sv by (simp add: server_step_def startup_def)
  moreover have "process_events fs [SERVER_SHUTDOWN reason] sv1 = (sv1\<lparr>runState := DOWN, maxOrder := - 1\<rparr>, ?stop)"
    using run(1-3) by (simp add: up_def)
  ultimately have result: "sv' = sv1\<lparr>runState := DOWN, maxOrder := - 1\<rparr>" "out = ?start @ out1 @ ?stop"
    using assms(5) mid process_append[OF assms(4), of fs "[SERVER_SHUTDOWN reason]" ?up] by simp_all
  let ?pair = "\<lambda>t. (th_name t, th_order t)"
  let ?stops = "by_order (List.rev [0..<?m]) ?ts"
  have "started out = map fst (sort_key snd cs)"
    using result(2) run(4) start_names[OF below] by (simp add: start_stop_order comp_def)
  moreover have "stopped out = map fst (map ?pair ?stops)"
    using result(2) run(5) by (simp add: start_stop_order comp_def)
  moreover note stop_pairs[OF below]
  moreover have "runState sv' = DOWN \<and> last out = App_exit reason" using result by simp
  ultimately show ?thesis by blast
qed

definition sample_server :: server where
  "sample_server = \<lparr>runState = START, exitReason = 0, staticConfig = False, contexts = [], maxOrder = 1,
     currentConfig = Map.empty, defaultConfig = Map.empty, server_env = Map.empty, posted = []\<rparr>"

definition no_files :: config_files where
  "no_files = \<lparr>cf_named = (\<lambda>_. Map.empty), cf_embedded = None\<rparr>"

lemma threads_ordered_witness:
  "\<exists>sv out. process_events no_files [SERVER_STARTUP, SERVER_SUSPEND, SERVER_SHUTDOWN 15]
      (create_threads [(''database'', 3), (''stack'', 2)] sample_server) = (sv, out) \<and>
    started out = [''stack'', ''database''] \<and> runState sv = DOWN"
proof -
  obtain sv out where run: "process_events no_files [SERVER_STARTUP, SERVER_SUSPEND, SERVER_SHUTDOWN 15]
      (create_threads [(''database'', 3), (''stack'', 2)] sample_server) = (sv, out)" by fastforce
  have "started out = map fst (sort_key snd [(''database'', 3::nat), (''stack'', 2)]) \<and>
    (\<exists>ts. stopped out = map fst ts \<and> mset ts = mset [(''database'', 3::nat), (''stack'', 2)] \<and> sorted_wrt (\<ge>) (map snd ts)) \<and>
    runState sv = DOWN \<and> last out = App_exit 15"
    using run by (intro threads_ordered[of sample_server "[(''database'', 3), (''stack'', 2)]" "[SERVER_SUSPEND]" no_files 15])
      (simp_all add: sample_server_def is_shutdown_def)
  with run show ?thesis by simp
qed

text \<open>
  The shutdown is final unless a suspend comes. Once the service is down, no sequence of events
  without a suspend has any effect to the outside, and it stays down.
\<close>

theorem down_is_final:
  assumes "runState sv = DOWN" "SERVER_SUSPEND \<notin> set es"
  shows "runState (fst (process_events fs es sv)) = DOWN \<and> snd (process_events fs es sv) = []"
  using assms
proof (induction es arbitrary: sv)
  case (Cons e es)
  show ?case
  proof (cases "is_shutdown e")
    case True
    with Cons show ?thesis by (auto simp: is_shutdown_def)
  next
    case False
    obtain sv1 out1 where s: "server_step fs e sv = (sv1, out1)" by fastforce
    have "runState sv1 = DOWN \<and> out1 = []"
      using s Cons.prems False reconfig_frame[of fs sv sv1 out1]
      by (cases e) (auto simp: server_step_def startup_def is_shutdown_def)
    with Cons.IH[of sv1] Cons.prems s show ?thesis
      by (simp add: process_cons[OF False] case_prod_unfold Let_def)
  qed
qed simp

lemma down_is_final_witness:
  "snd (process_events no_files [SERVER_RESUME, SERVER_RELOAD, SERVER_STARTUP] (sample_server\<lparr>runState := DOWN\<rparr>)) = []"
  using down_is_final[of "sample_server\<lparr>runState := DOWN\<rparr>" "[SERVER_RESUME, SERVER_RELOAD, SERVER_STARTUP]" no_files] by simp

text \<open>
  A late suspend revives a service that is down. A suspend still queued when the shutdown runs
  puts the service back into \<open>SUSPENDED\<close> in the middle of it, and a resume into \<open>UP\<close>, while its threads
  are stopped; a second shutdown then stops (and deletes) every thread once more.
\<close>

theorem late_suspend_revives:
  assumes "up sv" "orders_ok sv"
  shows "process_events fs [SERVER_SHUTDOWN 0, SERVER_SUSPEND, SERVER_RESUME] sv =
      (sv\<lparr>runState := UP, maxOrder := - 1\<rparr>, [AboutToSuspend, AboutToResume, AboutToFinish] @
         map Stop_thread (stop_threads (unat (maxOrder sv)) (contexts sv)) @ [Finished, App_exit 0]) \<and>
    (\<forall>t \<in> set (contexts sv).
       2 \<le> count (mset (stopped (snd (process_events fs [SERVER_SHUTDOWN 0, SERVER_SUSPEND, SERVER_SHUTDOWN 0] sv)))) (th_name t))"
proof (intro conjI ballI)
  show "process_events fs [SERVER_SHUTDOWN 0, SERVER_SUSPEND, SERVER_RESUME] sv =
      (sv\<lparr>runState := UP, maxOrder := - 1\<rparr>, [AboutToSuspend, AboutToResume, AboutToFinish] @
         map Stop_thread (stop_threads (unat (maxOrder sv)) (contexts sv)) @ [Finished, App_exit 0])"
    using assms(1) by (simp add: up_def server_step_def)
  fix t assume t: "t \<in> set (contexts sv)"
  let ?stop = "\<lambda>m. stop_threads m (contexts sv)" and ?big = "unat (- 1 :: quint32)"
  have out: "stopped (snd (process_events fs [SERVER_SHUTDOWN 0, SERVER_SUSPEND, SERVER_SHUTDOWN 0] sv)) =
      ?stop (unat (maxOrder sv)) @ ?stop ?big"
    using assms(1) by (auto simp: up_def server_step_def)
  have "unat (maxOrder sv) \<le> ?big" using word_le_nat_alt[of "maxOrder sv" "- 1"] by simp
  then have "th_order t < ?big" "th_order t < unat (maxOrder sv)"
    using assms(2) t by (auto simp: orders_ok_def dest: bspec)
  with t have "t \<in> set (by_order (List.rev [0..<unat (maxOrder sv)]) (contexts sv))" "t \<in> set (by_order (List.rev [0..<?big]) (contexts sv))"
    by (simp_all only: by_order_set) simp_all
  then have "th_name t \<in> set (?stop (unat (maxOrder sv)))" "th_name t \<in> set (?stop ?big)"
    unfolding start_stop_order by simp_all
  then have "1 \<le> count (mset (?stop (unat (maxOrder sv)))) (th_name t)" "1 \<le> count (mset (?stop ?big)) (th_name t)"
    by (metis count_greater_eq_one_iff set_mset_mset)+
  then show "2 \<le> count (mset (stopped (snd (process_events fs [SERVER_SHUTDOWN 0, SERVER_SUSPEND, SERVER_SHUTDOWN 0] sv)))) (th_name t)"
    unfolding out by (simp only: mset_append count_union)
qed

lemma late_suspend_revives_witness:
  "\<exists>sv out. process_events no_files [SERVER_SHUTDOWN 0, SERVER_SUSPEND, SERVER_RESUME] (sample_server\<lparr>runState := UP\<rparr>) = (sv, out) \<and>
     up sv \<and> last out = App_exit 0"
  using late_suspend_revives[of "sample_server\<lparr>runState := UP\<rparr>" no_files]
  by (simp add: up_def orders_ok_def sample_server_def)

lemma apply_options:
  assumes "distinct (map fst ps)" "\<forall>v. (key, v) \<in> set ps \<longrightarrow> v = ''--'' @ opt"
  shows "fold (apply_option args) ps env key =
    (if (key, ''--'' @ opt) \<in> set ps \<and> (cl_isSet args opt \<or> is_option (symbol_value env key)) then Some (cl_value args opt)
     else env key)"
  using assms
proof (induction ps arbitrary: env)
  case (Cons p ps)
  obtain k v where p: "p = (k, v)" by fastforce
  have d: "distinct (map fst ps)" "\<forall>v. (key, v) \<in> set ps \<longrightarrow> v = ''--'' @ opt" using Cons.prems p by auto
  note ih = Cons.IH[OF d, of "apply_option args p env"]
  have opt: "is_option (''--'' @ opt)" "mid (''--'' @ opt) 2 = opt"
    by (simp_all add: is_option_def qleft_def mid_def numeral_2_eq_2)
  show ?case
  proof (cases "k = key")
    case True
    then have v: "v = ''--'' @ opt" "(key, ''--'' @ opt) \<notin> set ps" using Cons.prems p by force+
    with ih p True opt show ?thesis by (simp add: apply_option_def Let_def)
  next
    case False
    then have e: "apply_option args p env key = env key" by (simp add: apply_option_def Let_def p)
    then have sv: "symbol_value (apply_option args p env) key = symbol_value env key" by (simp only: symbol_value_def)
    have "p \<noteq> (key, ''--'' @ opt)" using p False by simp
    then show ?thesis unfolding fold_simps comp_def ih e sv by auto
  qed
qed simp

text \<open>
  Where a symbol of the service comes from. For an option with a default, what the command line
  sets wins, then the first variable of the system environment with that name, then the option's
  default; a variable whose name has an underscore is never read.
\<close>

theorem symbol_precedence:
  assumes "distinct (map fst keypairs)" "(key, ''--'' @ opt) \<in> set keypairs" "is_symbol key"
    "value \<noteq> [] \<and> \<not> is_option value"
    "\<forall>e \<in> set environment. qleft e (indexOf e (CHR ''='')) = key \<longrightarrow> e = key @ ''='' @ value"
    "CHR ''='' \<notin> set key" "CHR ''_'' \<notin> set key" "1 < length key" "isupper (hd key)"
  shows "server_symbols keypairs environment args key = Some
    (if cl_isSet args opt \<or> key @ ''='' @ value \<notin> set environment then cl_value args opt else value)"
proof -
  let ?base = "map_of (filter (\<lambda>(key, _). is_symbol key) keypairs)"
  have opt: "is_option (''--'' @ opt)" "mid (''--'' @ opt) 2 = opt"
    by (simp_all add: is_option_def qleft_def mid_def numeral_2_eq_2)
  have start: "?base key = Some (''--'' @ opt)"
    using assms(1-3) by (intro map_of_is_SomeI) (auto simp: distinct_map_filter)
  have index: "indexOf (key @ ''='' @ value) (CHR ''='') = int (length key)"
  proof -
    have "takeWhile (\<lambda>x. x \<noteq> CHR ''='') (key @ ''='' @ value) = key"
      using assms(6) by (subst takeWhile_append2) auto
    then show ?thesis by (simp add: indexOf_def)
  qed
  have pos: "qleft (key @ ''='' @ value) (int (length key)) = key" "mid (key @ ''='' @ value) (int (length key) + 1) = value"
    by (simp_all add: qleft_def mid_def nat_add_distrib)
  have "takeWhile (\<lambda>x. x \<noteq> CHR ''_'') key = key" using assms(7) by (subst takeWhile_eq_all_conv) auto
  then have under: "indexOf key (CHR ''_'') = -1" by (simp add: indexOf_def Let_def del: takeWhile_eq_all_conv)
  have other: "import_variable e env key = env key" if "qleft e (indexOf e (CHR ''='')) \<noteq> key" for e env
    using that by (auto simp: import_variable_def Let_def)
  have same: "import_variable (key @ ''='' @ value) env key =
      (if symbol_value env key \<noteq> [] \<and> \<not> is_option (symbol_value env key) then env key else Some value)" for env
  proof -
    have "hd (key @ ''='' @ value) = hd key" using assms(8) by (cases key) auto
    then show ?thesis using assms(8,9) by (simp add: import_variable_def Let_def index pos under del: append_Cons append_assoc)
  qed
  have imported: "fold import_variable es env key = (if key @ ''='' @ value \<in> set es then Some value else env key)"
    if "set es \<subseteq> set environment" "env key = Some (''--'' @ opt) \<or> env key = Some value" for es env
    using that
  proof (induction es arbitrary: env)
    case (Cons e es)
    show ?case
    proof (cases "e = key @ ''='' @ value")
      case True
      have "import_variable e env key = Some value"
        using Cons.prems(2) same[of env] True opt(1) assms(4) by (auto simp: symbol_value_def)
      with Cons.IH[of "import_variable e env"] Cons.prems(1) True show ?thesis by simp
    next
      case False
      then have "import_variable e env key = env key" using other Cons.prems(1) assms(5) by auto
      with Cons.IH[of "import_variable e env"] Cons.prems False show ?thesis by simp
    qed
  qed simp
  let ?env = "fold import_variable environment ?base"
  have env: "?env key = Some (if key @ ''='' @ value \<in> set environment then value else ''--'' @ opt)"
    using imported[where es = environment and env = ?base] start by simp
  have "\<forall>v. (key, v) \<in> set keypairs \<longrightarrow> v = ''--'' @ opt" using assms(1,2) by (metis eq_key_imp_eq_value)
  from apply_options[OF assms(1) this, of args ?env] assms(2,4) opt(1) env show ?thesis
    by (simp add: server_symbols_def Let_def symbol_value_def)
qed

text \<open>The keys \<open>main\<close> gives the service.\<close>

definition main_keypairs :: "string \<Rightarrow> string \<Rightarrow> (string \<times> string) list" where
  "main_keypairs host network =
    [(''CONFIG'', ''--config''), (''DATABASE'', ''--database''), (''NETWORK'', ''--network''), (''HOST'', ''--host''),
     (''PORT'', ''--port''), (''ADDRESS'', ''--address''), (''port'', ''5060''), (''database'', ''sqlite''),
     (''host'', host), (''address'', ''any''), (''network'', network)]"

definition plain_args :: command_line where
  "plain_args = \<lparr>cl_isSet = (\<lambda>_. False), cl_value = (\<lambda>arg. if arg = ''config'' then ''service.conf'' else ''%%'' @ arg)\<rparr>"

lemma main_symbols: "is_symbol ''DATABASE'' \<and> is_symbol ''PORT'' \<and> isupper CHR ''D''"
  by (simp add: is_symbol_def isupper_def ord_def indexOf_def)

lemma main_keys:
  "filter (\<lambda>(key, _). is_symbol key) (main_keypairs host network) = take 6 (main_keypairs host network)"
  "filter (\<lambda>(key, _). \<not> is_symbol key) (main_keypairs host network) = drop 6 (main_keypairs host network)"
  by (simp_all add: main_keypairs_def is_symbol_def isupper_def ord_def indexOf_def)

lemma main_pairs:
  "distinct (map fst (main_keypairs host network))"
  "(''DATABASE'', v) \<in> set (main_keypairs host network) \<longleftrightarrow> v = ''--database''"
  by (simp_all add: main_keypairs_def)

lemma symbol_precedence_witness:
  "server_symbols (main_keypairs ''h'' ''n'') [''DATABASE=mysql'', ''HOME=/''] plain_args ''DATABASE'' = Some ''mysql''"
proof -
  have keys: "qleft ''DATABASE=mysql'' (indexOf ''DATABASE=mysql'' CHR ''='') = ''DATABASE''"
    "qleft ''HOME=/'' (indexOf ''HOME=/'' CHR ''='') = ''HOME''"
    by (simp_all add: indexOf_def qleft_def)
  have "server_symbols (main_keypairs ''h'' ''n'') [''DATABASE=mysql'', ''HOME=/''] plain_args ''DATABASE'' = Some
    (if cl_isSet plain_args ''database'' \<or> ''DATABASE'' @ ''='' @ ''mysql'' \<notin> set [''DATABASE=mysql'', ''HOME=/'']
     then cl_value plain_args ''database'' else ''mysql'')"
  proof (rule symbol_precedence)
    show "\<forall>e \<in> set [''DATABASE=mysql'', ''HOME=/'']. qleft e (indexOf e (CHR ''='')) = ''DATABASE'' \<longrightarrow> e = ''DATABASE'' @ ''='' @ ''mysql''"
      using keys by simp
  qed (use main_symbols in \<open>simp_all add: main_keypairs_def is_option_def qleft_def\<close>)
  then show ?thesis by (simp add: plain_args_def)
qed

text \<open>
  With the default database two threads share one connection. Started without options and without
  a database in its environment or configuration, the service gives \<open>Authorize\<close> a thread of its own,
  because \<open>main\<close> compares the name \<open>SQLITE\<close> where the driver is called \<open>QSQLITE\<close>; the database thread
  then opens an SQLite file, and the authorization thread uses that very connection.
\<close>

theorem default_connection_shared:
  assumes "\<forall>e \<in> set environment. qleft e (indexOf e (CHR ''='')) \<noteq> ''DATABASE''"
    "\<forall>path. cf_named fs path ''database'' = None" "cf_embedded fs = None"
  shows "let sv = Server_new (main_keypairs host network) environment plain_args fs name cwd;
      cfg = symbol_value (currentConfig sv); st = apply_settings cfg uuid realm
    in authorize_order sv = 6 \<and> createThread ''authorize'' (authorize_order sv) sv \<noteq> None \<and> isFile st \<and>
      au_db (fst (activate S st True auth_start w)) = Shared_db"
proof -
  let ?sv = "Server_new (main_keypairs host network) environment plain_args fs name cwd"
  have opt: "is_option ''--database''" "mid ''--database'' 2 = ''database''" "is_symbol ''DATABASE''" "\<not> is_symbol ''database''"
    by (simp_all add: is_option_def qleft_def mid_def is_symbol_def isupper_def ord_def indexOf_def)
  have other: "import_variable e env ''DATABASE'' = env ''DATABASE''" if "e \<in> set environment" for e env
    using assms(1) that by (auto simp: import_variable_def Let_def)
  have "fold import_variable es env ''DATABASE'' = env ''DATABASE''" if "set es \<subseteq> set environment" for es env
    using that by (induction es arbitrary: env) (simp_all add: other)
  then have imported: "fold import_variable environment env ''DATABASE'' = env ''DATABASE''" for env by blast
  have "map_of (filter (\<lambda>(key, _). is_symbol key) (main_keypairs host network)) ''DATABASE'' = Some ''--database''"
    by (simp add: main_keys) (simp add: main_keypairs_def)
  then have "symbol_value (fold import_variable environment
      (map_of (filter (\<lambda>(key, _). is_symbol key) (main_keypairs host network)))) ''DATABASE'' = ''--database''"
    by (simp add: symbol_value_def imported)
  then have env: "server_symbols (main_keypairs host network) environment plain_args ''DATABASE'' = Some ''%%database''"
    unfolding server_symbols_def Let_def
    using apply_options[of "main_keypairs host network" "''DATABASE''" "''database''" plain_args]
    by (simp add: opt main_pairs) (simp add: plain_args_def)
  have config: "currentConfig ?sv ''database'' = Some ''sqlite''"
    using assms(2,3)
    by (simp add: Server_new_def reconfig_def Let_def default_config_def main_keys map_add_def) (simp add: main_keypairs_def)
  have sym: "sym ''DATABASE'' ?sv = ''sqlite''"
    using env config assms(3)
    by (simp add: Server_new_def Let_def sym_def reconfig_def paste_option_def qleft_def mid_def symbol_value_def)
  have upper: "toUpper ''sqlite'' = ''SQLITE''" by code_simp
  have order: "authorize_order ?sv = 6" using sym by (simp add: authorize_order_def upper dbIsFile_def)
  have start: "runState ?sv = START" using assms(3) by (simp add: Server_new_def reconfig_def Let_def)
  have sqlite: "isFile (apply_settings (symbol_value (currentConfig ?sv)) uuid realm)"
    using config by (simp add: isFile_def dbIsFile_def apply_settings_def Let_def driver_name_def symbol_value_def upper)
  show ?thesis
    using order start sqlite by (simp add: Let_def createThread_def activate_def)
qed

lemma default_connection_shared_witness:
  "authorize_order (Server_new (main_keypairs ''h'' ''n'') [''HOME=/''] plain_args no_files ''h'' ''/'') = 6"
proof -
  have "qleft ''HOME=/'' (indexOf ''HOME=/'' CHR ''='') = ''HOME''" by (simp add: indexOf_def qleft_def)
  then have "\<forall>e \<in> set [''HOME=/'']. qleft e (indexOf e (CHR ''='')) \<noteq> ''DATABASE''" by simp
  from default_connection_shared[OF this, of no_files "''h''" "''n''" "''h''" "''/''" "''u''" "''r''" sample_net 0] show ?thesis
    unfolding Let_def by (simp add: no_files_def)
qed

text \<open>
  The identity of a new switch lacks its first digit: \<open>createUuid\<close> gives the text in braces, and
  \<open>mid (2)\<close> drops the brace and a digit, so 35 of the 36 characters are stored.
\<close>

theorem fresh_uuid_loses_digit:
  "fresh_uuid (''{'' @ uuid @ ''}'') = tl uuid"
  by (cases uuid) (simp_all add: fresh_uuid_def mid_def numeral_2_eq_2)

end
