(* ===== verification/CallLegs.thy ===== *)
theory CallLegs
  imports Connection
begin

text \<open>
  Providers of trunks (\<open>Server/provider.cpp\<close>) and the invites and segments of calls
  (\<open>Server/invite.cpp\<close>): objects that enter themselves into static tables when they are constructed
  and leave them when they are destroyed. Objects live in a heap, tables hold their addresses.
\<close>

type_synonym address = nat

text \<open>A context is known by its address; the address is its bind address and schema here.\<close>

record provider =
  pv_data :: sql_record
  pv_uri :: string
  pv_text :: string
  pv_context :: sip_context
  pv_id :: int

record segment =
  sg_invite :: address
  sg_context :: sip_context
  sg_cid :: int
  sg_did :: int
  sg_tid :: int
  sg_provider :: "address option" \<comment> \<open>\<open>None\<close>: a segment to a peer, or a local one\<close>
  sg_peer :: bool

record invite =
  iv_tag :: string
  iv_text :: string
  iv_origin :: "address option"

record call_tables =
  provider_heap :: "address \<rightharpoonup> provider"
  segment_heap :: "address \<rightharpoonup> segment"
  invite_heap :: "address \<rightharpoonup> invite"
  providers :: "string \<rightharpoonup> address"
  registrations :: "int \<rightharpoonup> address"
  invites :: "string \<rightharpoonup> address"
  segments :: "int \<rightharpoonup> address"
  peering :: "address list"

section \<open>Providers\<close>

definition sql_text :: "sql_record \<Rightarrow> string \<Rightarrow> string" where
  "sql_text r column = (case map_of r column of Some (Sql_text s) \<Rightarrow> s | _ \<Rightarrow> [])"

definition Provider_object :: "sql_record \<Rightarrow> sip_context \<Rightarrow> int \<Rightarrow> provider" where
  "Provider_object r ctx rid = \<lparr>pv_data = r, pv_uri = sql_text r ''contact'', pv_text = sql_text r ''display'',
     pv_context = ctx, pv_id = rid\<rparr>"

text \<open>\<open>p\<close> is the address \<open>new\<close> gives.\<close>

definition Provider_new :: "address \<Rightarrow> sql_record \<Rightarrow> sip_context \<Rightarrow> int \<Rightarrow> call_tables \<Rightarrow> call_tables" where
  "Provider_new p r ctx rid ct =
    (let obj = Provider_object r ctx rid;
         ct = ct\<lparr>provider_heap := (provider_heap ct)(p \<mapsto> obj), providers := (providers ct)(pv_uri obj \<mapsto> p)\<rparr>
     in if rid > -1 then ct\<lparr>registrations := (registrations ct)(rid \<mapsto> p)\<rparr> else ct)"

text \<open>\<open>None\<close>: the object does not exist.\<close>

definition Provider_delete :: "address \<Rightarrow> call_tables \<Rightarrow> call_tables option" where
  "Provider_delete p ct = (case provider_heap ct p of None \<Rightarrow> None
     | Some obj \<Rightarrow>
       (let ct = ct\<lparr>providers := (providers ct)(pv_uri obj := None)\<rparr>;
            ct = (if pv_id obj > -1 then ct\<lparr>registrations := (registrations ct)(pv_id obj := None)\<rparr> else ct)
        in Some (ct\<lparr>provider_heap := (provider_heap ct)(p := None)\<rparr>)))"

definition Provider_find_id :: "int \<Rightarrow> call_tables \<Rightarrow> address option" where
  "Provider_find_id rid ct = registrations ct rid"

definition Provider_find :: "string \<Rightarrow> call_tables \<Rightarrow> address option" where
  "Provider_find target ct = providers ct target"

text \<open>\<open>reload\<close> deletes the providers in the order of the hash, \<open>ps\<close>; \<open>update\<close> does nothing.\<close>

definition Provider_update :: "sql_record \<Rightarrow> call_tables \<Rightarrow> call_tables" where
  "Provider_update r ct = ct"

fun delete_providers :: "address list \<Rightarrow> call_tables \<Rightarrow> call_tables option" where
  "delete_providers [] ct = Some ct"
| "delete_providers (p # ps) ct = Option.bind (Provider_delete p ct) (delete_providers ps)"

definition Provider_reload :: "address list \<Rightarrow> sql_record list \<Rightarrow> call_tables \<Rightarrow> call_tables option" where
  "Provider_reload ps rs ct = map_option (fold Provider_update rs) (delete_providers ps ct)"

section \<open>Invites and segments\<close>

definition Invite_new :: "address \<Rightarrow> string \<Rightarrow> call_tables \<Rightarrow> call_tables" where
  "Invite_new p tag ct = ct\<lparr>invite_heap := (invite_heap ct)(p \<mapsto> \<lparr>iv_tag = tag, iv_text = [], iv_origin = None\<rparr>),
     invites := (invites ct)(tag \<mapsto> p)\<rparr>"

definition Invite_delete :: "address \<Rightarrow> call_tables \<Rightarrow> call_tables option" where
  "Invite_delete p ct = (case invite_heap ct p of None \<Rightarrow> None
     | Some obj \<Rightarrow> Some (ct\<lparr>invites := (invites ct)(iv_tag obj := None), invite_heap := (invite_heap ct)(p := None)\<rparr>))"

definition Segment_new :: "address \<Rightarrow> segment \<Rightarrow> call_tables \<Rightarrow> call_tables" where
  "Segment_new p obj ct = ct\<lparr>segment_heap := (segment_heap ct)(p \<mapsto> obj), segments := (segments ct)(sg_cid obj \<mapsto> p)\<rparr>"

definition Segment_object :: "int \<Rightarrow> address \<Rightarrow> sip_context \<Rightarrow> segment" where
  "Segment_object cid ip ctx = \<lparr>sg_invite = ip, sg_context = ctx, sg_cid = cid, sg_did = -1, sg_tid = -1,
     sg_provider = None, sg_peer = False\<rparr>"

definition LocalSegment :: "address \<Rightarrow> int \<Rightarrow> address \<Rightarrow> sip_context \<Rightarrow> call_tables \<Rightarrow> call_tables" where
  "LocalSegment p cid ip reg_context = Segment_new p (Segment_object cid ip reg_context)"

text \<open>A segment over a provider; \<open>None\<close>: the provider does not exist.\<close>

definition RemoteSegment :: "address \<Rightarrow> int \<Rightarrow> address \<Rightarrow> address \<Rightarrow> call_tables \<Rightarrow> call_tables option" where
  "RemoteSegment p cid ip pp ct = (case provider_heap ct pp of None \<Rightarrow> None
     | Some prov \<Rightarrow> Some (Segment_new p ((Segment_object cid ip (pv_context prov))\<lparr>sg_provider := Some pp\<rparr>) ct))"

definition PeerSegment :: "address \<Rightarrow> int \<Rightarrow> address \<Rightarrow> sip_context \<Rightarrow> call_tables \<Rightarrow> call_tables" where
  "PeerSegment p cid ip ctx ct =
    (let ct = Segment_new p ((Segment_object cid ip ctx)\<lparr>sg_peer := True\<rparr>) ct in ct\<lparr>peering := peering ct @ [p]\<rparr>)"

text \<open>The destructor of a remote segment and then of its base class; a local one has no provider either
  but is not a remote segment.\<close>

definition Segment_delete :: "address \<Rightarrow> call_tables \<Rightarrow> call_tables option" where
  "Segment_delete p ct = (case segment_heap ct p of None \<Rightarrow> None
     | Some obj \<Rightarrow>
       (let ct = (if sg_peer obj then ct\<lparr>peering := remove1 p (peering ct)\<rparr> else ct)
        in Some (ct\<lparr>segments := (segments ct)(sg_cid obj := None), segment_heap := (segment_heap ct)(p := None)\<rparr>)))"

definition Segment_update :: "event \<Rightarrow> segment \<Rightarrow> segment \<times> bool" where
  "Segment_update ev sg =
    (if ex_cid (ev_event ev) \<noteq> sg_cid sg \<or> sg_context sg \<noteq> ev_context ev then (sg, False)
     else (let sg = (if sg_did sg = -1 then sg\<lparr>sg_did := ex_did (ev_event ev)\<rparr> else sg);
               sg = (if sg_tid sg = -1 then sg\<lparr>sg_tid := ex_tid (ev_event ev)\<rparr> else sg)
           in (sg, True)))"

section \<open>The tables point to living objects\<close>

definition table_ok :: "('o \<Rightarrow> 'k option) \<Rightarrow> (address \<rightharpoonup> 'o) \<Rightarrow> ('k \<rightharpoonup> address) \<Rightarrow> bool" where
  "table_ok key store t \<longleftrightarrow> (\<forall>k p. t k = Some p \<longrightarrow> (\<exists>obj. store p = Some obj \<and> key obj = Some k))"

lemma table_empty [simp]: "table_ok key store Map.empty"
  by (simp add: table_ok_def)

lemma table_enter: "\<lbrakk>table_ok key store t; store p = None; key obj = Some k\<rbrakk> \<Longrightarrow> table_ok key (store(p \<mapsto> obj)) (t(k \<mapsto> p))"
  by (fastforce simp: table_ok_def)

lemma table_alloc: "\<lbrakk>table_ok key store t; store p = None\<rbrakk> \<Longrightarrow> table_ok key (store(p \<mapsto> obj)) t"
  by (fastforce simp: table_ok_def)

lemma table_leave: "\<lbrakk>table_ok key store t; store p = Some obj; key obj = Some k\<rbrakk> \<Longrightarrow> table_ok key (store(p := None)) (t(k := None))"
  by (fastforce simp: table_ok_def)

lemma table_free: "\<lbrakk>table_ok key store t; store p = Some obj; key obj = None\<rbrakk> \<Longrightarrow> table_ok key (store(p := None)) t"
  by (fastforce simp: table_ok_def)

definition registration_key :: "provider \<Rightarrow> int option" where
  "registration_key obj = (if pv_id obj > -1 then Some (pv_id obj) else None)"

definition calls_ok :: "call_tables \<Rightarrow> bool" where
  "calls_ok ct \<longleftrightarrow> table_ok (\<lambda>obj. Some (pv_uri obj)) (provider_heap ct) (providers ct) \<and>
     table_ok registration_key (provider_heap ct) (registrations ct) \<and>
     table_ok (\<lambda>obj. Some (iv_tag obj)) (invite_heap ct) (invites ct) \<and>
     table_ok (\<lambda>obj. Some (sg_cid obj)) (segment_heap ct) (segments ct) \<and>
     distinct (peering ct) \<and>
     (\<forall>p. p \<in> set (peering ct) \<longleftrightarrow> (\<exists>obj. segment_heap ct p = Some obj \<and> sg_peer obj))"

text \<open>What the program may do to the tables: construct at a fresh address, destroy what exists.\<close>

inductive call_step :: "call_tables \<Rightarrow> call_tables \<Rightarrow> bool" where
  "provider_heap ct p = None \<Longrightarrow> call_step ct (Provider_new p r ctx rid ct)"
| "Provider_delete p ct = Some ct' \<Longrightarrow> call_step ct ct'"
| "invite_heap ct p = None \<Longrightarrow> call_step ct (Invite_new p tag ct)"
| "Invite_delete p ct = Some ct' \<Longrightarrow> call_step ct ct'"
| "segment_heap ct p = None \<Longrightarrow> call_step ct (LocalSegment p cid ip ctx ct)"
| "\<lbrakk>segment_heap ct p = None; RemoteSegment p cid ip pp ct = Some ct'\<rbrakk> \<Longrightarrow> call_step ct ct'"
| "segment_heap ct p = None \<Longrightarrow> call_step ct (PeerSegment p cid ip ctx ct)"
| "Segment_delete p ct = Some ct' \<Longrightarrow> call_step ct ct'"

definition call_start :: call_tables where
  "call_start = \<lparr>provider_heap = Map.empty, segment_heap = Map.empty, invite_heap = Map.empty, providers = Map.empty,
     registrations = Map.empty, invites = Map.empty, segments = Map.empty, peering = []\<rparr>"

lemmas call_defs = Provider_new_def Provider_delete_def Invite_new_def Invite_delete_def LocalSegment_def
  RemoteSegment_def PeerSegment_def Segment_new_def Segment_delete_def Let_def

lemma call_step_ok:
  assumes "call_step ct ct'" "calls_ok ct"
  shows "calls_ok ct'"
  using assms
proof (induction rule: call_step.induct)
  case (1 ct p r ctx rid)
  then show ?case
    by (cases "rid > -1")
      (auto simp: call_defs calls_ok_def registration_key_def Provider_object_def intro!: table_enter intro: table_alloc)
next
  case (2 p ct ct')
  then obtain obj where obj: "provider_heap ct p = Some obj" by (auto simp: Provider_delete_def split: option.splits)
  have ok: "table_ok (\<lambda>obj. Some (pv_uri obj)) (provider_heap ct) (providers ct)"
    "table_ok registration_key (provider_heap ct) (registrations ct)"
    using 2 by (simp_all add: calls_ok_def)
  have regs: "table_ok registration_key ((provider_heap ct)(p := None))
      (if pv_id obj > -1 then (registrations ct)(pv_id obj := None) else registrations ct)"
    using table_leave[OF ok(2) obj] table_free[OF ok(2) obj] by (simp add: registration_key_def)
  show ?case
    using 2 obj table_leave[OF ok(1) obj] regs by (cases "pv_id obj > -1") (auto simp: call_defs calls_ok_def)
next
  case (4 p ct ct')
  then obtain obj where obj: "invite_heap ct p = Some obj" by (auto simp: Invite_delete_def split: option.splits)
  have "table_ok (\<lambda>obj. Some (iv_tag obj)) (invite_heap ct) (invites ct)" using 4 by (simp add: calls_ok_def)
  from table_leave[OF this obj] 4 obj show ?case by (auto simp: call_defs calls_ok_def)
next
  case (8 p ct ct')
  then obtain obj where obj: "segment_heap ct p = Some obj" by (auto simp: Segment_delete_def split: option.splits)
  have "table_ok (\<lambda>obj. Some (sg_cid obj)) (segment_heap ct) (segments ct)" using 8 by (simp add: calls_ok_def)
  from table_leave[OF this obj] 8 obj show ?case
    by (cases "sg_peer obj") (auto simp: call_defs calls_ok_def set_remove1_eq distinct_remove1 split: if_splits)
qed (auto simp: call_defs calls_ok_def Segment_object_def intro!: table_enter split: option.splits if_splits)

section \<open>Properties\<close>

text \<open>
  The tables of calls and trunks never dangle. In every state reached by constructing and
  destroying providers, invites and segments in any order, what a lookup finds exists and has the
  key that was looked up, and the list of peers holds exactly the living segments to peers, each
  once. A lookup can still miss a living object: destroying one of two providers with the same uri
  removes the entry of the other.
\<close>

theorem call_tables_safe:
  assumes "call_step\<^sup>*\<^sup>* call_start ct"
  shows "(Provider_find uri ct = Some p \<longrightarrow> (\<exists>obj. provider_heap ct p = Some obj \<and> pv_uri obj = uri)) \<and>
    (Provider_find_id rid ct = Some p \<longrightarrow> (\<exists>obj. provider_heap ct p = Some obj \<and> pv_id obj = rid \<and> rid \<ge> 0)) \<and>
    (segments ct cid = Some p \<longrightarrow> (\<exists>obj. segment_heap ct p = Some obj \<and> sg_cid obj = cid)) \<and>
    (invites ct tag = Some p \<longrightarrow> (\<exists>obj. invite_heap ct p = Some obj \<and> iv_tag obj = tag)) \<and>
    distinct (peering ct) \<and> set (peering ct) = {p. \<exists>obj. segment_heap ct p = Some obj \<and> sg_peer obj} \<and>
    (provider_heap ct a = None \<and> provider_heap ct b = None \<and> a \<noteq> b \<longrightarrow>
      (\<exists>ct'. Provider_delete a (Provider_new b r ctx' i' (Provider_new a r ctx i ct)) = Some ct' \<and>
         provider_heap ct' b \<noteq> None \<and> Provider_find (sql_text r ''contact'') ct' = None))"
proof -
  have "calls_ok ct"
    using assms
  proof (induction rule: rtranclp_induct)
    case base
    show ?case by (simp add: calls_ok_def call_start_def)
  qed (rule call_step_ok)
  then have ok: "table_ok (\<lambda>obj. Some (pv_uri obj)) (provider_heap ct) (providers ct)"
      "table_ok registration_key (provider_heap ct) (registrations ct)"
      "table_ok (\<lambda>obj. Some (iv_tag obj)) (invite_heap ct) (invites ct)"
      "table_ok (\<lambda>obj. Some (sg_cid obj)) (segment_heap ct) (segments ct)"
      "distinct (peering ct)" "set (peering ct) = {p. \<exists>obj. segment_heap ct p = Some obj \<and> sg_peer obj}"
    by (auto simp: calls_ok_def)
  have "Provider_find uri ct = Some p \<Longrightarrow> \<exists>obj. provider_heap ct p = Some obj \<and> pv_uri obj = uri"
    using ok(1) by (auto simp: table_ok_def Provider_find_def)
  moreover have "Provider_find_id rid ct = Some p \<Longrightarrow> \<exists>obj. provider_heap ct p = Some obj \<and> pv_id obj = rid \<and> rid \<ge> 0"
    using ok(2) by (fastforce simp: table_ok_def Provider_find_id_def registration_key_def split: if_splits)
  moreover have "segments ct cid = Some p \<Longrightarrow> \<exists>obj. segment_heap ct p = Some obj \<and> sg_cid obj = cid"
    using ok(4) by (auto simp: table_ok_def)
  moreover have "invites ct tag = Some p \<Longrightarrow> \<exists>obj. invite_heap ct p = Some obj \<and> iv_tag obj = tag"
    using ok(3) by (auto simp: table_ok_def)
  moreover have "\<exists>ct'. Provider_delete a (Provider_new b r ctx' i' (Provider_new a r ctx i ct)) = Some ct' \<and>
      provider_heap ct' b \<noteq> None \<and> Provider_find (sql_text r ''contact'') ct' = None"
    if "provider_heap ct a = None \<and> provider_heap ct b = None \<and> a \<noteq> b"
    using that by (simp add: call_defs Provider_object_def Provider_find_def)
  ultimately show ?thesis using ok(5,6) by blast
qed

definition sample_provider :: sql_record where
  "sample_provider = [(''contact'', Sql_text ''sip:trunk'')]"

lemma call_tables_safe_witness:
  "\<exists>ct p. call_step\<^sup>*\<^sup>* call_start ct \<and> Provider_find ''sip:trunk'' ct = Some p \<and>
     (\<exists>obj. provider_heap ct p = Some obj \<and> pv_uri obj = ''sip:trunk'')"
proof -
  let ?ct = "Provider_new 0 sample_provider sample_ctx 5 call_start"
  have "call_step call_start ?ct" by (rule call_step.intros) (simp add: call_start_def)
  then have reach: "call_step\<^sup>*\<^sup>* call_start ?ct" by blast
  have "Provider_find ''sip:trunk'' ?ct = Some 0"
    by (simp add: call_defs Provider_find_def Provider_object_def sample_provider_def sql_text_def)
  with call_tables_safe[OF reach, of "''sip:trunk''" 0] reach show ?thesis by blast
qed

end
