(* ===== verification/Ciphers.thy ===== *)
theory Ciphers
  imports UStrings "HOL-Library.Monad_Syntax"
begin

text \<open>
  \<open>Common/crypto.cpp\<close>: padding, encryption, signing and key derivation around OpenSSL. The library
  is a parameter: random bytes, digests, ciphers, signatures. \<open>None\<close> is an access outside of an
  array or the use of bytes that were never written.
\<close>

datatype direction = Encrypting | Decrypting

text \<open>
  \<open>cy_update\<close> takes the direction the context was initialised for, the direction of the call, the
  key and the data. \<open>cy_rest\<close> is what the stack holds behind a digest. \<open>cy_sign\<close> gives the text of a
  signature, \<open>cy_size\<close> the largest size \<open>ECDSA_size\<close> gives.
\<close>

record crypto_lib =
  cy_random :: "nat \<Rightarrow> string option"
  cy_sha256 :: "string \<Rightarrow> string"
  cy_sha512 :: "string \<Rightarrow> string"
  cy_rest :: string
  cy_update :: "direction \<Rightarrow> direction \<Rightarrow> string \<Rightarrow> string \<Rightarrow> string option"
  cy_pbkdf2 :: "string \<Rightarrow> string \<Rightarrow> int \<Rightarrow> nat \<Rightarrow> string option"
  cy_sign :: "string \<Rightarrow> string \<Rightarrow> string"
  cy_size :: nat
  cy_verify :: "string \<Rightarrow> string \<Rightarrow> string \<Rightarrow> bool"

text \<open>A byte as a \<open>char\<close>, which is signed.\<close>

definition schar :: "char \<Rightarrow> int" where
  "schar c = (if ord c < 128 then int (ord c) else int (ord c) - 256)"

definition Crypto_random :: "crypto_lib \<Rightarrow> nat \<Rightarrow> string" where
  "Crypto_random Y bs = (case cy_random Y bs of None \<Rightarrow> [] | Some bytes \<Rightarrow> bytes)"

section \<open>Padding\<close>

definition pad :: "crypto_lib \<Rightarrow> string \<Rightarrow> nat \<Rightarrow> string" where
  "pad Y data bs =
    (let offset = length data mod bs in
     if offset = 0 then data @ Crypto_random Y (bs - 1) @ [char_of bs]
     else (let bs = bs - offset; data = (if bs > 1 then data @ Crypto_random Y (bs - 1) else data)
           in data @ [char_of bs]))"

text \<open>The last byte says how much to cut; a negative one would lengthen the data by unwritten bytes.\<close>

definition unpad :: "string \<Rightarrow> nat \<Rightarrow> string option" where
  "unpad padded iv =
    (let data = (if iv \<noteq> 0 then drop iv padded else padded) in
     if data = [] then None
     else (let n = schar (last data) in
           if n < 0 then None else Some (take (length data - nat n) data)))"

section \<open>Digests\<close>

text \<open>
  Both functions return as many bytes of the buffer as the data has: a prefix of the digest, or the
  digest and what follows it, or bytes outside of the buffer.
\<close>

definition sha256 :: "crypto_lib \<Rightarrow> string \<Rightarrow> string option" where
  "sha256 Y data = (if length data > 64 then None else Some (take (length data) (cy_sha256 Y data @ cy_rest Y)))"

definition sha512 :: "crypto_lib \<Rightarrow> string \<Rightarrow> string option" where
  "sha512 Y data = (if length data > 128 then None else Some (take (length data) (cy_sha512 Y data @ cy_rest Y)))"

section \<open>Encryption\<close>

definition key_ok :: "string \<Rightarrow> bool" where
  "key_ok key \<longleftrightarrow> length key = 16 \<or> length key = 32"

text \<open>The block size of AES, which \<open>EVP_CIPHER_block_size\<close> gives for both key sizes.\<close>

definition align :: nat where
  "align = 16"

definition cipher_out :: "crypto_lib \<Rightarrow> string \<Rightarrow> string \<Rightarrow> string" where
  "cipher_out Y key data = (case cy_update Y Decrypting Encrypting key data of None \<Rightarrow> [] | Some out \<Rightarrow> out)"

definition encrypt :: "crypto_lib \<Rightarrow> string \<Rightarrow> string \<Rightarrow> bool \<Rightarrow> string option" where
  "encrypt Y data key isSigned =
    (if \<not> key_ok key then Some []
     else (let input = pad Y data align in
       if isSigned then Some (cipher_out Y key input)
       else do { sha \<leftarrow> sha256 Y input; Some (cipher_out Y key (input @ sha)) }))"

definition right32 :: "string \<Rightarrow> string" where
  "right32 s = drop (length s - 32) s"

definition decrypt :: "crypto_lib \<Rightarrow> string \<Rightarrow> string \<Rightarrow> bool \<Rightarrow> string option" where
  "decrypt Y data key isSigned =
    (if \<not> key_ok key then Some []
     else (case cy_update Y Decrypting Decrypting key data of None \<Rightarrow> Some []
       | Some out \<Rightarrow>
         if isSigned then unpad out 0
         else (let sha = right32 out; out = take (length out - 32) out in do {
           digest \<leftarrow> sha256 Y out;
           if sha = digest then unpad out 0 else Some [] })))"

section \<open>Signatures and keys\<close>

text \<open>The result has the largest size a signature can have, not its own.\<close>

definition sign :: "crypto_lib \<Rightarrow> string \<Rightarrow> string \<Rightarrow> string option" where
  "sign Y prikey data =
    (if length prikey \<noteq> 32 then Some []
     else do { digest \<leftarrow> sha256 Y data; Some (take (cy_size Y) (cy_sign Y prikey digest @ cy_rest Y)) })"

definition verify :: "crypto_lib \<Rightarrow> string \<Rightarrow> string \<Rightarrow> string \<Rightarrow> bool option" where
  "verify Y pubkey data sig =
    (if length pubkey \<noteq> 33 then Some False
     else do { digest \<leftarrow> sha256 Y data; Some (cy_verify Y pubkey digest sig) })"

definition encrypt_signed :: "crypto_lib \<Rightarrow> string \<Rightarrow> string \<Rightarrow> string \<Rightarrow> string option" where
  "encrypt_signed Y data key pri =
    (if \<not> key_ok key then Some []
     else (let input = pad Y data align in do {
       sig \<leftarrow> sign Y pri input; Some (cipher_out Y key (input @ sig)) }))"

definition decrypt_signed :: "crypto_lib \<Rightarrow> string \<Rightarrow> string \<Rightarrow> string \<Rightarrow> string option" where
  "decrypt_signed Y data key pub =
    (if \<not> key_ok key then Some []
     else (case cy_update Y Decrypting Decrypting key data of None \<Rightarrow> Some []
       | Some out \<Rightarrow> (let sig = right32 out; out = take (length out - 32) out in do {
           ok \<leftarrow> verify Y pub out sig;
           if ok then unpad out 0 else Some [] })))"

definition keygen :: "crypto_lib \<Rightarrow> string \<Rightarrow> int \<Rightarrow> int \<Rightarrow> string \<Rightarrow> string" where
  "keygen Y secret keysize rounds salt =
    (let bs = (if keysize = 16 \<or> keysize = 128 then 16 else if keysize = 32 \<or> keysize = 256 then 32 else 0) in
     if bs = 0 then [] else (case cy_pbkdf2 Y secret salt rounds bs of None \<Rightarrow> [] | Some key \<Rightarrow> key))"

section \<open>Properties\<close>

text \<open>
  Removing the padding gives the data back. With random bytes at hand, padding to a block size of
  1 to 64 bytes makes the length a multiple of it, adds 1 to \<open>size\<close> bytes, and \<open>unpad\<close> returns
  exactly the original data, whatever bytes it ends with.
\<close>

theorem unpad_pad:
  assumes "0 < bs" "bs \<le> 64" "\<forall>n. length (Crypto_random Y n) = n"
  shows "unpad (pad Y data bs) 0 = Some data \<and> length (pad Y data bs) mod bs = 0 \<and>
    length data < length (pad Y data bs) \<and> length (pad Y data bs) \<le> length data + bs"
proof -
  let ?n = "bs - length data mod bs"
  have n: "0 < ?n" "?n \<le> bs" using assms(1) mod_less_divisor[of bs "length data"] by simp_all
  have pad: "pad Y data bs = data @ Crypto_random Y (?n - 1) @ [char_of ?n]"
    using assms(3)[rule_format, of 0] by (auto simp: pad_def Let_def)
  have len: "length (pad Y data bs) = length data + ?n" using pad assms(3) n by simp
  have "schar (char_of ?n) = int ?n" using n assms(2) by (simp add: schar_def)
  then have "unpad (pad Y data bs) 0 = Some (take (length data) (pad Y data bs))"
    using len n by (simp add: unpad_def Let_def) (simp add: pad)
  moreover have "(length data + ?n) mod bs = 0"
  proof -
    have "length data + ?n = (length data div bs + 1) * bs"
    proof -
      have "length data mod bs < bs" using assms(1) by simp
      moreover have "length data = length data div bs * bs + length data mod bs" by simp
      ultimately show ?thesis by (metis Nat.add_diff_assoc add.assoc add_mult_distrib diff_add_inverse2 less_imp_le nat_mult_1 add.commute)
    qed
    then show ?thesis by simp
  qed
  ultimately show ?thesis using len n by (simp add: pad)
qed

lemma sha256_length: "\<lbrakk>length (cy_sha256 Y x) = 32; length (cy_rest Y) \<ge> 32; length x \<le> 64\<rbrakk> \<Longrightarrow>
    \<exists>h. sha256 Y x = Some h \<and> length h = length x"
  by (simp add: sha256_def)

text \<open>
  Encryption can be undone for 16 to 31 bytes only. Even with an OpenSSL that lets a context
  initialised for decryption encrypt (the code initialises both that way), decrypting the
  encryption of a non-empty text gives it back exactly when it has 16 to 31 bytes: the digest that is
  appended has as many bytes as the padded text, and 32 are compared.
\<close>

theorem encryption_lengths:
  assumes "key_ok key" "\<forall>n. length (Crypto_random Y n) = n" "data \<noteq> []"
    "\<forall>x. length (cy_sha256 Y x) = 32" "length (cy_rest Y) = 96"
    "\<forall>x. length x mod 16 = 0 \<longrightarrow> (\<exists>y. cy_update Y Decrypting Encrypting key x = Some y \<and>
       cy_update Y Decrypting Decrypting key y = Some x)"
  shows "(\<exists>out. encrypt Y data key False = Some out \<and> decrypt Y out key False = Some data) \<longleftrightarrow>
    16 \<le> length data \<and> length data \<le> 31"
proof -
  let ?in = "pad Y data align"
  have pad: "unpad ?in 0 = Some data" "length ?in mod 16 = 0" "length data < length ?in" "length ?in \<le> length data + 16"
    using unpad_pad[of 16 Y data] assms(2) by (simp_all add: align_def)
  then obtain k where k: "length ?in = 16 * k" by (metis dvd_def mod_eq_0_iff_dvd)
  show ?thesis
  proof (cases "length ?in > 64")
    case True
    then have "encrypt Y data key False = None" using assms(1) by (simp add: encrypt_def Let_def sha256_def)
    with True pad(4) show ?thesis by simp
  next
    case False
    obtain h where h: "sha256 Y ?in = Some h" "length h = length ?in"
      using sha256_length[of Y ?in] assms(4,5) False by auto
    obtain y where y: "cy_update Y Decrypting Encrypting key (?in @ h) = Some y"
      "cy_update Y Decrypting Decrypting key y = Some (?in @ h)"
      using assms(6)[rule_format, of "?in @ h"] h(2) pad(2) by (auto simp: mod_add_eq[symmetric])
    have enc: "encrypt Y data key False = Some y"
      using assms(1) h(1) y(1) by (simp add: encrypt_def Let_def cipher_out_def)
    let ?out = "take (length (?in @ h) - 32) (?in @ h)"
    have dec: "decrypt Y y key False = (case sha256 Y ?out of None \<Rightarrow> None
        | Some digest \<Rightarrow> if right32 (?in @ h) = digest then unpad ?out 0 else Some [])"
      using assms(1) y(2) by (simp add: decrypt_def Let_def split: Option.bind_split)
    have k_cases: "k = 1 \<or> k = 2 \<or> k = 3 \<or> k = 4" using k False pad(3) by linarith
    have range: "16 \<le> length data \<and> length data \<le> 31 \<longleftrightarrow> k = 2" using k pad(3,4) by linarith
    have len: "length ?out = 32 * k - 32" "length (right32 (?in @ h)) = 32" using k h(2) k_cases by (auto simp: right32_def)
    have undone: "decrypt Y y key False = Some data \<longleftrightarrow> k = 2"
    proof (cases "k = 2")
      case True
      then have "?out = ?in" "right32 (?in @ h) = h" using k h(2) by (simp_all add: right32_def)
      with True h(1) pad(1) show ?thesis by (simp add: dec)
    next
      case False
      have "decrypt Y y key False \<noteq> Some data"
      proof (cases "sha256 Y ?out")
        case (Some digest)
        then have "length digest \<noteq> 32"
          using len(1) k_cases False assms(4,5) by (auto simp: sha256_def split: if_splits)
        then have "right32 (?in @ h) \<noteq> digest" using len(2) by auto
        with Some assms(3) show ?thesis by (simp add: dec)
      qed (simp add: dec)
      with False show ?thesis by simp
    qed
    show ?thesis using enc undone range by simp
  qed
qed

text \<open>A library whose cipher changes nothing.\<close>

definition sample_crypto :: crypto_lib where
  "sample_crypto = \<lparr>cy_random = (\<lambda>n. Some (replicate n CHR ''x'')), cy_sha256 = (\<lambda>_. replicate 32 CHR ''h''),
     cy_sha512 = (\<lambda>_. replicate 64 CHR ''h''), cy_rest = replicate 96 CHR ''r'', cy_update = (\<lambda>_ _ _ x. Some x),
     cy_pbkdf2 = (\<lambda>_ _ _ n. Some (replicate n CHR ''k'')), cy_sign = (\<lambda>_ d. d), cy_size = 72, cy_verify = (\<lambda>_ d s. s = d)\<rparr>"

lemma sample_random: "\<forall>n. length (Crypto_random sample_crypto n) = n"
  by (simp add: Crypto_random_def sample_crypto_def)

lemma unpad_pad_witness: "unpad (pad sample_crypto ''secret'' 16) 0 = Some ''secret''"
  using unpad_pad[of 16 sample_crypto "''secret''"] sample_random by simp

lemma encryption_lengths_witness:
  "(\<exists>out. encrypt sample_crypto (replicate 20 CHR ''a'') (replicate 16 CHR ''k'') False = Some out \<and>
      decrypt sample_crypto out (replicate 16 CHR ''k'') False = Some (replicate 20 CHR ''a'')) \<and>
   \<not> (\<exists>out. encrypt sample_crypto ''short'' (replicate 16 CHR ''k'') False = Some out \<and>
      decrypt sample_crypto out (replicate 16 CHR ''k'') False = Some ''short'')"
  using encryption_lengths[of "replicate 16 CHR ''k''" sample_crypto "replicate 20 CHR ''a''"]
    encryption_lengths[of "replicate 16 CHR ''k''" sample_crypto "''short''"] sample_random
  by (simp add: key_ok_def sample_crypto_def)

text \<open>
  With an OpenSSL that refuses to encrypt with a context initialised for decryption, as version
  1.1 and later do, encrypting gives the empty text whatever the data, the key and the signature, or
  runs out of the buffer of the digest.
\<close>

theorem encryption_refused:
  assumes "\<forall>k x. cy_update Y Decrypting Encrypting k x = None"
  shows "encrypt Y data key isSigned \<in> {None, Some []} \<and> encrypt_signed Y data key pri \<in> {None, Some []}"
  using assms
  by (auto simp: encrypt_def encrypt_signed_def cipher_out_def Let_def split: Option.bind_split)

lemma encryption_refused_witness:
  "encrypt (sample_crypto\<lparr>cy_update := \<lambda>_ _ _ _. None\<rparr>) ''data'' (replicate 16 CHR ''k'') True \<in> {None, Some []}"
  using encryption_refused[of "sample_crypto\<lparr>cy_update := \<lambda>_ _ _ _. None\<rparr>" "''data''" "replicate 16 CHR ''k''" True] by simp

end
