(* ===== verification/ClientRequests.thy ===== *)
theory ClientRequests
  imports Events "HOL-Library.Monad_Syntax"
begin

text \<open>
  The client's connector (\<open>Connect/connector.cpp\<close>): the requests it sends to the server and how it
  turns the answers into signals of the user interface. Whether eXosip2 builds a message is the
  argument \<open>built\<close>; a request is what the code hands over to it.
\<close>

section \<open>The connector\<close>

text \<open>The credentials, a \<open>QVariantHash\<close> of texts.\<close>

type_synonym credentials = "string \<rightharpoonup> string"

definition cred :: "credentials \<Rightarrow> string \<Rightarrow> string" where
  "cred creds key = (case creds key of None \<Rightarrow> [] | Some v \<Rightarrow> v)"

record connector =
  cn_active :: bool
  cn_exiting :: bool
  cn_creds :: credentials
  cn_id :: string
  cn_host :: string
  cn_port :: quint16
  cn_schema :: string
  cn_label :: string
  cn_display :: string
  cn_uriFrom :: string
  cn_uriRoute :: string
  cn_sipFrom :: string
  cn_tls :: int

text \<open>\<open>QVariant::toUInt\<close> of a text, then the cast to 16 bits; \<open>secure\<close>: there is a certificate.\<close>

definition toUInt :: "string \<Rightarrow> quint32" where
  "toUInt s = (let s = (if NUL \<in> set s then [] else trimmed s) in
     case scan_number 10 s of Some (v, rest) \<Rightarrow> if rest = [] \<and> 0 \<le> v \<and> v < 2 ^ 32 then of_int v else 0 | None \<Rightarrow> 0)"

definition server_port :: "credentials \<Rightarrow> bool \<Rightarrow> quint16" where
  "server_port creds secure =
    (let port = ucast (toUInt (cred creds ''port''));
         port = (if port = 0 then 5060 else port)
     in if port = 0 then (if secure then 5061 else 5060) else port)"

definition Connector_new :: "credentials \<Rightarrow> bool \<Rightarrow> connector" where
  "Connector_new creds secure =
    (let schema = (if secure then ''sips:'' else ''sip:'');
         ident = cred creds ''extension''; host = cred creds ''host''; port = server_port creds secure;
         display = cred creds ''display''; uriFrom = uri_id schema ident host port
     in \<lparr>cn_active = True, cn_exiting = False, cn_creds = creds(''schema'' \<mapsto> schema), cn_id = ident, cn_host = host,
         cn_port = port, cn_schema = schema, cn_label = cred creds ''label'', cn_display = display,
         cn_uriFrom = uriFrom, cn_uriRoute = uri_server schema host port,
         cn_sipFrom = [CHR 0x22] @ display @ [CHR 0x22] @ '' <'' @ uriFrom @ ''>'',
         cn_tls = (if secure then 1 else 0)\<rparr>)"

definition Connector_stop :: "bool \<Rightarrow> connector \<Rightarrow> connector" where
  "Connector_stop flag cn = cn\<lparr>cn_exiting := flag, cn_active := False\<rparr>"

section \<open>Requests\<close>

text \<open>The last component is the content type and body, if there is one.\<close>

record client_request =
  cr_method :: string
  cr_to :: string
  cr_from :: string
  cr_route :: string
  cr_headers :: "(string \<times> string) list"
  cr_content :: "(string \<times> string) option"

definition build_request :: "bool \<Rightarrow> string \<Rightarrow> string \<Rightarrow> string \<Rightarrow> string \<Rightarrow> (string \<times> string) list \<Rightarrow>
    (string \<times> string) option \<Rightarrow> client_request option" where
  "build_request built method to from route headers content =
    (if \<not> built then None
     else Some \<lparr>cr_method = method, cr_to = to, cr_from = from, cr_route = route, cr_headers = headers,
                cr_content = content\<rparr>)"

definition angled :: "string \<Rightarrow> string" where
  "angled to = ''<'' @ to @ ''>''"

definition content_of :: "string \<Rightarrow> string \<Rightarrow> (string \<times> string) option" where
  "content_of type body = (if length body > 0 then Some (type, body) else None)"

definition user_request :: "bool \<Rightarrow> connector \<Rightarrow> string \<Rightarrow> string \<Rightarrow> (string \<times> string) list \<Rightarrow>
    (string \<times> string) option \<Rightarrow> client_request option" where
  "user_request built cn method to headers content =
    build_request built method to (cn_sipFrom cn) (cn_uriRoute cn) headers content"

definition requestDeauthorize_client :: "bool \<Rightarrow> string \<Rightarrow> connector \<Rightarrow> client_request option" where
  "requestDeauthorize_client built to cn = user_request built cn ''X-DEAUTHORIZE''
     (angled (uri_id (cn_schema cn) to (cn_host cn) (cn_port cn))) [(''X-Label'', cn_label cn)] None"

definition removeDevice_client :: "bool \<Rightarrow> string \<Rightarrow> connector \<Rightarrow> client_request option" where
  "removeDevice_client built label cn = user_request built cn ''X-DEVKILL'' (cn_sipFrom cn)
     [(''X-Label'', cn_label cn), (''X-Remove'', label)] None"

definition createAuthorize :: "bool \<Rightarrow> string \<Rightarrow> string \<Rightarrow> connector \<Rightarrow> client_request option" where
  "createAuthorize built to body cn = user_request built cn ''X-AUTHORIZE''
     (angled (uri_id (cn_schema cn) to (cn_host cn) (cn_port cn))) [(''X-Label'', cn_label cn)]
     (content_of ''authorize/json'' body)"

definition changeTopic_client :: "bool \<Rightarrow> string \<Rightarrow> string \<Rightarrow> string \<Rightarrow> connector \<Rightarrow> client_request option" where
  "changeTopic_client built to subject body cn = user_request built cn ''X-TOPIC'' (angled to)
     [(''Subject'', subject), (''X-Label'', cn_label cn)] (content_of ''text/plain'' body)"

datatype forwarding = Fwd_NA | Fwd_BUSY | Fwd_AWAY

fun forwarding_subject :: "forwarding \<Rightarrow> string" where
  "forwarding_subject Fwd_NA = ''NA''"
| "forwarding_subject Fwd_BUSY = ''BUSY''"
| "forwarding_subject Fwd_AWAY = ''AWAY''"

definition destination_text :: "int \<Rightarrow> string" where
  "destination_text target = (if target > -1 then number target else ''NONE'')"

definition changeForwarding_client :: "bool \<Rightarrow> string \<Rightarrow> forwarding \<Rightarrow> int \<Rightarrow> connector \<Rightarrow> client_request option" where
  "changeForwarding_client built to fwd target cn = user_request built cn ''X-FORWARDING'' (angled to)
     [(''Subject'', forwarding_subject fwd), (''X-Label'', cn_label cn), (''X-Destination'', destination_text target)] None"

definition coverage_text :: "int \<Rightarrow> string" where
  "coverage_text priority = (if priority \<ge> 0 then number priority else ''never'')"

definition changeCoverage_client :: "bool \<Rightarrow> string \<Rightarrow> int \<Rightarrow> connector \<Rightarrow> client_request option" where
  "changeCoverage_client built to priority cn = user_request built cn ''X-COVERAGE'' (angled to)
     [(''X-Label'', cn_label cn), (''X-Priority'', coverage_text priority)] None"

definition changeMemebership :: "bool \<Rightarrow> string \<Rightarrow> string \<Rightarrow> string \<Rightarrow> string \<Rightarrow> string \<Rightarrow> string \<Rightarrow> connector \<Rightarrow>
    client_request option" where
  "changeMemebership built to subject members admin notify reason cn = user_request built cn ''X-MEMBERSHIP'' (angled to)
     [(''Subject'', subject), (''X-Label'', cn_label cn), (''X-Group-Member'', members), (''X-Group-Admin'', admin),
      (''X-Notify'', notify), (''X-Reason'', escape reason)] None"

definition disconnectUser :: "bool \<Rightarrow> string \<Rightarrow> connector \<Rightarrow> client_request option" where
  "disconnectUser built to cn = user_request built cn ''X-DROP'' (angled to) [(''X-Label'', cn_label cn)] None"

definition flag_text :: "bool \<Rightarrow> string" where
  "flag_text flag = (if \<not> flag then ''0'' else ''1'')"

definition changeSuspend :: "bool \<Rightarrow> string \<Rightarrow> bool \<Rightarrow> connector \<Rightarrow> client_request option" where
  "changeSuspend built to suspended cn = user_request built cn ''X-ADMIN'' (angled to)
     [(''X-Label'', cn_label cn), (''X-Suspend'', flag_text suspended)] None"

definition changeAdmin_client :: "bool \<Rightarrow> string \<Rightarrow> bool \<Rightarrow> connector \<Rightarrow> client_request option" where
  "changeAdmin_client built to enable cn = user_request built cn ''X-ADMIN'' (angled to)
     [(''X-Label'', cn_label cn), (''X-System'', flag_text enable)] None"

definition sendProfile_client :: "bool \<Rightarrow> string \<Rightarrow> string \<Rightarrow> connector \<Rightarrow> client_request option" where
  "sendProfile_client built to body cn = user_request built cn ''X-PROFILE'' (angled to)
     [(''X-Label'', cn_label cn)] (content_of ''profile/json'' body)"

definition requestProfile_client :: "bool \<Rightarrow> string \<Rightarrow> connector \<Rightarrow> client_request option" where
  "requestProfile_client built who cn = sendProfile_client built who [] cn"

text \<open>The requests to the server itself.\<close>

definition server_request :: "bool \<Rightarrow> string \<Rightarrow> connector \<Rightarrow> client_request option" where
  "server_request built method cn =
    (let to = uri_server (cn_schema cn) (cn_host cn) (cn_port cn);
         from = uri_id (cn_schema cn) (cn_id cn) (cn_host cn) (cn_port cn)
     in build_request built method to from to [(''X-Label'', cn_label cn)] None)"

definition requestRoster_client :: "bool \<Rightarrow> connector \<Rightarrow> client_request option" where
  "requestRoster_client built = server_request built ''X-ROSTER''"

definition requestDeviceList :: "bool \<Rightarrow> connector \<Rightarrow> client_request option" where
  "requestDeviceList built = server_request built ''X-DEVLIST''"

definition requestPending_client :: "bool \<Rightarrow> connector \<Rightarrow> client_request option" where
  "requestPending_client built = server_request built ''X-PENDING''"

definition ackPending_client :: "bool \<Rightarrow> connector \<Rightarrow> client_request option" where
  "ackPending_client built = server_request built ''A-PENDING''"

definition sendText :: "bool \<Rightarrow> string \<Rightarrow> string \<Rightarrow> string \<Rightarrow> connector \<Rightarrow> client_request option" where
  "sendText built to body subject cn = user_request built cn ''MESSAGE'' (angled to)
     [(''Subject'', subject), (''X-Label'', cn_label cn)] (Some (''text/plain'', body))"

section \<open>Answers\<close>

text \<open>The text of a time is read by \<open>QDateTime::fromString\<close>, a parameter; \<open>None\<close> is an invalid time.\<close>

type_synonym read_time = "string \<Rightarrow> qdatetime option"

datatype client_signal =
    TopicFailed
  | MessageResult int "qdatetime option" int
  | StatusResult int
  | Failure int
  | SyncPending string
  | RosterChanged string
  | ProfileChanged string
  | DeviceListChanged string
  | DeauthorizeUser string

text \<open>What the client does: signals to the user interface, requests, and plain answers to a transaction.\<close>

datatype 's client_effect =
    Signal 's
  | Send client_request
  | Send_register "(string \<times> string) list"
  | Send_code int int
  | Authentication_info string string string string string

definition send_built :: "client_request option \<Rightarrow> 's client_effect list" where
  "send_built rq = (case rq of None \<Rightarrow> [] | Some r \<Rightarrow> [Send r])"

definition Connector_add_authentication :: "connector \<Rightarrow> 's client_effect list" where
  "Connector_add_authentication cn = [Authentication_info (cn_id cn) (cred (cn_creds cn) ''user'')
     (cred (cn_creds cn) ''secret'') (cred (cn_creds cn) ''algorithm'') (cred (cn_creds cn) ''realm'')]"

text \<open>\<open>processRoster\<close> and its likes: a signal with the body, if there is one.\<close>

definition process_body :: "(string \<Rightarrow> client_signal) \<Rightarrow> osip_message \<Rightarrow> client_signal client_effect list" where
  "process_body sig response = (case msg_body response of None \<Rightarrow> []
     | Some body \<Rightarrow> if length body > 0 then [Signal (sig body)] else [])"

definition processDeauthorize :: "osip_message \<Rightarrow> client_signal client_effect list" where
  "processDeauthorize request = (case to_username request of None \<Rightarrow> []
     | Some user \<Rightarrow> [Signal (DeauthorizeUser (unquote [CHR 0x22] (cstr user)))])"

definition authorized_target :: "bool \<Rightarrow> osip_message \<Rightarrow> connector \<Rightarrow> client_signal client_effect list" where
  "authorized_target built request cn =
    (let target = (case to_username request of None \<Rightarrow> ''0'' | Some user \<Rightarrow> cstr user)
     in if toInt target > 0 then send_built (requestProfile_client built
          (uri_id (cn_schema cn) target (cn_host cn) (cn_port cn)) cn) else [])"

definition message_answered :: "read_time \<Rightarrow> osip_message \<Rightarrow> client_signal client_effect list" where
  "message_answered fromIso response =
    (let sequence = (case header_value response ''x-ms'' of Some v \<Rightarrow> atoi v | None \<Rightarrow> 0)
     in case header_value response ''x-ts'' of
          Some v \<Rightarrow> [Signal (MessageResult SIP_OK (fromIso (cstr v)) sequence)]
        | None \<Rightarrow> [Signal (MessageResult SIP_OK None 0)])"

definition request_succeeded :: "read_time \<Rightarrow> bool \<Rightarrow> osip_message \<Rightarrow> osip_message \<Rightarrow> connector \<Rightarrow> client_signal client_effect list" where
  "request_succeeded fromIso built request response cn =
    (if MSG_IS ''X-ROSTER'' request then process_body RosterChanged response
     else if \<exists>m \<in> set [''X-PROFILE'', ''X-COVERAGE'', ''X-MEMBERSHIP'', ''X-FORWARDING'', ''X-DEVKILL'', ''X-ADMIN'', ''X-DROP''].
       MSG_IS m request then process_body ProfileChanged response
     else if MSG_IS ''X-AUTHORIZE'' request then Signal (StatusResult SIP_OK) # authorized_target built request cn
     else if MSG_IS ''X-DEAUTHORIZE'' request then processDeauthorize request
     else if MSG_IS ''X-DEVLIST'' request then process_body DeviceListChanged response
     else if MSG_IS ''X-PENDING'' request then process_body SyncPending response
     else if MSG_IS ''MESSAGE'' request then message_answered fromIso response
     else [])"

text \<open>A failed request; \<open>666\<close> stands for no response at all.\<close>

definition failure_code :: "osip_message option \<Rightarrow> int" where
  "failure_code response = (case response of None \<Rightarrow> 666 | Some r \<Rightarrow> msg_status r)"

definition request_failed :: "osip_message \<Rightarrow> osip_message option \<Rightarrow> client_signal client_effect list" where
  "request_failed request response =
    (let error = failure_code response in
     (if MSG_IS ''X-TOPIC'' request then [Signal TopicFailed] else []) @
     (if MSG_IS ''MESSAGE'' request then [Signal (MessageResult error None 0)] else []) @
     (if error \<noteq> SIP_UNAUTHORIZED then [Signal (StatusResult error)] else []) @
     (if error = 666 then [Signal (Failure 666)] else []))"

text \<open>
  One event of the loop in \<open>run\<close>. eXosip2 supplies the request of the events that read it; without
  one the code follows a null pointer (\<open>None\<close>).
\<close>

definition connector_event :: "read_time \<Rightarrow> bool \<Rightarrow> exosip_event \<Rightarrow> connector \<Rightarrow> client_signal client_effect list option" where
  "connector_event fromIso built evt cn =
    (if ex_type evt = MESSAGE_REQUESTFAILURE then
       map_option (\<lambda>request. request_failed request (ex_response evt)) (ex_request evt)
     else if ex_type evt = MESSAGE_ANSWERED then
       (case ex_response evt of None \<Rightarrow> Some []
        | Some response \<Rightarrow> do {
            request \<leftarrow> ex_request evt;
            Some (if msg_status response = SIP_OK then request_succeeded fromIso built request response cn
              else (if MSG_IS ''X-TOPIC'' request then [Signal TopicFailed] else []) @
                [Signal (StatusResult (msg_status response))]) })
     else if ex_type evt = MESSAGE_NEW then do {
       request \<leftarrow> ex_request evt;
       Some (if MSG_IS ''REGISTER'' request then [Send_code (ex_tid evt) SIP_METHOD_NOT_ALLOWED] else []) }
     else Some [])"

end
