(* ===== verification/ClientListener.thy ===== *)
theory ClientListener
  imports ClientRequests
begin

text \<open>
  The client's listener (\<open>Connect/listener.cpp\<close>): it registers with the server, answers its
  challenge, reads the description the server sends with the registration and receives messages.
\<close>

section \<open>The listener\<close>

record listener =
  ls_active :: bool
  ls_connected :: bool
  ls_registered :: bool
  ls_authenticated :: bool
  ls_exiting :: bool
  ls_creds :: credentials
  ls_init :: string
  ls_id :: string
  ls_host :: string
  ls_port :: quint16
  ls_schema :: string
  ls_label :: string
  ls_user :: string
  ls_contact :: string
  ls_first :: int
  ls_last :: int
  ls_rid :: int
  ls_tls :: int
  ls_uriFrom :: string
  ls_uriRoute :: string
  ls_sipLocal :: string
  ls_sipFrom :: string
  ls_banner :: string
  ls_online :: string
  ls_roster :: quint32 \<comment> \<open>the static \<open>rosterSequence\<close>, which outlives the object\<close>

definition Listener_new :: "credentials \<Rightarrow> bool \<Rightarrow> quint32 \<Rightarrow> listener" where
  "Listener_new creds secure roster =
    (let schema = (if secure then ''sips:'' else ''sip:'')
     in \<lparr>ls_active = True, ls_connected = False, ls_registered = False, ls_authenticated = False,
         ls_exiting = False, ls_creds = creds(''initialize'' \<mapsto> [], ''schema'' \<mapsto> schema),
         ls_init = cred creds ''initialize'', ls_id = cred creds ''extension'', ls_host = cred creds ''host'',
         ls_port = server_port creds secure, ls_schema = schema, ls_label = cred creds ''label'', ls_user = [],
         ls_contact = ''unknown'', ls_first = -1, ls_last = -1, ls_rid = -1, ls_tls = (if secure then 1 else 0),
         ls_uriFrom = [], ls_uriRoute = [], ls_sipLocal = [], ls_sipFrom = [], ls_banner = [], ls_online = [],
         ls_roster = roster\<rparr>)"

datatype listener_signal =
    ListenerStatus int
  | StatusChanged string int int
  | BannerChanged string
  | ListenerMessage int
  | ContactAddress string
  | ReceiveText string string string "qdatetime option" int string string
  | Authorized credentials
  | RosterUpdated
  | ListenerFailure int
  | ListenerFinished

definition listener_stop :: "bool \<Rightarrow> listener \<Rightarrow> listener" where
  "listener_stop shutdown ls = ls\<lparr>ls_exiting := shutdown, ls_active := False\<rparr>"

text \<open>The slot of the timer that runs five seconds after the construction.\<close>

definition listener_timeout :: "listener \<Rightarrow> listener \<times> listener_signal client_effect list" where
  "listener_timeout ls =
    (if ls_connected ls then (ls, []) else (ls\<lparr>ls_active := False\<rparr>, [Signal (ListenerFailure 666)]))"

section \<open>Registration\<close>

definition AGENT_ALLOWS :: string where
  "AGENT_ALLOWS = ''INVITE,ACK,OPTIONS,BYE,CANCEL,SUBSCRIBE,NOTIFY,REFER,MESSAGE,INFO,PING''"

definition registration_headers :: "listener \<Rightarrow> (string \<times> string) list" where
  "registration_headers ls =
    [(''Allow'', AGENT_ALLOWS), (''X-Label'', ls_label ls)] @
    (if ls_init ls \<noteq> [] then [(''X-Initialize'', ls_init ls)] else []) @
    (case ls_creds ls ''devkey'' of None \<Rightarrow> [] | Some key \<Rightarrow> [(''X-Device'', toHex key)])"

definition send_registration :: "bool \<Rightarrow> bool \<Rightarrow> listener \<Rightarrow> listener \<times> 's client_effect list" where
  "send_registration built auth ls =
    (if \<not> built \<or> ls_rid ls < 0 then (ls, [])
     else (if auth then ls\<lparr>ls_init := []\<rparr> else ls, [Send_register (registration_headers ls)]))"

text \<open>
  What the code reads of the authenticate headers of a response; \<open>first\<close> is the first
  \<open>Proxy-Authenticate\<close> or else the first \<open>WWW-Authenticate\<close>, which libosip2 parses.
\<close>

record auth_challenge =
  ac_realm :: "string option"
  ac_algorithm :: "string option"
  ac_nonce :: "string option"

definition challenge_field :: "string option \<Rightarrow> string" where
  "challenge_field v = unquote [CHR 0x22] (case v of None \<Rightarrow> [] | Some s \<Rightarrow> cstr s)"

definition get_authentication :: "osip_message option \<Rightarrow> auth_challenge option \<Rightarrow> listener \<Rightarrow> bool \<times> listener" where
  "get_authentication response chal ls = (case response of None \<Rightarrow> (False, ls)
     | Some msg \<Rightarrow>
       (let ls = (case header_value msg ''x-authorize'' of None \<Rightarrow> ls
              | Some v \<Rightarrow> ls\<lparr>ls_user := cstr v, ls_creds := (ls_creds ls)(''user'' \<mapsto> cstr v)\<rparr>)
        in case chal of None \<Rightarrow> (False, ls)
           | Some c \<Rightarrow> (True, ls\<lparr>ls_creds := (ls_creds ls)(''realm'' \<mapsto> challenge_field (ac_realm c),
               ''nonce'' \<mapsto> challenge_field (ac_nonce c),
               ''algorithm'' \<mapsto> toUpper (challenge_field (ac_algorithm c)))\<rparr>)))"

definition add_authentication :: "listener \<Rightarrow> listener \<times> 's client_effect list" where
  "add_authentication ls =
    (ls\<lparr>ls_authenticated := True\<rparr>, [Authentication_info (ls_id ls) (cred (ls_creds ls) ''user'')
       (cred (ls_creds ls) ''secret'') (cred (ls_creds ls) ''algorithm'') (cred (ls_creds ls) ''realm'')])"

section \<open>The description of the server\<close>

fun split_on :: "char \<Rightarrow> string \<Rightarrow> string list" where
  "split_on sep [] = [[]]"
| "split_on sep (c # cs) = (if c = sep then [] # split_on sep cs
     else (case split_on sep cs of [] \<Rightarrow> [[c]] | w # ws \<Rightarrow> (c # w) # ws))"

text \<open>\<open>QByteArray::toUInt\<close>\<close>

definition toUInt_bytes :: "string \<Rightarrow> quint32" where
  "toUInt_bytes s = (case scan_number 10 (cstr s) of
     Some (v, rest) \<Rightarrow> if rest = [] \<and> 0 \<le> v \<and> v < 2 ^ 32 then of_int v else 0 | None \<Rightarrow> 0)"

text \<open>One line; the last component is \<open>result["a"]\<close>.\<close>

type_synonym xdp_state = "listener \<times> listener_signal client_effect list \<times> string option"

definition xdp_line :: "qt_lib \<Rightarrow> string \<Rightarrow> xdp_state \<Rightarrow> xdp_state" where
  "xdp_line Q line st = (case st of (ls, out, bits) \<Rightarrow>
     (let key = take 2 line; val = drop 2 line in
      if key = ''b='' then
        (if val \<noteq> ls_banner ls then (ls\<lparr>ls_banner := val\<rparr>, out @ [Signal (BannerChanged val)], bits) else st)
      else if key = ''d='' then
        (ls\<lparr>ls_sipFrom := [CHR 0x22] @ val @ [CHR 0x22] @ '' <'' @ ls_uriFrom ls @ ''>'',
            ls_creds := (ls_creds ls)(''display'' \<mapsto> val)\<rparr>, out, bits)
      else if key = ''p='' then (ls\<lparr>ls_creds := (ls_creds ls)(''privs'' \<mapsto> val)\<rparr>, out, bits)
      else if key = ''f='' then (ls\<lparr>ls_first := toInt val\<rparr>, out, bits)
      else if key = ''r='' then
        (ls\<lparr>ls_roster := toUInt_bytes val\<rparr>,
         (if toUInt_bytes val \<noteq> ls_roster ls then out @ [Signal RosterUpdated] else out), bits)
      else if key = ''c='' then
        (ls\<lparr>ls_contact := val\<rparr>, (if val \<noteq> ls_contact ls then out @ [Signal (ContactAddress val)] else out), bits)
      else if key = ''l='' then (ls\<lparr>ls_last := toInt val\<rparr>, out, bits)
      else if key = ''a='' then
        (let online = q_fromBase64 Q val in
         if online \<noteq> ls_online ls then (ls\<lparr>ls_online := online\<rparr>, out, Some online) else st)
      else st))"

definition parseXdp :: "qt_lib \<Rightarrow> string \<Rightarrow> listener \<Rightarrow> xdp_state" where
  "parseXdp Q xdp ls = fold (xdp_line Q) (split_on (CHR 0x0A) xdp)
     (ls\<lparr>ls_creds := (ls_creds ls)(''privs'' \<mapsto> ''none'')\<rparr>, [], None)"

section \<open>Messages\<close>

definition listener_isLocal :: "listener \<Rightarrow> osip_uri \<Rightarrow> bool" where
  "listener_isLocal ls uri =
    (let basePort = (if ls_tls ls \<noteq> 0 then 5061 else 5060 :: quint16);
         host = (case uri_host uri of Some h \<Rightarrow> cstr h | None \<Rightarrow> []);
         port = (case uri_port uri of Some p \<Rightarrow> of_int (atoi p) | None \<Rightarrow> basePort)
     in if host = ls_host ls \<and> port = ls_port ls then True
        else if host \<noteq> ls_host ls then False
        else if ls_port ls = 0 \<and> port = basePort then True
        else ls_port ls = basePort \<and> port = 0)"

text \<open>A party of a message: its own id, a local id, or the uri; \<open>None\<close> when it cannot be printed.\<close>

definition party_of :: "qt_lib \<Rightarrow> listener \<Rightarrow> osip_uri \<Rightarrow> string \<Rightarrow> string option" where
  "party_of Q ls uri user =
    (if listener_isLocal ls uri then
       Some (if cstr user \<noteq> ls_id ls \<and> cstr user \<noteq> ls_user ls then cstr user else ls_id ls)
     else map_option cstr (q_uri_to_str Q uri))"

definition addressed :: "osip_from option \<Rightarrow> (osip_uri \<times> string) option" where
  "addressed party = do {
     p \<leftarrow> party;
     uri \<leftarrow> from_url p;
     user \<leftarrow> uri_username uri;
     Some (uri, user) }"

definition message_type :: "osip_content_type \<Rightarrow> string option" where
  "message_type t = (case ct_type t of None \<Rightarrow> None | Some m \<Rightarrow>
     Some (case ct_subtype t of Some sub \<Rightarrow> cstr m @ ''/'' @ cstr sub | None \<Rightarrow> cstr m))"

text \<open>The status of the answer, and the text that is signalled.\<close>

definition receive_text :: "qt_lib \<Rightarrow> read_time \<Rightarrow> osip_message \<Rightarrow> listener \<Rightarrow> int + listener_signal" where
  "receive_text Q fromIso msg ls =
    (case (msg_body msg, Option.bind (msg_content_type msg) message_type) of
       (Some body, Some type) \<Rightarrow>
         (case (addressed (msg_to msg), addressed (msg_from msg)) of
            (Some (to, touser), Some (origin, fromuser)) \<Rightarrow>
              (case (party_of Q ls to touser, party_of Q ls origin fromuser) of
                 (Some sipTo, Some sipFrom) \<Rightarrow>
                   if sipTo = sipFrom then Inl SIP_AMBIGUOUS
                   else if type \<noteq> ''text/plain'' \<and> type \<noteq> ''text/admin'' then Inl SIP_NOT_ACCEPTABLE_HERE
                   else if length body > 160 then Inl SIP_MESSAGE_TOO_LARGE
                   else Inr (ReceiveText sipFrom sipTo body
                     (case header_value msg ''x-ts'' of Some v \<Rightarrow> fromIso (cstr v) | None \<Rightarrow> None)
                     (case header_value msg ''x-ms'' of Some v \<Rightarrow> atoi v | None \<Rightarrow> 0)
                     (case header_value msg ''subject'' of Some v \<Rightarrow> cstr v | None \<Rightarrow> ''None'') type)
               | _ \<Rightarrow> Inl SIP_ADDRESS_INCOMPLETE)
          | _ \<Rightarrow> Inl SIP_ADDRESS_INCOMPLETE)
     | _ \<Rightarrow> Inl SIP_UNDECIPHERABLE)"

definition receiveMessage :: "qt_lib \<Rightarrow> read_time \<Rightarrow> int \<Rightarrow> osip_message \<Rightarrow> listener \<Rightarrow> listener_signal client_effect list" where
  "receiveMessage Q fromIso tid msg ls = (case receive_text Q fromIso msg ls of
     Inl status \<Rightarrow> [Send_code tid status]
   | Inr sig \<Rightarrow> [Signal sig, Send_code tid SIP_OK])"

section \<open>The loop\<close>

text \<open>
  What the library gives one turn of the loop: the event with the authenticate header of its response,
  or nothing when the wait timed out, then the result of building the first registration.
\<close>

record turn =
  tn_event :: "(exosip_event \<times> auth_challenge option) option"
  tn_rid :: int
  tn_built :: bool

definition connect_to :: "listener \<Rightarrow> listener" where
  "connect_to ls =
    (let uriFrom = uri_id (ls_schema ls) (ls_id ls) (ls_host ls) (ls_port ls)
     in ls\<lparr>ls_uriFrom := uriFrom, ls_uriRoute := uri_server (ls_schema ls) (ls_host ls) (ls_port ls),
           ls_sipLocal := mid uriFrom (indexOf uriFrom (CHR ''@'') + 1), ls_sipFrom := ''<'' @ uriFrom @ ''>''\<rparr>)"

definition idle_turn :: "int \<Rightarrow> bool \<Rightarrow> listener \<Rightarrow> listener \<times> listener_signal client_effect list" where
  "idle_turn rid built ls =
    (if ls_rid ls < 0 then
       (let ls = (connect_to ls)\<lparr>ls_rid := rid\<rparr>
        in if built \<and> rid > -1 then send_registration built False ls else (ls\<lparr>ls_active := False\<rparr>, []))
     else (ls, []))"

text \<open>
  A successful registration. \<open>atoi\<close> of a header without a value follows a null pointer (\<open>None\<close>); the
  seconds it gives are only logged.
\<close>

definition registration_success :: "qt_lib \<Rightarrow> osip_message option \<Rightarrow> listener \<Rightarrow>
    (listener \<times> listener_signal client_effect list) option" where
  "registration_success Q response ls = (case response of
     None \<Rightarrow> Some (ls\<lparr>ls_active := False\<rparr>, [])
   | Some msg \<Rightarrow>
       (let (ls, out, bits) = (case msg_body msg of
              Some body \<Rightarrow> if length body > 0 then parseXdp Q (cstr body) ls else (ls, [], None)
            | None \<Rightarrow> (ls, [], None))
        in if header_get msg ''expires'' 0 = Some None then None
           else Some (ls\<lparr>ls_registered := True\<rparr>, out @ [Signal (Authorized (ls_creds ls))] @
             (case bits of Some bitmap \<Rightarrow> if bitmap \<noteq> [] then [Signal (StatusChanged bitmap (ls_first ls) (ls_last ls))] else []
              | None \<Rightarrow> []))))"

definition registration_failure :: "exosip_event \<Rightarrow> auth_challenge option \<Rightarrow> listener \<Rightarrow>
    listener \<times> listener_signal client_effect list" where
  "registration_failure evt chal ls =
    (if ex_rid evt \<noteq> ls_rid ls then (ls, [])
     else (let error = failure_code (ex_response evt) in
       if error \<noteq> SIP_UNAUTHORIZED then (ls\<lparr>ls_active := False\<rparr>, [Signal (ListenerFailure error)])
       else (let (found, ls) = get_authentication (ex_response evt) chal ls in
         if found \<and> \<not> ls_authenticated ls then add_authentication ls
         else (ls\<lparr>ls_active := False\<rparr>, [Signal (ListenerFailure SIP_FORBIDDEN)]))))"

definition listener_event :: "qt_lib \<Rightarrow> read_time \<Rightarrow> exosip_event \<Rightarrow> auth_challenge option \<Rightarrow> listener \<Rightarrow>
    (listener \<times> listener_signal client_effect list) option" where
  "listener_event Q fromIso evt chal ls =
    (let ls = ls\<lparr>ls_connected := True\<rparr> in
     if ex_type evt = REGISTRATION_SUCCESS then registration_success Q (ex_response evt) ls
     else if ex_type evt = REGISTRATION_FAILURE then Some (registration_failure evt chal ls)
     else if ex_type evt = MESSAGE_REQUESTFAILURE then
       map_option (\<lambda>request. (ls, [Signal (if MSG_IS ''MESSAGE'' request
         then ListenerMessage (failure_code (ex_response evt)) else ListenerStatus (failure_code (ex_response evt)))]))
         (ex_request evt)
     else if ex_type evt = MESSAGE_NEW then
       map_option (\<lambda>request. (ls, if MSG_IS ''MESSAGE'' request then receiveMessage Q fromIso (ex_tid evt) request ls
         else [Send_code (ex_tid evt) SIP_METHOD_NOT_ALLOWED])) (ex_request evt)
     else Some (ls, []))"

definition listener_turn :: "qt_lib \<Rightarrow> read_time \<Rightarrow> turn \<Rightarrow> listener \<Rightarrow>
    (listener \<times> listener_signal client_effect list) option" where
  "listener_turn Q fromIso t ls = (case tn_event t of
     None \<Rightarrow> Some (idle_turn (tn_rid t) (tn_built t) ls)
   | Some (evt, chal) \<Rightarrow> listener_event Q fromIso evt chal ls)"

text \<open>\<open>while(active)\<close> over the turns the library gives.\<close>

fun listener_loop :: "qt_lib \<Rightarrow> read_time \<Rightarrow> turn list \<Rightarrow> listener \<Rightarrow>
    (listener \<times> listener_signal client_effect list) option" where
  "listener_loop Q fromIso [] ls = Some (ls, [])"
| "listener_loop Q fromIso (t # ts) ls =
    (if \<not> ls_active ls then Some (ls, [])
     else do {
       (ls, out) \<leftarrow> listener_turn Q fromIso t ls;
       (ls, out') \<leftarrow> listener_loop Q fromIso ts ls;
       Some (ls, out @ out') })"

text \<open>The end: a listener that is registered leaves the server and waits for its answer.\<close>

fun drain :: "event_type option list \<Rightarrow> listener \<Rightarrow> listener" where
  "drain [] ls = ls"
| "drain (e # es) ls =
    (if \<not> ls_registered ls then ls
     else case e of None \<Rightarrow> ls
       | Some type \<Rightarrow> drain es (if type = REGISTRATION_SUCCESS \<or> type = REGISTRATION_FAILURE
           then ls\<lparr>ls_registered := False\<rparr> else ls))"

definition listener_end :: "bool \<Rightarrow> event_type option list \<Rightarrow> listener \<Rightarrow> listener \<times> listener_signal client_effect list" where
  "listener_end built es ls =
    (let (ls, out) = (if ls_registered ls then send_registration built False ls else (ls, []));
         ls = drain es ls
     in (ls, out @ (if \<not> ls_exiting ls then [Signal ListenerFinished] else [])))"

section \<open>Message helpers\<close>

text \<open>\<open>Connect/message.cpp\<close>; \<open>sg\<close> and \<open>vf\<close> are \<open>Crypto::sign\<close> and \<open>Crypto::verify\<close>.\<close>

definition verify_body :: "(string \<Rightarrow> string \<Rightarrow> string \<Rightarrow> bool) \<Rightarrow> osip_message \<Rightarrow> string \<Rightarrow> bool" where
  "verify_body vf msg pubkey =
    (if length pubkey < 1 then False
     else case header_value msg ''x-signature'' of None \<Rightarrow> False
     | Some v \<Rightarrow> (case msg_body msg of None \<Rightarrow> False
         | Some body \<Rightarrow> if length body > 0 then vf pubkey body (fromHex (cstr v)) else False))"

definition sign_body :: "(string \<Rightarrow> string \<Rightarrow> string) \<Rightarrow> osip_message \<Rightarrow> string \<Rightarrow> osip_message \<times> bool" where
  "sign_body sg msg prikey =
    (if length prikey < 1 then (msg, False)
     else case msg_body msg of None \<Rightarrow> (msg, False)
     | Some body \<Rightarrow> if length body > 0
         then (msg\<lparr>msg_headers := msg_headers msg @ [(''x-signature'', Some (toHex (sg prikey body)))]\<rparr>, True)
         else (msg, False))"

definition response_of :: "qt_lib \<Rightarrow> credentials \<Rightarrow> string \<Rightarrow> string \<Rightarrow> string" where
  "response_of Q creds method uri =
    (let digest = digest_of crypto_digests (cred creds ''algorithm'');
         ha1 = hash_hex Q digest (cred creds ''user'' @ '':'' @ cred creds ''realm'' @ '':'' @ cred creds ''secret'');
         ha2 = hash_hex Q digest (method @ '':'' @ uri)
     in hash_hex Q digest (ha1 @ '':'' @ cred creds ''nonce'' @ '':'' @ ha2))"

definition authorization_text :: "qt_lib \<Rightarrow> credentials \<Rightarrow> string \<Rightarrow> string \<Rightarrow> string" where
  "authorization_text Q creds method uri =
    (let q = (\<lambda>s. [CHR 0x22] @ s @ [CHR 0x22])
     in ''Digest username='' @ q (cred creds ''user'') @ '', realm='' @ q (cred creds ''realm'') @
        '', uri='' @ q uri @ '', response='' @ q (response_of Q creds method uri) @
        '', nonce='' @ q (cred creds ''nonce'') @ '', algorithm='' @ q (cred creds ''algorithm''))"

text \<open>The request uri is printed by the library; a null one is the empty text.\<close>

definition add_authorization :: "qt_lib \<Rightarrow> osip_message \<Rightarrow> credentials \<Rightarrow> bool \<Rightarrow> osip_message" where
  "add_authorization Q msg creds authenticate =
    (let uri = (case msg_req_uri msg of None \<Rightarrow> [] | Some u \<Rightarrow> (case q_uri_to_str Q u of None \<Rightarrow> [] | Some s \<Rightarrow> cstr s));
         auth = authorization_text Q creds (cstr (msg_method msg)) uri
     in msg\<lparr>msg_headers := msg_headers msg @
          [((if authenticate then ''WWW-Authenticate'' else ''Authorization''), Some auth)]\<rparr>)"

definition toStr :: "event_type \<Rightarrow> string" where
  "toStr ev = (case ev of
      REGISTRATION_SUCCESS \<Rightarrow> ''register''
    | CALL_INVITE \<Rightarrow> ''invite''
    | CALL_REINVITE \<Rightarrow> ''reinvite''
    | CALL_NOANSWER \<Rightarrow> ''noanswer'' | SUBSCRIPTION_NOANSWER \<Rightarrow> ''noanswer'' | NOTIFICATION_NOANSWER \<Rightarrow> ''noanswer''
    | MESSAGE_PROCEEDING \<Rightarrow> ''proceed'' | NOTIFICATION_PROCEEDING \<Rightarrow> ''proceed''
    | CALL_MESSAGE_PROCEEDING \<Rightarrow> ''proceed'' | SUBSCRIPTION_PROCEEDING \<Rightarrow> ''proceed'' | CALL_PROCEEDING \<Rightarrow> ''proceed''
    | CALL_RINGING \<Rightarrow> ''ring''
    | MESSAGE_ANSWERED \<Rightarrow> ''answer'' | CALL_ANSWERED \<Rightarrow> ''answer'' | CALL_MESSAGE_ANSWERED \<Rightarrow> ''answer''
    | SUBSCRIPTION_ANSWERED \<Rightarrow> ''answer'' | NOTIFICATION_ANSWERED \<Rightarrow> ''answer''
    | SUBSCRIPTION_REDIRECTED \<Rightarrow> ''redirect'' | NOTIFICATION_REDIRECTED \<Rightarrow> ''redirect''
    | CALL_MESSAGE_REDIRECTED \<Rightarrow> ''redirect'' | CALL_REDIRECTED \<Rightarrow> ''redirect'' | MESSAGE_REDIRECTED \<Rightarrow> ''redirect''
    | REGISTRATION_FAILURE \<Rightarrow> ''noreg''
    | SUBSCRIPTION_REQUESTFAILURE \<Rightarrow> ''failed'' | NOTIFICATION_REQUESTFAILURE \<Rightarrow> ''failed''
    | CALL_REQUESTFAILURE \<Rightarrow> ''failed'' | CALL_MESSAGE_REQUESTFAILURE \<Rightarrow> ''failed'' | MESSAGE_REQUESTFAILURE \<Rightarrow> ''failed''
    | SUBSCRIPTION_SERVERFAILURE \<Rightarrow> ''server'' | NOTIFICATION_SERVERFAILURE \<Rightarrow> ''server''
    | CALL_SERVERFAILURE \<Rightarrow> ''server'' | CALL_MESSAGE_SERVERFAILURE \<Rightarrow> ''server'' | MESSAGE_SERVERFAILURE \<Rightarrow> ''server''
    | SUBSCRIPTION_GLOBALFAILURE \<Rightarrow> ''global'' | NOTIFICATION_GLOBALFAILURE \<Rightarrow> ''global''
    | CALL_GLOBALFAILURE \<Rightarrow> ''global'' | CALL_MESSAGE_GLOBALFAILURE \<Rightarrow> ''global'' | MESSAGE_GLOBALFAILURE \<Rightarrow> ''global''
    | CALL_ACK \<Rightarrow> ''ack''
    | CALL_CLOSED \<Rightarrow> ''bye'' | CALL_RELEASED \<Rightarrow> ''bye''
    | CALL_CANCELLED \<Rightarrow> ''cancel''
    | MESSAGE_NEW \<Rightarrow> ''new'' | CALL_MESSAGE_NEW \<Rightarrow> ''new'' | IN_SUBSCRIPTION_NEW \<Rightarrow> ''new''
    | SUBSCRIPTION_NOTIFY \<Rightarrow> ''notify'')"

end
