(* ===== verification/ListenerProps.thy ===== *)
theory ListenerProps
  imports ClientListener
begin

text \<open>
  The life of a listener as a step relation: turns of its loop while it is active, its timer, which
  runs once, and \<open>stop\<close>, which another thread calls at any time. The collected effects show how often it
  answers a challenge and reports a failure.
\<close>

section \<open>Steps\<close>

text \<open>The first component: the timer has not run yet.\<close>

inductive listener_step :: "qt_lib \<Rightarrow> read_time \<Rightarrow> bool \<times> listener \<Rightarrow> listener_signal client_effect list \<Rightarrow>
    bool \<times> listener \<Rightarrow> bool" for Q fromIso where
  Turn: "ls_active ls \<Longrightarrow> listener_turn Q fromIso t ls = Some (ls', out) \<Longrightarrow>
    listener_step Q fromIso (tm, ls) out (tm, ls')"
| Timer: "listener_timeout ls = (ls', out) \<Longrightarrow> listener_step Q fromIso (True, ls) out (False, ls')"
| Stop: "listener_step Q fromIso (tm, ls) [] (tm, listener_stop shutdown ls)"

inductive listener_run :: "qt_lib \<Rightarrow> read_time \<Rightarrow> bool \<times> listener \<Rightarrow> listener_signal client_effect list \<Rightarrow>
    bool \<times> listener \<Rightarrow> bool" for Q fromIso where
  Start: "listener_run Q fromIso s [] s"
| Step: "listener_run Q fromIso s out s' \<Longrightarrow> listener_step Q fromIso s' out' s'' \<Longrightarrow>
    listener_run Q fromIso s (out @ out') s''"

inductive_cases listener_stepE: "listener_step Q fromIso s out s'"

text \<open>The loop of the code is a run of turns.\<close>

lemma listener_run_trans: "\<lbrakk>listener_run Q F s' out' s''; listener_run Q F s out s'\<rbrakk> \<Longrightarrow> listener_run Q F s (out @ out') s''"
proof (induction rule: listener_run.induct)
  case (Step s out1 s1 out2 s2)
  then show ?case using listener_run.Step[of Q F _ _ s1 out2 s2] by (metis append.assoc)
qed simp

lemma listener_loop_run:
  "listener_loop Q F ts ls = Some (ls', out) \<Longrightarrow> listener_run Q F (tm, ls) out (tm, ls')"
proof (induction ts arbitrary: ls ls' out)
  case (Cons t ts)
  show ?case
  proof (cases "ls_active ls")
    case True
    with Cons.prems obtain ls1 out1 out2 where t: "listener_turn Q F t ls = Some (ls1, out1)"
      "listener_loop Q F ts ls1 = Some (ls', out2)" "out = out1 @ out2"
      by (auto split: bind_splits)
    from t(1) True have "listener_run Q F (tm, ls) ([] @ out1) (tm, ls1)"
      by (intro listener_run.Step[OF listener_run.Start] listener_step.Turn)
    with Cons.IH[OF t(2)] show ?thesis using listener_run_trans t(3) by fastforce
  next
    case False
    with Cons.prems show ?thesis by (auto intro: listener_run.Start)
  qed
qed (auto intro: listener_run.Start)

section \<open>What an effect says\<close>

fun is_authentication :: "'s client_effect \<Rightarrow> bool" where
  "is_authentication (Authentication_info i u s a r) = True"
| "is_authentication e = False"

fun is_failure :: "listener_signal client_effect \<Rightarrow> bool" where
  "is_failure (Signal (ListenerFailure code)) = True"
| "is_failure e = False"

definition authentications :: "listener_signal client_effect list \<Rightarrow> nat" where
  "authentications out = length (filter is_authentication out)"

definition failures :: "listener_signal client_effect list \<Rightarrow> nat" where
  "failures out = length (filter is_failure out)"

lemma counts_append [simp]:
  "authentications (a @ b) = authentications a + authentications b" "failures (a @ b) = failures a + failures b"
  "authentications [] = 0" "failures [] = 0"
  by (simp_all add: authentications_def failures_def)

lemma quiet_counts:
  "(\<forall>e \<in> set out. \<not> is_authentication e) \<Longrightarrow> authentications out = 0"
  "(\<forall>e \<in> set out. \<not> is_failure e) \<Longrightarrow> failures out = 0"
  by (simp_all add: authentications_def failures_def)

text \<open>Effects that neither authenticate nor report a failure, and the parts of the state they leave.\<close>

definition same_identity :: "listener \<Rightarrow> listener \<Rightarrow> bool" where
  "same_identity ls ls' \<longleftrightarrow> ls_id ls' = ls_id ls \<and> ls_creds ls' ''secret'' = ls_creds ls ''secret''"

definition quiet :: "listener \<Rightarrow> listener \<Rightarrow> listener_signal client_effect list \<Rightarrow> bool" where
  "quiet ls ls' out \<longleftrightarrow> (\<forall>e \<in> set out. \<not> is_authentication e \<and> \<not> is_failure e) \<and>
     ls_authenticated ls' = ls_authenticated ls \<and> ls_connected ls' = ls_connected ls \<and> same_identity ls ls'"

lemma quiet_xdp_line: "quiet ls ls' out \<Longrightarrow> xdp_line Q line (ls', out, bits) = (ls'', out', bits') \<Longrightarrow> quiet ls ls'' out'"
  by (auto simp: xdp_line_def quiet_def same_identity_def Let_def split: if_splits)

lemma quiet_fold_xdp:
  "quiet ls ls' out \<Longrightarrow> fold (xdp_line Q) lines (ls', out, bits) = (ls'', out', bits') \<Longrightarrow> quiet ls ls'' out'"
proof (induction lines arbitrary: ls' out bits)
  case (Cons l lines)
  obtain ls1 out1 bits1 where "xdp_line Q l (ls', out, bits) = (ls1, out1, bits1)" by (metis prod_cases3)
  with Cons quiet_xdp_line show ?case by fastforce
qed simp

lemma quiet_parseXdp: "parseXdp Q xdp ls = (ls', out, bits) \<Longrightarrow> quiet ls ls' out"
  unfolding parseXdp_def by (rule quiet_fold_xdp) (auto simp: quiet_def same_identity_def)

lemma quiet_success: "registration_success Q response ls = Some (ls', out) \<Longrightarrow> quiet ls ls' out"
proof (cases response)
  case (Some msg)
  assume s: "registration_success Q response ls = Some (ls', out)"
  let ?r = "case msg_body msg of
      Some body \<Rightarrow> if length body > 0 then parseXdp Q (cstr body) ls else (ls, [], None)
    | None \<Rightarrow> (ls, [], None)"
  obtain ls1 out1 bits where p: "?r = (ls1, out1, bits)" by (cases ?r)
  have "quiet ls ls1 out1"
  proof (cases "msg_body msg")
    case None
    with p show ?thesis by (simp add: quiet_def same_identity_def)
  next
    case (Some body)
    with p quiet_parseXdp[of Q "cstr body" ls ls1 out1 bits] show ?thesis
      by (cases "length body > 0") (simp_all add: quiet_def same_identity_def)
  qed
  moreover have "ls' = ls1\<lparr>ls_registered := True\<rparr> \<and> (\<forall>e \<in> set out. e \<in> set out1 \<or> \<not> is_authentication e \<and> \<not> is_failure e)"
  proof -
    have "(if header_get msg ''expires'' 0 = Some None then None
           else Some (ls1\<lparr>ls_registered := True\<rparr>, out1 @ [Signal (Authorized (ls_creds ls1))] @
             (case bits of Some bitmap \<Rightarrow> if bitmap \<noteq> [] then [Signal (StatusChanged bitmap (ls_first ls1) (ls_last ls1))] else []
              | None \<Rightarrow> []))) = Some (ls', out)"
      using s unfolding registration_success_def Some option.case p by simp
    then show ?thesis by (cases bits) (auto split: if_splits)
  qed
  ultimately show ?thesis by (auto simp: quiet_def same_identity_def)
qed (auto simp: registration_success_def quiet_def same_identity_def)

lemma quiet_receive: "quiet ls ls (receiveMessage Q F tid msg ls)"
proof -
  have "\<not> is_failure (Signal s)" if "receive_text Q F msg ls = Inr s" for s
    using that by (auto simp: receive_text_def split: option.splits prod.splits if_splits)
  then show ?thesis by (auto simp: receiveMessage_def quiet_def same_identity_def split: sum.splits)
qed

lemma quiet_idle: "idle_turn rid built ls = (ls', out) \<Longrightarrow> quiet ls ls' out"
  by (auto simp: idle_turn_def connect_to_def send_registration_def quiet_def same_identity_def Let_def split: if_splits)

text \<open>
  The only turns that are not quiet: a failed registration, which is answered once, when it is a
  challenge, or reported, and then the listener is no longer active.
\<close>

definition answered :: "listener \<Rightarrow> listener \<Rightarrow> listener_signal client_effect list \<Rightarrow> bool" where
  "answered ls ls' out \<longleftrightarrow> \<not> ls_authenticated ls \<and> ls_authenticated ls' \<and> ls_connected ls' \<and>
     authentications out = 1 \<and> failures out = 0 \<and> same_identity ls ls' \<and>
     (\<exists>u a r. out = [Authentication_info (ls_id ls) u (cred (ls_creds ls) ''secret'') a r])"

definition reported :: "listener \<Rightarrow> listener \<Rightarrow> listener_signal client_effect list \<Rightarrow> bool" where
  "reported ls ls' out \<longleftrightarrow> \<not> ls_active ls' \<and> ls_connected ls' \<and> ls_authenticated ls' = ls_authenticated ls \<and>
     authentications out = 0 \<and> failures out = 1 \<and> same_identity ls ls'"

lemma get_authentication_keeps:
  "get_authentication response chal ls = (b, ls') \<Longrightarrow> ls_authenticated ls' = ls_authenticated ls \<and>
     ls_connected ls' = ls_connected ls \<and> same_identity ls ls'"
  by (auto simp: same_identity_def get_authentication_def Let_def split: option.splits)

lemma failure_turn:
  assumes "registration_failure evt chal ls = (ls', out)" "ls_connected ls"
  shows "quiet ls ls' out \<or> answered ls ls' out \<or> reported ls ls' out"
proof -
  obtain found ls1 where g: "get_authentication (ex_response evt) chal ls = (found, ls1)"
    by (cases "get_authentication (ex_response evt) chal ls")
  note kept = get_authentication_keeps[OF g]
  consider (other) "ex_rid evt \<noteq> ls_rid ls" "ls' = ls" "out = []"
    | (failed) code where "ls' = ls\<lparr>ls_active := False\<rparr>" "out = [Signal (ListenerFailure code)]"
    | (challenged) "\<not> ls_authenticated ls1" "add_authentication ls1 = (ls', out)"
    | (again) "ls' = ls1\<lparr>ls_active := False\<rparr>" "out = [Signal (ListenerFailure SIP_FORBIDDEN)]"
    using assms(1) g by (auto simp: registration_failure_def Let_def split: if_splits)
  then show ?thesis
  proof cases
    case other
    then show ?thesis by (simp add: quiet_def same_identity_def)
  next
    case failed
    with assms(2) have "reported ls ls' out"
      by (simp add: reported_def same_identity_def authentications_def failures_def)
    then show ?thesis by simp
  next
    case challenged
    with kept assms(2) have "answered ls ls' out"
      by (auto simp: add_authentication_def answered_def same_identity_def authentications_def failures_def cred_def)
    then show ?thesis by simp
  next
    case again
    with kept assms(2) have "reported ls ls' out"
      by (simp add: reported_def same_identity_def authentications_def failures_def)
    then show ?thesis by simp
  qed
qed

lemma turn_effects:
  assumes "listener_turn Q F t ls = Some (ls', out)"
  shows "(\<forall>e \<in> set out. \<not> is_authentication e \<and> \<not> is_failure e) \<and> ls_authenticated ls' = ls_authenticated ls \<and>
      (ls_connected ls \<longrightarrow> ls_connected ls') \<and> same_identity ls ls' \<or> answered ls ls' out \<or> reported ls ls' out"
proof (cases "tn_event t")
  case None
  with assms quiet_idle show ?thesis by (fastforce simp: listener_turn_def quiet_def same_identity_def)
next
  case (Some ec)
  obtain evt chal where ec: "ec = (evt, chal)" by (cases ec)
  let ?ls = "ls\<lparr>ls_connected := True\<rparr>"
  have e: "listener_event Q F evt chal ls = Some (ls', out)" using assms Some ec by (simp add: listener_turn_def)
  consider "registration_success Q (ex_response evt) ?ls = Some (ls', out)"
    | "registration_failure evt chal ?ls = (ls', out)"
    | "quiet ?ls ls' out"
    using e quiet_receive[of ?ls Q F] by (auto simp: listener_event_def quiet_def same_identity_def Let_def split: if_splits)
  then show ?thesis
  proof cases
    case 1
    from quiet_success[OF 1] show ?thesis by (simp add: quiet_def same_identity_def)
  next
    case 2
    from failure_turn[OF 2] show ?thesis by (auto simp: quiet_def same_identity_def answered_def reported_def)
  next
    case 3
    then show ?thesis by (simp add: quiet_def same_identity_def)
  qed
qed


lemma authentications_pos: "Authentication_info i u p a r \<in> set out \<Longrightarrow> authentications out > 0"
  by (induction out) (auto simp: authentications_def)

text \<open>What a listener has done so far against what it remembers of it.\<close>

definition accounts :: "credentials \<Rightarrow> bool \<times> listener \<Rightarrow> listener_signal client_effect list \<Rightarrow> bool" where
  "accounts creds s out \<longleftrightarrow> (case s of (tm, ls) \<Rightarrow>
     authentications out = (if ls_authenticated ls then 1 else 0) \<and> failures out \<le> 1 \<and>
     (failures out = 1 \<longrightarrow> \<not> ls_active ls \<and> (ls_connected ls \<or> \<not> tm)) \<and>
     ls_id ls = cred creds ''extension'' \<and> ls_creds ls ''secret'' = creds ''secret'' \<and>
     (\<forall>i u p a r. Authentication_info i u p a r \<in> set out \<longrightarrow> i = cred creds ''extension'' \<and> p = cred creds ''secret''))"

lemma accounts_new: "accounts creds (True, Listener_new creds secure roster) []"
  by (simp add: accounts_def Listener_new_def Let_def)

lemma accounts_step:
  assumes "listener_step Q F s more' s'" "accounts creds s out"
  shows "accounts creds s' (out @ more')"
  using assms(1)
proof (cases rule: listener_step.cases)
  case (Turn ls t ls' tm)
  have acc: "accounts creds (tm, ls) out" using assms(2) Turn by simp
  then have none: "failures out = 0" using Turn(3) by (auto simp: accounts_def)
  from turn_effects[OF Turn(4)]
  consider "\<forall>e \<in> set more'. \<not> is_authentication e \<and> \<not> is_failure e" "ls_authenticated ls' = ls_authenticated ls" "same_identity ls ls'"
    | "answered ls ls' more'" | "reported ls ls' more'" by blast
  then show ?thesis
  proof cases
    case 1
    then have "authentications more' = 0" "failures more' = 0" "\<forall>i u p a r. Authentication_info i u p a r \<notin> set more'"
      using quiet_counts by fastforce+
    with 1 acc none Turn(2) show ?thesis by (auto simp: accounts_def same_identity_def)
  next
    case 2
    moreover have "cred (ls_creds ls) ''secret'' = cred creds ''secret''" using acc by (simp add: accounts_def cred_def)
    ultimately show ?thesis using acc none Turn(2) by (auto simp: accounts_def same_identity_def answered_def) blast+
  next
    case 3
    then have "\<forall>i u p a r. Authentication_info i u p a r \<notin> set more'"
      by (auto simp: reported_def authentications_def filter_empty_conv)
    with 3 acc none Turn(2) show ?thesis by (auto simp: accounts_def same_identity_def reported_def)
  qed
next
  case (Timer ls ls')
  show ?thesis
  proof (cases "ls_connected ls")
    case True
    with assms(2) Timer show ?thesis by (simp add: accounts_def listener_timeout_def)
  next
    case False
    have acc: "accounts creds (True, ls) out" using assms(2) Timer by simp
    then have none: "failures out = 0" using False by (auto simp: accounts_def)
    have more': "ls' = ls\<lparr>ls_active := False\<rparr>" "authentications more' = 0" "failures more' = 1"
      "\<forall>i u p a r. Authentication_info i u p a r \<notin> set more'"
      using Timer False by (auto simp: listener_timeout_def authentications_def failures_def)
    from acc none more' Timer(2) show ?thesis by (simp add: accounts_def)
  qed
next
  case (Stop tm ls shutdown)
  with assms(2) show ?thesis by (simp add: accounts_def listener_stop_def)
qed

lemma accounts_run:
  "\<lbrakk>listener_run Q F s out s'; accounts creds s []\<rbrakk> \<Longrightarrow> accounts creds s' out"
  by (induction rule: listener_run.induct) (auto intro: accounts_step)



definition sample_credentials :: credentials where
  "sample_credentials = [''extension'' \<mapsto> ''101'', ''secret'' \<mapsto> ''pw'', ''host'' \<mapsto> ''h'', ''label'' \<mapsto> ''a'', ''port'' \<mapsto> ''5060'']"

text \<open>A server that challenges twice.\<close>

definition sample_challenged :: turn where
  "sample_challenged = \<lparr>tn_event = Some (\<lparr>ex_type = REGISTRATION_FAILURE, ex_request = None,
     ex_response = Some \<lparr>msg_status = 401, msg_reason = [], msg_method = [], msg_req_uri = None, msg_from = None,
       msg_to = None, msg_contacts = [], msg_vias = [], msg_record_routes = [], msg_routes = [], msg_allows = [],
       msg_authorizations = [], msg_content_type = None, msg_headers = [], msg_body = None\<rparr>,
     ex_tid = 1, ex_did = 0, ex_cid = 0, ex_rid = 1\<rparr>,
     Some \<lparr>ac_realm = Some ''r'', ac_algorithm = Some ''MD5'', ac_nonce = Some ''0a''\<rparr>), tn_rid = 0, tn_built = True\<rparr>"

definition sample_idle :: turn where
  "sample_idle = \<lparr>tn_event = None, tn_rid = 1, tn_built = True\<rparr>"


end
