(* ===== verification/Agreement.thy ===== *)
theory Agreement
  imports ClientListener StackProps AdminSlots
begin

text \<open>
  What the client writes is what the server reads, and the other way round: the requests of
  \<open>Connect/connector.cpp\<close> against the slots of \<open>Database/database.cpp\<close>, the credentials of
  \<open>Connect/message.cpp\<close> against those of \<open>Server/registry.cpp\<close>, and the description of the server
  (\<open>Server/manager.cpp\<close>) against \<open>Connect/listener.cpp\<close>.
\<close>

section \<open>Texts that carry values\<close>

text \<open>
  Both ends agree on a text when the reader gives back what the writer wrote; \<open>valid\<close> says for which
  values that is promised.
\<close>

locale text_code =
  fixes enc :: "'a \<Rightarrow> string" and dec :: "string \<Rightarrow> 'a" and valid :: "'a \<Rightarrow> bool"
  assumes dec_enc: "valid x \<longrightarrow> dec (enc x) = x"
    and enc_plain: "valid x \<longrightarrow> NUL \<notin> set (enc x)"
begin

lemma dec_cstr: "valid x \<Longrightarrow> dec (cstr (enc x)) = x"
  using dec_enc[of x] enc_plain[of x] by simp

lemma enc_inj: "\<lbrakk>valid x; valid y; enc x = enc y\<rbrakk> \<Longrightarrow> x = y"
  using dec_enc by metis

end

definition number_or :: "string \<Rightarrow> int" where
  "number_or s = (if isNumber s then toInt s else -1)"

lemma isNumber_number: "isNumber (number i) \<longleftrightarrow> i \<ge> 0"
proof (cases "i < 0")
  case True
  then show ?thesis by (simp add: number_def isNumber_iff isdigit_def ord_def NUL_def)
qed (simp add: number_def)

lemma NUL_number [simp]: "NUL \<notin> set (number i)"
  by (simp add: number_def) (simp add: NUL_def)

lemma number_or_number: "\<lbrakk>0 \<le> i; i < 2 ^ 31\<rbrakk> \<Longrightarrow> number_or (number i) = i"
  by (simp add: number_or_def isNumber_number toInt_number)

interpretation flag_code: text_code flag_text toBool "\<lambda>_. True"
proof
  fix x
  show "True \<longrightarrow> toBool (flag_text x) = x"
    by (cases x) (simp_all add: flag_text_def toBool_def text_simps cstr_def)
  show "True \<longrightarrow> NUL \<notin> set (flag_text x)"
    by (simp add: flag_text_def NUL_def)
qed

interpretation destination_code: text_code destination_text number_or "\<lambda>i. -1 \<le> i \<and> i < 2 ^ 31"
proof
  fix i :: int
  have "\<not> isNumber ''NONE''" by (simp add: isNumber_iff isdigit_def ord_def NUL_def)
  then show "-1 \<le> i \<and> i < 2 ^ 31 \<longrightarrow> number_or (destination_text i) = i"
    using number_or_number[of i] by (auto simp: destination_text_def number_or_def)
  show "-1 \<le> i \<and> i < 2 ^ 31 \<longrightarrow> NUL \<notin> set (destination_text i)"
    by (simp add: destination_text_def) (simp add: NUL_def)
qed

interpretation coverage_code: text_code coverage_text number_or "\<lambda>i. -1 \<le> i \<and> i < 2 ^ 31"
proof
  fix i :: int
  have "\<not> isNumber ''never''" by (simp add: isNumber_iff isdigit_def ord_def NUL_def)
  then show "-1 \<le> i \<and> i < 2 ^ 31 \<longrightarrow> number_or (coverage_text i) = i"
    using number_or_number[of i] by (auto simp: coverage_text_def number_or_def)
  show "-1 \<le> i \<and> i < 2 ^ 31 \<longrightarrow> NUL \<notin> set (coverage_text i)"
    by (simp add: coverage_text_def) (simp add: NUL_def)
qed

interpretation reason_code: text_code escape unescape "\<lambda>s. NUL \<notin> set s"
proof
  fix s
  show "NUL \<notin> set s \<longrightarrow> unescape (escape s) = s"
    by (simp add: unescape_def unescape_loop_escape NUL_notin_escape)
  show "NUL \<notin> set s \<longrightarrow> NUL \<notin> set (escape s)"
    by (simp add: NUL_notin_escape)
qed

interpretation quote_code: text_code "quote [CHR 0x22]" "unquote [CHR 0x22]" "\<lambda>s. NUL \<notin> set s"
proof
  fix s
  show "NUL \<notin> set s \<longrightarrow> unquote [CHR 0x22] (quote [CHR 0x22] s) = s"
    using unquote_quote[of s "[CHR 0x22]" "CHR 0x22" "CHR 0x22"] by (simp add: NUL_def)
  show "NUL \<notin> set s \<longrightarrow> NUL \<notin> set (quote [CHR 0x22] s)"
    by (simp add: quote_def) (simp add: NUL_def)
qed

section \<open>Administration\<close>

text \<open>
  The request as the server's parser gives it: the method, the headers the client set (an empty one has
  no value), no other \<open>X-\<close> header, and the body.
\<close>

definition header_texts :: "client_request \<Rightarrow> (string \<times> string) list" where
  "header_texts rq = map (\<lambda>(n, v). (map ascii_lower n, v)) (filter (\<lambda>(n, v). v \<noteq> []) (cr_headers rq))"

definition delivered :: "client_request \<Rightarrow> osip_message \<Rightarrow> bool" where
  "delivered rq msg \<longleftrightarrow> msg_method msg = cr_method rq \<and> msg_status msg = 0 \<and>
     (\<forall>n. map ascii_lower n = n \<and> (take 2 n = ''x-'' \<or> n = ''subject'') \<longrightarrow>
       header_value msg n = map_of (header_texts rq) n) \<and>
     msg_body msg = map_option snd (cr_content rq)"

fun forward_field :: "forwarding \<Rightarrow> int \<Rightarrow> authorize_row \<Rightarrow> authorize_row" where
  "forward_field Fwd_NA n a = a\<lparr>a_fwdnoanswer := n\<rparr>"
| "forward_field Fwd_BUSY n a = a\<lparr>a_fwdbusy := n\<rparr>"
| "forward_field Fwd_AWAY n a = a\<lparr>a_fwdaway := n\<rparr>"

lemma destination_not_Nil [simp]: "destination_text n \<noteq> []" "coverage_text n \<noteq> []" "flag_text b \<noteq> []"
  by (simp_all add: destination_text_def coverage_text_def flag_text_def number_def)

lemma lower_letters [simp]:
  "ascii_lower CHR ''-'' = CHR ''-''" "ascii_lower CHR ''D'' = CHR ''d''" "ascii_lower CHR ''L'' = CHR ''l''"
  "ascii_lower CHR ''P'' = CHR ''p''" "ascii_lower CHR ''S'' = CHR ''s''" "ascii_lower CHR ''X'' = CHR ''x''"
  "ascii_lower CHR ''a'' = CHR ''a''" "ascii_lower CHR ''b'' = CHR ''b''" "ascii_lower CHR ''c'' = CHR ''c''"
  "ascii_lower CHR ''d'' = CHR ''d''" "ascii_lower CHR ''e'' = CHR ''e''" "ascii_lower CHR ''i'' = CHR ''i''"
  "ascii_lower CHR ''j'' = CHR ''j''" "ascii_lower CHR ''l'' = CHR ''l''" "ascii_lower CHR ''m'' = CHR ''m''"
  "ascii_lower CHR ''n'' = CHR ''n''" "ascii_lower CHR ''o'' = CHR ''o''" "ascii_lower CHR ''p'' = CHR ''p''"
  "ascii_lower CHR ''r'' = CHR ''r''" "ascii_lower CHR ''s'' = CHR ''s''" "ascii_lower CHR ''t'' = CHR ''t''"
  "ascii_lower CHR ''u'' = CHR ''u''" "ascii_lower CHR ''x'' = CHR ''x''" "ascii_lower CHR ''y'' = CHR ''y''"
  "ascii_lower CHR ''m'' = CHR ''m''"
  by code_simp+

lemma set_forwarding_subject: "set_forwarding (cstr (forwarding_subject fwd)) n = Some (forward_field fwd n)"
  by (cases fwd) (auto simp: set_forwarding_def cstr_def NUL_def)

lemma subject_not_Nil [simp]: "forwarding_subject fwd \<noteq> []"
  by (cases fwd) simp_all

lemma delivered_header:
  "\<lbrakk>delivered rq msg; map ascii_lower n = n; take 2 n = ''x-'' \<or> n = ''subject''\<rbrakk> \<Longrightarrow> header_text msg n = map_option cstr (map_of (header_texts rq) n)"
  by (auto simp: delivered_def header_text_def)

lemma forwarding_headers:
  assumes "changeForwarding_client built to fwd n cn = Some rq" "delivered rq msg"
  shows "header_text msg ''x-destination'' = Some (cstr (destination_text n))"
    "header_text msg ''subject'' = Some (cstr (forwarding_subject fwd))"
  using assms
  by (auto simp: delivered_header changeForwarding_client_def user_request_def build_request_def header_texts_def split: if_splits)

lemma coverage_headers:
  assumes "changeCoverage_client built to n cn = Some rq" "delivered rq msg"
  shows "header_text msg ''x-priority'' = Some (cstr (coverage_text n))"
  using assms
  by (auto simp: delivered_header changeCoverage_client_def user_request_def build_request_def header_texts_def split: if_splits)

lemma admin_headers:
  "\<lbrakk>changeSuspend built to flag cn = Some rq; delivered rq msg\<rbrakk> \<Longrightarrow>
     header_text msg ''x-suspend'' = Some (cstr (flag_text flag)) \<and> header_text msg ''x-system'' = None"
  "\<lbrakk>changeAdmin_client built to flag cn = Some rq; delivered rq msg\<rbrakk> \<Longrightarrow>
     header_text msg ''x-system'' = Some (cstr (flag_text flag)) \<and> header_text msg ''x-suspend'' = None"
  by (auto simp: delivered_header changeSuspend_def changeAdmin_client_def user_request_def build_request_def
      header_texts_def split: if_splits)

text \<open>The value as the server computes it.\<close>

lemma server_reads:
  "-1 \<le> n \<and> n < 2 ^ 31 \<Longrightarrow> (if isNumber (cstr (destination_text n)) then toInt (cstr (destination_text n)) else -1) = n"
  "-1 \<le> n \<and> n < 2 ^ 31 \<Longrightarrow> (if isNumber (cstr (coverage_text n)) then toInt (cstr (coverage_text n)) else -1) = n"
  using destination_code.dec_cstr[of n] coverage_code.dec_cstr[of n] by (simp_all add: number_or_def)


definition sample_suspension :: event where
  "sample_suspension =
    (let msg = (sample_request ''X-ADMIN'' None)\<lparr>msg_headers := [(''X-Suspend'', Some ''1'')]\<rparr>;
         ev = sample_request_event msg
     in ev\<lparr>ev_event := (ev_event ev)\<lparr>ex_request := Some msg\<rparr>\<rparr>)"


section \<open>Credentials\<close>

text \<open>The header of the server's challenge and the client's \<open>Authorization\<close>, as libosip2 parses them.\<close>

definition challenge_header :: "registry \<Rightarrow> auth_challenge" where
  "challenge_header reg = \<lparr>ac_realm = Some (quote [CHR 0x22] (authRealm reg)),
     ac_algorithm = Some (quote [CHR 0x22] (authDigest reg)),
     ac_nonce = Some (quote [CHR 0x22] (toLower (toHex (random reg))))\<rparr>"

definition authorization_header :: "qt_lib \<Rightarrow> credentials \<Rightarrow> string \<Rightarrow> string \<Rightarrow> osip_authorization" where
  "authorization_header Q creds method uri =
    (let q = (\<lambda>s. Some (quote [CHR 0x22] s))
     in \<lparr>au_username = q (cred creds ''user''), au_realm = q (cred creds ''realm''), au_nonce = q (cred creds ''nonce''),
         au_response = q (response_of Q creds method uri), au_algorithm = q (cred creds ''algorithm'')\<rparr>)"

text \<open>\<open>HA1\<close> of a secret, which \<open>changePassword\<close> of \<open>Desktop/desktop.cpp\<close> sends to be stored.\<close>

definition ha1_of :: "qt_lib \<Rightarrow> credentials \<Rightarrow> string \<Rightarrow> string" where
  "ha1_of Q creds secret = hash_hex Q (digest_of crypto_digests (toUpper (cred creds ''algorithm'')))
     (cred creds ''user'' @ '':'' @ cred creds ''realm'' @ '':'' @ secret)"

lemma hex_digit_plain: "n < 16 \<Longrightarrow> hex_digit n \<noteq> NUL"
proof
  assume "n < 16" "hex_digit n = NUL"
  then have "ord (hex_digit n) = 0" by (simp add: NUL_def ord_def)
  with \<open>n < 16\<close> show False by (simp add: hex_digit_def ord_def split: if_splits)
qed

lemma NUL_notin_toHex [simp]: "NUL \<notin> set (toHex s)"
proof -
  have "ord c div 16 < 16" "ord c mod 16 < 16" for c
    using ord_less[of c] by (simp_all add: div_less_iff_less_mult)
  then have "hex_digit (ord c div 16) \<noteq> NUL \<and> hex_digit (ord c mod 16) \<noteq> NUL" for c
    using hex_digit_plain by blast
  then show ?thesis by (auto simp: toHex_def dest: sym)
qed

lemma NUL_notin_hash_hex [simp]: "NUL \<notin> set (hash_hex Q a s)"
  by (simp add: hash_hex_def)

lemma challenge_field_quote: "NUL \<notin> set s \<Longrightarrow> challenge_field (Some (quote [CHR 0x22] s)) = s"
  using quote_code.dec_cstr[of s] by (simp add: challenge_field_def)

lemma auth_field_quote: "\<lbrakk>field a = Some (quote [CHR 0x22] s); NUL \<notin> set s\<rbrakk> \<Longrightarrow> auth_field (Some a) field = s"
  using quote_code.dec_cstr[of s] by (simp add: auth_field_def)

lemma response_plain [simp]:
  "NUL \<notin> set (response_of Q creds method uri)" "toLower (response_of Q creds method uri) = response_of Q creds method uri"
  by (simp_all add: response_of_def hash_hex_def Let_def)

text \<open>What the client knows after the challenge.\<close>

lemma challenged_credentials:
  assumes "get_authentication (Some resp) (Some (challenge_header reg)) ls = (True, ls')"
    "NUL \<notin> set (authRealm reg)" "NUL \<notin> set (authDigest reg)" "toUpper (authDigest reg) = authDigest reg"
  shows "cred (ls_creds ls') ''realm'' = authRealm reg" "cred (ls_creds ls') ''algorithm'' = authDigest reg"
    "cred (ls_creds ls') ''nonce'' = toHex (random reg)" "cred (ls_creds ls') ''secret'' = cred (ls_creds ls) ''secret''"
  using assms by (auto simp: get_authentication_def challenge_header_def challenge_field_quote cred_def Let_def split: option.splits)

text \<open>What the server reads in the request that answers it.\<close>

lemma answered_event:
  assumes "usable_authorization msg = Some (authorization_header Q creds (cstr (msg_method msg)) uri)"
    "ev = Event_request Q lhn now stamp evt ctx seq msg"
    "\<forall>key \<in> {''user'', ''realm'', ''nonce'', ''algorithm''}. NUL \<notin> set (cred creds key)"
  shows "ev_realm ev = cred creds ''realm''" "ev_userid ev = cred creds ''user''"
    "ev_algorithm ev = toUpper (cred creds ''algorithm'')" "ev_nonce ev = cred creds ''nonce''"
    "ev_digest ev = response_of Q creds (ev_method ev) uri"
  using assms by (simp_all add: Event_request_def authorization_header_def auth_field_quote Let_def)


lemma sample_expected_inj:
  "expected_digest sample_qt (reg\<lparr>userSecret := ha\<rparr>) nonce ev = expected_digest sample_qt reg nonce ev \<Longrightarrow> ha = userSecret reg"
proof -
  assume "expected_digest sample_qt (reg\<lparr>userSecret := ha\<rparr>) nonce ev = expected_digest sample_qt reg nonce ev"
  then have "toHex (ha @ '':'' @ nonce @ '':'' @ ha2_of sample_qt reg ev) = toHex (userSecret reg @ '':'' @ nonce @ '':'' @ ha2_of sample_qt reg ev)"
    by (simp add: expected_digest_def ha2_of_def hash_hex_def sample_qt_def)
  then have "fromHex (toHex (ha @ '':'' @ nonce @ '':'' @ ha2_of sample_qt reg ev)) =
      fromHex (toHex (userSecret reg @ '':'' @ nonce @ '':'' @ ha2_of sample_qt reg ev))" by (rule arg_cong)
  then show ?thesis by (simp only: fromHex_toHex) simp
qed


section \<open>The description of the server\<close>

lemma split_on_line: "sep \<notin> set w \<Longrightarrow> split_on sep (w @ sep # rest) = w # split_on sep rest"
  by (induction w) auto

text \<open>A line without the test for a change: storing an equal text changes nothing.\<close>

lemma xdp_line_simps:
  "xdp_line Q (CHR ''v'' # CHR ''='' # v) (ls, out, bits) = (ls, out, bits)"
  "xdp_line Q (CHR ''s'' # CHR ''='' # v) (ls, out, bits) = (ls, out, bits)"
  "xdp_line Q (CHR ''b'' # CHR ''='' # v) (ls, out, bits) =
     (ls\<lparr>ls_banner := v\<rparr>, out @ (if v \<noteq> ls_banner ls then [Signal (BannerChanged v)] else []), bits)"
  "xdp_line Q (CHR ''p'' # CHR ''='' # v) (ls, out, bits) = (ls\<lparr>ls_creds := (ls_creds ls)(''privs'' \<mapsto> v)\<rparr>, out, bits)"
  "xdp_line Q (CHR ''d'' # CHR ''='' # v) (ls, out, bits) =
     (ls\<lparr>ls_sipFrom := [CHR 0x22] @ v @ [CHR 0x22] @ '' <'' @ ls_uriFrom ls @ ''>'',
         ls_creds := (ls_creds ls)(''display'' \<mapsto> v)\<rparr>, out, bits)"
  "xdp_line Q (CHR ''f'' # CHR ''='' # v) (ls, out, bits) = (ls\<lparr>ls_first := toInt v\<rparr>, out, bits)"
  "xdp_line Q (CHR ''l'' # CHR ''='' # v) (ls, out, bits) = (ls\<lparr>ls_last := toInt v\<rparr>, out, bits)"
  "xdp_line Q (CHR ''r'' # CHR ''='' # v) (ls, out, bits) =
     (ls\<lparr>ls_roster := toUInt_bytes v\<rparr>, out @ (if toUInt_bytes v \<noteq> ls_roster ls then [Signal RosterUpdated] else []), bits)"
  "xdp_line Q (CHR ''c'' # CHR ''='' # v) (ls, out, bits) =
     (ls\<lparr>ls_contact := v\<rparr>, out @ (if v \<noteq> ls_contact ls then [Signal (ContactAddress v)] else []), bits)"
  "xdp_line Q (CHR ''a'' # CHR ''='' # v) (ls, out, bits) =
     (ls\<lparr>ls_online := q_fromBase64 Q v\<rparr>, out, if q_fromBase64 Q v \<noteq> ls_online ls then Some (q_fromBase64 Q v) else bits)"
  "xdp_line Q [] (ls, out, bits) = (ls, out, bits)"
  by (simp_all add: xdp_line_def Let_def)

lemma newline_free_number [simp]: "CHR 0x0A \<notin> set (number i)"
  using nat_str_digits[of "CHR 0x0A"] by (auto simp: number_def isdigit_def ord_def)

lemma uint_checkRoster: "uint (checkRoster m) < 8192" "sint (checkRoster m) = uint (checkRoster m)"
proof -
  show small: "uint (checkRoster m) < 8192" by (simp add: checkRoster_def uint_mod)
  have "sint (checkRoster m) = signed_take_bit 31 (uint (checkRoster m))" by (simp add: sint_uint)
  also have "\<dots> = uint (checkRoster m)"
    using small order_trans[OF _ uint_ge_0, of "- (2 ^ 31)" "checkRoster m"] by (intro signed_take_bit_int_eq_self) simp_all
  finally show "sint (checkRoster m) = uint (checkRoster m)" .
qed

lemma toUInt_bytes_roster: "toUInt_bytes (number (sint (checkRoster m))) = checkRoster m"
proof -
  have "number (sint (checkRoster m)) = nat_str (nat (uint (checkRoster m)))"
    by (simp add: uint_checkRoster number_def)
  moreover have "of_int (uint (checkRoster m)) = checkRoster m" by (rule word_of_int_uint)
  ultimately show ?thesis using uint_checkRoster(1)[of m] by (simp add: toUInt_bytes_def scan_number_nat_str)
qed

text \<open>
  C17. The client reads what the server describes. The body of a successful registration, read by the
  client: banner, display name, privileges, dialing range, roster sequence, contact and presence mask are
  those of the server, the presence mask is reported only when it changed, and the signals are exactly
  those for a changed banner, roster sequence and contact, in this order. The texts have no newline:
  the writer does not escape them.
\<close>

theorem description_roundtrip:
  assumes "CHR 0x0A \<notin> set (ServerBanner m)" "CHR 0x0A \<notin> set (userPrivs reg)" "CHR 0x0A \<notin> set (userDisplay reg)"
    "CHR 0x0A \<notin> set (reg_route reg)" "CHR 0x0A \<notin> set (q_toBase64 Q bits)" "q_fromBase64 Q (q_toBase64 Q bits) = bits"
    "\<bar>lo\<bar> < 2 ^ 31" "\<bar>hi\<bar> < 2 ^ 31"
  shows "parseXdp Q (xdp_body m (lo, hi) dbsequence (q_toBase64 Q bits) reg) ls =
    (ls\<lparr>ls_banner := ServerBanner m, ls_first := lo, ls_last := hi, ls_roster := checkRoster m, ls_contact := reg_route reg,
        ls_online := bits, ls_creds := (ls_creds ls)(''privs'' \<mapsto> userPrivs reg, ''display'' \<mapsto> userDisplay reg),
        ls_sipFrom := [CHR 0x22] @ userDisplay reg @ [CHR 0x22] @ '' <'' @ ls_uriFrom ls @ ''>''\<rparr>,
     (if ServerBanner m \<noteq> ls_banner ls then [Signal (BannerChanged (ServerBanner m))] else []) @
     (if checkRoster m \<noteq> ls_roster ls then [Signal RosterUpdated] else []) @
     (if reg_route reg \<noteq> ls_contact ls then [Signal (ContactAddress (reg_route reg))] else []),
     if bits \<noteq> ls_online ls then Some bits else None)"
proof -
  let ?line = "\<lambda>k v. k # CHR ''='' # v"
  have "split_on (CHR 0x0A) (xdp_body m (lo, hi) dbsequence (q_toBase64 Q bits) reg) =
     [?line (CHR ''v'') ''0'', ?line (CHR ''b'') (ServerBanner m), ?line (CHR ''p'') (userPrivs reg),
      ?line (CHR ''d'') (userDisplay reg), ?line (CHR ''f'') (number lo), ?line (CHR ''l'') (number hi),
      ?line (CHR ''r'') (number (sint (checkRoster m))), ?line (CHR ''s'') (number dbsequence),
      ?line (CHR ''c'') (reg_route reg), ?line (CHR ''a'') (q_toBase64 Q bits), []]"
    using assms(1-5) by (simp add: xdp_body_def split_on_line)
  then show ?thesis using assms(6-8)
    by (simp add: parseXdp_def xdp_line_simps toInt_number toUInt_bytes_roster fun_upd_twist)
qed

lemma description_roundtrip_witness:
  "\<exists>ls' out. parseXdp sample_qt (xdp_body (se_manager sample_env) (100, 699) 7 (q_toBase64 sample_qt ''on'')
         (sample_registered\<lparr>address := Contact_empty\<rparr>))
       (Listener_new Map.empty False 0) = (ls', out, Some ''on'') \<and>
     ls_first ls' = 100 \<and> ls_last ls' = 699 \<and> cred (ls_creds ls') ''privs'' = ''none'' \<and>
     cred (ls_creds ls') ''display'' = ''Test'' \<and> ls_online ls' = ''on''"
proof -
  let ?m = "se_manager sample_env" and ?reg = "sample_registered\<lparr>address := Contact_empty\<rparr>"
  have route: "CHR 0x0A \<notin> set (reg_route ?reg)"
    by (simp add: reg_route_def Contact_toString_def Contact_empty_def)
  have texts: "CHR 0x0A \<notin> set (ServerBanner ?m)" "CHR 0x0A \<notin> set (userPrivs ?reg)" "CHR 0x0A \<notin> set (userDisplay ?reg)"
    "CHR 0x0A \<notin> set (q_toBase64 sample_qt ''on'')" "q_fromBase64 sample_qt (q_toBase64 sample_qt ''on'') = ''on''"
    by (simp_all add: sample_env_def manager_start_def sample_registered_def Registry_object_def sample_endpoint_def sample_qt_def)
  from description_roundtrip[OF texts(1-3) route texts(4,5), of 100 699 7 "Listener_new Map.empty False 0"]
  show ?thesis by (simp add: Listener_new_def cred_def sample_registered_def Registry_object_def sample_endpoint_def Let_def)
qed

end
