(* ===== verification/ClientStorage.thy ===== *)
theory ClientStorage
  imports ClientListener Profiles "HOL-Library.Char_ord" "HOL-Library.List_Lexorder" "HOL-Library.Product_Lexorder"
begin

text \<open>
  The client's database (\<open>Connect/storage.cpp\<close>): its tables, the statements the client runs on them, the
  keys of the devices, and the files it is kept in.
\<close>

section \<open>Tables\<close>

text \<open>A date column holds a date, the default \<open>0\<close> or \<open>NULL\<close>; the last two are read as invalid dates.\<close>

datatype sql_date = SqlNull | SqlZero | SqlDate qdatetime

fun sql_time :: "sql_date \<Rightarrow> qdatetime option" where
  "sql_time (SqlDate d) = Some d"
| "sql_time _ = None"

fun date_rank :: "sql_date \<Rightarrow> int \<times> int" where
  "date_rank SqlNull = (0, 0)"
| "date_rank SqlZero = (1, 0)"
| "date_rank (SqlDate d) = (2, toMSecs d)"

definition sql_bind :: "qdatetime option \<Rightarrow> sql_date" where
  "sql_bind d = (case d of None \<Rightarrow> SqlNull | Some t \<Rightarrow> SqlDate t)"

record contact_row =
  ct_uid :: int
  ct_extension :: int
  ct_sequence :: int
  ct_type :: string
  ct_user :: string
  ct_uri :: string
  ct_dialing :: string
  ct_display :: string
  ct_mailto :: string
  ct_puburi :: string
  ct_sync :: sql_date
  ct_last :: sql_date
  ct_info :: string
  ct_answer :: int
  ct_topic :: string
  ct_tsync :: sql_date
  ct_tseq :: int
  ct_pubkey :: string
  ct_verify :: int

text \<open>The defaults of the table.\<close>

definition new_contact :: "int \<Rightarrow> contact_row" where
  "new_contact uid = \<lparr>ct_uid = uid, ct_extension = -1, ct_sequence = 0, ct_type = ''USER'', ct_user = [], ct_uri = [],
     ct_dialing = [], ct_display = [], ct_mailto = [], ct_puburi = [], ct_sync = SqlZero, ct_last = SqlZero,
     ct_info = [], ct_answer = 0, ct_topic = ''None'', ct_tsync = SqlZero, ct_tseq = 0, ct_pubkey = [], ct_verify = 0\<rparr>"

record client_message =
  mg_from :: int
  mg_to :: int
  mg_sid :: int
  mg_seqid :: int
  mg_posted :: qdatetime
  mg_type :: string
  mg_text :: string
  mg_subject :: string
  mg_expires :: qdatetime

record device_row =
  dr_label :: string
  dr_key :: string
  dr_agent :: string
  dr_status :: int

record client_db =
  cd_open :: bool
  cd_credentials :: "credentials option"
  cd_contacts :: "contact_row list"
  cd_next_uid :: int
  cd_messages :: "client_message list"
  cd_devices :: "device_row list"

text \<open>The schema the constructor creates: empty tables.\<close>

definition schema_created :: client_db where
  "schema_created = \<lparr>cd_open = True, cd_credentials = None, cd_contacts = [], cd_next_uid = 1, cd_messages = [], cd_devices = []\<rparr>"

section \<open>Running statements\<close>

text \<open>A statement gives the new tables, or \<open>None\<close> when a constraint refuses it.\<close>

type_synonym statement = "client_db \<Rightarrow> client_db option"

definition storage_runQuery :: "statement \<Rightarrow> client_db \<Rightarrow> client_db \<times> bool" where
  "storage_runQuery stmt db =
    (if \<not> cd_open db then (db, False)
     else case stmt db of None \<Rightarrow> (db, False) | Some db' \<Rightarrow> (db', True))"

abbreviation perform :: "statement \<Rightarrow> client_db \<Rightarrow> client_db" where
  "perform stmt db \<equiv> fst (storage_runQuery stmt db)"

fun storage_query_loop :: "statement list \<Rightarrow> nat \<Rightarrow> client_db \<Rightarrow> client_db \<times> nat" where
  "storage_query_loop [] n db = (db, n)"
| "storage_query_loop (q # qs) n db =
    (case storage_runQuery q db of (db', ok) \<Rightarrow> if \<not> ok then (db', n) else storage_query_loop qs (n + 1) db')"

definition storage_runQueries :: "statement list \<Rightarrow> client_db \<Rightarrow> client_db \<times> nat" where
  "storage_runQueries qs db = (if \<not> cd_open db then (db, 0) else if length qs < 1 then (db, 0) else storage_query_loop qs 0 db)"

definition storage_getRecords :: "(client_db \<Rightarrow> 'r list) \<Rightarrow> client_db \<Rightarrow> 'r list" where
  "storage_getRecords query db = (if \<not> cd_open db then [] else query db)"

text \<open>\<open>getRecord\<close> gives the first row as a hash (\<open>next\<close>), or an empty one.\<close>

definition storage_getRecord :: "(client_db \<Rightarrow> 'r list) \<Rightarrow> client_db \<Rightarrow> 'r option" where
  "storage_getRecord query db = (case storage_getRecords query db of [] \<Rightarrow> None | r # _ \<Rightarrow> Some r)"

text \<open>\<open>insert\<close> gives a valid \<open>QVariant\<close> when the statement succeeds.\<close>

definition storage_insert :: "statement \<Rightarrow> client_db \<Rightarrow> client_db \<times> bool" where
  "storage_insert stmt db = storage_runQuery stmt db"

section \<open>Statements\<close>

definition upd_contact :: "int \<Rightarrow> (contact_row \<Rightarrow> contact_row) \<Rightarrow> statement" where
  "upd_contact uid f db = Some (db\<lparr>cd_contacts := map (\<lambda>c. if ct_uid c = uid then f c else c) (cd_contacts db)\<rparr>)"

definition upd_contact_number :: "int \<Rightarrow> (contact_row \<Rightarrow> contact_row) \<Rightarrow> statement" where
  "upd_contact_number num f db =
    Some (db\<lparr>cd_contacts := map (\<lambda>c. if ct_extension c = num then f c else c) (cd_contacts db)\<rparr>)"

definition ins_contact :: "(contact_row \<Rightarrow> contact_row) \<Rightarrow> statement" where
  "ins_contact f db = Some (db\<lparr>cd_contacts := cd_contacts db @ [f (new_contact (cd_next_uid db))],
     cd_next_uid := cd_next_uid db + 1\<rparr>)"

definition del_contact :: "int \<Rightarrow> statement" where
  "del_contact uid db = Some (db\<lparr>cd_contacts := filter (\<lambda>c. ct_uid c \<noteq> uid) (cd_contacts db)\<rparr>)"

text \<open>The primary key of \<open>Messages\<close> is \<open>(sid, posted, seqid)\<close>.\<close>

definition message_key :: "client_message \<Rightarrow> int \<times> int \<times> int" where
  "message_key m = (mg_sid m, toMSecs (mg_posted m), mg_seqid m)"

definition ins_client_message :: "client_message \<Rightarrow> statement" where
  "ins_client_message m db = (if message_key m \<in> message_key ` set (cd_messages db) then None
     else Some (db\<lparr>cd_messages := cd_messages db @ [m]\<rparr>))"

definition del_client_messages :: "(client_message \<Rightarrow> bool) \<Rightarrow> statement" where
  "del_client_messages P db = Some (db\<lparr>cd_messages := filter (\<lambda>m. \<not> P m) (cd_messages db)\<rparr>)"

definition del_device :: "string \<Rightarrow> statement" where
  "del_device label db = Some (db\<lparr>cd_devices := filter (\<lambda>d. dr_label d \<noteq> label) (cd_devices db)\<rparr>)"

definition ins_device :: "device_row \<Rightarrow> statement" where
  "ins_device d db = (if dr_label d \<in> dr_label ` set (cd_devices db) then None
     else Some (db\<lparr>cd_devices := cd_devices db @ [d]\<rparr>))"

definition upd_device :: "string \<Rightarrow> int \<Rightarrow> statement" where
  "upd_device label status db = Some (db\<lparr>cd_devices :=
     map (\<lambda>d. if dr_label d = label then d\<lparr>dr_status := status\<rparr> else d) (cd_devices db)\<rparr>)"

definition upd_credentials :: "(credentials \<Rightarrow> credentials) \<Rightarrow> statement" where
  "upd_credentials f db = Some (db\<lparr>cd_credentials := map_option f (cd_credentials db)\<rparr>)"

text \<open>\<open>NOT NULL\<close> columns refuse a row without a value.\<close>

definition ins_credentials :: "credentials \<Rightarrow> statement" where
  "ins_credentials c db =
    (if \<exists>key \<in> set [''user'', ''display'', ''label'', ''secret'', ''schema'', ''server'', ''host'', ''realm'', ''type''].
       c key = None then None
     else Some (db\<lparr>cd_credentials := Some (c |` set [''extension'', ''user'', ''display'', ''label'', ''secret'',
       ''server'', ''schema'', ''host'', ''port'', ''type'', ''realm''])\<rparr>))"

definition storage_credentials :: "client_db \<Rightarrow> credentials" where
  "storage_credentials db = (case storage_getRecord (\<lambda>db. case cd_credentials db of None \<Rightarrow> [] | Some c \<Rightarrow> [c]) db of
     None \<Rightarrow> Map.empty | Some c \<Rightarrow> c)"

section \<open>Operations\<close>

definition cleanupExpired :: "qdatetime \<Rightarrow> client_db \<Rightarrow> client_db" where
  "cleanupExpired now = perform (del_client_messages
     (\<lambda>m. toMSecs (mg_expires m) > toMSecs (mg_posted m) \<and> toMSecs (mg_expires m) < toMSecs now))"

definition storage_name :: "qt_lib \<Rightarrow> credentials \<Rightarrow> string \<Rightarrow> string" where
  "storage_name Q creds ident =
    (let extension = cred creds ''extension''; label = toLower (cred creds ''label'');
         key = extension @ '':'' @ label @ '':'' @ ident
     in toHex (q_hash Q Sha256 key))"

text \<open>\<open>pair\<close> is what \<open>Crypto::keypair\<close> gives.\<close>

definition missing_keys :: "credentials \<Rightarrow> bool" where
  "missing_keys creds \<longleftrightarrow> creds ''rootkey'' = None \<or> creds ''devkey'' = None"

definition createKeys :: "string \<times> string \<Rightarrow> credentials \<Rightarrow> client_db \<Rightarrow> credentials \<times> client_db" where
  "createKeys pair creds db =
    (if missing_keys creds then
       (creds(''devkey'' \<mapsto> fst pair, ''rootkey'' \<mapsto> snd pair),
        perform (upd_credentials (\<lambda>c. c(''devkey'' \<mapsto> fst pair, ''rootkey'' \<mapsto> snd pair))) db)
     else (creds, db))"

definition updateSelf :: "string \<Rightarrow> client_db \<Rightarrow> client_db" where
  "updateSelf display = perform (upd_credentials (\<lambda>c. c(''display'' \<mapsto> display)))"

definition port_of :: "credentials \<Rightarrow> quint16" where
  "port_of creds = of_int (toInt (cred creds ''port''))"

definition server_address :: "credentials \<Rightarrow> string" where
  "server_address creds = uri_server (cred creds ''schema'') (cred creds ''host'') (port_of creds)"

definition from_address :: "credentials \<Rightarrow> string" where
  "from_address creds = uri_id (cred creds ''schema'') (cred creds ''extension'') (cred creds ''host'') (port_of creds)"

text \<open>An absent value is bound as \<open>NULL\<close>; a \<open>NOT NULL\<close> column refuses the update.\<close>

definition set_credentials :: "credentials \<Rightarrow> statement" where
  "set_credentials c db = (case cd_credentials db of None \<Rightarrow> Some db | Some old \<Rightarrow>
     if \<exists>key \<in> set [''schema'', ''host'', ''user'', ''secret'', ''type'', ''realm'']. c key = None then None
     else Some (db\<lparr>cd_credentials := Some (\<lambda>key. if key = ''server'' then Some (server_address c)
       else if key \<in> set [''schema'', ''host'', ''port'', ''user'', ''secret'', ''type'', ''realm''] then c key
       else old key)\<rparr>))"

definition updateCredentials :: "string \<times> string \<Rightarrow> credentials \<Rightarrow> client_db \<Rightarrow> client_db" where
  "updateCredentials pair update db =
    (if \<not> cd_open db \<or> update = Map.empty then db
     else (let (creds, db) = createKeys pair (storage_credentials db) db in perform (set_credentials (creds ++ update)) db))"

text \<open>A new or an existing database; one without a driver or that does not open stays closed.\<close>

definition store_keys :: "string \<times> string \<Rightarrow> credentials \<Rightarrow> client_db \<Rightarrow> client_db" where
  "store_keys pair creds db =
    (if missing_keys creds then snd (createKeys pair Map.empty db)
     else perform (upd_credentials (\<lambda>c. c(''devkey'' := creds ''devkey'', ''rootkey'' := creds ''rootkey''))) db)"

definition Storage_new :: "bool \<Rightarrow> qdatetime \<Rightarrow> string \<times> string \<Rightarrow> client_db option \<Rightarrow> credentials \<Rightarrow> client_db" where
  "Storage_new opens now pair existing creds =
    (if \<not> opens then (case existing of None \<Rightarrow> schema_created | Some db \<Rightarrow> db)\<lparr>cd_open := False\<rparr>
     else case existing of Some db \<Rightarrow> cleanupExpired now (updateCredentials pair creds (db\<lparr>cd_open := True\<rparr>))
     | None \<Rightarrow> store_keys pair creds
         (perform (ins_credentials (creds(''server'' \<mapsto> server_address creds))) schema_created))"

section \<open>Devices\<close>

definition verifyDevice :: "string \<Rightarrow> string \<Rightarrow> string \<Rightarrow> client_db \<Rightarrow> client_db" where
  "verifyDevice label key agent db =
    perform (ins_device \<lparr>dr_label = label, dr_key = key, dr_agent = agent, dr_status = 1\<rparr>) (perform (del_device label) db)"

text \<open>The array of the server becomes a hash of objects by label; a later one replaces an earlier.\<close>

definition labels_of :: "json_object list \<Rightarrow> (string \<times> json_object) list" where
  "labels_of devices = fold (\<lambda>json labels. AList.update (json_string json ''u'') (json_set ''v'' (JInt 0) json) labels) devices []"

definition device_of :: "(string \<times> json_object) list \<Rightarrow> string \<Rightarrow> json_object" where
  "device_of labels label = (case map_of labels label of None \<Rightarrow> [] | Some json \<Rightarrow> json)"

text \<open>\<open>status\<close> and the local and remote keys give the new status.\<close>

definition pinned_status :: "device_row \<Rightarrow> string \<Rightarrow> int" where
  "pinned_status d rkey = (if dr_status d = 2 \<or> dr_key d \<noteq> rkey then 2 else 1)"

definition verify_row :: "device_row \<Rightarrow> client_db \<times> (string \<times> json_object) list \<Rightarrow> client_db \<times> (string \<times> json_object) list" where
  "verify_row d st = (case st of (db, labels) \<Rightarrow>
     (let label = dr_label d; json = device_of labels label in
      if json = [] then (perform (del_device label) db, labels)
      else (let rkey = fromHex (json_string json ''k'') in
        if length rkey < 1 then (db, labels)
        else (let v = pinned_status d rkey
          in (perform (upd_device label v) db, AList.update label (json_set ''v'' (JInt v) json) labels)))))"

definition verifyDevices :: "json_object list \<Rightarrow> client_db \<Rightarrow> client_db \<times> json_object list" where
  "verifyDevices devices db =
    (let (db, labels) = fold verify_row (storage_getRecords cd_devices db) (db, labels_of devices);
         index = sort_key toLower (map fst labels)
     in (db, filter (\<lambda>json. json \<noteq> []) (map (device_of labels) index)))"

section \<open>Files\<close>

text \<open>The files of the client by path; \<open>prefix\<close> is the directory, \<open>DESKTOP_PREFIX\<close> or the data location.\<close>

type_synonym disk = "string \<rightharpoonup> client_db"

definition storagePath :: "string \<Rightarrow> string \<Rightarrow> string" where
  "storagePath prefix dbName = prefix @ dbName @ ''.db''"

definition storage_exists :: "string \<Rightarrow> string \<Rightarrow> disk \<Rightarrow> bool" where
  "storage_exists prefix dbName files = (if dbName = [] then False else files (storagePath prefix dbName) \<noteq> None)"

definition storage_remove :: "string \<Rightarrow> string \<Rightarrow> disk \<Rightarrow> disk" where
  "storage_remove prefix dbName files = files(storagePath prefix dbName := None)"

text \<open>\<open>QFile::copy\<close> does not replace an existing file.\<close>

definition file_copy :: "string \<Rightarrow> string \<Rightarrow> disk \<Rightarrow> disk \<times> bool" where
  "file_copy src dst files = (case files src of None \<Rightarrow> (files, False)
     | Some f \<Rightarrow> if files dst \<noteq> None then (files, False) else (files(dst \<mapsto> f), True))"

definition backup_path :: "string \<Rightarrow> credentials \<Rightarrow> string" where
  "backup_path prefix creds = prefix @ cred creds ''extension'' @ ''-'' @ cred creds ''label'' @ ''-'' @ ''backup.db''"

text \<open>\<open>0\<close> is success.\<close>

definition copyDb :: "string \<Rightarrow> string \<Rightarrow> client_db \<Rightarrow> disk \<Rightarrow> disk \<times> int" where
  "copyDb prefix dbName db files =
    (case file_copy (storagePath prefix dbName) (backup_path prefix (storage_credentials db)) files of (files', ok) \<Rightarrow>
       (files', if ok then 0 else 1))"

text \<open>\<open>developer\<close>: built with \<open>DESKTOP_PREFIX\<close>; only then the target is removed first.\<close>

definition importDb :: "bool \<Rightarrow> string \<Rightarrow> string \<Rightarrow> credentials \<Rightarrow> disk \<Rightarrow> disk \<times> bool" where
  "importDb developer prefix dbName creds files =
    (if developer then file_copy (backup_path prefix creds) (storagePath prefix dbName) (storage_remove prefix dbName files)
     else file_copy (backup_path prefix creds) (storagePath prefix dbName) files)"

text \<open>Before the first login: the keys of an existing database, or new ones.\<close>

definition initialLogin :: "bool \<Rightarrow> qdatetime \<Rightarrow> string \<times> string \<Rightarrow> string \<Rightarrow> string \<Rightarrow> credentials \<Rightarrow> disk \<Rightarrow> disk \<times> credentials" where
  "initialLogin opens now pair prefix dbName creds files =
    (let fresh = (\<lambda>creds. if missing_keys creds then creds(''devkey'' \<mapsto> fst pair, ''rootkey'' \<mapsto> snd pair) else creds)
     in if storage_exists prefix dbName files then
          (let creds = creds(''initialize'' \<mapsto> ''user'');
               tmp = Storage_new opens now pair (files (storagePath prefix dbName)) creds
           in if \<not> cd_open tmp then (files, creds)
              else (let keys = storage_credentials tmp;
                        creds = creds(''devkey'' := keys ''devkey'', ''rootkey'' := keys ''rootkey'')
                    in (files(storagePath prefix dbName \<mapsto> tmp), fresh creds)))
        else (files, fresh creds))"

end
