(* ===== verification/StorageProps.thy ===== *)
theory StorageProps
  imports ClientStorage
begin

text \<open>
  Device keys stay pinned: what becomes of the stored row of a device over any number of profiles from
  the server. And which database a backup restores.
\<close>

section \<open>One label at a time\<close>

definition device_row_of :: "string \<Rightarrow> client_db \<Rightarrow> device_row option" where
  "device_row_of label db = find (\<lambda>d. dr_label d = label) (cd_devices db)"

lemma find_label_filter:
  "find (\<lambda>d. dr_label d = l) (filter (\<lambda>d. dr_label d \<noteq> l') ds) =
     (if l = l' then None else find (\<lambda>d. dr_label d = l) ds)"
  by (induction ds) auto

lemma find_label_map:
  "find (\<lambda>d. dr_label d = l) (map (\<lambda>d. if dr_label d = l' then d\<lparr>dr_status := s\<rparr> else d) ds) =
     (if l = l' then map_option (\<lambda>d. d\<lparr>dr_status := s\<rparr>) (find (\<lambda>d. dr_label d = l) ds) else find (\<lambda>d. dr_label d = l) ds)"
  by (induction ds) auto

lemma verify_row_open [simp]: "cd_open (fst (verify_row d (db, labels))) = cd_open db"
  by (simp add: verify_row_def storage_runQuery_def del_device_def upd_device_def Let_def)

text \<open>The key the server reports for a label; \<open>None\<close> when it does not list it.\<close>

definition reported_key :: "string \<Rightarrow> json_object list \<Rightarrow> string option" where
  "reported_key label devices = (let json = device_of (labels_of devices) label in
     if json = [] then None else Some (fromHex (json_string json ''k'')))"

text \<open>The row after one profile.\<close>

definition pinned :: "device_row \<Rightarrow> string option \<Rightarrow> device_row option" where
  "pinned d key = (case key of None \<Rightarrow> None
     | Some k \<Rightarrow> Some (if k = [] then d else d\<lparr>dr_status := pinned_status d k\<rparr>))"

lemma verify_row_other:
  assumes "cd_open db" "dr_label d \<noteq> l"
  shows "device_row_of l (fst (verify_row d (db, labels))) = device_row_of l db"
    "device_of (snd (verify_row d (db, labels))) l = device_of labels l"
  using assms
  by (simp_all add: verify_row_def device_row_of_def storage_runQuery_def del_device_def upd_device_def find_label_filter find_label_map
      device_of_def update_conv' Let_def)

lemma verify_row_own:
  assumes "cd_open db" "device_row_of (dr_label d) db = Some d"
  shows "device_row_of (dr_label d) (fst (verify_row d (db, labels))) =
    (let json = device_of labels (dr_label d) in
     pinned d (if json = [] then None else Some (fromHex (json_string json ''k''))))"
  using assms
  by (simp add: verify_row_def device_row_of_def storage_runQuery_def del_device_def upd_device_def find_label_filter find_label_map
      pinned_def Let_def)

lemma verify_fold_other:
  "\<lbrakk>cd_open db; l \<notin> dr_label ` set recs\<rbrakk> \<Longrightarrow>
     device_row_of l (fst (fold verify_row recs (db, labels))) = device_row_of l db \<and>
     device_of (snd (fold verify_row recs (db, labels))) l = device_of labels l \<and>
     cd_open (fst (fold verify_row recs (db, labels)))"
proof (induction recs arbitrary: db labels)
  case (Cons d recs)
  obtain db1 labels1 where one: "verify_row d (db, labels) = (db1, labels1)" by (cases "verify_row d (db, labels)")
  have "cd_open db1" using Cons.prems(1) verify_row_open[of d db labels] one by simp
  moreover have "device_row_of l db1 = device_row_of l db" "device_of labels1 l = device_of labels l"
    using verify_row_other[of db d l labels] Cons.prems one by auto
  ultimately show ?case using Cons.IH[of db1 labels1] Cons.prems one by auto
qed simp

lemma verify_fold_own:
  assumes "cd_open db" "distinct (map dr_label recs)" "d \<in> set recs" "device_row_of (dr_label d) db = Some d"
  shows "device_row_of (dr_label d) (fst (fold verify_row recs (db, labels))) =
    (let json = device_of labels (dr_label d) in
     pinned d (if json = [] then None else Some (fromHex (json_string json ''k''))))"
proof -
  from assms(3) obtain before after where recs: "recs = before @ d # after" by (metis split_list)
  with assms(2) have apart: "dr_label d \<notin> dr_label ` set before" "dr_label d \<notin> dr_label ` set after" by auto
  obtain db1 labels1 where one: "fold verify_row before (db, labels) = (db1, labels1)"
    by (cases "fold verify_row before (db, labels)")
  have here: "cd_open db1" "device_row_of (dr_label d) db1 = Some d" "device_of labels1 (dr_label d) = device_of labels (dr_label d)"
    using verify_fold_other[OF assms(1) apart(1), of labels] one assms(4) by auto
  obtain db2 labels2 where two: "verify_row d (db1, labels1) = (db2, labels2)" by (cases "verify_row d (db1, labels1)")
  have "cd_open db2" using here(1) verify_row_open[of d db1 labels1] two by simp
  from verify_fold_other[OF this apart(2), of labels2] verify_row_own[OF here(1,2), of labels1] here(3)
  show ?thesis by (simp add: recs one two)
qed

lemma find_label_self: "\<lbrakk>distinct (map dr_label ds); d \<in> set ds\<rbrakk> \<Longrightarrow> find (\<lambda>x. dr_label x = dr_label d) ds = Some d"
  by (induction ds) (auto simp: image_iff)

lemma verifyDevices_row:
  assumes "cd_open db" "distinct (map dr_label (cd_devices db))" "device_row_of label db = Some d"
  shows "device_row_of label (fst (verifyDevices devices db)) = pinned d (reported_key label devices)"
proof -
  have d: "d \<in> set (cd_devices db)" "dr_label d = label"
    using assms(3) by (auto simp: device_row_of_def find_Some_iff)
  obtain db1 labels1 where fold: "fold verify_row (cd_devices db) (db, labels_of devices) = (db1, labels1)"
    by (cases "fold verify_row (cd_devices db) (db, labels_of devices)")
  have "device_row_of label db1 = pinned d (reported_key label devices)"
    using verify_fold_own[OF assms(1,2) d(1), of "labels_of devices"] assms(3) d(2) fold
    by (simp add: reported_key_def Let_def)
  with fold assms(1) show ?thesis by (simp add: verifyDevices_def storage_getRecords_def Let_def)
qed

lemma verify_fold_open: "cd_open (fst (fold verify_row recs (db, labels))) = cd_open db"
proof (induction recs arbitrary: db labels)
  case (Cons d recs)
  then show ?case using verify_row_open[of d db labels] by (cases "verify_row d (db, labels)") simp
qed simp

text \<open>The labels of the table only shrink.\<close>

lemma verify_row_labels:
  "\<exists>P. map dr_label (cd_devices (fst (verify_row d (db, labels)))) = filter P (map dr_label (cd_devices db))"
proof -
  have keep: "\<exists>P. map dr_label (cd_devices db) = filter P (map dr_label (cd_devices db))"
    by (rule exI[of _ "\<lambda>_. True"]) simp
  have gone: "\<exists>P. map dr_label (filter (\<lambda>x. dr_label x \<noteq> dr_label d) (cd_devices db)) = filter P (map dr_label (cd_devices db))"
    by (rule exI[of _ "\<lambda>l. l \<noteq> dr_label d"]) (simp add: filter_map o_def)
  have same: "map dr_label (map (\<lambda>x. if dr_label x = l then x\<lparr>dr_status := s\<rparr> else x) ds) = map dr_label ds" for l s ds
    by (induction ds) simp_all
  show ?thesis using keep gone
    by (simp add: verify_row_def storage_runQuery_def del_device_def upd_device_def same Let_def del: map_map)
qed

lemma verify_fold_distinct:
  "distinct (map dr_label (cd_devices db)) \<Longrightarrow> distinct (map dr_label (cd_devices (fst (fold verify_row recs (db, labels)))))"
proof (induction recs arbitrary: db labels)
  case (Cons d recs)
  obtain db1 labels1 where one: "verify_row d (db, labels) = (db1, labels1)" by (cases "verify_row d (db, labels)")
  have "distinct (map dr_label (cd_devices db1))"
    using verify_row_labels[of d db labels] Cons.prems one by (metis distinct_filter fst_conv)
  then show ?case using Cons.IH one by simp
qed simp

lemma verifyDevices_keeps:
  assumes "cd_open db" "distinct (map dr_label (cd_devices db))"
  shows "cd_open (fst (verifyDevices devices db))" "distinct (map dr_label (cd_devices (fst (verifyDevices devices db))))"
proof -
  obtain db1 labels1 where fold: "fold verify_row (cd_devices db) (db, labels_of devices) = (db1, labels1)"
    by (cases "fold verify_row (cd_devices db) (db, labels_of devices)")
  have "cd_open db1" using verify_fold_open[of "cd_devices db" db "labels_of devices"] assms(1) fold by simp
  with fold assms show "cd_open (fst (verifyDevices devices db))"
      "distinct (map dr_label (cd_devices (fst (verifyDevices devices db))))"
    using verify_fold_distinct[OF assms(2), of "cd_devices db" "labels_of devices"]
    by (simp_all add: verifyDevices_def storage_getRecords_def Let_def)
qed


section \<open>Properties\<close>

definition verify_all :: "json_object list list \<Rightarrow> client_db \<Rightarrow> client_db" where
  "verify_all profiles db = fold (\<lambda>devices db. fst (verifyDevices devices db)) profiles db"

text \<open>
  C23. A changed device key stays flagged. Whatever profiles the server sends while it goes on listing a
  device, the stored key and agent of that device never change, and it is marked as failed (status 2)
  exactly when it already was, or when one of the profiles reported a key, not empty, that is not the
  stored one: reporting the right key again does not clear the mark.
\<close>

theorem device_key_pinned:
  assumes "cd_open db" "distinct (map dr_label (cd_devices db))" "device_row_of label db = Some d"
    "\<forall>devices \<in> set profiles. reported_key label devices \<noteq> None"
  shows "\<exists>d'. device_row_of label (verify_all profiles db) = Some d' \<and> dr_key d' = dr_key d \<and> dr_agent d' = dr_agent d \<and>
    (dr_status d' = 2 \<longleftrightarrow> dr_status d = 2 \<or>
       (\<exists>devices \<in> set profiles. \<exists>k. reported_key label devices = Some k \<and> k \<noteq> [] \<and> k \<noteq> dr_key d))"
  using assms
proof (induction profiles arbitrary: db d)
  case Nil
  then show ?case by (simp add: verify_all_def)
next
  case (Cons devices profiles)
  let ?db1 = "fst (verifyDevices devices db)"
  obtain k where k: "reported_key label devices = Some k" using Cons.prems(4) by auto
  define d1 where "d1 = (if k = [] then d else d\<lparr>dr_status := pinned_status d k\<rparr>)"
  have one: "device_row_of label ?db1 = Some d1"
    using verifyDevices_row[OF Cons.prems(1-3), of devices] k by (simp add: pinned_def d1_def)
  have "dr_key d1 = dr_key d" "dr_agent d1 = dr_agent d"
      "dr_status d1 = 2 \<longleftrightarrow> dr_status d = 2 \<or> k \<noteq> [] \<and> k \<noteq> dr_key d"
    by (auto simp: d1_def pinned_status_def)
  with Cons.IH[OF verifyDevices_keeps[OF Cons.prems(1,2)] one] Cons.prems(4) k
  show ?case by (auto simp: verify_all_def)
qed

definition sample_device_json :: "string \<Rightarrow> json_object" where
  "sample_device_json key = [(''u'', JString ''phone''), (''k'', JString key)]"

definition sample_devices :: client_db where
  "sample_devices = verifyDevice ''phone'' ''A'' ''agent'' schema_created"

lemma device_key_pinned_witness:
  "\<exists>d. device_row_of ''phone'' (verify_all [[sample_device_json (toHex ''B'')], [sample_device_json (toHex ''A'')]] sample_devices) = Some d \<and>
     dr_key d = ''A'' \<and> dr_status d = 2"
proof -
  have dev: "cd_open sample_devices" "distinct (map dr_label (cd_devices sample_devices))"
    "device_row_of ''phone'' sample_devices = Some \<lparr>dr_label = ''phone'', dr_key = ''A'', dr_agent = ''agent'', dr_status = 1\<rparr>"
    by (simp_all add: sample_devices_def verifyDevice_def storage_runQuery_def del_device_def ins_device_def schema_created_def device_row_of_def)
  have key: "reported_key ''phone'' [sample_device_json (toHex k)] = Some k" for k
    by (simp add: reported_key_def labels_of_def device_of_def sample_device_json_def json_string_def json_set_def fromHex_toHex Let_def)
  from device_key_pinned[OF dev, of "[[sample_device_json (toHex ''B'')], [sample_device_json (toHex ''A'')]]"] key
  show ?thesis by auto
qed

text \<open>
  A backup restores the database only in a developer build. There, what \<open>copyDb\<close> has written is
  what \<open>importDb\<close> puts back, whatever happened to the database in between. In a release build the
  database that is replaced still exists, so \<open>importDb\<close> fails and leaves every file as it was.
\<close>

theorem backup_restores:
  assumes "copyDb prefix dbName db files = (files', 0)" "files (storagePath prefix dbName) = Some saved"
    "backup_path prefix creds = backup_path prefix (storage_credentials db)"
    "backup_path prefix creds \<noteq> storagePath prefix dbName"
    "later (backup_path prefix creds) = files' (backup_path prefix creds)" "later (storagePath prefix dbName) \<noteq> None"
  shows "importDb True prefix dbName creds later = (later(storagePath prefix dbName \<mapsto> saved), True) \<and>
    importDb False prefix dbName creds later = (later, False)"
proof -
  have saved: "files' (backup_path prefix creds) = Some saved"
    using assms(1-4) by (auto simp: copyDb_def file_copy_def split: option.splits if_splits)
  with assms(4-6) show ?thesis
    by (auto simp: importDb_def file_copy_def storage_remove_def fun_upd_twist split: option.splits)
qed

lemma backup_restores_witness:
  "\<exists>files'. copyDb [] ''db'' sample_devices [''db.db'' \<mapsto> sample_devices] = (files', 0) \<and>
     importDb True [] ''db'' Map.empty (files'(''db.db'' \<mapsto> schema_created)) =
       (files'(''db.db'' \<mapsto> schema_created, ''db.db'' \<mapsto> sample_devices), True) \<and>
     importDb False [] ''db'' Map.empty (files'(''db.db'' \<mapsto> schema_created)) = (files'(''db.db'' \<mapsto> schema_created), False)"
proof -
  have paths: "storagePath [] ''db'' = ''db.db''" "backup_path [] Map.empty = ''--backup.db''"
    "storage_credentials sample_devices = Map.empty"
    by (simp_all add: storagePath_def backup_path_def cred_def storage_credentials_def storage_getRecord_def storage_getRecords_def
        sample_devices_def verifyDevice_def storage_runQuery_def del_device_def ins_device_def schema_created_def)
  obtain files' where copy: "copyDb [] ''db'' sample_devices [''db.db'' \<mapsto> sample_devices] = (files', 0)"
    by (simp add: copyDb_def file_copy_def paths)
  from backup_restores[OF copy, of sample_devices Map.empty "files'(''db.db'' \<mapsto> schema_created)"] copy
  show ?thesis by (simp add: paths)
qed

end
