(* ===== verification/Phonebooks.thy ===== *)
theory Phonebooks
  imports ClientStorage
begin

text \<open>
  The contacts of the desktop client (\<open>Desktop/phonebook.cpp\<close>): the heap of contact items, the tables that
  hold pointers to them, the roster and profile updates and the presence mask. Following a null or
  dangling pointer, or reading outside a table, is \<open>None\<close>.
\<close>

unbundle bit_operations_syntax

section \<open>State\<close>

record contact_item =
  it_number :: int
  it_uid :: int
  it_sequence :: int
  it_topicSequence :: int
  it_coverage :: int
  it_delay :: int
  it_type :: string
  it_user :: string
  it_uri :: string
  it_public :: string
  it_email :: string
  it_display :: string
  it_textDisplay :: string
  it_dialed :: string
  it_filter :: string
  it_topic :: string
  it_info :: string
  it_key :: string
  it_fwdAway :: string
  it_fwdBusy :: string
  it_fwdNoAnswer :: string
  it_created :: "qdatetime option"
  it_updated :: "qdatetime option"
  it_topicUpdated :: "qdatetime option"
  it_verify :: int
  it_group :: bool
  it_added :: bool
  it_hidden :: bool
  it_admin :: bool
  it_online :: bool
  it_suspended :: bool
  it_autoAnswer :: bool
  it_members :: "ptr list"
  it_speeds :: "(int \<times> string) list"
  it_leader :: "ptr option"
  it_session :: "ptr option"

record phonebook =
  pb_items :: "ptr \<rightharpoonup> contact_item"
  pb_fresh :: ptr
  pb_local :: "int \<Rightarrow> ptr option" \<comment> \<open>\<open>local[1000]\<close>\<close>
  pb_users :: "ptr list"
  pb_groups :: "ptr list"
  pb_foreign :: "string \<rightharpoonup> ptr"
  pb_index :: "(int \<times> ptr option) list" \<comment> \<open>by uid, in the order of the hash\<close>
  pb_usrAuths :: "string list"
  pb_grpAuths :: "string list"
  pb_me :: int
  pb_removes :: int
  pb_sysop :: bool
  pb_suspend :: bool
  pb_db :: client_db

definition highest :: int where
  "highest = 699"

text \<open>What the phonebook asks of the rest of the client.\<close>

datatype pb_effect =
    UpdateSession ptr
  | SetSelf string
  | RemoveUser string

section \<open>Contact items\<close>

definition item_of :: "contact_row \<Rightarrow> contact_item" where
  "item_of r = \<lparr>it_number = ct_extension r, it_uid = ct_uid r, it_sequence = ct_sequence r, it_topicSequence = ct_tseq r,
     it_coverage = -1, it_delay = 0, it_type = ct_type r, it_user = toLower (ct_user r), it_uri = ct_uri r,
     it_public = ct_puburi r, it_email = ct_mailto r, it_display = ct_display r, it_textDisplay = ct_display r,
     it_dialed = ct_dialing r, it_filter = [], it_topic = ct_topic r, it_info = ct_info r, it_key = ct_pubkey r,
     it_fwdAway = [], it_fwdBusy = [], it_fwdNoAnswer = [], it_created = sql_time (ct_sync r),
     it_updated = sql_time (ct_last r), it_topicUpdated = sql_time (ct_tsync r), it_verify = ct_verify r,
     it_group = False, it_added = False, it_hidden = False, it_admin = False, it_online = False, it_suspended = False,
     it_autoAnswer = (ct_answer r > 0), it_members = [], it_speeds = [], it_leader = None, it_session = None\<rparr>"

definition ContactItem_new :: "contact_row \<Rightarrow> phonebook \<Rightarrow> phonebook \<times> ptr" where
  "ContactItem_new r pb =
    (let p = pb_fresh pb
     in (pb\<lparr>pb_items := (pb_items pb)(p \<mapsto> item_of r), pb_fresh := p + 1,
            pb_index := AList.update (ct_uid r) (Some p) (pb_index pb)\<rparr>, p))"

definition set_item :: "ptr \<Rightarrow> (contact_item \<Rightarrow> contact_item) \<Rightarrow> phonebook \<Rightarrow> phonebook option" where
  "set_item p f pb = (case pb_items pb p of None \<Rightarrow> None
     | Some it \<Rightarrow> Some (pb\<lparr>pb_items := (pb_items pb)(p \<mapsto> f it)\<rparr>))"

definition group_type :: "string \<Rightarrow> bool" where
  "group_type type \<longleftrightarrow> type = ''GROUP'' \<or> type = ''PILOT''"

definition filter_text :: "contact_item \<Rightarrow> string" where
  "filter_text it = toLower (it_dialed it @ [CHR 0x0A] @ it_display it)"

text \<open>The lists of the contacts that have sessions when they are loaded.\<close>

definition add_listed :: "ptr \<Rightarrow> contact_item \<Rightarrow> phonebook \<Rightarrow> phonebook" where
  "add_listed p it pb =
    (let pb = (if it_updated it = None then pb
           else if group_type (it_type it) then pb\<lparr>pb_groups := pb_groups pb @ [p]\<rparr>
           else if pb_me pb \<noteq> it_number it then pb\<lparr>pb_users := pb_users pb @ [p]\<rparr> else pb)
     in if it_type it = ''SYSTEM'' \<and> it_number it = 0 then pb\<lparr>pb_groups := p # pb_groups pb\<rparr> else pb)"

definition item_add :: "ptr \<Rightarrow> phonebook \<Rightarrow> phonebook option" where
  "item_add p pb = do {
     it \<leftarrow> pb_items pb p;
     let pb = add_listed p it pb;
     let it = it\<lparr>it_added := True,
       it_group := it_group it \<or> group_type (it_type it) \<or> (it_type it = ''SYSTEM'' \<and> it_number it = 0)\<rparr>;
     if \<not> it_number it > -1 \<or> it_number it > 999 then
       Some (pb\<lparr>pb_items := (pb_items pb)(p \<mapsto> it\<lparr>it_type := ''FOREIGN''\<rparr>), pb_foreign := (pb_foreign pb)(it_uri it \<mapsto> p)\<rparr>)
     else do {
       let pb = (if it_type it = ''USER'' \<or> it_type it = ''DEVICE'' then pb\<lparr>pb_usrAuths := List.insert (it_user it) (pb_usrAuths pb)\<rparr>
         else pb\<lparr>pb_grpAuths := List.insert (it_user it) (pb_grpAuths pb)\<rparr>);
       if it_display it = [] then Some (pb\<lparr>pb_items := (pb_items pb)(p \<mapsto> it)\<rparr>)
       else Some (pb\<lparr>pb_items := (pb_items pb)(p \<mapsto> it\<lparr>it_filter := filter_text it\<rparr>),
              pb_local := (pb_local pb)(it_number it := Some p)\<rparr>) } }"

definition setAutoAnswer :: "bool \<Rightarrow> ptr \<Rightarrow> phonebook \<Rightarrow> phonebook option" where
  "setAutoAnswer enable p pb = do {
     it \<leftarrow> pb_items pb p;
     let val = (if enable then 1 else 0 :: int);
     let pb = pb\<lparr>pb_db := perform (upd_contact (it_uid it) (\<lambda>c. c\<lparr>ct_answer := val\<rparr>)) (pb_db pb)\<rparr>;
     set_item p (\<lambda>it. it\<lparr>it_autoAnswer := (val > 0)\<rparr>) pb }"

section \<open>Finding\<close>

text \<open>The items of a stretch of the table, null entries skipped; the second argument tests an item.\<close>

fun collect_local :: "phonebook \<Rightarrow> (contact_item \<Rightarrow> bool) \<Rightarrow> int list \<Rightarrow> ptr list option" where
  "collect_local pb P [] = Some []"
| "collect_local pb P (n # ns) = (case pb_local pb n of None \<Rightarrow> collect_local pb P ns
     | Some p \<Rightarrow> do {
         it \<leftarrow> pb_items pb p;
         found \<leftarrow> collect_local pb P ns;
         Some (if P it then p # found else found) })"

definition findAuth :: "string \<Rightarrow> phonebook \<Rightarrow> ptr list option" where
  "findAuth ident pb = collect_local pb (\<lambda>it. it_user it = ident) [1..highest]"

definition findExtension :: "int \<Rightarrow> phonebook \<Rightarrow> ptr option" where
  "findExtension num pb = (if num \<ge> 0 \<and> num < 1000 then pb_local pb num else None)"

definition pb_find :: "string \<Rightarrow> phonebook \<Rightarrow> ptr option" where
  "pb_find ident pb =
    (if isNumber ident then findExtension (toInt ident) pb
     else if indexOf ident (CHR ''@'') < 1 then None
     else pb_foreign pb ident)"

text \<open>\<open>index[uid]\<close> adds a null entry for a uid it does not hold.\<close>

definition findContact :: "int \<Rightarrow> phonebook \<Rightarrow> phonebook \<times> ptr option" where
  "findContact uid pb = (case map_of (pb_index pb) uid of
     None \<Rightarrow> (pb\<lparr>pb_index := AList.update uid None (pb_index pb)\<rparr>, None)
   | Some p \<Rightarrow> (pb, p))"

definition contains :: "string \<Rightarrow> string \<Rightarrow> bool" where
  "contains s t \<longleftrightarrow> (\<exists>n \<in> set [0..<Suc (length s)]. take (length t) (drop n s) = t)"

text \<open>\<open>findText\<close> searches for the text as it is typed (its lower case form is not used).\<close>

fun find_text_loop :: "phonebook \<Rightarrow> string \<Rightarrow> (int \<times> ptr option) list \<Rightarrow> ptr option \<Rightarrow> ptr option option" where
  "find_text_loop pb t [] found = Some found"
| "find_text_loop pb t ((uid, e) # rest) found = do {
     p \<leftarrow> e;
     it \<leftarrow> pb_items pb p;
     if contains (it_filter it) t \<or> it_user it = t
     then (if found \<noteq> None then Some None else find_text_loop pb t rest (Some p))
     else find_text_loop pb t rest found }"

definition findText :: "string \<Rightarrow> phonebook \<Rightarrow> ptr option option" where
  "findText t pb = find_text_loop pb t (pb_index pb) None"

definition allUsers :: "phonebook \<Rightarrow> string list" where
  "allUsers pb = sort (pb_usrAuths pb)"

definition allGroups :: "phonebook \<Rightarrow> string list" where
  "allGroups pb = sort (pb_grpAuths pb)"

definition pb_sessions :: "phonebook \<Rightarrow> ptr list" where
  "pb_sessions pb = pb_groups pb @ pb_users pb"

definition deauthorize :: "string \<Rightarrow> phonebook \<Rightarrow> phonebook" where
  "deauthorize ident pb = pb\<lparr>pb_usrAuths := removeAll ident (pb_usrAuths pb), pb_grpAuths := removeAll ident (pb_grpAuths pb)\<rparr>"

definition oper :: "phonebook \<Rightarrow> ptr option" where
  "oper pb = pb_local pb 0"

definition pb_self :: "phonebook \<Rightarrow> ptr option" where
  "pb_self pb = (if pb_me pb < 1 then None else pb_local pb (pb_me pb))"

definition phonebook_find :: "int \<Rightarrow> phonebook \<Rightarrow> ptr option" where
  "phonebook_find num pb = (if num < 0 \<or> num > 999 then None else pb_local pb num)"

section \<open>Removing\<close>

definition removeMember :: "ptr \<Rightarrow> contact_item \<Rightarrow> contact_item" where
  "removeMember p it = it\<lparr>it_leader := (if it_leader it = Some p then None else it_leader it),
     it_members := remove1 p (it_members it)\<rparr>"

fun remove_members :: "ptr \<Rightarrow> int list \<Rightarrow> phonebook \<Rightarrow> phonebook option" where
  "remove_members p [] pb = Some pb"
| "remove_members p (n # ns) pb = (case pb_local pb n of None \<Rightarrow> remove_members p ns pb
     | Some q \<Rightarrow> do { pb \<leftarrow> set_item q (removeMember p) pb; remove_members p ns pb })"

definition removeIndex :: "ptr \<Rightarrow> phonebook \<Rightarrow> phonebook option" where
  "removeIndex p pb = do {
     it \<leftarrow> pb_items pb p;
     let num = it_number it;
     if num < 1 \<or> num > 999 then Some pb
     else do {
       let pb = pb\<lparr>pb_groups := remove1 p (pb_groups pb), pb_users := remove1 p (pb_users pb),
         pb_local := (pb_local pb)(num := None), pb_index := AList.delete (it_uid it) (pb_index pb)\<rparr>;
       pb \<leftarrow> remove_members p [0..highest] pb;
       Some (pb\<lparr>pb_items := (pb_items pb)(p := None)\<rparr>) } }"

definition local_remove :: "int \<Rightarrow> phonebook \<Rightarrow> phonebook" where
  "local_remove num pb = (if num > highest \<or> num < 0 then pb else pb\<lparr>pb_local := (pb_local pb)(num := None)\<rparr>)"

definition phonebook_remove :: "ptr \<Rightarrow> phonebook \<Rightarrow> phonebook option" where
  "phonebook_remove p pb = do {
     it \<leftarrow> pb_items pb p;
     removeIndex p (local_remove (it_number it) pb) }"

fun delete_items :: "(int \<times> ptr option) list \<Rightarrow> (ptr \<rightharpoonup> contact_item) \<Rightarrow> (ptr \<rightharpoonup> contact_item) option" where
  "delete_items [] items = Some items"
| "delete_items ((uid, None) # rest) items = delete_items rest items"
| "delete_items ((uid, Some p) # rest) items = do { _ \<leftarrow> items p; delete_items rest (items(p := None)) }"

definition purge :: "phonebook \<Rightarrow> phonebook option" where
  "purge pb = do {
     items \<leftarrow> delete_items (pb_index pb) (pb_items pb);
     Some (pb\<lparr>pb_items := items, pb_foreign := Map.empty, pb_groups := [], pb_users := [], pb_usrAuths := [],
       pb_index := [], pb_local := (\<lambda>_. None), pb_me := -1, pb_grpAuths := [''anonymous'', ''system'']\<rparr>) }"

text \<open>The contacts in the order of the last update.\<close>

definition sel_contacts :: "client_db \<Rightarrow> contact_row list" where
  "sel_contacts db = sort_key (\<lambda>c. (- fst (date_rank (ct_last c)), - snd (date_rank (ct_last c)), - ct_sequence c)) (cd_contacts db)"

fun load_contacts :: "contact_row list \<Rightarrow> phonebook \<Rightarrow> phonebook option" where
  "load_contacts [] pb = Some pb"
| "load_contacts (r # rs) pb = do {
     let (pb, p) = ContactItem_new r pb;
     pb \<leftarrow> item_add p pb;
     load_contacts rs pb }"

definition phonebook_changeStorage :: "client_db option \<Rightarrow> phonebook \<Rightarrow> phonebook option" where
  "phonebook_changeStorage storage pb = do {
     pb \<leftarrow> purge pb;
     case storage of None \<Rightarrow> Some pb
     | Some db \<Rightarrow> load_contacts (storage_getRecords sel_contacts db)
         (pb\<lparr>pb_me := toInt (cred (storage_credentials db) ''extension''), pb_db := db\<rparr>) }"

section \<open>Members of a group\<close>

definition MemberModel_new :: "ptr \<Rightarrow> phonebook \<Rightarrow> (ptr list \<times> ptr list) option" where
  "MemberModel_new p pb = do {
     it \<leftarrow> pb_items pb p;
     if \<not> it_admin it then Some (it_members it, [])
     else do {
       others \<leftarrow> collect_local pb (\<lambda>other. \<not> it_group other) [0..998];
       Some (it_members it, filter (\<lambda>q. q \<notin> set (it_members it)) others) } }"

definition member_remove :: "ptr \<Rightarrow> ptr list \<times> ptr list \<Rightarrow> ptr list \<times> ptr list" where
  "member_remove p model = (case model of (members, others) \<Rightarrow>
     if p \<in> set members then (remove1 p members, others)
     else if p \<in> set others then (members, remove1 p others) else (members, others))"

section \<open>Presence\<close>

definition changeOnline :: "int \<Rightarrow> bool \<Rightarrow> phonebook \<Rightarrow> (phonebook \<times> pb_effect list) option" where
  "changeOnline num status pb =
    (if num < 0 \<or> num > 1000 then Some (pb, [])
     else if num = 1000 then None
     else case pb_local pb num of None \<Rightarrow> Some (pb, [])
     | Some p \<Rightarrow> do {
         it \<leftarrow> pb_items pb p;
         if status = it_online it then Some (pb, [])
         else Some (pb\<lparr>pb_items := (pb_items pb)(p \<mapsto> it\<lparr>it_online := status\<rparr>)\<rparr>,
           case it_session it of Some s \<Rightarrow> if Some p \<noteq> pb_self pb then [UpdateSession s] else [] | None \<Rightarrow> []) })"

text \<open>
  The loop over the mask: \<open>pos\<close> and \<open>mask\<close> walk over the bytes. A \<open>QByteArray\<close> has a byte \<open>0\<close> at its end;
  what lies beyond is not its own.
\<close>

function status_loop :: "string \<Rightarrow> int \<Rightarrow> int \<Rightarrow> nat \<Rightarrow> nat \<Rightarrow> phonebook \<Rightarrow> (phonebook \<times> pb_effect list) option" where
  "status_loop bits cnt hi pos msk pb =
    (if \<not> cnt < hi then Some (pb, [])
     else if pos > length bits then None
     else do {
       let byte = (if pos = length bits then 0 else ord (bits ! pos));
       (pb, out) \<leftarrow> changeOnline cnt (byte AND msk \<noteq> 0) pb;
       let msk' = 2 * msk;
       (pb, out') \<leftarrow> (if msk' > 128 then status_loop bits (cnt + 1) hi (pos + 1) 1 pb
                      else status_loop bits (cnt + 1) hi pos msk' pb);
       Some (pb, out @ out') })"
  by pat_completeness auto
termination
  by (relation "measure (\<lambda>(bits, cnt, hi, pos, msk, pb). nat (hi - cnt))") auto

declare status_loop.simps [simp del]

definition changeStatus :: "string \<Rightarrow> int \<Rightarrow> int \<Rightarrow> phonebook \<Rightarrow> (phonebook \<times> pb_effect list) option" where
  "changeStatus status lo hi pb = status_loop status lo hi 0 1 pb"

text \<open>Without a connector every extension is offline: a mask of zeros.\<close>

definition phonebook_disconnected :: "phonebook \<Rightarrow> (phonebook \<times> pb_effect list) option" where
  "phonebook_disconnected pb = changeStatus (replicate (nat ((highest - 100) sdiv 8 + 1)) NUL) 100 highest pb"

section \<open>Profiles\<close>

definition json_int :: "json_object \<Rightarrow> string \<Rightarrow> int" where
  "json_int obj key = (case map_of obj key of Some (JInt i) \<Rightarrow> i | _ \<Rightarrow> 0)"

definition json_objects :: "json_object \<Rightarrow> string \<Rightarrow> json_object list" where
  "json_objects obj key = (case map_of obj key of Some (JArray js) \<Rightarrow> map (\<lambda>j. case j of JObject obj' \<Rightarrow> obj' | _ \<Rightarrow> []) js | _ \<Rightarrow> [])"

definition optional_int :: "json_object \<Rightarrow> string \<Rightarrow> int \<Rightarrow> int" where
  "optional_int obj key dflt = (if map_of obj key = None then dflt else json_int obj key)"

definition forward_text :: "json_object \<Rightarrow> string \<Rightarrow> string" where
  "forward_text obj key = (if optional_int obj key (-1) > -1 then number (optional_int obj key (-1)) else [])"

definition speed_numbers :: "json_object \<Rightarrow> (int \<times> string) list" where
  "speed_numbers obj = filter (\<lambda>(n, t). t \<noteq> []) (map (\<lambda>n. (n, json_string obj (number n))) [1..9])"

text \<open>The members of a group, those that are known and not hidden.\<close>

fun member_items :: "phonebook \<Rightarrow> int list \<Rightarrow> ptr list option" where
  "member_items pb [] = Some []"
| "member_items pb (n # ns) =
    (if n < 1 \<or> n > 999 then member_items pb ns
     else case pb_local pb n of None \<Rightarrow> member_items pb ns
     | Some p \<Rightarrow> do {
         it \<leftarrow> pb_items pb p;
         rest \<leftarrow> member_items pb ns;
         Some (if it_hidden it then rest else p # rest) })"

text \<open>The text \<open>"remove"\<close>: the user is gone; one's own removal is only noted.\<close>

definition remove_profile :: "string \<Rightarrow> phonebook \<Rightarrow> (phonebook \<times> ptr option \<times> pb_effect list) option" where
  "remove_profile user pb = do {
     gone \<leftarrow> findAuth user pb;
     if length gone < 1 then Some (pb, None, [])
     else if pb_self pb \<noteq> None \<and> the (pb_self pb) \<in> set gone then Some (pb\<lparr>pb_removes := -1\<rparr>, None, [])
     else Some (pb, None, [RemoveUser user]) }"

text \<open>What an administrator may do to the shown contact.\<close>

definition admin_buttons :: "bool \<Rightarrow> string \<Rightarrow> string \<Rightarrow> ptr \<Rightarrow> phonebook \<Rightarrow> phonebook option" where
  "admin_buttons admin type status p pb =
    (let pb = pb\<lparr>pb_sysop := False, pb_suspend := False\<rparr>
     in if (type = ''USER'' \<or> type = ''DEVICE'') \<and> admin \<and> Some p \<noteq> pb_self pb then do {
          it \<leftarrow> pb_items pb p;
          me \<leftarrow> pb_self pb;
          self \<leftarrow> pb_items pb me;
          Some (if it_user it \<noteq> it_user self then pb\<lparr>pb_sysop := (status \<noteq> ''sysadmin''), pb_suspend := (status \<noteq> ''suspend'')\<rparr>
                else pb) }
        else Some pb)"

definition group_leader :: "string \<Rightarrow> phonebook \<Rightarrow> ptr option option" where
  "group_leader grp pb =
    (let lead = qs_toInt grp
     in if lead > 1 \<and> lead < 999 then
          (case pb_local pb lead of None \<Rightarrow> Some None
           | Some p \<Rightarrow> do { it \<leftarrow> pb_items pb p; Some (if \<not> it_group it then Some p else None) })
        else Some None)"

definition set_leader :: "bool \<Rightarrow> string \<Rightarrow> ptr \<Rightarrow> phonebook \<Rightarrow> phonebook option" where
  "set_leader admin grp p pb =
    (if grp = ''admin'' then set_item p (\<lambda>it. it\<lparr>it_admin := True, it_leader := pb_self pb\<rparr>) pb
     else do {
       leader \<leftarrow> group_leader grp pb;
       set_item p (\<lambda>it. it\<lparr>it_admin := admin, it_leader := leader\<rparr>) pb })"

text \<open>The fields of a known contact. The filter is made from the display name it had before.\<close>

definition profile_fields :: "read_time \<Rightarrow> json_object \<Rightarrow> contact_item \<Rightarrow> contact_item" where
  "profile_fields fromIso json it =
    (let number = json_int json ''n''; type = json_string json ''t'' in
     it\<lparr>it_filter := filter_text it, it_info := (if map_of json ''i'' = None then it_info it else json_string json ''i''),
        it_textDisplay := json_string json ''d'', it_email := json_string json ''e'', it_display := json_string json ''d'',
        it_uri := json_string json ''u'', it_public := json_string json ''p'', it_user := toLower (json_string json ''a''),
        it_type := type, it_created := fromIso (json_string json ''c''), it_coverage := optional_int json ''cc'' (-1),
        it_delay := optional_int json ''rp'' 0, it_fwdAway := forward_text json ''away'', it_fwdBusy := forward_text json ''busy'',
        it_fwdNoAnswer := forward_text json ''noanswer'', it_speeds := speed_numbers json,
        it_group := (group_type type \<or> number = 0)\<rparr>)"

text \<open>The stored row; a key other than the one in memory, or none, ends its verification.\<close>

definition profile_row :: "read_time \<Rightarrow> json_object \<Rightarrow> contact_item \<Rightarrow> contact_row \<Rightarrow> contact_row" where
  "profile_row fromIso json it c =
    (let key = fromHex (json_string json ''k'') in
     c\<lparr>ct_display := json_string json ''d'', ct_user := json_string json ''a'', ct_type := json_string json ''t'',
       ct_uri := json_string json ''u'', ct_mailto := json_string json ''e'', ct_puburi := json_string json ''p'',
       ct_sync := sql_bind (fromIso (json_string json ''c'')),
       ct_info := (if map_of json ''i'' = None then it_info it else json_string json ''i''),
       ct_verify := (if key = [] \<or> key \<noteq> it_key it then 0 else it_verify it)\<rparr>)"

definition members_of :: "json_object \<Rightarrow> contact_item \<Rightarrow> phonebook \<Rightarrow> ptr list option" where
  "members_of json it pb =
    (let members = json_string json ''m''
     in if it_group it \<and> members \<noteq> [] then member_items pb (map qs_toInt (split_on (CHR '','') members)) else Some [])"

definition known_contact :: "read_time \<Rightarrow> json_object \<Rightarrow> ptr \<Rightarrow> phonebook \<Rightarrow> (phonebook \<times> ptr option \<times> pb_effect list) option" where
  "known_contact fromIso json p pb = do {
     it \<leftarrow> pb_items pb p;
     let it' = profile_fields fromIso json it;
     let pb = pb\<lparr>pb_items := (pb_items pb)(p \<mapsto> it'),
       pb_db := perform (upd_contact_number (json_int json ''n'') (profile_row fromIso json it)) (pb_db pb)\<rparr>;
     members \<leftarrow> members_of json it' pb;
     let pb = pb\<lparr>pb_items := (pb_items pb)(p \<mapsto> it'\<lparr>it_members := members, it_hidden := False\<rparr>)\<rparr>;
     Some (pb, Some p,
       if \<not> it_hidden it \<and> it_display it = it_display it' then []
       else case it_session it of Some s \<Rightarrow> [UpdateSession s]
         | None \<Rightarrow> if Some p = pb_self pb then [SetSelf (it_display it')] else []) }"

text \<open>An unknown contact is stored and read back; the oldest row of that extension is the one read.\<close>

definition unknown_contact :: "read_time \<Rightarrow> json_object \<Rightarrow> phonebook \<Rightarrow> (phonebook \<times> ptr option \<times> pb_effect list) option" where
  "unknown_contact fromIso json pb =
    (let n = json_int json ''n'';
         pb = pb\<lparr>pb_db := perform (ins_contact (\<lambda>c. c\<lparr>ct_extension := n, ct_dialing := number n, ct_type := json_string json ''t'',
           ct_display := json_string json ''d'', ct_user := json_string json ''a'', ct_uri := json_string json ''u'',
           ct_mailto := json_string json ''e'', ct_puburi := json_string json ''p'',
           ct_sync := sql_bind (fromIso (json_string json ''c'')), ct_info := json_string json ''i'',
           ct_pubkey := fromHex (json_string json ''k'')\<rparr>)) (pb_db pb)\<rparr>
     in case storage_getRecords (\<lambda>db. filter (\<lambda>c. ct_extension c = n) (cd_contacts db)) (pb_db pb) of
          [] \<Rightarrow> Some (pb, None, [])
        | r # _ \<Rightarrow> do {
            let (pb, p) = ContactItem_new r pb;
            let pb = pb\<lparr>pb_local := (pb_local pb)(n := Some p)\<rparr>;
            pb \<leftarrow> item_add p pb;
            Some (pb, Some p, []) })"

definition updateContact :: "read_time \<Rightarrow> bool \<Rightarrow> json_object \<Rightarrow> phonebook \<Rightarrow> (phonebook \<times> ptr option \<times> pb_effect list) option" where
  "updateContact fromIso admin json pb =
    (let status = json_string json ''s''; number = json_int json ''n''; grp = json_string json ''g''; type = json_string json ''t''
     in if status = ''remove'' \<and> pb_removes pb > -1 then remove_profile (json_string json ''a'') pb
        else if number < 0 \<or> number > 1000 then Some (pb, None, [])
        else if number = 1000 then None
        else case pb_local pb number of None \<Rightarrow> unknown_contact fromIso json pb
        | Some p \<Rightarrow> do {
            pb \<leftarrow> (if status \<noteq> [] then do {
                pb \<leftarrow> admin_buttons admin type status p pb;
                Some (if Some p = pb_self pb then pb\<lparr>pb_db := fst (verifyDevices (json_objects json ''ep'') (pb_db pb))\<rparr> else pb) }
              else Some pb);
            pb \<leftarrow> (if (admin \<or> grp \<noteq> ''none'') \<and> (number = 0 \<or> group_type type) then set_leader admin grp p pb else Some pb);
            known_contact fromIso json p pb })"

end
