(* ===== verification/Presence.thy ===== *)
theory Presence
  imports Phonebooks Serving
begin

text \<open>
  Presence from end to end: the mask the server makes of its registrations (\<open>Registry::bitmask\<close>) against
  what the client's phonebook shows (\<open>Phonebook::changeStatus\<close>).
\<close>

section \<open>The loop over the mask\<close>

definition status_bit :: "string \<Rightarrow> int \<Rightarrow> bool" where
  "status_bit bits i = (let pos = nat (i div 8) in
     bit (if pos < length bits then ord (bits ! pos) else 0) (nat (i mod 8)))"

text \<open>An entry of the table is an item with that number.\<close>

definition local_ok :: "phonebook \<Rightarrow> bool" where
  "local_ok pb \<longleftrightarrow> (\<forall>n p. pb_local pb n = Some p \<longrightarrow> (\<exists>it. pb_items pb p = Some it \<and> it_number it = n))"

text \<open>The contacts after the numbers from \<open>a\<close> to before \<open>b\<close> took their bit; \<open>lo\<close> has the first bit.\<close>

definition in_stretch :: "(int \<Rightarrow> ptr option) \<Rightarrow> int \<Rightarrow> int \<Rightarrow> ptr \<Rightarrow> int \<Rightarrow> bool" where
  "in_stretch tab a b p n \<longleftrightarrow> a \<le> n \<and> n < b \<and> tab n = Some p"

definition mark_item :: "string \<Rightarrow> int \<Rightarrow> (int \<Rightarrow> ptr option) \<Rightarrow> int \<Rightarrow> int \<Rightarrow> ptr \<Rightarrow> contact_item \<Rightarrow> contact_item" where
  "mark_item bits lo tab a b p it =
    (if in_stretch tab a b p (it_number it) then it\<lparr>it_online := status_bit bits (it_number it - lo)\<rparr> else it)"

definition marked :: "string \<Rightarrow> int \<Rightarrow> int \<Rightarrow> int \<Rightarrow> phonebook \<Rightarrow> phonebook" where
  "marked bits lo a b pb =
    pb\<lparr>pb_items := (\<lambda>p. map_option (mark_item bits lo (pb_local pb) a b p) (pb_items pb p))\<rparr>"

lemma it_number_online [simp]: "it_number (it\<lparr>it_online := v\<rparr>) = it_number it"
  by simp

lemma mark_number [simp]: "it_number (mark_item bits lo tab a b p it) = it_number it"
  by (simp add: mark_item_def)

lemma mark_outside: "\<not> in_stretch tab a b p (it_number it) \<Longrightarrow> mark_item bits lo tab a b p it = it"
  by (simp add: mark_item_def)

lemma mark_inside: "in_stretch tab a b p (it_number it) \<Longrightarrow>
    mark_item bits lo tab a b p it = it\<lparr>it_online := status_bit bits (it_number it - lo)\<rparr>"
  by (simp add: mark_item_def)

lemma mark_mark:
  assumes "a \<le> b" "b \<le> c"
  shows "mark_item bits lo tab b c p (mark_item bits lo tab a b p it) = mark_item bits lo tab a c p it"
proof (cases "in_stretch tab a b p (it_number it)")
  case True
  then have "\<not> in_stretch tab b c p (it_number it)" "in_stretch tab a c p (it_number it)"
    using assms by (auto simp: in_stretch_def)
  with True show ?thesis by (metis mark_inside mark_number mark_outside)
next
  case False
  then have "in_stretch tab b c p (it_number it) = in_stretch tab a c p (it_number it)"
    using assms by (auto simp: in_stretch_def)
  with False show ?thesis by (metis mark_inside mark_outside)
qed

lemma marked_id:
  assumes "\<And>p it. pb_items pb p = Some it \<Longrightarrow> mark_item bits lo (pb_local pb) a b p it = it"
  shows "marked bits lo a b pb = pb"
proof -
  have "(\<lambda>p. map_option (mark_item bits lo (pb_local pb) a b p) (pb_items pb p)) = pb_items pb"
  proof
    fix p
    show "map_option (mark_item bits lo (pb_local pb) a b p) (pb_items pb p) = pb_items pb p"
      using assms by (cases "pb_items pb p") simp_all
  qed
  then show ?thesis by (simp add: marked_def)
qed

lemma marked_empty: "b \<le> a \<Longrightarrow> marked bits lo a b pb = pb"
  by (rule marked_id, rule mark_outside) (simp add: in_stretch_def)

lemma marked_one:
  assumes "pb_local pb n = Some p" "pb_items pb p = Some it" "it_number it = n"
  shows "pb_items (marked bits lo n (n + 1) pb) = (pb_items pb)(p \<mapsto> it\<lparr>it_online := status_bit bits (n - lo)\<rparr>)"
proof
  fix q
  show "pb_items (marked bits lo n (n + 1) pb) q = ((pb_items pb)(p \<mapsto> it\<lparr>it_online := status_bit bits (n - lo)\<rparr>)) q"
  proof (cases "q = p")
    case True
    have "in_stretch (pb_local pb) n (n + 1) p (it_number it)" using assms by (simp add: in_stretch_def)
    from mark_inside[OF this] True assms show ?thesis by (simp add: marked_def)
  next
    case False
    have "\<not> in_stretch (pb_local pb) n (n + 1) q m" for m
      using assms(1) False by (cases "m = n") (auto simp: in_stretch_def)
    then have "mark_item bits lo (pb_local pb) n (n + 1) q x = x" for x by (rule mark_outside)
    with False show ?thesis by (cases "pb_items pb q") (simp_all add: marked_def)
  qed
qed

lemma changeOnline_marked:
  assumes "local_ok pb" "0 \<le> n" "n < 1000"
  shows "\<exists>out. changeOnline n (status_bit bits (n - lo)) pb = Some (marked bits lo n (n + 1) pb, out)"
proof (cases "pb_local pb n")
  case None
  have "\<not> in_stretch (pb_local pb) n (n + 1) q m" for q m
    using None by (cases "m = n") (auto simp: in_stretch_def)
  then have "marked bits lo n (n + 1) pb = pb" by (intro marked_id mark_outside)
  with None assms show ?thesis by (simp add: changeOnline_def)
next
  case (Some p)
  then obtain it where it: "pb_items pb p = Some it" "it_number it = n" using assms(1) by (auto simp: local_ok_def)
  let ?on = "status_bit bits (n - lo)"
  note one = marked_one[OF Some it, of bits lo]
  have eq: "marked bits lo n (n + 1) pb = pb\<lparr>pb_items := (pb_items pb)(p \<mapsto> it\<lparr>it_online := ?on\<rparr>)\<rparr>"
    using one by (simp add: marked_def)
  have same: "(pb_items pb)(p \<mapsto> it\<lparr>it_online := ?on\<rparr>) = pb_items pb" if "?on = it_online it"
  proof -
    have "it\<lparr>it_online := ?on\<rparr> = it" unfolding that by simp
    then show ?thesis using it(1) by (simp only: fun_upd_idem_iff)
  qed
  show ?thesis
  proof (cases "?on = it_online it")
    case True
    then have "marked bits lo n (n + 1) pb = pb" unfolding eq same[OF True] by simp
    with True assms Some it show ?thesis by (simp add: changeOnline_def)
  next
    case False
    with assms Some it show ?thesis by (simp add: changeOnline_def eq)
  qed
qed

lemma marked_simps [simp]:
  "pb_local (marked bits lo a b pb) = pb_local pb" "pb_me (marked bits lo a b pb) = pb_me pb"
  "pb_items (marked bits lo a b pb) p = map_option (mark_item bits lo (pb_local pb) a b p) (pb_items pb p)"
  by (simp_all add: marked_def)

lemma marked_as:
  "marked bits lo a b pb = pb\<lparr>pb_items := pb_items (marked bits lo a b pb)\<rparr>"
  "(marked bits lo a b pb)\<lparr>pb_items := items\<rparr> = pb\<lparr>pb_items := items\<rparr>"
  by (simp_all add: marked_def)

lemma marked_table: "local_ok pb \<Longrightarrow> local_ok (marked bits lo a b pb)"
  unfolding local_ok_def by (metis marked_simps(1,3) mark_number option.map(2))

lemma marked_marked:
  assumes "a \<le> b" "b \<le> c"
  shows "marked bits lo b c (marked bits lo a b pb) = marked bits lo a c pb"
proof -
  have "pb_items (marked bits lo b c (marked bits lo a b pb)) = pb_items (marked bits lo a c pb)"
  proof
    fix p
    show "pb_items (marked bits lo b c (marked bits lo a b pb)) p = pb_items (marked bits lo a c pb) p"
      using mark_mark[OF assms] by (cases "pb_items pb p") simp_all
  qed
  then show ?thesis
    using marked_as(1)[of bits lo b c "marked bits lo a b pb"] marked_as(1)[of bits lo a c pb] marked_as(2)[where bits = bits and lo = lo and a = a and b = b and pb = pb]
    by simp
qed

lemma stretch_div:
  assumes "0 \<le> r" "r < (8::int)"
  shows "(8 * q + r + 1) div 8 = (if r = 7 then q + 1 else q) \<and> (8 * q + r + 1) mod 8 = (if r = 7 then 0 else r + 1)"
proof (cases "r = 7")
  case True
  then have "8 * q + r + 1 = 8 * (q + 1)" by simp
  then show ?thesis using True by (simp only: nonzero_mult_div_cancel_left) simp
next
  case False
  then have small: "(r + 1) div 8 = 0" "(r + 1) mod 8 = r + 1" using assms by simp_all
  have "8 * q + r + 1 = (r + 1) + 8 * q" by simp
  then show ?thesis using small False by (simp only: div_mult_self2 mod_mult_self2) simp
qed

lemma mask_step:
  assumes "0 \<le> i" "pos = nat (i div 8)" "msk = (2::nat) ^ nat (i mod 8)"
  shows "(if 2 * msk > 128 then (pos + 1, 1) else (pos, 2 * msk)) = (nat ((i + 1) div 8), 2 ^ nat ((i + 1) mod (8::int)))"
proof -
  define q r where "q = i div 8" and "r = i mod 8"
  have i: "i = 8 * q + r" "0 \<le> r" "r < 8" "0 \<le> q"
    using assms(1) by (simp_all add: q_def r_def)
  have after: "(i + 1) div 8 = (if r = 7 then q + 1 else q)" "(i + 1) mod 8 = (if r = 7 then 0 else r + 1)"
    unfolding i(1) using stretch_div[OF i(2,3)] by simp_all
  have pos: "pos = nat q" "msk = 2 ^ nat r" using assms(2,3) by (simp_all add: q_def r_def)
  have "r = 0 \<or> r = 1 \<or> r = 2 \<or> r = 3 \<or> r = 4 \<or> r = 5 \<or> r = 6 \<or> r = 7" using i(2,3) by linarith
  then show ?thesis unfolding after pos by (elim disjE) (simp_all add: i(4) nat_add_distrib)
qed

lemma status_loop_marked:
  assumes "local_ok pb" "0 \<le> lo" "lo \<le> cnt" "hi \<le> 1000" "hi - lo \<le> 8 * int (length bits) + 8"
    "pos = nat ((cnt - lo) div 8)" "msk = 2 ^ nat ((cnt - lo) mod 8)"
  shows "\<exists>out. status_loop bits cnt hi pos msk pb = Some (marked bits lo cnt hi pb, out)"
  using assms
proof (induction "nat (hi - cnt)" arbitrary: cnt pos msk pb)
  case 0
  then show ?case by (subst status_loop.simps) (simp add: marked_empty)
next
  case (Suc k)
  let ?i = "cnt - lo"
  have i: "0 \<le> ?i" "cnt < hi" using Suc by auto
  have "?i div 8 \<le> int (length bits)" using Suc.prems(5) i(2) by linarith
  then have pos: "pos \<le> length bits" using Suc.prems(6) by simp
  let ?byte = "if pos = length bits then 0 else ord (bits ! pos)"
  have "(?byte AND msk \<noteq> 0) = bit ?byte (nat (?i mod 8))"
    using Suc.prems(7) and_exp_eq_0_iff_not_bit[of ?byte "nat (?i mod 8)"] by simp
  also have "\<dots> = status_bit bits (cnt - lo)"
    using pos Suc.prems(6) by (auto simp: status_bit_def Let_def)
  finally have bit: "(?byte AND msk \<noteq> 0) = status_bit bits (cnt - lo)" .
  have range: "0 \<le> cnt" "cnt < 1000" using Suc.prems(2-4) i by auto
  obtain out where one: "changeOnline cnt (status_bit bits (cnt - lo)) pb = Some (marked bits lo cnt (cnt + 1) pb, out)"
    using changeOnline_marked[OF Suc.prems(1) range] by blast
  define pos' where "pos' = nat ((cnt + 1 - lo) div 8)"
  define msk' where "msk' = (2::nat) ^ nat ((cnt + 1 - lo) mod 8)"
  have onward: "(if 2 * msk > 128 then (pos + 1, 1) else (pos, 2 * msk)) = (pos', msk')"
    using mask_step[OF i(1) Suc.prems(6,7)] by (simp add: pos'_def msk'_def algebra_simps)
  have "k = nat (hi - (cnt + 1))" using Suc.hyps(2) by simp
  from Suc.hyps(1)[OF this marked_table[OF Suc.prems(1), of bits lo cnt "cnt + 1"] Suc.prems(2) _ Suc.prems(4,5) pos'_def msk'_def] i
  obtain out' where rest: "status_loop bits (cnt + 1) hi pos' msk' (marked bits lo cnt (cnt + 1) pb) =
      Some (marked bits lo (cnt + 1) hi (marked bits lo cnt (cnt + 1) pb), out')" by auto
  have "(if 2 * msk > 128 then status_loop bits (cnt + 1) hi (pos + 1) 1 pb1
      else status_loop bits (cnt + 1) hi pos (2 * msk) pb1) = status_loop bits (cnt + 1) hi pos' msk' pb1" for pb1
    using onward by (auto split: if_splits)
  moreover have "marked bits lo (cnt + 1) hi (marked bits lo cnt (cnt + 1) pb) = marked bits lo cnt hi pb"
    using i by (intro marked_marked) auto
  ultimately show ?case using i(2) pos bit one rest
    by (subst status_loop.simps) (simp add: Let_def not_less)
qed

lemma changeStatus_marked:
  assumes "local_ok pb" "0 \<le> lo" "hi \<le> 1000" "hi - lo \<le> 8 * int (length bits) + 8"
  shows "\<exists>out. changeStatus bits lo hi pb = Some (marked bits lo lo hi pb, out)"
  using status_loop_marked[OF assms(1,2) order_refl assms(3,4)] by (simp add: changeStatus_def)


section \<open>From the registrations to the phonebook\<close>

lemma multi_values_registered:
  assumes "registry_reach Q r rs"
  shows "online_bit rs num \<longleftrightarrow> (\<exists>q reg. heap rs q = Some reg \<and> reg_number reg = num)"
proof -
  have inv: "reg_inv rs" using registry_reach_inv[OF assms] by auto
  have objects: "{p. \<exists>reg. heap rs p = Some reg \<and> reg_number reg = num} = set (multi_values num (extensions rs))"
    by (simp add: extensions_iff[OF inv] set_eq_iff set_multi_values)
  have "online_bit rs num \<longleftrightarrow> multi_values num (extensions rs) \<noteq> []" using inv by (simp add: reg_inv_def counts_ok_def)
  also have "\<dots> \<longleftrightarrow> (\<exists>p. p \<in> set (multi_values num (extensions rs)))" by (cases "multi_values num (extensions rs)") auto
  finally show ?thesis unfolding objects[symmetric] by simp
qed

text \<open>The bits of the mask are those of the table.\<close>

lemma bitmask_bits:
  assumes "registry_reach Q (lo, hi) rs" "reg_init rs" "bitmask Q rs = Some mask64" "lo \<le> hi"
    "q_fromBase64 Q (q_toBase64 Q (map (\<lambda>i. char_of (unat (online rs (int i)))) [0..<nat (reg_size rs)])) =
      map (\<lambda>i. char_of (unat (online rs (int i)))) [0..<nat (reg_size rs)]"
  shows "hi - lo \<le> 8 * int (length (q_fromBase64 Q mask64)) + 8"
    "lo \<le> n \<and> n \<le> hi \<longrightarrow> status_bit (q_fromBase64 Q mask64) (n - lo) = online_bit rs n"
proof -
  have frame: "reg_range rs = (lo, hi)" "reg_size rs = (hi - lo) sdiv 8 + 1"
    using registry_reach_range[OF assms(1)] assms(2) by (auto simp: frame_of_def)
  have size: "reg_size rs = (hi - lo) div 8 + 1" using frame(2) assms(4) by (simp add: signed_divide_int_def sgn_if)
  have mask: "q_fromBase64 Q mask64 = map (\<lambda>i. char_of (unat (online rs (int i)))) [0..<nat (reg_size rs)]"
    using assms(3,5) size assms(4) by (auto simp: bitmask_def split: if_splits)
  then have len: "int (length (q_fromBase64 Q mask64)) = (hi - lo) div 8 + 1" using size assms(4) by simp
  then show "hi - lo \<le> 8 * int (length (q_fromBase64 Q mask64)) + 8" by linarith
  show "lo \<le> n \<and> n \<le> hi \<longrightarrow> status_bit (q_fromBase64 Q mask64) (n - lo) = online_bit rs n"
  proof
    assume n: "lo \<le> n \<and> n \<le> hi"
    let ?i = "nat ((n - lo) div 8)"
    have "(n - lo) div 8 \<le> (hi - lo) div 8" using n by (intro zdiv_mono1) auto
    then have i: "?i < nat (reg_size rs)" "int ?i = (n - lo) div 8" using n size by auto
    have byte: "ord (q_fromBase64 Q mask64 ! ?i) = unat (online rs (int ?i))"
    proof -
      have "unat (online rs (int ?i)) < 2 ^ LENGTH(8)" by (rule unsigned_less)
      then show ?thesis using i(1) by (simp add: mask)
    qed
    have "status_bit (q_fromBase64 Q mask64) (n - lo) = bit (unat (online rs (int ?i))) (nat ((n - lo) mod 8))"
      using i(1) byte by (simp add: status_bit_def Let_def mask)
    also have "\<dots> = bit (online rs (int ?i)) (nat ((n - lo) mod 8))"
      using low_bit[of "n - lo"] by (simp add: bit_simps)
    finally show "status_bit (q_fromBase64 Q mask64) (n - lo) = online_bit rs n"
      using i(2) by (simp add: online_bit_def bit_offset_def frame(1))
  qed
qed

text \<open>
  C7. The client shows who is registered. Take any state the server's registrations can reach and the mask
  it publishes. When the client reads that mask, every extension of its phonebook from the first to before
  the last number of the dialing range is shown online exactly when the server holds a registration with
  that number. The last number of the range is not read, although the mask has its bit: a contact with that
  number keeps what it showed before.
\<close>

theorem presence_agrees:
  assumes "registry_reach Q (lo, hi) rs" "reg_init rs" "bitmask Q rs = Some mask64" "0 \<le> lo" "lo \<le> hi" "hi < 1000"
    "q_fromBase64 Q (q_toBase64 Q (map (\<lambda>i. char_of (unat (online rs (int i)))) [0..<nat (reg_size rs)])) =
      map (\<lambda>i. char_of (unat (online rs (int i)))) [0..<nat (reg_size rs)]"
    "local_ok pb"
  shows "\<exists>pb' out. changeStatus (q_fromBase64 Q mask64) lo hi pb = Some (pb', out) \<and> local_ok pb' \<and> pb_local pb' = pb_local pb \<and>
    (\<forall>n p it. lo \<le> n \<and> n < hi \<and> pb_local pb n = Some p \<and> pb_items pb' p = Some it \<longrightarrow>
       (it_online it \<longleftrightarrow> (\<exists>q reg. heap rs q = Some reg \<and> reg_number reg = n))) \<and>
    (\<forall>p. pb_local pb hi = Some p \<longrightarrow> pb_items pb' p = pb_items pb p)"
proof -
  let ?bits = "q_fromBase64 Q mask64"
  let ?pb' = "marked ?bits lo lo hi pb"
  note mask = bitmask_bits[OF assms(1,2,3,5,7)]
  have "hi \<le> 1000" using assms(6) by simp
  from changeStatus_marked[OF assms(8,4) this mask(1)]
  obtain out where run: "changeStatus ?bits lo hi pb = Some (?pb', out)" by blast
  have inside: "it_online it \<longleftrightarrow> (\<exists>q reg. heap rs q = Some reg \<and> reg_number reg = n)"
    if h: "lo \<le> n" "n < hi" "pb_local pb n = Some p" "pb_items ?pb' p = Some it" for n p it
  proof -
    obtain old where old: "pb_items pb p = Some old" "it_number old = n"
      using assms(8) h(3) by (auto simp: local_ok_def)
    have "in_stretch (pb_local pb) lo hi p (it_number old)" using h old by (simp add: in_stretch_def)
    from mark_inside[OF this] h(4) old have "it_online it = status_bit ?bits (n - lo)" by auto
    then show ?thesis using mask(2)[of n] h(1,2) multi_values_registered[OF assms(1)] by simp
  qed
  have last: "pb_items ?pb' p = pb_items pb p" if h: "pb_local pb hi = Some p" for p
  proof -
    obtain old where old: "pb_items pb p = Some old" "it_number old = hi"
      using assms(8) h by (auto simp: local_ok_def)
    then have "\<not> in_stretch (pb_local pb) lo hi p (it_number old)" by (simp add: in_stretch_def)
    from mark_outside[OF this] old show ?thesis by simp
  qed
  show ?thesis using run marked_table[OF assms(8)] marked_simps(1) inside last by blast
qed

definition sample_item :: "int \<Rightarrow> int \<Rightarrow> contact_item" where
  "sample_item uid num = item_of ((new_contact uid)\<lparr>ct_extension := num\<rparr>)"

definition sample_phonebook :: phonebook where
  "sample_phonebook = \<lparr>pb_items = [0 \<mapsto> sample_item 1 101, 1 \<mapsto> sample_item 2 699], pb_fresh = 2,
     pb_local = (\<lambda>_. None)(101 := Some 0, 699 := Some 1), pb_users = [], pb_groups = [], pb_foreign = Map.empty,
     pb_index = [(1, Some 0), (2, Some 1)], pb_usrAuths = [], pb_grpAuths = [], pb_me = 101, pb_removes = 0,
     pb_sysop = False, pb_suspend = False, pb_db = schema_created\<rparr>"

lemma presence_agrees_witness:
  "\<exists>rs mask64 pb' out it. bitmask sample_qt rs = Some mask64 \<and> online_bit rs 101 \<and>
     changeStatus (q_fromBase64 sample_qt mask64) 100 699 sample_phonebook = Some (pb', out) \<and>
     pb_items pb' 0 = Some it \<and> it_online it \<and> pb_items pb' 1 = Some (sample_item 2 699)"
proof -
  obtain rs reg where rs: "registry_reach sample_qt (100, 699) rs" "heap rs 0 = Some reg" "reg_number reg = 101"
    using sample_reach by auto
  have "reg_inv rs" using registry_reach_inv[OF rs(1)] by auto
  then have init: "reg_init rs" using rs(2) by (auto simp: reg_inv_def init_ok_def)
  have "reg_size rs \<le> 125" using registry_reach_size[OF rs(1)] by simp
  then obtain mask64 where mask: "bitmask sample_qt rs = Some mask64" using bitmask_defined by blast
  have tab: "local_ok sample_phonebook"
    by (simp add: local_ok_def sample_phonebook_def sample_item_def item_of_def new_contact_def)
  have "q_fromBase64 sample_qt (q_toBase64 sample_qt bytes) = bytes" for bytes by (simp add: sample_qt_def)
  from presence_agrees[OF rs(1) init mask _ _ _ this tab]
  obtain pb' out where agreed: "changeStatus (q_fromBase64 sample_qt mask64) 100 699 sample_phonebook = Some (pb', out)"
    "local_ok pb'" "pb_local pb' = pb_local sample_phonebook"
    "\<forall>n p it. 100 \<le> n \<and> n < 699 \<and> pb_local sample_phonebook n = Some p \<and> pb_items pb' p = Some it \<longrightarrow>
       (it_online it \<longleftrightarrow> (\<exists>q reg. heap rs q = Some reg \<and> reg_number reg = n))"
    "\<forall>p. pb_local sample_phonebook 699 = Some p \<longrightarrow> pb_items pb' p = pb_items sample_phonebook p" by auto
  have tabs: "pb_local sample_phonebook 101 = Some 0" "pb_local sample_phonebook 699 = Some 1"
    "pb_items sample_phonebook 1 = Some (sample_item 2 699)" by (simp_all add: sample_phonebook_def)
  have "bitmask sample_qt rs = Some mask64 \<and> online_bit rs 101"
    using mask multi_values_registered[OF rs(1), of 101] rs(2,3) by blast
  moreover obtain it where it: "pb_items pb' 0 = Some it"
    using agreed(2,3) tabs(1) by (metis local_ok_def)
  moreover have "it_online it \<longleftrightarrow> (\<exists>q reg. heap rs q = Some reg \<and> reg_number reg = 101)"
    using agreed(4)[rule_format, of 101 0 it] tabs(1) it by simp
  moreover have "pb_items pb' 1 = Some (sample_item 2 699)" using agreed(5) tabs(2,3) by metis
  ultimately show ?thesis using agreed(1) rs(2,3) by blast
qed

end
