(* ===== verification/RosterSync.thy ===== *)
theory RosterSync
  imports Phonebooks
begin

text \<open>
  The roster the server sends (\<open>Database::sendRoster\<close>) as the client's phonebook takes it
  (\<open>LocalContacts::updateContact\<close>), and what a removed contact leaves behind.
\<close>

section \<open>A roster entry\<close>

lemma profile_fields_simps [simp]:
  "it_display (profile_fields fromIso json it) = json_string json ''d''"
  "it_user (profile_fields fromIso json it) = toLower (json_string json ''a'')"
  "it_type (profile_fields fromIso json it) = json_string json ''t''"
  "it_uri (profile_fields fromIso json it) = json_string json ''u''"
  "it_email (profile_fields fromIso json it) = json_string json ''e''"
  "it_public (profile_fields fromIso json it) = json_string json ''p''"
  "it_created (profile_fields fromIso json it) = fromIso (json_string json ''c'')"
  "it_filter (profile_fields fromIso json it) = filter_text it"
  "it_info (profile_fields fromIso json it) = (if map_of json ''i'' = None then it_info it else json_string json ''i'')"
  "it_coverage (profile_fields fromIso json it) = optional_int json ''cc'' (-1)"
  "it_fwdAway (profile_fields fromIso json it) = forward_text json ''away''"
  "it_fwdBusy (profile_fields fromIso json it) = forward_text json ''busy''"
  "it_fwdNoAnswer (profile_fields fromIso json it) = forward_text json ''noanswer''"
  "it_speeds (profile_fields fromIso json it) = speed_numbers json"
  "it_group (profile_fields fromIso json it) = (group_type (json_string json ''t'') \<or> json_int json ''n'' = 0)"
  "it_online (profile_fields fromIso json it) = it_online it" "it_hidden (profile_fields fromIso json it) = it_hidden it"
  "it_number (profile_fields fromIso json it) = it_number it" "it_key (profile_fields fromIso json it) = it_key it"
  "it_session (profile_fields fromIso json it) = it_session it" "it_topic (profile_fields fromIso json it) = it_topic it"
  by (simp_all add: profile_fields_def Let_def)

lemma known_contact_item:
  assumes "pb_items pb p = Some it" "\<not> it_group (profile_fields fromIso json it)"
  shows "\<exists>pb' out. known_contact fromIso json p pb = Some (pb', Some p, out) \<and>
    pb_items pb' = (pb_items pb)(p \<mapsto> (profile_fields fromIso json it)\<lparr>it_members := [], it_hidden := False\<rparr>) \<and>
    pb_local pb' = pb_local pb \<and> pb_me pb' = pb_me pb \<and>
    pb_db pb' = perform (upd_contact_number (json_int json ''n'') (profile_row fromIso json it)) (pb_db pb)"
  using assms by (simp add: known_contact_def members_of_def Let_def)

text \<open>The keys of an entry.\<close>

definition roster_keys :: "string set" where
  "roster_keys = {''a'', ''k'', ''c'', ''n'', ''u'', ''d'', ''t'', ''e'', ''p'', ''rp''}"

lemma roster_entry_values:
  assumes "roster_json Q ev db (x, a) = JObject json"
  shows "json_string json ''a'' = a_name a" "json_string json ''c'' = q_isoDate Q (a_created a)"
    "json_string json ''k'' = toHex (x_pubkey x)" "json_int json ''n'' = x_number x"
    "json_string json ''u'' = ev_uriTo ev (number (x_number x))" "json_string json ''d'' = roster_display x a db"
    "json_string json ''t'' = a_type a" "json_string json ''e'' = a_email a"
    "json_string json ''p'' = public_uri (a_access a) (a_name a) db"
    "key \<notin> roster_keys \<Longrightarrow> map_of json key = None"
  using assms by (auto simp: roster_json_def json_string_def json_int_def roster_keys_def)

lemma digits_not_keys: "n \<in> set [1..9::int] \<Longrightarrow> number n \<notin> roster_keys"
proof -
  assume n: "n \<in> set [1..9::int]"
  then have "number n = nat_str (nat n)" by (auto simp: number_def)
  then have "\<forall>c \<in> set (number n). isdigit c" using nat_str_digits by simp
  moreover have "\<forall>k \<in> roster_keys. \<exists>c \<in> set k. \<not> isdigit c"
    by (simp add: roster_keys_def isdigit_def ord_def)
  ultimately show ?thesis by blast
qed

lemma roster_entry_absent:
  assumes "roster_json Q ev db (x, a) = JObject json"
  shows "json_string json ''s'' = []" "json_string json ''g'' = []" "map_of json ''i'' = None"
    "optional_int json ''cc'' (-1) = -1" "forward_text json ''away'' = []" "forward_text json ''busy'' = []"
    "forward_text json ''noanswer'' = []" "speed_numbers json = []"
proof -
  have none: "key \<notin> roster_keys \<Longrightarrow> map_of json key = None" for key by (rule roster_entry_values(10)[OF assms])
  show "json_string json ''s'' = []" "json_string json ''g'' = []" "map_of json ''i'' = None"
    "optional_int json ''cc'' (-1) = -1" "forward_text json ''away'' = []" "forward_text json ''busy'' = []"
    "forward_text json ''noanswer'' = []"
    using none by (simp_all add: json_string_def optional_int_def forward_text_def roster_keys_def)
  have "\<forall>n \<in> set [1..9]. json_string json (number n) = []"
    using none digits_not_keys by (simp add: json_string_def)
  then show "speed_numbers json = []" by (auto simp: speed_numbers_def filter_empty_conv)
qed



definition sample_contact :: contact_item where
  "sample_contact = (item_of ((new_contact 1)\<lparr>ct_extension := 102, ct_display := ''Old'', ct_dialing := ''102''\<rparr>))
     \<lparr>it_online := True, it_coverage := 2, it_fwdAway := ''101''\<rparr>"

definition sample_contacts :: phonebook where
  "sample_contacts = \<lparr>pb_items = [0 \<mapsto> sample_contact], pb_fresh = 1, pb_local = (\<lambda>_. None)(102 := Some 0),
     pb_users = [], pb_groups = [], pb_foreign = Map.empty, pb_index = [(1, Some 0)], pb_usrAuths = [], pb_grpAuths = [],
     pb_me = 101, pb_removes = 0, pb_sysop = False, pb_suspend = False, pb_db = schema_created\<rparr>"


end
