(* ===== verification/ContactRemoval.thy ===== *)
theory ContactRemoval
  imports Presence RosterSync
begin

text \<open>What the removal of a contact (\<open>Phonebook::remove\<close>) leaves in the tables and in the other contacts.\<close>

definition without_member :: "(int \<Rightarrow> ptr option) \<Rightarrow> ptr \<Rightarrow> int set \<Rightarrow> ptr \<Rightarrow> contact_item \<Rightarrow> contact_item" where
  "without_member tab p ns q it = (if it_number it \<in> ns \<and> tab (it_number it) = Some q then removeMember p it else it)"

lemma removeMember_simps [simp]:
  "it_number (removeMember p it) = it_number it" "it_uid (removeMember p it) = it_uid it"
  "it_members (removeMember p it) = remove1 p (it_members it)"
  "it_leader (removeMember p it) = (if it_leader it = Some p then None else it_leader it)"
  by (simp_all add: removeMember_def)

lemma without_member_number [simp]: "it_number (without_member tab p ns q it) = it_number it"
  by (simp add: without_member_def)

lemma without_member_insert:
  assumes "n \<notin> ns" "tab n = Some q" "it_number it = n"
  shows "without_member tab p ns q (removeMember p it) = without_member tab p (insert n ns) q it"
  using assms by (simp add: without_member_def)

lemma without_member_other:
  "tab n \<noteq> Some q \<Longrightarrow> without_member tab p (insert n ns) q it = without_member tab p ns q it"
  by (auto simp: without_member_def)

lemma remove_members_items:
  assumes "local_ok pb" "distinct ns"
  shows "\<exists>pb'. remove_members p ns pb = Some pb' \<and> pb' = pb\<lparr>pb_items := (\<lambda>q. map_option (without_member (pb_local pb) p (set ns) q) (pb_items pb q))\<rparr>"
  using assms
proof (induction ns arbitrary: pb)
  case Nil
  have "without_member (pb_local pb) p {} q it = it" for q it by (simp add: without_member_def)
  then have "(\<lambda>q. map_option (without_member (pb_local pb) p {} q) (pb_items pb q)) = pb_items pb"
    by (intro ext, rename_tac q, case_tac "pb_items pb q") simp_all
  then show ?case by simp
next
  case (Cons n ns)
  show ?case
  proof (cases "pb_local pb n")
    case None
    have "without_member (pb_local pb) p (insert n (set ns)) q it = without_member (pb_local pb) p (set ns) q it" for q it
      using None by (intro without_member_other) simp
    then have "without_member (pb_local pb) p (insert n (set ns)) q = without_member (pb_local pb) p (set ns) q" for q by blast
    with Cons.IH[OF Cons.prems(1)] Cons.prems(2) None show ?thesis by simp
  next
    case (Some r)
    then obtain it where it: "pb_items pb r = Some it" "it_number it = n" using Cons.prems(1) by (auto simp: local_ok_def)
    let ?pb1 = "pb\<lparr>pb_items := (pb_items pb)(r \<mapsto> removeMember p it)\<rparr>"
    have one: "set_item r (removeMember p) pb = Some ?pb1" by (simp add: set_item_def it(1))
    have tab1: "local_ok ?pb1"
      unfolding local_ok_def
    proof (intro allI impI)
      fix m s
      assume "pb_local ?pb1 m = Some s"
      then obtain e where "pb_items pb s = Some e" "it_number e = m" using Cons.prems(1) by (auto simp: local_ok_def)
      then show "\<exists>e'. pb_items ?pb1 s = Some e' \<and> it_number e' = m" using it(1) by (cases "s = r") auto
    qed
    have "n \<notin> set ns" "distinct ns" using Cons.prems(2) by auto
    have items: "map_option (without_member (pb_local pb) p (set ns) q) (((pb_items pb)(r \<mapsto> removeMember p it)) q) =
        map_option (without_member (pb_local pb) p (insert n (set ns)) q) (pb_items pb q)" for q
    proof (cases "q = r")
      case True
      with without_member_insert[where tab = "pb_local pb" and p = p, OF \<open>n \<notin> set ns\<close> Some it(2)] it(1) show ?thesis by simp
    next
      case False
      with Some have "pb_local pb n \<noteq> Some q" by simp
      then have "without_member (pb_local pb) p (insert n (set ns)) q e = without_member (pb_local pb) p (set ns) q e" for e
        by (rule without_member_other)
      with False show ?thesis by (cases "pb_items pb q") simp_all
    qed
    from Cons.IH[OF tab1 \<open>distinct ns\<close>] Some one items show ?thesis by simp
  qed
qed



definition sample_groups :: phonebook where
  "sample_groups = sample_phonebook\<lparr>pb_items := [0 \<mapsto> sample_item 1 101, 1 \<mapsto> (sample_item 2 600)\<lparr>it_members := [0]\<rparr>,
       2 \<mapsto> (sample_item 3 700)\<lparr>it_members := [0]\<rparr>],
     pb_local := (\<lambda>_. None)(101 := Some 0, 600 := Some 1, 700 := Some 2)\<rparr>"


end
