(* ===== verification/Conversations.thy ===== *)
theory Conversations
  imports Phonebooks
begin

text \<open>
  The conversations of the desktop client: the messages (\<open>Desktop/messages.cpp\<close>) and the sessions that
  hold them (\<open>Desktop/sessions.cpp\<close>), with the contacts and the database of \<open>Phonebooks\<close>. Painting,
  layout and the other widgets are left out; whether the view is scrolled to its end is an argument.
\<close>

section \<open>State\<close>

datatype item_type = TEXT_MESSAGE | ADMIN_MESSAGE

record message_item =
  mi_session :: ptr
  mi_from :: ptr
  mi_to :: ptr
  mi_date :: qdatetime
  mi_seq :: int
  mi_expires :: qdatetime
  mi_type :: item_type
  mi_subject :: string
  mi_body :: string
  mi_inbox :: bool
  mi_saved :: bool
  mi_hidden :: bool

record session_item =
  si_contact :: "ptr option"
  si_messages :: "ptr list"
  si_filtered :: "ptr list"
  si_recent :: "qdatetime option" \<comment> \<open>\<open>mostRecent\<close>\<close>
  si_lastSeq :: int
  si_topics :: "string list"
  si_unread :: quint32
  si_loaded :: bool
  si_online :: bool
  si_text :: string

record conversations =
  cv_pb :: phonebook
  cv_msgs :: "ptr \<Rightarrow> message_item" \<comment> \<open>the lists hold pointers to live messages only\<close>
  cv_freshMsg :: ptr
  cv_items :: "ptr \<rightharpoonup> session_item"
  cv_freshItem :: ptr
  cv_list :: "ptr list" \<comment> \<open>\<open>sessions\<close>\<close>
  cv_groups :: "(string \<times> ptr) list" \<comment> \<open>a \<open>QMap\<close>, ordered by key\<close>
  cv_total :: quint32 \<comment> \<open>\<open>totalUnread\<close>\<close>
  cv_active :: "ptr option"
  cv_input :: "ptr option"
  cv_current :: bool \<comment> \<open>the desktop shows the sessions\<close>
  cv_inputText :: string \<comment> \<open>what stands in \<open>ui.input\<close>\<close>
  cv_timer :: int \<comment> \<open>\<open>expiration\<close>, \<open>0\<close> when it does not run\<close>

text \<open>An invalid date counts as the epoch.\<close>

definition date_ms :: "qdatetime option \<Rightarrow> int" where
  "date_ms d = (case d of None \<Rightarrow> 0 | Some t \<Rightarrow> toMSecs t)"

definition date_plus :: "qdatetime \<Rightarrow> int \<Rightarrow> qdatetime" where
  "date_plus t s = t\<lparr>toMSecs := toMSecs t + 1000 * s\<rparr>"

section \<open>The list of a session\<close>

definition earlier :: "message_item \<Rightarrow> message_item \<Rightarrow> bool" where
  "earlier m k \<longleftrightarrow> toMSecs (mi_date m) < toMSecs (mi_date k) \<or>
     (toMSecs (mi_date m) = toMSecs (mi_date k) \<and> mi_seq m < mi_seq k)"

text \<open>From the end back to the last message that is earlier.\<close>

fun scan_back :: "(ptr \<Rightarrow> message_item) \<Rightarrow> message_item \<Rightarrow> ptr list \<Rightarrow> nat \<Rightarrow> nat" where
  "scan_back ms m xs 0 = 0"
| "scan_back ms m xs (Suc n) = (if earlier (ms (xs ! n)) m then Suc n else scan_back ms m xs n)"

definition insert_at :: "nat \<Rightarrow> 'a \<Rightarrow> 'a list \<Rightarrow> 'a list" where
  "insert_at n x xs = take n xs @ x # drop n xs"

definition first_ms :: "(ptr \<Rightarrow> message_item) \<Rightarrow> int \<Rightarrow> ptr list \<Rightarrow> int" where
  "first_ms ms dflt xs = (case xs of [] \<Rightarrow> dflt | x # _ \<Rightarrow> toMSecs (mi_date (ms x)))"

text \<open>The rows of \<open>filtered\<close> and \<open>messages\<close>, and whether the fast way was taken.\<close>

definition message_rows :: "(ptr \<Rightarrow> message_item) \<Rightarrow> message_item \<Rightarrow> ptr list \<Rightarrow> ptr list \<Rightarrow> nat \<times> nat \<times> bool" where
  "message_rows ms m filtered messages =
    (let lo = first_ms ms 0 filtered;
         fast = (toMSecs (mi_date m) < lo \<or> filtered = []);
         rowFiltered = (if fast then 0 else scan_back ms m filtered (length filtered));
         lo = first_ms ms lo messages;
         rowMessages = (if toMSecs (mi_date m) < lo then 0 else scan_back ms m messages (length messages))
     in (rowFiltered, rowMessages, fast))"

definition place_message :: "(ptr \<Rightarrow> message_item) \<Rightarrow> ptr \<Rightarrow> session_item \<Rightarrow> session_item \<times> bool" where
  "place_message ms p s = (case message_rows ms (ms p) (si_filtered s) (si_messages s) of (rf, rm, fast) \<Rightarrow>
     (s\<lparr>si_messages := insert_at rm p (si_messages s), si_filtered := insert_at rf p (si_filtered s)\<rparr>, fast))"

section \<open>Expiration\<close>

text \<open>One message of a loop: its new \<open>hidden\<close> and the earliest expiration so far.\<close>

definition expire_one :: "int \<Rightarrow> message_item \<Rightarrow> int option \<Rightarrow> bool \<times> int option" where
  "expire_one now m latest =
    (let hide = toMSecs (mi_expires m) < now
     in (hide, if \<not> hide \<and> (case latest of None \<Rightarrow> True | Some t \<Rightarrow> t > toMSecs (mi_expires m))
               then Some (toMSecs (mi_expires m)) else latest))"

fun expire_filtered :: "int \<Rightarrow> ptr list \<Rightarrow> (ptr \<Rightarrow> message_item) \<Rightarrow> int option \<Rightarrow> (ptr \<Rightarrow> message_item) \<times> int option" where
  "expire_filtered now [] ms latest = (ms, latest)"
| "expire_filtered now (p # ps) ms latest =
    (case expire_one now (ms p) latest of (hide, latest) \<Rightarrow>
       expire_filtered now ps (ms(p := (ms p)\<lparr>mi_hidden := hide\<rparr>)) latest)"

fun expire_messages :: "int \<Rightarrow> ptr list \<Rightarrow> (ptr \<Rightarrow> message_item) \<Rightarrow> int option \<Rightarrow> (ptr \<Rightarrow> message_item) \<times> int option" where
  "expire_messages now [] ms latest = (ms, latest)"
| "expire_messages now (p # ps) ms latest =
    (if mi_hidden (ms p) then expire_messages now ps ms latest
     else case expire_one now (ms p) latest of (hide, latest) \<Rightarrow>
       expire_messages now ps (if hide then ms(p := (ms p)\<lparr>mi_hidden := hide\<rparr>) else ms) latest)"

definition checkExpiration :: "qdatetime \<Rightarrow> session_item \<Rightarrow> (ptr \<Rightarrow> message_item) \<Rightarrow> (ptr \<Rightarrow> message_item) \<times> int" where
  "checkExpiration now s ms =
    (let (ms, latest) = expire_filtered (toMSecs now) (si_filtered s) ms None;
         (ms, latest) = expire_messages (toMSecs now) (si_messages s) ms latest
     in (ms, case latest of None \<Rightarrow> 0
       | Some t \<Rightarrow> (let diff = t - toMSecs now in if diff < 1000 * 3600 * 24 * 7 then signed_take_bit 31 diff else 0)))"

section \<open>Removing the messages of a contact\<close>

text \<open>\<open>takeAt\<close> of a row outside the list is undefined.\<close>

definition takeAt :: "nat \<Rightarrow> 'a list \<Rightarrow> 'a list option" where
  "takeAt n xs = (if n < length xs then Some (take n xs @ drop (Suc n) xs) else None)"

fun take_rows :: "nat list \<Rightarrow> 'a list \<Rightarrow> 'a list option" where
  "take_rows [] xs = Some xs"
| "take_rows (r # rs) xs = do { xs \<leftarrow> takeAt r xs; take_rows rs xs }"

definition rows_of :: "('a \<Rightarrow> bool) \<Rightarrow> 'a list \<Rightarrow> nat list" where
  "rows_of P xs = rev (filter (\<lambda>i. P (xs ! i)) [0..<length xs])"

definition involves :: "ptr \<Rightarrow> message_item \<Rightarrow> bool" where
  "involves c m \<longleftrightarrow> mi_from m = c \<or> mi_to m = c"

text \<open>
  The second loop does not count its rows: every row it notes is the one the first loops left in the
  variable, the lowest row removed from \<open>filtered\<close> or the length of the list.
\<close>

definition remove_messages :: "ptr \<Rightarrow> session_item \<Rightarrow> (ptr \<Rightarrow> message_item) \<Rightarrow> (session_item \<times> (ptr \<Rightarrow> message_item)) option" where
  "remove_messages c s ms =
    (let removes = rows_of (\<lambda>p. involves c (ms p)) (si_filtered s);
         row = (if removes = [] then length (si_filtered s) else last removes);
         again = replicate (length (filter (\<lambda>p. involves c (ms p)) (si_messages s))) row;
         ms' = (\<lambda>p. if p \<in> set (si_filtered s) \<union> set (si_messages s) \<and> involves c (ms p)
                     then (ms p)\<lparr>mi_saved := False\<rparr> else ms p)
     in do {
       filtered \<leftarrow> take_rows removes (si_filtered s);
       messages \<leftarrow> take_rows again (si_messages s);
       Some (s\<lparr>si_filtered := filtered, si_messages := messages\<rparr>, ms') })"

section \<open>Contacts and the database\<close>

definition with_item :: "ptr \<Rightarrow> (session_item \<Rightarrow> session_item) \<Rightarrow> conversations \<Rightarrow> conversations option" where
  "with_item p f cv = (case cv_items cv p of None \<Rightarrow> None | Some s \<Rightarrow> Some (cv\<lparr>cv_items := (cv_items cv)(p \<mapsto> f s)\<rparr>))"

definition with_contact :: "ptr \<Rightarrow> (contact_item \<Rightarrow> contact_item) \<Rightarrow> (contact_row \<Rightarrow> contact_row) \<Rightarrow> conversations \<Rightarrow> conversations option" where
  "with_contact c f g cv = do {
     it \<leftarrow> pb_items (cv_pb cv) c;
     let pb = (cv_pb cv)\<lparr>pb_items := (pb_items (cv_pb cv))(c \<mapsto> f it)\<rparr>;
     Some (cv\<lparr>cv_pb := pb\<lparr>pb_db := perform (upd_contact (it_uid it) g) (pb_db pb)\<rparr>\<rparr>) }"

text \<open>\<open>setTopic\<close>: a topic that is older than the one the contact has is only listed.\<close>

definition setTopic :: "ptr \<Rightarrow> string \<Rightarrow> qdatetime \<Rightarrow> int \<Rightarrow> conversations \<Rightarrow> conversations option" where
  "setTopic p topic posted seq cv = do {
     cv \<leftarrow> with_item p (\<lambda>s. s\<lparr>si_topics := List.insert topic (si_topics s)\<rparr>) cv;
     s \<leftarrow> cv_items cv p;
     case si_contact s of None \<Rightarrow> Some cv
     | Some c \<Rightarrow> do {
         it \<leftarrow> pb_items (cv_pb cv) c;
         if toMSecs posted < date_ms (it_topicUpdated it) then Some cv
         else if toMSecs posted = date_ms (it_topicUpdated it) \<and> seq \<le> it_topicSequence it then Some cv
         else with_contact c (\<lambda>it. it\<lparr>it_topic := topic, it_topicUpdated := Some posted, it_topicSequence := seq\<rparr>)
           (\<lambda>r. r\<lparr>ct_topic := topic, ct_tsync := SqlDate posted, ct_tseq := seq\<rparr>) cv } }"

definition model_add :: "ptr \<Rightarrow> ptr \<Rightarrow> conversations \<Rightarrow> (conversations \<times> bool) option" where
  "model_add p msg cv = do {
     s \<leftarrow> cv_items cv p;
     let (s, fast) = place_message (cv_msgs cv) msg s;
     let m = cv_msgs cv msg;
     let cv = cv\<lparr>cv_items := (cv_items cv)(p \<mapsto> s)\<rparr>;
     cv \<leftarrow> (if mi_type m = ADMIN_MESSAGE \<and> mi_subject m \<noteq> [] then setTopic p (mi_subject m) (mi_date m) (mi_seq m) cv else Some cv);
     Some (cv, fast) }"

definition addMessage :: "ptr \<Rightarrow> ptr \<Rightarrow> conversations \<Rightarrow> conversations option" where
  "addMessage p msg cv = do {
     (cv, fast) \<leftarrow> model_add p msg cv;
     let m = cv_msgs cv msg;
     cv \<leftarrow> (if mi_type m = ADMIN_MESSAGE then setTopic p (mi_subject m) (mi_date m) (mi_seq m) cv else Some cv);
     s \<leftarrow> cv_items cv p;
     case si_contact s of None \<Rightarrow> Some cv
     | Some c \<Rightarrow> do {
         it \<leftarrow> pb_items (cv_pb cv) c;
         if date_ms (it_updated it) > toMSecs (mi_date m) then Some cv
         else if date_ms (it_updated it) = toMSecs (mi_date m) \<and> it_sequence it > mi_seq m then Some cv
         else with_contact c (\<lambda>it. it\<lparr>it_updated := Some (mi_date m), it_sequence := mi_seq m\<rparr>)
           (\<lambda>r. r\<lparr>ct_last := SqlDate (mi_date m), ct_sequence := mi_seq m\<rparr>) cv } }"

section \<open>New messages\<close>

definition row_of :: "message_item \<Rightarrow> contact_item \<Rightarrow> contact_item \<Rightarrow> contact_item \<Rightarrow> client_message" where
  "row_of m from to sid = \<lparr>mg_from = it_uid from, mg_to = it_uid to, mg_sid = it_uid sid, mg_seqid = mi_seq m,
     mg_posted = mi_date m, mg_type = (case mi_type m of ADMIN_MESSAGE \<Rightarrow> ''ADMIN'' | TEXT_MESSAGE \<Rightarrow> ''TEXT''),
     mg_text = mi_body m, mg_subject = mi_subject m, mg_expires = mi_expires m\<rparr>"

text \<open>A message the table refuses (its key is taken) is not saved.\<close>

definition save_message :: "message_item \<Rightarrow> conversations \<Rightarrow> (conversations \<times> message_item) option" where
  "save_message m cv = do {
     s \<leftarrow> cv_items cv (mi_session m);
     c \<leftarrow> si_contact s;
     from \<leftarrow> pb_items (cv_pb cv) (mi_from m);
     to \<leftarrow> pb_items (cv_pb cv) (mi_to m);
     sid \<leftarrow> pb_items (cv_pb cv) c;
     let (db, ok) = storage_insert (ins_client_message (row_of m from to sid)) (pb_db (cv_pb cv));
     Some (cv\<lparr>cv_pb := (cv_pb cv)\<lparr>pb_db := db\<rparr>\<rparr>, m\<lparr>mi_saved := ok\<rparr>) }"

definition alloc_message :: "message_item \<Rightarrow> conversations \<Rightarrow> conversations \<times> ptr" where
  "alloc_message m cv = (cv\<lparr>cv_msgs := (cv_msgs cv)(cv_freshMsg cv := m), cv_freshMsg := cv_freshMsg cv + 1\<rparr>, cv_freshMsg cv)"

definition note_recent :: "qdatetime \<Rightarrow> int \<Rightarrow> session_item \<Rightarrow> session_item" where
  "note_recent date seq s =
    (if date_ms (si_recent s) < toMSecs date then s\<lparr>si_recent := Some date, si_lastSeq := seq\<rparr>
     else if date_ms (si_recent s) = toMSecs date \<and> si_lastSeq s < seq then s\<lparr>si_lastSeq := seq\<rparr> else s)"

definition MessageItem_received ::
  "qdatetime \<Rightarrow> int \<Rightarrow> ptr \<Rightarrow> ptr \<Rightarrow> ptr \<Rightarrow> string \<Rightarrow> qdatetime option \<Rightarrow> int \<Rightarrow> string \<Rightarrow> string \<Rightarrow> conversations \<Rightarrow>
   (conversations \<times> ptr) option" where
  "MessageItem_received now lifetime p from to body stamp seq subject type cv =
    (let date = (case stamp of Some t \<Rightarrow> t | None \<Rightarrow> now);
         m = \<lparr>mi_session = p, mi_from = from, mi_to = to, mi_date = date, mi_seq = seq, mi_expires = date_plus date lifetime,
              mi_type = (if type = ''text/admin'' then ADMIN_MESSAGE else TEXT_MESSAGE), mi_subject = subject, mi_body = body,
              mi_inbox = (Some from \<noteq> pb_self (cv_pb cv)), mi_saved = True, mi_hidden = False\<rparr>
     in do {
       cv \<leftarrow> with_item p (note_recent date seq) cv;
       (cv, m) \<leftarrow> save_message m cv;
       Some (alloc_message m cv) })"

definition MessageItem_sent :: "qdatetime \<Rightarrow> int \<Rightarrow> ptr \<Rightarrow> string \<Rightarrow> qdatetime option \<Rightarrow> int \<Rightarrow> conversations \<Rightarrow>
   (conversations \<times> ptr) option" where
  "MessageItem_sent now lifetime p body stamp seq cv = do {
     s \<leftarrow> cv_items cv p;
     me \<leftarrow> pb_self (cv_pb cv);
     c \<leftarrow> si_contact s;
     it \<leftarrow> pb_items (cv_pb cv) c;
     let date = (case stamp of Some t \<Rightarrow> t | None \<Rightarrow> now);
     let m = \<lparr>mi_session = p, mi_from = me, mi_to = c, mi_date = date, mi_seq = seq, mi_expires = date_plus date lifetime,
              mi_type = TEXT_MESSAGE, mi_subject = it_topic it, mi_body = body, mi_inbox = False, mi_saved = True, mi_hidden = False\<rparr>;
     (cv, m) \<leftarrow> save_message m cv;
     Some (alloc_message m cv) }"

text \<open>A stored message; \<open>None\<close> inside stands for one whose contacts are gone.\<close>

definition MessageItem_loaded :: "client_message \<Rightarrow> conversations \<Rightarrow> (conversations \<times> ptr option) option" where
  "MessageItem_loaded r cv =
    (let (pb, contact) = findContact (mg_sid r) (cv_pb cv); cv = cv\<lparr>cv_pb := pb\<rparr>
     in case contact of None \<Rightarrow> Some (cv, None)
     | Some c \<Rightarrow> do {
         it \<leftarrow> pb_items pb c;
         case it_session it of None \<Rightarrow> Some (cv, None)
         | Some p \<Rightarrow>
           (let (pb, from) = findContact (mg_from r) pb; (pb, to) = findContact (mg_to r) pb; cv = cv\<lparr>cv_pb := pb\<rparr>
            in case (from, to) of
                 (Some f, Some t) \<Rightarrow>
                   (let m = \<lparr>mi_session = p, mi_from = f, mi_to = t, mi_date = mg_posted r, mi_seq = mg_seqid r,
                       mi_expires = mg_expires r, mi_type = (if mg_type r = ''ADMIN'' then ADMIN_MESSAGE else TEXT_MESSAGE),
                       mi_subject = mg_subject r, mi_body = mg_text r, mi_inbox = (Some f \<noteq> pb_self pb), mi_saved = True,
                       mi_hidden = False\<rparr>;
                        (cv, q) = alloc_message m cv
                    in Some (cv, Some q))
               | _ \<Rightarrow> Some (cv, None)) })"

end
