(* ===== verification/SessionModels.thy ===== *)
theory SessionModels
  imports Conversations
begin

text \<open>
  The list of sessions (\<open>SessionModel\<close> and \<open>Sessions\<close> of \<open>Desktop/sessions.cpp\<close>): groups first, ordered by
  name, then the other conversations; what arrives, what is sent, and what is closed.
\<close>

section \<open>A session\<close>

definition SessionItem_new :: "ptr \<Rightarrow> bool \<Rightarrow> conversations \<Rightarrow> (conversations \<times> ptr) option" where
  "SessionItem_new c isOnline cv = do {
     it \<leftarrow> pb_items (cv_pb cv) c;
     let p = cv_freshItem cv;
     let s = \<lparr>si_contact = Some c, si_messages = [], si_filtered = [], si_recent = None, si_lastSeq = 0,
              si_topics = List.insert (it_topic it) [''None''], si_unread = 0, si_loaded = False, si_online = isOnline, si_text = []\<rparr>;
     Some (cv\<lparr>cv_items := (cv_items cv)(p \<mapsto> s), cv_freshItem := p + 1,
       cv_pb := (cv_pb cv)\<lparr>pb_items := (pb_items (cv_pb cv))(c \<mapsto> it\<lparr>it_session := Some p\<rparr>)\<rparr>\<rparr>, p) }"

definition contact_of :: "ptr \<Rightarrow> conversations \<Rightarrow> contact_item option option" where
  "contact_of p cv = do {
     s \<leftarrow> cv_items cv p;
     case si_contact s of None \<Rightarrow> Some None
     | Some c \<Rightarrow> do { it \<leftarrow> pb_items (cv_pb cv) c; Some (Some it) } }"

text \<open>A session without a contact is a call: no group, its display name is empty.\<close>

definition is_group_session :: "ptr \<Rightarrow> conversations \<Rightarrow> bool option" where
  "is_group_session p cv = do { c \<leftarrow> contact_of p cv; Some (case c of None \<Rightarrow> False | Some it \<Rightarrow> it_group it) }"

definition session_display :: "ptr \<Rightarrow> conversations \<Rightarrow> string option" where
  "session_display p cv = do { c \<leftarrow> contact_of p cv; Some (case c of None \<Rightarrow> [] | Some it \<Rightarrow> it_display it) }"

definition clearMessages :: "session_item \<Rightarrow> session_item" where
  "clearMessages s = s\<lparr>si_loaded := False, si_unread := 0, si_messages := [], si_filtered := [], si_topics := [''*All*'']\<rparr>"

text \<open>\<open>close\<close>: the contact has no session any more; the unread messages of the session stay counted.\<close>

definition close_session :: "ptr \<Rightarrow> conversations \<Rightarrow> conversations option" where
  "close_session p cv = do {
     s \<leftarrow> cv_items cv p;
     c \<leftarrow> si_contact s;
     cv \<leftarrow> with_contact c (\<lambda>it. it\<lparr>it_session := None\<rparr>) (\<lambda>r. r\<lparr>ct_last := SqlNull\<rparr>) cv;
     Some (cv\<lparr>cv_items := (cv_items cv)(p \<mapsto> clearMessages s)\<rparr>) }"

section \<open>Ordered maps\<close>

definition map_below :: "string \<Rightarrow> (string \<times> ptr) list \<Rightarrow> nat" where
  "map_below k m = length (filter (\<lambda>(k', _). k' < k) m)"

definition map_upto :: "string \<Rightarrow> (string \<times> ptr) list \<Rightarrow> nat" where
  "map_upto k m = length (filter (\<lambda>(k', _). k' \<le> k) m)"

definition map_set :: "string \<Rightarrow> ptr \<Rightarrow> (string \<times> ptr) list \<Rightarrow> (string \<times> ptr) list" where
  "map_set k p m = filter (\<lambda>(k', _). k' < k) m @ (k, p) # filter (\<lambda>(k', _). k < k') m"

definition map_take :: "string \<Rightarrow> (string \<times> ptr) list \<Rightarrow> (string \<times> ptr) list" where
  "map_take k m = filter (\<lambda>(k', _). k' \<noteq> k) m"

definition index_of :: "ptr \<Rightarrow> ptr list \<Rightarrow> int" where
  "index_of p xs = (let n = length (takeWhile (\<lambda>x. x \<noteq> p) xs) in if n < length xs then int n else -1)"

section \<open>The list\<close>

text \<open>There are no calls yet: \<open>activeCalls\<close> stays \<open>0\<close>.\<close>

definition session_add :: "ptr \<Rightarrow> conversations \<Rightarrow> conversations option" where
  "session_add p cv = do {
     grp \<leftarrow> is_group_session p cv;
     name \<leftarrow> session_display p cv;
     let row = (if grp then map_below name (cv_groups cv) else length (cv_groups cv));
     Some (cv\<lparr>cv_groups := (if grp then map_set name p (cv_groups cv) else cv_groups cv),
       cv_list := insert_at row p (cv_list cv)\<rparr>) }"

definition session_remove :: "ptr \<Rightarrow> conversations \<Rightarrow> conversations option" where
  "session_remove p cv =
    (if index_of p (cv_list cv) < 0 then Some cv
     else do {
       cv \<leftarrow> close_session p cv;
       grp \<leftarrow> is_group_session p cv;
       name \<leftarrow> session_display p cv;
       Some (cv\<lparr>cv_groups := (if grp then map_take name (cv_groups cv) else cv_groups cv),
         cv_list := remove1 p (cv_list cv), cv_items := (cv_items cv)(p := None)\<rparr>) })"

text \<open>A conversation with news moves to the top of those that are no groups.\<close>

definition session_latest :: "ptr \<Rightarrow> conversations \<Rightarrow> conversations option" where
  "session_latest p cv = do {
     grp \<leftarrow> is_group_session p cv;
     let top = int (length (cv_groups cv));
     let row = index_of p (cv_list cv);
     if grp \<or> row \<le> top then Some cv
     else do {
       mine \<leftarrow> contact_of p cv;
       tops \<leftarrow> contact_of (cv_list cv ! nat top) cv;
       case (mine, tops) of
         (Some a, Some b) \<Rightarrow>
           if date_ms (it_updated a) < date_ms (it_updated b) then Some cv
           else if date_ms (it_updated a) = date_ms (it_updated b) \<and> it_sequence a < it_sequence b then Some cv
           else Some (cv\<lparr>cv_list := insert_at (nat top) p (remove1 p (cv_list cv))\<rparr>)
       | _ \<Rightarrow> Some cv } }"

text \<open>
  \<open>update\<close> after a group got a new name: the row moves, but the map keeps the old key unless the row stays.
\<close>

definition rename_row :: "string \<Rightarrow> string \<Rightarrow> ptr \<Rightarrow> conversations \<Rightarrow> conversations option" where
  "rename_row old name p cv =
    (let old_row = map_below old (cv_groups cv); new_row = map_upto name (cv_groups cv);
         new_row = (if old_row < new_row then new_row - 1 else new_row)
     in if old_row = new_row then Some (cv\<lparr>cv_groups := map_set name p (map_take old (cv_groups cv))\<rparr>)
        else (case takeAt old_row (cv_list cv) of None \<Rightarrow> None
          | Some taken \<Rightarrow> Some (cv\<lparr>cv_list := insert_at new_row p taken\<rparr>)))"

definition session_update :: "ptr \<Rightarrow> conversations \<Rightarrow> conversations option" where
  "session_update p cv =
    (let row = index_of p (cv_list cv) in
     if row < 0 \<or> row \<ge> int (length (cv_groups cv)) then Some cv
     else case find (\<lambda>(k, q). q = p) (cv_groups cv) of None \<Rightarrow> Some cv
     | Some (old, _) \<Rightarrow>
       if old = [] then Some cv
       else case session_display p cv of None \<Rightarrow> None
       | Some name \<Rightarrow> if old = name then Some cv else rename_row old name p cv)"

definition session_purge :: "conversations \<Rightarrow> conversations" where
  "session_purge cv = cv\<lparr>cv_items := Map.empty, cv_list := [], cv_groups := [], cv_total := 0, cv_active := None, cv_timer := 0\<rparr>"

definition session_clear :: "conversations \<Rightarrow> conversations" where
  "session_clear cv = cv\<lparr>cv_items := (\<lambda>p. map_option (\<lambda>s. if p \<in> set (cv_list cv) then clearMessages s else s) (cv_items cv p)),
     cv_total := 0, cv_active := None, cv_timer := 0\<rparr>"

section \<open>Unread messages\<close>

definition clearUnread :: "ptr \<Rightarrow> conversations \<Rightarrow> conversations option" where
  "clearUnread p cv = do {
     s \<leftarrow> cv_items cv p;
     if si_unread s = 0 then Some cv
     else session_update p (cv\<lparr>cv_total := cv_total cv - si_unread s, cv_items := (cv_items cv)(p \<mapsto> s\<lparr>si_unread := 0\<rparr>)\<rparr>) }"

definition addUnread :: "ptr \<Rightarrow> conversations \<Rightarrow> conversations option" where
  "addUnread p cv = do {
     s \<leftarrow> cv_items cv p;
     session_update p (cv\<lparr>cv_total := cv_total cv + 1, cv_items := (cv_items cv)(p \<mapsto> s\<lparr>si_unread := si_unread s + 1\<rparr>)\<rparr>) }"

definition scrollToBottom :: "conversations \<Rightarrow> conversations option" where
  "scrollToBottom cv = (case cv_active cv of None \<Rightarrow> Some cv
     | Some p \<Rightarrow> do { s \<leftarrow> cv_items cv p; if length (si_filtered s) < 1 then Some cv else clearUnread p cv })"

section \<open>Loading\<close>

text \<open>\<open>SELECT * FROM Messages WHERE (sid=?) AND (expires > ?) ORDER BY posted DESC, seqid DESC\<close>\<close>

definition sel_messages :: "int \<Rightarrow> qdatetime \<Rightarrow> client_db \<Rightarrow> client_message list" where
  "sel_messages uid now db = sort_key (\<lambda>m. (- toMSecs (mg_posted m), - mg_seqid m))
     (filter (\<lambda>m. mg_sid m = uid \<and> toMSecs (mg_expires m) > toMSecs now) (cd_messages db))"

text \<open>The messages one by one, with the date and sequence of the latest so far.\<close>

fun load_rows :: "ptr \<Rightarrow> client_message list \<Rightarrow> qdatetime option \<times> int \<Rightarrow> conversations \<Rightarrow> (conversations \<times> (qdatetime option \<times> int)) option" where
  "load_rows p [] latest cv = Some (cv, latest)"
| "load_rows p (r # rs) latest cv = do {
     (cv, loaded) \<leftarrow> MessageItem_loaded r cv;
     case loaded of None \<Rightarrow> load_rows p rs latest cv
     | Some msg \<Rightarrow> do {
         let m = cv_msgs cv msg;
         let latest = (if toMSecs (mi_date m) > date_ms (fst latest) then (Some (mi_date m), mi_seq m) else latest);
         (cv, _) \<leftarrow> model_add p msg cv;
         load_rows p rs latest cv } }"

definition loadMessages :: "qdatetime \<Rightarrow> ptr \<Rightarrow> conversations \<Rightarrow> conversations option" where
  "loadMessages now p cv = do {
     s \<leftarrow> cv_items cv p;
     c \<leftarrow> si_contact s;
     it \<leftarrow> pb_items (cv_pb cv) c;
     let (ms, expires) = checkExpiration now s (cv_msgs cv);
     let cv = cv\<lparr>cv_msgs := ms, cv_timer := (if expires \<noteq> 0 then expires else cv_timer cv)\<rparr>;
     if si_loaded s then Some cv
     else do {
       (cv, latest) \<leftarrow> load_rows p (storage_getRecords (sel_messages (it_uid it) now) (pb_db (cv_pb cv))) (it_updated it, 0) cv;
       cv \<leftarrow> with_item p (\<lambda>s. s\<lparr>si_loaded := True\<rparr>) cv;
       Some (if date_ms (fst latest) > date_ms (it_updated it)
         then cv\<lparr>cv_pb := (cv_pb cv)\<lparr>pb_db := perform (upd_contact (it_uid it)
           (\<lambda>r. r\<lparr>ct_last := sql_bind (fst latest), ct_sequence := snd latest\<rparr>)) (pb_db (cv_pb cv))\<rparr>\<rparr>
         else cv) } }"

section \<open>Showing a session\<close>

definition store_input :: "conversations \<Rightarrow> conversations option" where
  "store_input cv = (case cv_active cv of None \<Rightarrow> Some cv
     | Some p \<Rightarrow> with_item p (\<lambda>s. s\<lparr>si_text := cv_inputText cv\<rparr>) cv)"

definition activateSelf :: "conversations \<Rightarrow> conversations option" where
  "activateSelf cv = do { cv \<leftarrow> store_input cv; Some (cv\<lparr>cv_active := None, cv_timer := 0, cv_inputText := []\<rparr>) }"

definition activateSession :: "qdatetime \<Rightarrow> ptr option \<Rightarrow> conversations \<Rightarrow> conversations option" where
  "activateSession now session cv =
    (let cv = cv\<lparr>cv_timer := 0\<rparr> in case session of None \<Rightarrow> activateSelf cv
     | Some p \<Rightarrow> do {
         cv \<leftarrow> store_input cv;
         s \<leftarrow> cv_items cv p;
         cv \<leftarrow> with_item p (\<lambda>s. s\<lparr>si_filtered := si_messages s\<rparr>) (cv\<lparr>cv_active := Some p, cv_inputText := si_text s\<rparr>);
         cv \<leftarrow> loadMessages now p cv;
         cv \<leftarrow> clearUnread p cv;
         scrollToBottom cv })"

text \<open>\<open>activateContact\<close> once the desktop shows the sessions, and \<open>enter\<close>, which shows the lobby first.\<close>

definition activateShown :: "qdatetime \<Rightarrow> ptr option \<Rightarrow> conversations \<Rightarrow> conversations option" where
  "activateShown now contact cv = (case contact of None \<Rightarrow> activateSession now None cv
     | Some c \<Rightarrow>
       if Some c = pb_self (cv_pb cv) then activateSession now None cv
       else do {
         it \<leftarrow> pb_items (cv_pb cv) c;
         case it_session it of Some p \<Rightarrow> activateSession now (Some p) cv
         | None \<Rightarrow> do {
             (cv, p) \<leftarrow> SessionItem_new c False cv;
             cv \<leftarrow> session_add p cv;
             activateSession now (Some p) cv } })"

definition enter :: "qdatetime \<Rightarrow> conversations \<Rightarrow> conversations option" where
  "enter now cv = do {
     cv \<leftarrow> (case oper (cv_pb cv) of None \<Rightarrow> Some cv
       | Some c \<Rightarrow> do {
           it \<leftarrow> pb_items (cv_pb cv) c;
           if cv_active cv = None \<and> it_display it = ''Lobby'' then activateShown now (Some c) cv else Some cv });
     if cv_active cv = None then activateSelf cv else Some cv }"

definition showSessions :: "qdatetime \<Rightarrow> conversations \<Rightarrow> conversations option" where
  "showSessions now cv = enter now (cv\<lparr>cv_current := True\<rparr>)"

definition activateContact :: "qdatetime \<Rightarrow> ptr option \<Rightarrow> conversations \<Rightarrow> conversations option" where
  "activateContact now contact cv = do {
     cv \<leftarrow> (if cv_current cv then Some cv else showSessions now cv);
     activateShown now contact cv }"

definition selectSession :: "qdatetime \<Rightarrow> int \<Rightarrow> conversations \<Rightarrow> conversations option" where
  "selectSession now row cv =
    (if row < 0 \<or> row > 999 then Some cv
     else if row \<ge> int (length (cv_list cv)) then None
     else activateSession now (Some (cv_list cv ! nat row)) cv)"

text \<open>\<open>search\<close> with the bytes of the tool bar; a number is that of an extension.\<close>

definition searchMessages :: "qdatetime \<Rightarrow> string \<Rightarrow> session_item \<Rightarrow> (ptr \<Rightarrow> message_item) \<Rightarrow> ptr list" where
  "searchMessages now term s ms =
    filter (\<lambda>p. \<not> toMSecs (mi_expires (ms p)) < toMSecs now \<and> \<not> mi_hidden (ms p) \<and> contains (mi_body (ms p)) term) (si_messages s)"

definition search :: "qdatetime \<Rightarrow> string \<Rightarrow> conversations \<Rightarrow> conversations option" where
  "search now t cv =
    (if \<not> cv_current cv then Some cv
     else case cv_active cv of
       Some p \<Rightarrow> do {
         s \<leftarrow> cv_items cv p;
         with_item p (\<lambda>s. s\<lparr>si_filtered := (if t = [] then si_messages s else searchMessages now t s (cv_msgs cv))\<rparr>) cv }
     | None \<Rightarrow>
       if t = [] then Some cv
       else do {
         contact \<leftarrow> (if isNumber t then Some (findExtension (toInt t) (cv_pb cv)) else findText t (cv_pb cv));
         case contact of None \<Rightarrow> Some cv | Some c \<Rightarrow> activateContact now (Some c) cv })"

text \<open>A number in a text was clicked (\<open>clickedText\<close>).\<close>

definition clickedExtension :: "qdatetime \<Rightarrow> int \<Rightarrow> conversations \<Rightarrow> conversations option" where
  "clickedExtension now num cv = (case findExtension num (cv_pb cv) of None \<Rightarrow> Some cv
     | Some c \<Rightarrow> activateContact now (Some c) cv)"

text \<open>What \<open>changeTopic\<close> asks the connector for.\<close>

definition topic_request :: "bool \<Rightarrow> string \<Rightarrow> conversations \<Rightarrow> (string \<times> string) option option" where
  "topic_request isOnline topic cv = (case cv_active cv of None \<Rightarrow> Some None
     | Some p \<Rightarrow>
       if topic = [] \<or> \<not> isOnline then Some None
       else do {
         c \<leftarrow> contact_of p cv;
         Some (Some (case c of None \<Rightarrow> [] | Some it \<Rightarrow> it_uri it, topic)) })"

text \<open>\<open>closeSession\<close> deletes the session before \<open>activateSelf\<close> stores the input in it.\<close>

definition closeSession :: "conversations \<Rightarrow> conversations option" where
  "closeSession cv = (case cv_active cv of None \<Rightarrow> Some cv
     | Some p \<Rightarrow> if \<not> cv_current cv then Some cv else do { cv \<leftarrow> session_remove p cv; activateSelf cv })"

definition clearSessions :: "qdatetime \<Rightarrow> conversations \<Rightarrow> conversations option" where
  "clearSessions now cv = do { cv \<leftarrow> activateSession now None cv; Some (session_clear cv) }"

definition storage_closed :: "qdatetime \<Rightarrow> conversations \<Rightarrow> conversations option" where
  "storage_closed now cv = do { cv \<leftarrow> activateSession now None cv; Some (session_purge cv) }"

definition expireMessages :: "qdatetime \<Rightarrow> conversations \<Rightarrow> conversations option" where
  "expireMessages now cv = (let cv = cv\<lparr>cv_timer := 0\<rparr> in case cv_active cv of None \<Rightarrow> Some cv
     | Some p \<Rightarrow> do {
         s \<leftarrow> cv_items cv p;
         let (ms, expires) = checkExpiration now s (cv_msgs cv);
         Some (cv\<lparr>cv_msgs := ms, cv_timer := expires\<rparr>) })"

text \<open>The sessions of the contacts that were loaded; \<open>groups\<close> is by name, so a name counts once.\<close>

fun change_loop :: "ptr list \<Rightarrow> conversations \<Rightarrow> conversations option" where
  "change_loop [] cv = Some cv"
| "change_loop (c # cs) cv = do {
     (cv, p) \<leftarrow> SessionItem_new c False cv;
     grp \<leftarrow> is_group_session p cv;
     name \<leftarrow> session_display p cv;
     change_loop cs (if grp then cv\<lparr>cv_groups := map_set name p (cv_groups cv)\<rparr> else cv\<lparr>cv_list := cv_list cv @ [p]\<rparr>) }"

definition changeSessions :: "ptr list \<Rightarrow> conversations \<Rightarrow> conversations option" where
  "changeSessions contacts cv = do {
     cv \<leftarrow> change_loop contacts (session_purge cv);
     Some (cv\<lparr>cv_list := map snd (cv_groups cv) @ cv_list cv\<rparr>) }"

section \<open>Messages\<close>

text \<open>The session a message belongs to: that of the sender for what comes in or from a group.\<close>

definition conversation_contact :: "ptr \<Rightarrow> ptr \<Rightarrow> phonebook \<Rightarrow> ptr option" where
  "conversation_contact from to pb = do {
     it \<leftarrow> pb_items pb from;
     Some (if Some to = pb_self pb \<or> it_group it then from else to) }"

definition session_for :: "ptr \<Rightarrow> conversations \<Rightarrow> (conversations \<times> ptr) option" where
  "session_for c cv = do {
     it \<leftarrow> pb_items (cv_pb cv) c;
     case it_session it of Some p \<Rightarrow> Some (cv, p)
     | None \<Rightarrow> do {
         (cv, p) \<leftarrow> SessionItem_new c False cv;
         cv \<leftarrow> session_add p cv;
         Some (cv, p) } }"

definition receiveText ::
  "qdatetime \<Rightarrow> int \<Rightarrow> bool \<Rightarrow> string \<Rightarrow> string \<Rightarrow> string \<Rightarrow> qdatetime option \<Rightarrow> int \<Rightarrow> string \<Rightarrow> string \<Rightarrow> conversations \<Rightarrow>
   conversations option" where
  "receiveText now lifetime bottom sipFrom sipTo body stamp seq subject type cv =
    (case (pb_find sipFrom (cv_pb cv), pb_find sipTo (cv_pb cv)) of
       (Some from, Some to) \<Rightarrow> do {
         c \<leftarrow> conversation_contact from to (cv_pb cv);
         (cv, p) \<leftarrow> session_for c cv;
         (cv, msg) \<leftarrow> MessageItem_received now lifetime p from to body stamp seq subject type cv;
         if \<not> mi_saved (cv_msgs cv msg) then Some cv
         else do {
           s \<leftarrow> cv_items cv p;
           cv \<leftarrow> (if si_loaded s \<or> cv_active cv = Some p then do {
               cv \<leftarrow> addMessage p msg cv;
               session_latest p cv }
             else Some cv);
           if cv_active cv = Some p \<and> bottom then scrollToBottom cv else addUnread p cv } }
     | _ \<Rightarrow> Some cv)"

text \<open>\<open>error = None\<close>: the server accepted the message.\<close>

definition finishInput :: "qdatetime \<Rightarrow> int \<Rightarrow> bool \<Rightarrow> string option \<Rightarrow> qdatetime option \<Rightarrow> int \<Rightarrow> conversations \<Rightarrow> conversations option" where
  "finishInput now lifetime bottom error stamp seq cv = do {
     cv \<leftarrow> (case (error, cv_input cv) of
         (None, Some p) \<Rightarrow> do {
           s \<leftarrow> cv_items cv p;
           (cv, msg) \<leftarrow> MessageItem_sent now lifetime p (si_text s) stamp seq cv;
           cv \<leftarrow> addMessage p msg cv;
           cv \<leftarrow> with_item p (\<lambda>s. s\<lparr>si_text := []\<rparr>) cv;
           let cv = (if cv_active cv = Some p then cv\<lparr>cv_inputText := []\<rparr> else cv);
           cv \<leftarrow> (if cv_active cv = Some p \<and> bottom then scrollToBottom cv else addUnread p cv);
           session_latest p cv }
       | _ \<Rightarrow> Some cv);
     Some (cv\<lparr>cv_input := None\<rparr>) }"

text \<open>What \<open>createMessage\<close> sends: \<open>Some\<close> is the target and subject, once there is a text, a contact and a connector.\<close>

definition createMessage :: "bool \<Rightarrow> bool \<Rightarrow> conversations \<Rightarrow> (conversations \<times> (string \<times> string) option) option" where
  "createMessage isOnline sent cv =
    (if cv_inputText cv = [] then Some (cv, None)
     else do {
       p \<leftarrow> cv_active cv;
       s \<leftarrow> cv_items cv p;
       case si_contact s of None \<Rightarrow> Some (cv, None)
       | Some c \<Rightarrow> do {
           it \<leftarrow> pb_items (cv_pb cv) c;
           if \<not> isOnline then Some (cv, None)
           else if \<not> sent then Some (cv, Some (it_uri it, it_topic it))
           else Some (cv\<lparr>cv_items := (cv_items cv)(p \<mapsto> s\<lparr>si_text := cv_inputText cv\<rparr>), cv_input := Some p\<rparr>,
             Some (it_uri it, it_topic it)) } })"

text \<open>
  \<open>checkInput\<close> runs again for the text it sets itself, so characters go until the UTF-8 bytes are few
  enough; the encoding is an argument. No text has no bytes.
\<close>

function checkInput :: "(string \<Rightarrow> string) \<Rightarrow> string \<Rightarrow> string" where
  "checkInput utf8 t = (if t \<noteq> [] \<and> length (utf8 t) > 155 then checkInput utf8 (take (length t - 1) t) else t)"
  by pat_completeness auto
termination by (relation "measure (\<lambda>(_, t). length t)") auto

declare checkInput.simps [simp del]

text \<open>A contact is removed: its session, and what it wrote elsewhere in the shown session.\<close>

fun clear_others :: "ptr list \<Rightarrow> conversations \<Rightarrow> conversations option" where
  "clear_others [] cv = Some cv"
| "clear_others (p # ps) cv = do {
     cv \<leftarrow> (if Some p \<noteq> cv_active cv then with_item p clearMessages cv else Some cv);
     clear_others ps cv }"

definition sessions_remove :: "ptr \<Rightarrow> conversations \<Rightarrow> conversations option" where
  "sessions_remove c cv = do {
     it \<leftarrow> pb_items (cv_pb cv) c;
     cv \<leftarrow> (if it_session it = None \<or> it_session it \<noteq> cv_active cv then Some cv
       else if cv_current cv then activateSelf cv
       else Some (cv\<lparr>cv_active := None, cv_timer := 0, cv_inputText := []\<rparr>));
     cv \<leftarrow> (case it_session it of Some p \<Rightarrow> session_remove p cv | None \<Rightarrow> Some cv);
     cv \<leftarrow> clear_others (cv_list cv) cv;
     case cv_active cv of None \<Rightarrow> Some cv
     | Some p \<Rightarrow> do {
         s \<leftarrow> cv_items cv p;
         (s, ms) \<leftarrow> remove_messages c s (cv_msgs cv);
         Some (cv\<lparr>cv_items := (cv_items cv)(p \<mapsto> s), cv_msgs := ms\<rparr>) } }"

section \<open>Removing a user\<close>

fun remove_each :: "ptr list \<Rightarrow> conversations \<Rightarrow> conversations option" where
  "remove_each [] cv = Some cv"
| "remove_each (c # cs) cv = do {
     it \<leftarrow> pb_items (cv_pb cv) c;
     let db = perform (del_contact (it_uid it)) (perform (del_client_messages (\<lambda>m. mg_sid m = it_uid it)) (pb_db (cv_pb cv)));
     cv \<leftarrow> sessions_remove c (cv\<lparr>cv_pb := (cv_pb cv)\<lparr>pb_db := db\<rparr>\<rparr>);
     pb \<leftarrow> phonebook_remove c (cv_pb cv);
     remove_each cs (cv\<lparr>cv_pb := pb\<rparr>) }"

text \<open>\<open>Desktop::removeUser\<close>\<close>

definition removeUser :: "string \<Rightarrow> conversations \<Rightarrow> conversations option" where
  "removeUser ident cv = do {
     gone \<leftarrow> findAuth ident (cv_pb cv);
     if length gone < 1 then Some cv
     else do {
       cv \<leftarrow> remove_each gone cv;
       Some (cv\<lparr>cv_pb := deauthorize ident (cv_pb cv)\<rparr>) } }"

section \<open>The roster\<close>

text \<open>What the phonebook asks for: the row of a session, a user to remove. The display of self is a widget.\<close>

definition pb_effect_step :: "pb_effect \<Rightarrow> conversations \<Rightarrow> conversations option" where
  "pb_effect_step e cv = (case e of UpdateSession p \<Rightarrow> session_update p cv
     | SetSelf name \<Rightarrow> Some (cv\<lparr>cv_pb := (cv_pb cv)\<lparr>pb_db := updateSelf name (pb_db (cv_pb cv))\<rparr>\<rparr>)
     | RemoveUser user \<Rightarrow> removeUser user cv)"

fun pb_effects :: "pb_effect list \<Rightarrow> conversations \<Rightarrow> conversations option" where
  "pb_effects [] cv = Some cv"
| "pb_effects (e # es) cv = do { cv \<leftarrow> pb_effect_step e cv; pb_effects es cv }"

text \<open>The profiles of a roster; one's own removal ends the loop (\<open>True\<close>: \<open>removeSelf\<close>).\<close>

fun roster_loop :: "read_time \<Rightarrow> bool \<Rightarrow> json_object list \<Rightarrow> conversations \<Rightarrow> (conversations \<times> bool) option" where
  "roster_loop fromIso admin [] cv = Some (cv, False)"
| "roster_loop fromIso admin (j # js) cv = do {
     (pb, _, es) \<leftarrow> updateContact fromIso admin j (cv_pb cv);
     cv \<leftarrow> pb_effects es (cv\<lparr>cv_pb := pb\<rparr>);
     if pb_removes (cv_pb cv) < 0 then Some (cv, True) else roster_loop fromIso admin js cv }"

definition changeRoster :: "read_time \<Rightarrow> bool \<Rightarrow> json_object list \<Rightarrow> conversations \<Rightarrow> (conversations \<times> bool) option" where
  "changeRoster fromIso admin profiles cv = roster_loop fromIso admin profiles (cv\<lparr>cv_pb := (cv_pb cv)\<lparr>pb_removes := 0\<rparr>\<rparr>)"

text \<open>The messages that waited on the server, as \<open>syncPending\<close> delivers them, before it acknowledges them.\<close>

definition pending_text :: "read_time \<Rightarrow> qdatetime \<Rightarrow> int \<Rightarrow> bool \<Rightarrow> json_object \<Rightarrow> conversations \<Rightarrow> conversations option" where
  "pending_text fromIso now lifetime bottom msg cv =
    (if json_string msg ''c'' = ''text'' \<or> json_string msg ''c'' = ''admin'' then
       receiveText now lifetime bottom (json_string msg ''f'') (json_string msg ''t'') (json_string msg ''b'')
         (fromIso (json_string msg ''p'')) (json_int msg ''u'') (json_string msg ''s'') (''text/'' @ json_string msg ''c'') cv
     else Some cv)"

fun pending_loop :: "read_time \<Rightarrow> qdatetime \<Rightarrow> int \<Rightarrow> bool \<Rightarrow> json_object list \<Rightarrow> conversations \<Rightarrow> conversations option" where
  "pending_loop fromIso now lifetime bottom [] cv = Some cv"
| "pending_loop fromIso now lifetime bottom (m # ms) cv = do {
     cv \<leftarrow> pending_text fromIso now lifetime bottom m cv;
     pending_loop fromIso now lifetime bottom ms cv }"

fun store_recent :: "ptr list \<Rightarrow> conversations \<Rightarrow> conversations option" where
  "store_recent [] cv = Some cv"
| "store_recent (p # ps) cv = do {
     s \<leftarrow> cv_items cv p;
     c \<leftarrow> si_contact s;
     it \<leftarrow> pb_items (cv_pb cv) c;
     store_recent ps (cv\<lparr>cv_pb := (cv_pb cv)\<lparr>pb_db := perform (upd_contact (it_uid it)
       (\<lambda>r. r\<lparr>ct_last := sql_bind (si_recent s), ct_sequence := si_lastSeq s\<rparr>)) (pb_db (cv_pb cv))\<rparr>\<rparr>) }"

definition syncPending :: "read_time \<Rightarrow> qdatetime \<Rightarrow> int \<Rightarrow> bool \<Rightarrow> json_object list \<Rightarrow> conversations \<Rightarrow> conversations option" where
  "syncPending fromIso now lifetime bottom msgs cv = do {
     cv \<leftarrow> pending_loop fromIso now lifetime bottom msgs cv;
     store_recent (cv_list cv) cv }"

end
