(* ===== verification/SessionProps.thy ===== *)
theory SessionProps
  imports SessionModels
begin

text \<open>
  The order of a conversation, its expiration, what removing a contact does to it, the order of the list
  of sessions, and what happens to a session that is shown, closed or synchronised.
\<close>

section \<open>Order\<close>

definition order_key :: "(ptr \<Rightarrow> message_item) \<Rightarrow> ptr \<Rightarrow> int \<times> int" where
  "order_key ms p = (toMSecs (mi_date (ms p)), mi_seq (ms p))"

definition arrive :: "(ptr \<Rightarrow> message_item) \<Rightarrow> ptr list \<Rightarrow> session_item \<Rightarrow> session_item" where
  "arrive ms ps s = fold (\<lambda>p s. fst (place_message ms p s)) ps s"

lemma earlier_key: "earlier (ms p) (ms q) \<longleftrightarrow> order_key ms p < order_key ms q"
  by (auto simp: earlier_def order_key_def)

lemma scan_back_take:
  assumes "n \<le> length xs"
  shows "scan_back ms m xs n \<le> n \<and> (\<forall>i. scan_back ms m xs n \<le> i \<and> i < n \<longrightarrow> \<not> earlier (ms (xs ! i)) m) \<and>
    (scan_back ms m xs n > 0 \<longrightarrow> earlier (ms (xs ! (scan_back ms m xs n - 1))) m)"
  using assms
proof (induction n)
  case (Suc n)
  then show ?case by (cases "earlier (ms (xs ! n)) m") (auto simp: less_Suc_eq le_Suc_eq)
qed simp

lemma insort_split:
  assumes "\<forall>y \<in> set ys. f y < f x" "zs = [] \<or> f x \<le> f (hd zs)"
  shows "insort_key f x (ys @ zs) = ys @ x # zs"
  using assms by (induction ys) (cases zs, auto)+

lemma insert_at_insort:
  assumes "sorted (map f xs)" "n \<le> length xs" "n > 0 \<longrightarrow> f (xs ! (n - 1)) < f x" "n < length xs \<longrightarrow> f x \<le> f (xs ! n)"
  shows "insert_at n x xs = insort_key f x xs"
proof -
  have "\<forall>y \<in> set (take n xs). f y < f x"
  proof
    fix y assume "y \<in> set (take n xs)"
    then obtain i where i: "i < n" "y = xs ! i" using assms(2) by (auto simp: in_set_conv_nth)
    then have "f (xs ! i) \<le> f (xs ! (n - 1))"
      using sorted_nth_mono [OF assms(1), of i "n - 1"] assms(2) by auto
    then show "f y < f x" using assms(3) i by auto
  qed
  moreover have "drop n xs = [] \<or> f x \<le> f (hd (drop n xs))"
    using assms(2,4) by (cases "n < length xs") (auto simp: hd_drop_conv_nth)
  ultimately show ?thesis using insort_split [of "take n xs" f x "drop n xs"] by (simp add: insert_at_def)
qed

lemma scan_insort:
  assumes "sorted (map (order_key ms) xs)"
  shows "insert_at (scan_back ms (ms p) xs (length xs)) p xs = insort_key (order_key ms) p xs"
  using scan_back_take [of "length xs" xs ms "ms p"]
  by (intro insert_at_insort assms) (auto simp: earlier_key not_less)

lemma front_insort:
  assumes "sorted (map (order_key ms) xs)" "xs = [] \<or> toMSecs (mi_date (ms p)) < toMSecs (mi_date (ms (hd xs)))"
  shows "insert_at 0 p xs = insort_key (order_key ms) p xs"
  using assms(2) by (intro insert_at_insort assms(1)) (auto simp: order_key_def hd_conv_nth)

lemma place_insort:
  assumes "sorted (map (order_key ms) (si_messages s))" "sorted (map (order_key ms) (si_filtered s))"
  shows "fst (place_message ms p s) = s\<lparr>si_messages := insort_key (order_key ms) p (si_messages s),
    si_filtered := insort_key (order_key ms) p (si_filtered s)\<rparr>"
proof -
  have e: "xs = [] \<Longrightarrow> scan_back ms m xs (length xs) = 0" for xs m by simp
  show ?thesis
    using scan_insort [OF assms(1), of p] scan_insort [OF assms(2), of p]
      front_insort [OF assms(1), of p] front_insort [OF assms(2), of p]
    by (cases "si_filtered s"; cases "si_messages s")
      (auto simp: place_message_def message_rows_def first_ms_def Let_def)
qed

lemma arrive_sort:
  assumes "sorted (map (order_key ms) (si_messages s))" "sorted (map (order_key ms) (si_filtered s))"
  shows "arrive ms ps s = s\<lparr>si_messages := fold (insort_key (order_key ms)) ps (si_messages s),
    si_filtered := fold (insort_key (order_key ms)) ps (si_filtered s)\<rparr>"
  using assms
proof (induction ps arbitrary: s)
  case Nil
  then show ?case by (simp add: arrive_def)
next
  case (Cons p ps)
  let ?s = "s\<lparr>si_messages := insort_key (order_key ms) p (si_messages s),
    si_filtered := insort_key (order_key ms) p (si_filtered s)\<rparr>"
  have "arrive ms (p # ps) s = arrive ms ps ?s"
    using place_insort [OF Cons.prems] by (simp add: arrive_def)
  also have "\<dots> = ?s\<lparr>si_messages := fold (insort_key (order_key ms)) ps (si_messages ?s),
    si_filtered := fold (insort_key (order_key ms)) ps (si_filtered ?s)\<rparr>"
    using Cons.prems by (intro Cons.IH) (simp_all add: sorted_insort_key)
  finally show ?case by simp
qed

lemma fold_insort:
  assumes "sorted (map f xs)"
  shows "fold (insort_key f) ps xs = sort_key f (rev ps @ xs)"
proof -
  have "sort_key f xs = xs" using assms by (rule sort_key_id_if_sorted)
  then have "foldr (insort_key f) xs [] = xs" by (simp add: sort_key_def)
  then show ?thesis by (simp add: sort_key_def foldr_conv_fold)
qed

text \<open>
  C15. A conversation does not depend on how its messages came in: adding any sequence of messages one by
  one, with the shortcut for messages that are older than the first and the search from the end for the
  rest, gives the messages sorted by date and sequence, in the full list and in the filtered one; of
  messages with the same date and sequence the last to arrive stands first.
\<close>
theorem conversation_order:
  assumes "sorted (map (order_key ms) (si_messages s))" "sorted (map (order_key ms) (si_filtered s))"
  shows "si_messages (arrive ms ps s) = sort_key (order_key ms) (rev ps @ si_messages s) \<and>
    si_filtered (arrive ms ps s) = sort_key (order_key ms) (rev ps @ si_filtered s)"
  unfolding arrive_sort [OF assms] using assms by (simp add: fold_insort)

definition sample_message :: "int \<Rightarrow> int \<Rightarrow> message_item" where
  "sample_message t n = \<lparr>mi_session = 0, mi_from = 1, mi_to = 2, mi_date = \<lparr>toMSecs = t, offsetFromUtc = 0\<rparr>, mi_seq = n,
     mi_expires = \<lparr>toMSecs = t + 1000, offsetFromUtc = 0\<rparr>, mi_type = TEXT_MESSAGE, mi_subject = [], mi_body = [], mi_inbox = True,
     mi_saved = True, mi_hidden = False\<rparr>"

definition sample_session :: "ptr list \<Rightarrow> ptr list \<Rightarrow> session_item" where
  "sample_session messages filtered = \<lparr>si_contact = Some 1, si_messages = messages, si_filtered = filtered, si_recent = None,
     si_lastSeq = 0, si_topics = [], si_unread = 0, si_loaded = True, si_online = False, si_text = []\<rparr>"

lemma conversation_order_witness:
  "si_messages (arrive (\<lambda>p. sample_message (int p mod 3) (int p)) [5, 4, 3] (sample_session [] [])) = [3, 4, 5] \<and>
   si_filtered (arrive (\<lambda>p. sample_message (int p mod 3) (int p)) [5, 4, 3] (sample_session [] [])) = [3, 4, 5]"
  using conversation_order [of "\<lambda>p. sample_message (int p mod 3) (int p)" "sample_session [] []" "[5, 4, 3]"]
  by (simp add: sample_session_def sample_message_def order_key_def)

section \<open>Expiration\<close>

definition expired :: "qdatetime \<Rightarrow> message_item \<Rightarrow> bool" where
  "expired now m \<longleftrightarrow> toMSecs (mi_expires m) < toMSecs now"

definition hide_expired :: "qdatetime \<Rightarrow> message_item \<Rightarrow> message_item" where
  "hide_expired now m = m\<lparr>mi_hidden := expired now m\<rparr>"

text \<open>The earliest expiration of the messages \<open>P\<close>, or what was found before.\<close>

definition earliest :: "int set \<Rightarrow> int option \<Rightarrow> bool" where
  "earliest T r \<longleftrightarrow> (case r of None \<Rightarrow> T = {} | Some t \<Rightarrow> t \<in> T \<and> (\<forall>u \<in> T. t \<le> u))"

lemma expire_one_earliest:
  "earliest T r \<Longrightarrow> expire_one (toMSecs now) m r = (hide, r') \<Longrightarrow>
    hide = expired now m \<and> earliest (T \<union> (if expired now m then {} else {toMSecs (mi_expires m)})) r'"
  by (auto simp: expire_one_def expired_def earliest_def Let_def split: option.splits if_splits; force)

lemma expire_filtered_spec:
  "earliest T r \<Longrightarrow> expire_filtered (toMSecs now) ps ms r = (ms', r') \<Longrightarrow>
    ms' = (\<lambda>p. if p \<in> set ps then hide_expired now (ms p) else ms p) \<and>
    earliest (T \<union> {toMSecs (mi_expires (ms p)) | p. p \<in> set ps \<and> \<not> expired now (ms p)}) r'"
proof (induction ps arbitrary: T ms r)
  case (Cons p ps)
  obtain h r1 where e: "expire_one (toMSecs now) (ms p) r = (h, r1)" by (metis surj_pair)
  let ?ms = "ms(p := (ms p)\<lparr>mi_hidden := h\<rparr>)"
  have h: "h = expired now (ms p)" "earliest (T \<union> (if expired now (ms p) then {} else {toMSecs (mi_expires (ms p))})) r1"
    using expire_one_earliest [OF Cons.prems(1) e] by auto
  have step: "expire_filtered (toMSecs now) ps ?ms r1 = (ms', r')" using Cons.prems(2) e by simp
  have x: "expired now (?ms q) = expired now (ms q)" "mi_expires (?ms q) = mi_expires (ms q)"
    "hide_expired now (?ms q) = hide_expired now (ms q)" for q
    by (auto simp: expired_def hide_expired_def)
  have same: "T \<union> (if expired now (ms p) then {} else {toMSecs (mi_expires (ms p))}) \<union>
      {toMSecs (mi_expires (?ms q)) | q. q \<in> set ps \<and> \<not> expired now (?ms q)} =
    T \<union> {toMSecs (mi_expires (ms q)) | q. q \<in> set (p # ps) \<and> \<not> expired now (ms q)}"
    unfolding x by auto
  have "earliest (T \<union> {toMSecs (mi_expires (ms q)) | q. q \<in> set (p # ps) \<and> \<not> expired now (ms q)}) r'"
    using Cons.IH [OF h(2) step] unfolding same by blast
  moreover have "ms' = (\<lambda>q. if q \<in> set (p # ps) then hide_expired now (ms q) else ms q)"
    using Cons.IH [OF h(2) step] h(1) unfolding x by (auto simp: fun_eq_iff hide_expired_def)
  ultimately show ?case by blast
qed auto

lemma expire_messages_spec:
  "earliest T r \<Longrightarrow> expire_messages (toMSecs now) ps ms r = (ms', r') \<Longrightarrow>
    ms' = (\<lambda>p. if p \<in> set ps \<and> \<not> mi_hidden (ms p) then hide_expired now (ms p) else ms p) \<and>
    earliest (T \<union> {toMSecs (mi_expires (ms p)) | p. p \<in> set ps \<and> \<not> mi_hidden (ms p) \<and> \<not> expired now (ms p)}) r'"
proof (induction ps arbitrary: T ms r)
  case (Cons p ps)
  show ?case
  proof (cases "mi_hidden (ms p)")
    case True
    then have "expire_messages (toMSecs now) ps ms r = (ms', r')" using Cons.prems(2) by simp
    note Cons.IH [OF Cons.prems(1) this]
    moreover have "{toMSecs (mi_expires (ms q)) | q. q \<in> set ps \<and> \<not> mi_hidden (ms q) \<and> \<not> expired now (ms q)} =
      {toMSecs (mi_expires (ms q)) | q. q \<in> set (p # ps) \<and> \<not> mi_hidden (ms q) \<and> \<not> expired now (ms q)}"
      using True by auto
    ultimately show ?thesis using True by (auto simp: fun_eq_iff)
  next
    case False
    obtain h r1 where e: "expire_one (toMSecs now) (ms p) r = (h, r1)" by (metis surj_pair)
    have h: "h = expired now (ms p)" "earliest (T \<union> (if expired now (ms p) then {} else {toMSecs (mi_expires (ms p))})) r1"
      using expire_one_earliest [OF Cons.prems(1) e] by auto
    let ?ms = "if h then ms(p := (ms p)\<lparr>mi_hidden := h\<rparr>) else ms"
    have step: "expire_messages (toMSecs now) ps ?ms r1 = (ms', r')" using Cons.prems(2) e False by simp
    have x: "expired now (?ms q) = expired now (ms q)" "mi_expires (?ms q) = mi_expires (ms q)"
      "hide_expired now (?ms q) = hide_expired now (ms q)"
      "mi_hidden (?ms q) \<longleftrightarrow> mi_hidden (ms q) \<or> (q = p \<and> expired now (ms p))" for q
      using h(1) by (auto simp: expired_def hide_expired_def)
    have same: "T \<union> (if expired now (ms p) then {} else {toMSecs (mi_expires (ms p))}) \<union>
        {toMSecs (mi_expires (?ms q)) | q. q \<in> set ps \<and> \<not> mi_hidden (?ms q) \<and> \<not> expired now (?ms q)} =
      T \<union> {toMSecs (mi_expires (ms q)) | q. q \<in> set (p # ps) \<and> \<not> mi_hidden (ms q) \<and> \<not> expired now (ms q)}"
      unfolding x using False by auto
    have "earliest (T \<union> {toMSecs (mi_expires (ms q)) | q. q \<in> set (p # ps) \<and> \<not> mi_hidden (ms q) \<and> \<not> expired now (ms q)}) r'"
      using Cons.IH [OF h(2) step] unfolding same by blast
    moreover have "ms' = (\<lambda>q. if q \<in> set (p # ps) \<and> \<not> mi_hidden (ms q) then hide_expired now (ms q) else ms q)"
      using Cons.IH [OF h(2) step] h(1) False unfolding x by (auto simp: fun_eq_iff hide_expired_def)
    ultimately show ?thesis by blast
  qed
qed auto

definition visible :: "session_item \<Rightarrow> (ptr \<Rightarrow> message_item) \<Rightarrow> ptr \<Rightarrow> bool" where
  "visible s ms p \<longleftrightarrow> p \<in> set (si_messages s) \<and> \<not> mi_hidden (ms p)"

lemma check_expiration_spec:
  assumes sub: "set (si_filtered s) \<subseteq> set (si_messages s)" and run: "checkExpiration now s ms = (ms', r)"
  obtains t where "earliest {toMSecs (mi_expires (ms p)) | p. visible s ms' p} t"
    "\<And>p. mi_hidden (ms' p) \<longleftrightarrow> (if p \<in> set (si_filtered s) then expired now (ms p)
       else if p \<in> set (si_messages s) then mi_hidden (ms p) \<or> expired now (ms p) else mi_hidden (ms p))"
    "\<And>p. ms' p = (ms p)\<lparr>mi_hidden := mi_hidden (ms' p)\<rparr>"
    "r = (case t of None \<Rightarrow> 0 | Some t \<Rightarrow> if t - toMSecs now < 604800000 then signed_take_bit 31 (t - toMSecs now) else 0)"
proof -
  obtain ms1 t1 where f: "expire_filtered (toMSecs now) (si_filtered s) ms None = (ms1, t1)" by (metis surj_pair)
  obtain ms2 t2 where m: "expire_messages (toMSecs now) (si_messages s) ms1 t1 = (ms2, t2)" by (metis surj_pair)
  have none: "earliest {} None" by (simp add: earliest_def)
  note F = expire_filtered_spec [OF none f]
  have ms1: "ms1 = (\<lambda>p. if p \<in> set (si_filtered s) then hide_expired now (ms p) else ms p)" using F by blast
  note M = expire_messages_spec [OF conjunct2 [OF F] m]
  have ms2: "ms2 = (\<lambda>p. if p \<in> set (si_messages s) \<and> \<not> mi_hidden (ms1 p) then hide_expired now (ms1 p) else ms1 p)" using M by blast
  have hid: "mi_hidden (ms2 p) \<longleftrightarrow> (if p \<in> set (si_filtered s) then expired now (ms p)
       else if p \<in> set (si_messages s) then mi_hidden (ms p) \<or> expired now (ms p) else mi_hidden (ms p))" for p
    using sub unfolding ms2 ms1 by (auto simp: hide_expired_def expired_def)
  have keep: "ms2 p = (ms p)\<lparr>mi_hidden := mi_hidden (ms2 p)\<rparr>" for p
    unfolding ms2 ms1 by (auto simp: hide_expired_def expired_def)
  have exp: "mi_expires (ms1 p) = mi_expires (ms p)" "expired now (ms1 p) = expired now (ms p)" for p
    unfolding ms1 by (auto simp: hide_expired_def expired_def)
  have "({} \<union> {toMSecs (mi_expires (ms p)) | p. p \<in> set (si_filtered s) \<and> \<not> expired now (ms p)}) \<union>
      {toMSecs (mi_expires (ms1 p)) | p. p \<in> set (si_messages s) \<and> \<not> mi_hidden (ms1 p) \<and> \<not> expired now (ms1 p)} =
    {toMSecs (mi_expires (ms p)) | p. visible s ms2 p}"
    using sub unfolding exp visible_def hid by (auto simp: ms1 hide_expired_def expired_def split: if_splits)
  then have early: "earliest {toMSecs (mi_expires (ms p)) | p. visible s ms2 p} t2" using M by simp
  have "ms' = ms2" "r = (case t2 of None \<Rightarrow> 0 | Some t \<Rightarrow> if t - toMSecs now < 604800000 then signed_take_bit 31 (t - toMSecs now) else 0)"
    using run f m by (auto simp: checkExpiration_def Let_def split: option.splits)
  then show ?thesis using that [OF _ _ _ _] early hid keep by blast
qed

text \<open>The time until the earliest of the times that are left; it fits into an \<open>int\<close>.\<close>

lemma next_expiry:
  assumes e: "earliest {toMSecs (mi_expires (ms p)) | p. visible s ms' p} t"
    and live: "\<And>p. visible s ms' p \<Longrightarrow> toMSecs now \<le> toMSecs (mi_expires (ms p))"
    and r: "r = (case t of None \<Rightarrow> 0 | Some t \<Rightarrow> if t - toMSecs now < 604800000 then signed_take_bit 31 (t - toMSecs now) else 0)"
  shows "0 \<le> r \<and> r < 604800000 \<and>
    ((\<exists>p. visible s ms' p \<and> toMSecs (mi_expires (ms p)) = toMSecs now + r \<and>
        (\<forall>q. visible s ms' q \<longrightarrow> toMSecs now + r \<le> toMSecs (mi_expires (ms q)))) \<or>
     (r = 0 \<and> (\<forall>q. visible s ms' q \<longrightarrow> toMSecs now + 604800000 \<le> toMSecs (mi_expires (ms q)))))"
proof -
  have fits: "0 \<le> d \<Longrightarrow> d < 604800000 \<Longrightarrow> signed_take_bit 31 d = d" for d :: int
    by (simp add: signed_take_bit_int_eq_self)
  show ?thesis
  proof (cases t)
    case None
    then show ?thesis using e r by (auto simp: earliest_def)
  next
    case (Some u)
    then obtain p where p: "visible s ms' p" "u = toMSecs (mi_expires (ms p))"
      and least: "\<forall>q. visible s ms' q \<longrightarrow> u \<le> toMSecs (mi_expires (ms q))"
      using e by (auto simp: earliest_def)
    have pos: "0 \<le> u - toMSecs now" using live [OF p(1)] p(2) by simp
    show ?thesis
    proof (cases "u - toMSecs now < 604800000")
      case True
      then have "r = u - toMSecs now" using r Some fits [OF pos] by simp
      then show ?thesis using pos True p least by auto
    next
      case False
      then have "r = 0" using r Some by simp
      moreover have "\<forall>q. visible s ms' q \<longrightarrow> toMSecs now + 604800000 \<le> toMSecs (mi_expires (ms q))"
        using False least by force
      ultimately show ?thesis by simp
    qed
  qed
qed

text \<open>
  C29. The timer of a shown conversation. For a list that holds what the filter shows, the check hides
  exactly the expired messages of the filter, and of the others it hides the expired ones too; it changes nothing
  else. Its result is the time until the next message of the list that is still shown expires, or \<open>0\<close> when every
  such message has a week left: always between \<open>0\<close> and a week, so the conversion to \<open>int\<close> keeps it. It is \<open>0\<close> as
  well when a message expires within the same millisecond, and the callers do not start the timer then.
\<close>
theorem expiration_timer:
  assumes "set (si_filtered s) \<subseteq> set (si_messages s)" "checkExpiration now s ms = (ms', r)"
  shows "(\<forall>p. ms' p = (ms p)\<lparr>mi_hidden := (if p \<in> set (si_filtered s) then expired now (ms p)
       else if p \<in> set (si_messages s) then mi_hidden (ms p) \<or> expired now (ms p) else mi_hidden (ms p))\<rparr>) \<and>
    0 \<le> r \<and> r < 604800000 \<and>
    ((\<exists>p. visible s ms' p \<and> toMSecs (mi_expires (ms p)) = toMSecs now + r \<and>
        (\<forall>q. visible s ms' q \<longrightarrow> toMSecs now + r \<le> toMSecs (mi_expires (ms q)))) \<or>
     (r = 0 \<and> (\<forall>q. visible s ms' q \<longrightarrow> toMSecs now + 604800000 \<le> toMSecs (mi_expires (ms q)))))"
proof (rule check_expiration_spec [OF assms])
  fix t
  assume e: "earliest {toMSecs (mi_expires (ms p)) | p. visible s ms' p} t"
    and h: "\<And>p. mi_hidden (ms' p) \<longleftrightarrow> (if p \<in> set (si_filtered s) then expired now (ms p)
       else if p \<in> set (si_messages s) then mi_hidden (ms p) \<or> expired now (ms p) else mi_hidden (ms p))"
    and k: "\<And>p. ms' p = (ms p)\<lparr>mi_hidden := mi_hidden (ms' p)\<rparr>"
    and r: "r = (case t of None \<Rightarrow> 0 | Some t \<Rightarrow> if t - toMSecs now < 604800000 then signed_take_bit 31 (t - toMSecs now) else 0)"
  have live: "visible s ms' p \<Longrightarrow> toMSecs now \<le> toMSecs (mi_expires (ms p))" for p
    using h [of p] assms(1) by (auto simp: visible_def expired_def split: if_splits)
  have part: "\<forall>p. ms' p = (ms p)\<lparr>mi_hidden := (if p \<in> set (si_filtered s) then expired now (ms p)
       else if p \<in> set (si_messages s) then mi_hidden (ms p) \<or> expired now (ms p) else mi_hidden (ms p))\<rparr>"
    unfolding h [symmetric] using k by blast
  from next_expiry[OF e live r] show ?thesis using part by blast
qed

lemma expiration_timer_witness:
  "snd (checkExpiration \<lparr>toMSecs = 2500, offsetFromUtc = 0\<rparr> (sample_session [1, 2, 3] [3]) (\<lambda>p. sample_message (1000 * int p) 0)) = 500 \<and>
   mi_hidden (fst (checkExpiration \<lparr>toMSecs = 2500, offsetFromUtc = 0\<rparr> (sample_session [1, 2, 3] [3])
     (\<lambda>p. sample_message (1000 * int p) 0)) 1)"
proof -
  let ?now = "\<lparr>toMSecs = 2500, offsetFromUtc = 0\<rparr>" and ?s = "sample_session [1, 2, 3] [3]"
    and ?ms = "\<lambda>p. sample_message (1000 * int p) 0"
  obtain ms' r where run: "checkExpiration ?now ?s ?ms = (ms', r)" by (metis surj_pair)
  have "set (si_filtered ?s) \<subseteq> set (si_messages ?s)" by (simp add: sample_session_def)
  note spec = expiration_timer [OF this run]
  have m1: "mi_hidden (ms' 1)" and m2: "\<not> mi_hidden (ms' 2)"
    using spec [THEN conjunct1, rule_format, of 1] spec [THEN conjunct1, rule_format, of 2]
    by (simp_all add: sample_session_def sample_message_def expired_def)
  have vis: "visible ?s ms' q \<Longrightarrow> q = 2 \<or> q = 3" for q
    using m1 by (auto simp: visible_def sample_session_def)
  have v2: "visible ?s ms' 2" using m2 by (simp add: visible_def sample_session_def)
  have "toMSecs (mi_expires (?ms 2)) = 3000" "toMSecs (mi_expires (?ms 3)) = 4000" by (simp_all add: sample_message_def)
  then have "r = 500" using spec v2 vis by fastforce
  then show ?thesis using run m1 by simp
qed

section \<open>Removing the messages of a contact\<close>

definition first_row :: "('a \<Rightarrow> bool) \<Rightarrow> 'a list \<Rightarrow> nat" where
  "first_row P xs = length (takeWhile (\<lambda>x. \<not> P x) xs)"

definition how_many :: "('a \<Rightarrow> bool) \<Rightarrow> 'a list \<Rightarrow> nat" where
  "how_many P xs = length (filter P xs)"

lemma rows_of_snoc: "rows_of P (xs @ [x]) = (if P x then [length xs] else []) @ rows_of P xs"
proof -
  have "filter (\<lambda>i. P ((xs @ [x]) ! i)) [0..<length xs] = filter (\<lambda>i. P (xs ! i)) [0..<length xs]"
    by (rule filter_cong) (auto simp: nth_append)
  then show ?thesis by (simp add: rows_of_def)
qed

lemma take_rows_of: "take_rows (rows_of P xs) (xs @ ys) = Some (filter (\<lambda>x. \<not> P x) xs @ ys)"
proof (induction xs arbitrary: ys rule: rev_induct)
  case Nil
  then show ?case by (simp add: rows_of_def)
next
  case (snoc x xs)
  then show ?case using snoc [of ys] snoc [of "x # ys"] by (auto simp: rows_of_snoc takeAt_def)
qed

lemma last_rows_of: "(if rows_of P xs = [] then length xs else last (rows_of P xs)) = first_row P xs"
proof (induction xs rule: rev_induct)
  case Nil
  then show ?case by (simp add: rows_of_def first_row_def)
next
  case (snoc x xs)
  have "rows_of P xs = [] \<longleftrightarrow> (\<forall>y \<in> set xs. \<not> P y)"
    by (auto simp: rows_of_def filter_empty_conv all_set_conv_all_nth)
  then have "rows_of P xs = [] \<Longrightarrow> first_row P (xs @ [x]) = length xs + (if P x then 0 else 1)"
    "rows_of P xs \<noteq> [] \<Longrightarrow> first_row P (xs @ [x]) = first_row P xs"
    by (auto simp: first_row_def takeWhile_append)
  then show ?case using snoc by (cases "rows_of P xs = []") (auto simp: rows_of_snoc)
qed

lemma take_rows_replicate:
  "k = 0 \<or> r + k \<le> length xs \<Longrightarrow> take_rows (replicate k r) xs = Some (take r xs @ drop (r + k) xs)"
proof (induction k arbitrary: xs)
  case (Suc k)
  then have r: "r < length xs" by simp
  let ?ys = "take r xs @ drop (Suc r) xs"
  have "take_rows (replicate k r) ?ys = Some (take r ?ys @ drop (r + k) ?ys)"
    using Suc by (intro Suc.IH) auto
  also have "take r ?ys @ drop (r + k) ?ys = take r xs @ drop (r + Suc k) xs"
    using r by (simp add: min_def ac_simps)
  finally show ?case using r by (simp add: takeAt_def)
qed simp

lemma rows_fit: "first_row P xs + how_many P xs \<le> length xs"
  by (induction xs) (auto simp: first_row_def how_many_def)

lemma all_take: "k \<le> length ys \<Longrightarrow> (\<forall>y \<in> set (take k ys). P y) \<longleftrightarrow> (\<forall>i < k. P (ys ! i))"
  by (simp add: all_set_conv_all_nth)

lemma how_many_append: "how_many P (xs @ ys) = how_many P xs + how_many P ys"
  by (simp add: how_many_def)

lemma how_many_all: "how_many P xs = length xs \<longleftrightarrow> (\<forall>x \<in> set xs. P x)"
  using length_filter_less [of _ xs P] by (cases "\<forall>x \<in> set xs. P x") (auto simp: how_many_def, force)

lemma how_many_none: "how_many P xs = 0 \<longleftrightarrow> filter (\<lambda>x. \<not> P x) xs = xs"
  by (simp add: how_many_def filter_empty_conv filter_id_conv)

lemma take_first_row: "filter (\<lambda>x. \<not> P x) (take (first_row P xs) xs) = take (first_row P xs) xs"
  by (induction xs) (auto simp: first_row_def)

lemma filter_is_drop:
  "drop (how_many P ys) ys = filter (\<lambda>x. \<not> P x) ys \<longleftrightarrow> (\<forall>i < how_many P ys. P (ys ! i))"
proof -
  define k where "k = how_many P ys"
  have le: "k \<le> length ys" by (simp add: k_def how_many_def)
  have split: "how_many P (take k ys) + how_many P (drop k ys) = k"
    using how_many_append [of P "take k ys" "drop k ys"] by (simp add: k_def)
  have ends: "filter (\<lambda>x. \<not> P x) ys = filter (\<lambda>x. \<not> P x) (take k ys) @ filter (\<lambda>x. \<not> P x) (drop k ys)"
    by (metis append_take_drop_id filter_append)
  have "drop k ys = filter (\<lambda>x. \<not> P x) ys \<longleftrightarrow> how_many P (take k ys) = length (take k ys)"
  proof
    assume "drop k ys = filter (\<lambda>x. \<not> P x) ys"
    then have "how_many P (drop k ys) = 0" by (simp add: how_many_def)
    then show "how_many P (take k ys) = length (take k ys)" using split le by simp
  next
    assume all: "how_many P (take k ys) = length (take k ys)"
    then have "how_many P (drop k ys) = 0" using split le by simp
    moreover have "filter (\<lambda>x. \<not> P x) (take k ys) = []"
      using all unfolding how_many_all by (simp add: filter_empty_conv)
    ultimately show "drop k ys = filter (\<lambda>x. \<not> P x) ys" unfolding ends how_many_none by simp
  qed
  then show ?thesis unfolding how_many_all all_take [OF le] by (simp only: k_def)
qed

text \<open>
  C30. Removing a contact from a shown conversation. With the filter off, the filtered list loses exactly the
  messages from or to the contact. The full list loses as many, but the row is not counted there: they are taken
  from the first such row on, whatever stands in those rows. The two lists agree afterwards exactly when the
  messages of the contact stood in one run; else messages of other members go and some of the contact stay.
\<close>
theorem messages_removed:
  assumes "si_filtered s = si_messages s"
  shows "\<exists>s' ms'. remove_messages c s ms = Some (s', ms') \<and>
    (let gone = (\<lambda>p. involves c (ms p)); xs = si_messages s; r = first_row gone xs; k = how_many gone xs
     in si_filtered s' = filter (\<lambda>p. \<not> gone p) xs \<and> si_messages s' = take r xs @ drop (r + k) xs \<and>
        (si_messages s' = si_filtered s' \<longleftrightarrow> (\<forall>i < k. gone (xs ! (r + i)))))"
proof -
  let ?P = "\<lambda>p. involves c (ms p)" and ?xs = "si_messages s"
  let ?r = "first_row ?P ?xs" and ?k = "how_many ?P ?xs"
  have fit: "?r + ?k \<le> length ?xs" by (rule rows_fit)
  obtain s' ms' where run: "remove_messages c s ms = Some (s', ms')" and
    lists: "si_filtered s' = filter (\<lambda>p. \<not> ?P p) ?xs" "si_messages s' = take ?r ?xs @ drop (?r + ?k) ?xs"
    using take_rows_of [of ?P ?xs "[]"] take_rows_replicate [of ?k ?r ?xs] fit
    unfolding remove_messages_def Let_def assms last_rows_of how_many_def [symmetric] by simp
  let ?ys = "drop ?r ?xs"
  note front = take_first_row [of ?P ?xs] take_first_row [of ?P ?xs, folded how_many_none]
  have "filter (\<lambda>p. \<not> ?P p) ?xs = take ?r ?xs @ filter (\<lambda>p. \<not> ?P p) ?ys"
    using front(1) by (metis append_take_drop_id filter_append)
  moreover have k: "how_many ?P ?ys = ?k"
    using how_many_append [of ?P "take ?r ?xs" ?ys] front(2) by simp
  ultimately have "si_messages s' = si_filtered s' \<longleftrightarrow> drop (how_many ?P ?ys) ?ys = filter (\<lambda>p. \<not> ?P p) ?ys"
    unfolding lists k by (simp add: add.commute)
  also have "\<dots> \<longleftrightarrow> (\<forall>i < ?k. ?P (?ys ! i))" 
    using filter_is_drop [of ?P ?ys] unfolding k .
  also have "\<dots> \<longleftrightarrow> (\<forall>i < ?k. ?P (?xs ! (?r + i)))" using fit by auto
  finally show ?thesis using run lists by (auto simp: Let_def)
qed

lemma messages_removed_witness:
  "\<exists>s' ms'. remove_messages 1 (sample_session [1, 2, 3] [1, 2, 3])
      (\<lambda>p. (sample_message (int p) 0)\<lparr>mi_from := p mod 2\<rparr>) = Some (s', ms') \<and>
    si_filtered s' = [2] \<and> si_messages s' = [3]"
  using messages_removed [of "sample_session [1, 2, 3] [1, 2, 3]" 1 "\<lambda>p. (sample_message (int p) 0)\<lparr>mi_from := p mod 2\<rparr>"]
  by (auto simp: sample_session_def sample_message_def involves_def first_row_def how_many_def Let_def)

end
