(* ===== verification/SessionLists.thy ===== *)
theory SessionLists
  imports SessionProps "HOL-Library.Multiset"
begin

text \<open>
  The list of sessions: groups stand first in the order of their names, and what a new name does to them.
\<close>

section \<open>Rows\<close>

lemma mset_insert_at [simp]: "mset (insert_at n x xs) = add_mset x (mset xs)"
  by (simp add: insert_at_def) (metis append_take_drop_id mset_append)

lemma mset_takeAt: "takeAt n xs = Some ys \<Longrightarrow> mset ys = mset xs - {#xs ! n#} \<and> xs ! n \<in># mset xs"
proof -
  assume t: "takeAt n xs = Some ys"
  then have n: "n < length xs" and ys: "ys = take n xs @ drop (Suc n) xs" by (auto simp: takeAt_def split: if_splits)
  have "mset xs = mset (take n xs @ xs ! n # drop (Suc n) xs)" using n by (metis id_take_nth_drop)
  then show ?thesis using n by (simp add: ys)
qed

lemma length_insert_at [simp]: "length (insert_at n x xs) = Suc (length xs)"
  by (simp add: insert_at_def)

lemma nth_insert_at: "n \<le> length xs \<Longrightarrow> insert_at n x xs ! n = x"
  by (simp add: insert_at_def nth_append)

lemma distinct_mset: "distinct xs \<Longrightarrow> mset ys = mset xs \<Longrightarrow> distinct ys"
  by (metis mset_eq_imp_distinct_iff)

lemma index_of_nth: "distinct xs \<Longrightarrow> i < length xs \<Longrightarrow> index_of (xs ! i) xs = int i"
proof -
  assume d: "distinct xs" and i: "i < length xs"
  have "takeWhile (\<lambda>x. x \<noteq> xs ! i) xs = take i xs"
    using d i by (intro takeWhile_eq_take_P_nth) (auto simp: nth_eq_iff_index_eq)
  then show "index_of (xs ! i) xs = int i" using i by (simp add: index_of_def Let_def)
qed

lemma below_nth:
  assumes "sorted_wrt (<) (map fst m)" "i < length m"
  shows "map_below (fst (m ! i)) m = i"
proof -
  have lt: "fst (m ! j) < fst (m ! i) \<longleftrightarrow> j < i" if "j < length m" for j
    using sorted_wrt_nth_less [OF assms(1), of j i] sorted_wrt_nth_less [OF assms(1), of i j] that assms(2)
    by (cases j i rule: linorder_cases) auto
  have "{j. j < length m \<and> fst (m ! j) < fst (m ! i)} = {..<i}" using lt assms(2) by auto
  then show ?thesis unfolding map_below_def length_filter_conv_card by (simp add: case_prod_unfold)
qed

lemma upto_length: "map_upto k m \<le> length m"
  by (simp add: map_upto_def)

section \<open>A new name\<close>

definition groups_ordered :: "conversations \<Rightarrow> bool" where
  "groups_ordered cv \<longleftrightarrow> sorted_wrt (<) (map fst (cv_groups cv)) \<and> distinct (cv_list cv) \<and>
     (\<exists>rest. cv_list cv = map snd (cv_groups cv) @ rest)"

lemma contact_of_cong:
  assumes "cv_items cv' = cv_items cv" "cv_pb cv' = cv_pb cv"
  shows "contact_of p cv' = contact_of p cv"
  unfolding contact_of_def assms ..

lemma session_display_list [simp]: "session_display p (cv\<lparr>cv_list := xs\<rparr>) = session_display p cv"
  using contact_of_cong [of "cv\<lparr>cv_list := xs\<rparr>" cv p] by (simp add: session_display_def)

lemma moved_row:
  assumes ord: "groups_ordered cv" and upd: "session_update p cv = Some cv1" and moved: "cv_list cv1 \<noteq> cv_list cv"
  obtains old name i j taken where
    "find (\<lambda>(k, q). q = p) (cv_groups cv) = Some (old, p)" "old \<noteq> []" "session_display p cv = Some name" "old \<noteq> name"
    "map_below old (cv_groups cv) = i" "i < length (cv_groups cv)" "cv_list cv ! i = p"
    "(if i < map_upto name (cv_groups cv) then map_upto name (cv_groups cv) - 1 else map_upto name (cv_groups cv)) = j"
    "j \<noteq> i" "j < length (cv_groups cv)" "takeAt i (cv_list cv) = Some taken" "cv1 = cv\<lparr>cv_list := insert_at j p taken\<rparr>"
proof -
  obtain old q where f: "find (\<lambda>(k, q). q = p) (cv_groups cv) = Some (old, q)"
    using upd moved by (auto simp: session_update_def Let_def split: if_splits option.splits)
  then obtain i where i: "i < length (cv_groups cv)" "cv_groups cv ! i = (old, p)" and q: "q = p"
    by (auto simp: find_Some_iff)
  have below: "map_below old (cv_groups cv) = i"
    using below_nth [of "cv_groups cv" i] ord i by (simp add: groups_ordered_def)
  have row: "cv_list cv ! i = p" using ord i by (auto simp: groups_ordered_def nth_append)
  have rows: "\<not> (index_of p (cv_list cv) < 0 \<or> index_of p (cv_list cv) \<ge> int (length (cv_groups cv)))"
    using upd moved by (auto simp: session_update_def Let_def)
  then have u: "session_update p cv = (if old = [] then Some cv else case session_display p cv of None \<Rightarrow> None
      | Some name \<Rightarrow> if old = name then Some cv else rename_row old name p cv)"
    using f by (simp add: session_update_def Let_def)
  obtain name where n: "old \<noteq> []" "session_display p cv = Some name" "old \<noteq> name" and r: "rename_row old name p cv = Some cv1"
    using upd moved u by (cases "session_display p cv") (auto split: if_splits)
  define j where "j = (if i < map_upto name (cv_groups cv) then map_upto name (cv_groups cv) - 1 else map_upto name (cv_groups cv))"
  have r: "(if i = j then Some (cv\<lparr>cv_groups := map_set name p (map_take old (cv_groups cv))\<rparr>)
        else (case takeAt i (cv_list cv) of None \<Rightarrow> None | Some taken \<Rightarrow> Some (cv\<lparr>cv_list := insert_at j p taken\<rparr>))) = Some cv1"
    using r unfolding rename_row_def below Let_def j_def .
  have "j \<noteq> i" using r moved by auto
  then obtain taken where "j \<noteq> i" "takeAt i (cv_list cv) = Some taken" "cv1 = cv\<lparr>cv_list := insert_at j p taken\<rparr>"
    using r by (cases "takeAt i (cv_list cv)") auto
  moreover have "j < length (cv_groups cv)" using upto_length [of name "cv_groups cv"] i by (auto simp: j_def)
  ultimately show ?thesis using that f q n below i(1) row j_def by blast
qed

lemma index_of_row: "distinct xs \<Longrightarrow> i < length xs \<Longrightarrow> xs ! i = p \<Longrightarrow> index_of p xs = int i"
  using index_of_nth by blast

text \<open>
  C31. A group that gets a new name. When the list is in order and the name moves the row of the group, the
  session goes to its new row and nothing is lost; but the map of the groups keeps the old name, so the next
  update of the same session (an unread message, a new status) moves \<open>the old row\<close> once more: whatever stands
  there now goes out of the list, and the group is in it twice.
\<close>
theorem renamed_group_updated_twice:
  assumes "groups_ordered cv" "session_update p cv = Some cv1" "cv_list cv1 \<noteq> cv_list cv"
  shows "mset (cv_list cv1) = mset (cv_list cv) \<and> cv_groups cv1 = cv_groups cv \<and>
    (\<exists>q cv2. q \<noteq> p \<and> q \<in> set (cv_list cv) \<and> session_update p cv1 = Some cv2 \<and> q \<notin> set (cv_list cv2) \<and>
       count (mset (cv_list cv2)) p = 2)"
proof (rule moved_row [OF assms])
  fix old name i j taken
  assume f: "find (\<lambda>(k, q). q = p) (cv_groups cv) = Some (old, p)" and n: "old \<noteq> []" "session_display p cv = Some name" "old \<noteq> name"
    and i: "map_below old (cv_groups cv) = i" "i < length (cv_groups cv)" "cv_list cv ! i = p"
    and j: "(if i < map_upto name (cv_groups cv) then map_upto name (cv_groups cv) - 1 else map_upto name (cv_groups cv)) = j"
      "j \<noteq> i" "j < length (cv_groups cv)"
    and t: "takeAt i (cv_list cv) = Some taken" and cv1: "cv1 = cv\<lparr>cv_list := insert_at j p taken\<rparr>"
  let ?xs = "insert_at j p taken"
  have len: "length (cv_groups cv) \<le> length (cv_list cv)" using assms(1) by (auto simp: groups_ordered_def)
  have m: "mset ?xs = mset (cv_list cv)" using mset_takeAt [OF t] i(3) by simp
  have "distinct (cv_list cv)" using assms(1) by (simp add: groups_ordered_def)
  then have d: "distinct ?xs" using m by (rule distinct_mset)
  have l: "length ?xs = length (cv_list cv)" using m by (rule mset_eq_length)
  have jp: "?xs ! j = p" using nth_insert_at [of j taken p] j(3) len l by simp
  then have row: "index_of p ?xs = int j" using index_of_row [OF d] j(3) len l by simp
  obtain taken2 where t2: "takeAt i ?xs = Some taken2" using i(2) len l by (simp add: takeAt_def)
  let ?q = "?xs ! i"
  have qp: "?q \<noteq> p" using nth_eq_iff_index_eq [OF d, of i j] jp i(2) j(2,3) len l by auto
  have m2: "mset taken2 = mset ?xs - {#?q#}" and q: "?q \<in> set ?xs"
    using mset_takeAt [OF t2] unfolding set_mset_mset [symmetric] by blast+
  let ?cv2 = "cv1\<lparr>cv_list := insert_at j p taken2\<rparr>"
  have "session_update p cv1 = rename_row old name p cv1"
    using row j(3) f n by (simp add: session_update_def cv1 Let_def)
  also have "\<dots> = Some ?cv2" using t2 i(1) j(1,2) by (simp add: rename_row_def Let_def cv1)
  finally have two: "session_update p cv1 = Some ?cv2" .
  have ones: "count (mset ?xs) ?q = 1" "count (mset ?xs) p = 1"
    using d q jp j(3) len l by (metis distinct_count_atmost_1 nth_mem order_less_le_trans)+
  have "count (mset (cv_list ?cv2)) ?q = 0" "count (mset (cv_list ?cv2)) p = 2"
    using m2 qp ones by simp_all
  moreover have "?q \<in> set (cv_list cv)" using q m by (metis mset_eq_setD)
  moreover have "?q \<notin> set (cv_list ?cv2)" using calculation(1) by (metis count_mset_0_iff)
  ultimately show ?thesis using m two qp cv1 by auto
qed

definition group_item :: "int \<Rightarrow> string \<Rightarrow> contact_item" where
  "group_item num name =
     (item_of ((new_contact num)\<lparr>ct_extension := num, ct_display := name, ct_type := ''GROUP''\<rparr>))\<lparr>it_group := True\<rparr>"

definition sample_item_of :: "ptr \<Rightarrow> session_item" where
  "sample_item_of c = \<lparr>si_contact = Some c, si_messages = [], si_filtered = [], si_recent = None, si_lastSeq = 0, si_topics = [],
     si_unread = 0, si_loaded = False, si_online = False, si_text = []\<rparr>"

definition sample_book :: phonebook where
  "sample_book = \<lparr>pb_items = [0 \<mapsto> group_item 600 ''d'', 1 \<mapsto> group_item 601 ''b'', 2 \<mapsto> group_item 602 ''c''], pb_fresh = 3,
     pb_local = (\<lambda>_. None), pb_users = [], pb_groups = [], pb_foreign = Map.empty, pb_index = [], pb_usrAuths = [],
     pb_grpAuths = [], pb_me = 101, pb_removes = 0, pb_sysop = False, pb_suspend = False, pb_db = schema_created\<rparr>"

definition sample_conversations :: conversations where
  "sample_conversations = \<lparr>cv_pb = sample_book, cv_msgs = (\<lambda>_. sample_message 0 0), cv_freshMsg = 0,
     cv_items = [0 \<mapsto> sample_item_of 0, 1 \<mapsto> sample_item_of 1, 2 \<mapsto> sample_item_of 2], cv_freshItem = 3, cv_list = [0, 1, 2],
     cv_groups = [(''a'', 0), (''b'', 1), (''c'', 2)], cv_total = 0, cv_active = None, cv_input = None, cv_current = True,
     cv_inputText = [], cv_timer = 0\<rparr>"

lemma renamed_group_updated_twice_witness:
  "\<exists>cv1. session_update 0 sample_conversations = Some cv1 \<and> cv_list cv1 = [1, 2, 0] \<and>
     (\<exists>q cv2. q \<noteq> 0 \<and> session_update 0 cv1 = Some cv2 \<and> q \<notin> set (cv_list cv2))"
proof -
  have face: "session_display 0 sample_conversations = Some ''d''"
    by (simp add: session_display_def contact_of_def sample_conversations_def sample_item_of_def sample_book_def group_item_def item_of_def
        new_contact_def)
  have run: "session_update 0 sample_conversations = Some (sample_conversations\<lparr>cv_list := [1, 2, 0]\<rparr>)"
    using face by (simp add: session_update_def rename_row_def Let_def map_below_def map_upto_def index_of_def takeAt_def insert_at_def
        sample_conversations_def)
  have "groups_ordered sample_conversations" by (simp add: groups_ordered_def sample_conversations_def)
  from renamed_group_updated_twice [OF this run] run show ?thesis by (auto simp: sample_conversations_def)
qed

section \<open>Groups first\<close>

text \<open>What the list knows of a session: whether it is a group, and its name.\<close>

definition face :: "ptr \<Rightarrow> conversations \<Rightarrow> (bool \<times> string) option" where
  "face p cv = (case contact_of p cv of None \<Rightarrow> None | Some None \<Rightarrow> Some (False, [])
     | Some (Some it) \<Rightarrow> Some (it_group it, it_display it))"

lemma face_group: "is_group_session p cv = map_option fst (face p cv)"
  by (cases "contact_of p cv") (auto simp: is_group_session_def face_def split: option.splits)

lemma face_display: "session_display p cv = map_option snd (face p cv)"
  by (cases "contact_of p cv") (auto simp: session_display_def face_def split: option.splits)

definition groups_first :: "conversations \<Rightarrow> bool" where
  "groups_first cv \<longleftrightarrow> sorted_wrt (<) (map fst (cv_groups cv)) \<and> distinct (cv_list cv) \<and>
     (\<forall>(k, p) \<in> set (cv_groups cv). face p cv = Some (True, k)) \<and>
     (\<exists>rest. cv_list cv = map snd (cv_groups cv) @ rest \<and> (\<forall>p \<in> set rest. \<exists>k. face p cv = Some (False, k)))"

lemma groups_firstI:
  assumes "sorted_wrt (<) (map fst (cv_groups cv))" "distinct (map snd (cv_groups cv) @ rest)"
    "\<And>k p. (k, p) \<in> set (cv_groups cv) \<Longrightarrow> face p cv = Some (True, k)"
    "cv_list cv = map snd (cv_groups cv) @ rest" "\<And>p. p \<in> set rest \<Longrightarrow> \<exists>k. face p cv = Some (False, k)"
  shows "groups_first cv"
  using assms by (auto simp: groups_first_def)

lemma groups_firstE:
  assumes "groups_first cv"
  obtains rest where "sorted_wrt (<) (map fst (cv_groups cv))" "distinct (map snd (cv_groups cv) @ rest)"
    "\<And>k p. (k, p) \<in> set (cv_groups cv) \<Longrightarrow> face p cv = Some (True, k)"
    "cv_list cv = map snd (cv_groups cv) @ rest" "\<And>p. p \<in> set rest \<Longrightarrow> \<exists>k. face p cv = Some (False, k)"
proof -
  have d: "distinct (cv_list cv)" and s: "sorted_wrt (<) (map fst (cv_groups cv))"
    and g: "\<forall>(k, p) \<in> set (cv_groups cv). face p cv = Some (True, k)" using assms by (auto simp: groups_first_def)
  obtain rest where r: "cv_list cv = map snd (cv_groups cv) @ rest" "\<forall>p \<in> set rest. \<exists>k. face p cv = Some (False, k)"
    using assms by (auto simp: groups_first_def)
  show ?thesis using that [OF s _ _ r(1)] d g r by auto
qed

lemma face_frame [simp]:
  "face p (cv\<lparr>cv_list := xs\<rparr>) = face p cv" "face p (cv\<lparr>cv_groups := g\<rparr>) = face p cv"
  using contact_of_cong [of "cv\<lparr>cv_list := xs\<rparr>" cv p] contact_of_cong [of "cv\<lparr>cv_groups := g\<rparr>" cv p]
  by (simp_all add: face_def)

lemma face_cases: "face p cv = (case cv_items cv p of None \<Rightarrow> None | Some s \<Rightarrow> (case si_contact s of None \<Rightarrow> Some (False, [])
    | Some c \<Rightarrow> map_option (\<lambda>it. (it_group it, it_display it)) (pb_items (cv_pb cv) c)))"
  by (cases "cv_items cv p") (auto simp: face_def contact_of_def split: option.splits Option.bind_splits)

lemma split_at_key:
  assumes "sorted_wrt (<) (map fst m)"
  shows "filter (\<lambda>(k', _). k' < k) m = take (map_below k m) m"
  using assms
proof (induction m)
  case (Cons e m)
  show ?case
  proof (cases "fst e < k")
    case True
    then show ?thesis using Cons by (simp add: map_below_def case_prod_unfold)
  next
    case False
    then have "\<forall>x \<in> set m. \<not> fst x < k" using Cons.prems by fastforce
    then have "filter (\<lambda>(k', _). k' < k) m = []" by (auto simp: filter_empty_conv)
    then show ?thesis using False by (simp add: map_below_def case_prod_unfold)
  qed
qed (simp add: map_below_def)

lemma above_key:
  assumes "sorted_wrt (<) (map fst m)" "k \<notin> set (map fst m)"
  shows "filter (\<lambda>(k', _). k < k') m = drop (map_below k m) m"
proof -
  have "m = filter (\<lambda>(k', _). k' < k) m @ filter (\<lambda>(k', _). k < k') m"
    using assms
  proof (induction m)
    case (Cons e m)
    show ?case
    proof (cases "fst e < k")
      case True
      then have "\<not> k < fst e" by simp
      then show ?thesis using Cons True by (simp add: case_prod_unfold)
    next
      case False
      then have less: "k < fst e" using Cons.prems by auto
      then have "\<forall>x \<in> set m. k < fst x" using Cons.prems by fastforce
      then have "filter (\<lambda>(k', _). k' < k) m = []" "filter (\<lambda>(k', _). k < k') m = m"
        by (auto simp: filter_empty_conv filter_id_conv dest: less_not_sym)
      then show ?thesis using less False by (simp add: case_prod_unfold)
    qed
  qed simp
  then show ?thesis using split_at_key [OF assms(1), of k] by (metis append_take_drop_id same_append_eq)
qed

lemma map_set_insert:
  assumes "sorted_wrt (<) (map fst m)" "k \<notin> set (map fst m)"
  shows "map_set k p m = insert_at (map_below k m) (k, p) m"
  using split_at_key [OF assms(1)] above_key [OF assms] by (simp add: map_set_def insert_at_def)

lemma map_set_sorted: "sorted_wrt (<) (map fst m) \<Longrightarrow> sorted_wrt (<) (map fst (map_set k p m))"
  by (auto simp: map_set_def sorted_wrt_append sorted_wrt_map sorted_wrt_filter intro: less_trans)

lemma map_insert_at: "map f (insert_at n x xs) = insert_at n (f x) (map f xs)"
  by (simp add: insert_at_def take_map drop_map)

lemma insert_at_append: "n \<le> length xs \<Longrightarrow> insert_at n x (xs @ ys) = insert_at n x xs @ ys"
  by (simp add: insert_at_def)

lemma set_insert_at [simp]: "set (insert_at n x xs) = insert x (set xs)"
  using mset_insert_at [of n x xs] by (metis set_mset_add_mset_insert set_mset_mset)

lemma distinct_insert_at: "distinct xs \<Longrightarrow> x \<notin> set xs \<Longrightarrow> distinct (insert_at n x xs)"
  using mset_insert_at [of n x xs] by (metis distinct.simps(2) mset.simps(2) mset_eq_imp_distinct_iff)

lemma add_groups_first:
  assumes g: "groups_first cv" and new: "p \<notin> set (cv_list cv)" "\<And>k. face p cv = Some (True, k) \<Longrightarrow> k \<notin> fst ` set (cv_groups cv)"
    and run: "session_add p cv = Some cv'"
  shows "groups_first cv'"
proof -
  obtain b name where f: "face p cv = Some (b, name)"
    using run by (cases "face p cv") (auto simp: session_add_def face_group)
  obtain rest where r: "sorted_wrt (<) (map fst (cv_groups cv))" "distinct (map snd (cv_groups cv) @ rest)"
    "\<And>k p. (k, p) \<in> set (cv_groups cv) \<Longrightarrow> face p cv = Some (True, k)"
    "cv_list cv = map snd (cv_groups cv) @ rest" "\<And>p. p \<in> set rest \<Longrightarrow> \<exists>k. face p cv = Some (False, k)"
    using groups_firstE [OF g] by blast
  have le: "map_below name (cv_groups cv) \<le> length (cv_groups cv)" by (simp add: map_below_def)
  show ?thesis
  proof (cases b)
    case True
    have fresh: "name \<notin> set (map fst (cv_groups cv))" using new(2) f True by simp
    have cv': "cv' = cv\<lparr>cv_groups := map_set name p (cv_groups cv), cv_list := insert_at (map_below name (cv_groups cv)) p (cv_list cv)\<rparr>"
      using run f True by (auto simp: session_add_def face_group face_display)
    show ?thesis
      using r new(1) le f True map_set_sorted [OF r(1), of name p] distinct_insert_at [of "map snd (cv_groups cv)" p]
      by (intro groups_firstI [where rest = rest])
        (auto simp: cv' map_set_insert [OF r(1) fresh] map_insert_at insert_at_append)
  next
    case False
    have cv': "cv' = cv\<lparr>cv_list := insert_at (length (cv_groups cv)) p (cv_list cv)\<rparr>"
      using run f False by (auto simp: session_add_def face_group face_display)
    show ?thesis
      using r new(1) f False by (intro groups_firstI [where rest = "p # rest"]) (auto simp: cv' insert_at_def)
  qed
qed

lemma face_cong:
  assumes "cv_items cv' q = cv_items cv q" "cv_pb cv' = cv_pb cv"
  shows "face q cv' = face q cv"
  unfolding face_cases assms ..

lemma close_face:
  assumes "close_session p cv = Some cv1"
  shows "face q cv1 = face q cv" "cv_list cv1 = cv_list cv" "cv_groups cv1 = cv_groups cv"
proof -
  obtain s c it where s: "cv_items cv p = Some s" "si_contact s = Some c" "pb_items (cv_pb cv) c = Some it"
    using assms by (auto simp: close_session_def with_contact_def bind_eq_Some_conv)
  define pb1 where "pb1 = (cv_pb cv)\<lparr>pb_items := (pb_items (cv_pb cv))(c \<mapsto> it\<lparr>it_session := None\<rparr>),
    pb_db := perform (upd_contact (it_uid it) (\<lambda>r. r\<lparr>ct_last := SqlNull\<rparr>)) (pb_db (cv_pb cv))\<rparr>"
  have cv1: "cv1 = cv\<lparr>cv_pb := pb1, cv_items := (cv_items cv)(p \<mapsto> clearMessages s)\<rparr>"
    using assms s by (simp add: close_session_def with_contact_def pb1_def Let_def)
  have "pb_items pb1 = (pb_items (cv_pb cv))(c \<mapsto> it\<lparr>it_session := None\<rparr>)" by (simp add: pb1_def)
  then show "face q cv1 = face q cv" "cv_list cv1 = cv_list cv" "cv_groups cv1 = cv_groups cv"
    using s by (auto simp: cv1 face_cases clearMessages_def split: option.splits)
qed

lemma index_of_member: "\<not> index_of p xs < 0 \<longleftrightarrow> p \<in> set xs"
proof -
  have "length (takeWhile (\<lambda>x. x \<noteq> p) xs) < length xs \<longleftrightarrow> p \<in> set xs"
    by (induction xs) auto
  then show ?thesis by (simp add: index_of_def Let_def)
qed

lemma remove_groups_first:
  assumes g: "groups_first cv" and run: "session_remove p cv = Some cv'"
  shows "groups_first cv'"
proof (cases "p \<in> set (cv_list cv)")
  case False
  then show ?thesis using g run index_of_member [of p "cv_list cv"] by (simp add: session_remove_def)
next
  case True
  then obtain cv1 where c: "close_session p cv = Some cv1"
    using run index_of_member [of p "cv_list cv"] by (cases "close_session p cv") (auto simp: session_remove_def)
  note same = close_face [OF c]
  obtain b name where f: "face p cv = Some (b, name)"
    using run c True index_of_member [of p "cv_list cv"] same(1) [of p]
    by (cases "face p cv") (auto simp: session_remove_def face_group)
  have cv': "cv' = cv1\<lparr>cv_groups := (if b then map_take name (cv_groups cv) else cv_groups cv),
      cv_list := remove1 p (cv_list cv), cv_items := (cv_items cv1)(p := None)\<rparr>"
    using run c True index_of_member [of p "cv_list cv"] f
    by (cases b) (auto simp: session_remove_def face_group face_display same)
  have face: "face q cv' = face q cv" if "q \<noteq> p" for q
    using that same(1) [of q] face_cong [of cv' q cv1] by (simp add: cv')
  obtain rest where r: "sorted_wrt (<) (map fst (cv_groups cv))" "distinct (map snd (cv_groups cv) @ rest)"
    "\<And>k q. (k, q) \<in> set (cv_groups cv) \<Longrightarrow> face q cv = Some (True, k)"
    "cv_list cv = map snd (cv_groups cv) @ rest" "\<And>q. q \<in> set rest \<Longrightarrow> \<exists>k. face q cv = Some (False, k)"
    using groups_firstE [OF g] by blast
  show ?thesis
  proof (cases b)
    case True
    then have mem: "p \<in> snd ` set (cv_groups cv)" "p \<notin> set rest" using \<open>p \<in> set (cv_list cv)\<close> r(4) r(5) [of p] f by auto
    have key: "k = name \<longleftrightarrow> q = p" if "(k, q) \<in> set (cv_groups cv)" for k q
    proof -
      have "q = p \<Longrightarrow> k = name" using r(3) [OF that] f by simp
      moreover obtain k0 where "(k0, p) \<in> set (cv_groups cv)" using mem by auto
      moreover then have "k0 = name" using r(3) f by fastforce
      moreover have "distinct (map fst (cv_groups cv))" using r(1) strict_sorted_iff by blast
      ultimately show ?thesis using that by (metis eq_key_imp_eq_value)
    qed
    have "map snd (map_take name (cv_groups cv)) = remove1 p (map snd (cv_groups cv))"
    proof -
      have "map_take name (cv_groups cv) = filter (\<lambda>e. snd e \<noteq> p) (cv_groups cv)"
        unfolding map_take_def by (rule filter_cong) (use key in \<open>fastforce\<close>)+
      then have "map snd (map_take name (cv_groups cv)) = filter (\<lambda>q. q \<noteq> p) (map snd (cv_groups cv))"
        by (simp add: filter_map comp_def)
      then show ?thesis using r(2) by (simp add: distinct_remove1_removeAll removeAll_filter_not_eq) metis
    qed
    note lists = this
    show ?thesis
    proof (rule groups_firstI [where rest = rest])
      show "sorted_wrt (<) (map fst (cv_groups cv'))"
        using r(1) True by (auto simp: cv' map_take_def sorted_wrt_map sorted_wrt_filter)
      have "distinct (remove1 p (map snd (cv_groups cv)) @ rest)" using r(2) by (auto dest: notin_set_remove1)
      then show "distinct (map snd (cv_groups cv') @ rest)" using True lists by (simp add: cv')
      show "cv_list cv' = map snd (cv_groups cv') @ rest" using True lists r(4) mem by (simp add: cv' remove1_append)
    next
      fix k q assume "(k, q) \<in> set (cv_groups cv')"
      then have m: "(k, q) \<in> set (cv_groups cv)" "k \<noteq> name" using True by (auto simp: cv' map_take_def)
      then have "q \<noteq> p" using key by blast
      then show "face q cv' = Some (True, k)" using face r(3) [OF m(1)] by simp
    next
      fix q assume q: "q \<in> set rest"
      then have "q \<noteq> p" using mem(2) by blast
      then show "\<exists>k. face q cv' = Some (False, k)" using face r(5) [OF q] by simp
    qed
  next
    case False
    have out: "p \<notin> snd ` set (cv_groups cv)" using False f r(3) by fastforce
    then have mem: "p \<in> set rest" using True r(4) by simp
    show ?thesis
    proof (rule groups_firstI [where rest = "remove1 p rest"])
      show "sorted_wrt (<) (map fst (cv_groups cv'))" using r(1) False by (simp add: cv')
      show "distinct (map snd (cv_groups cv') @ remove1 p rest)" using r(2) False by (auto simp: cv' dest: notin_set_remove1)
      show "cv_list cv' = map snd (cv_groups cv') @ remove1 p rest" using False out r(4) by (simp add: cv' remove1_append)
    next
      fix k q assume "(k, q) \<in> set (cv_groups cv')"
      then have m: "(k, q) \<in> set (cv_groups cv)" using False by (simp add: cv')
      then have "q \<noteq> p" using out by force
      then show "face q cv' = Some (True, k)" using face r(3) [OF m] by simp
    next
      fix q assume "q \<in> set (remove1 p rest)"
      then have q: "q \<in> set rest" "q \<noteq> p" using r(2) by auto
      then show "\<exists>k. face q cv' = Some (False, k)" using face r(5) [OF q(1)] by simp
    qed
  qed
qed

lemma latest_groups_first:
  assumes g: "groups_first cv" and run: "session_latest p cv = Some cv'"
  shows "groups_first cv'"
proof (cases "cv' = cv")
  case False
  let ?top = "length (cv_groups cv)"
  obtain rest where r: "sorted_wrt (<) (map fst (cv_groups cv))" "distinct (map snd (cv_groups cv) @ rest)"
    "\<And>k q. (k, q) \<in> set (cv_groups cv) \<Longrightarrow> face q cv = Some (True, k)"
    "cv_list cv = map snd (cv_groups cv) @ rest" "\<And>q. q \<in> set rest \<Longrightarrow> \<exists>k. face q cv = Some (False, k)"
    using groups_firstE [OF g] by blast
  have cv': "cv' = cv\<lparr>cv_list := insert_at ?top p (remove1 p (cv_list cv))\<rparr>" and row: "index_of p (cv_list cv) > int ?top"
    and sole: "is_group_session p cv = Some False"
    using run False by (auto simp: session_latest_def Let_def bind_eq_Some_conv split: if_splits option.splits)
  have mem: "p \<in> set (cv_list cv)" using row index_of_member [of p "cv_list cv"] by simp
  have out: "p \<notin> snd ` set (cv_groups cv)" using sole r(3) by (fastforce simp: face_group)
  then have p: "p \<in> set rest" "p \<notin> snd ` set (cv_groups cv)" using mem r(4) by simp_all
  then have "cv_list cv' = map snd (cv_groups cv) @ p # remove1 p rest"
    by (simp add: cv' r(4) remove1_append insert_at_def)
  then show ?thesis
    using r p by (intro groups_firstI [where rest = "p # remove1 p rest"]) (auto simp: cv' dest: notin_set_remove1)
qed (use g in simp)

lemma update_groups_first:
  assumes g: "groups_first cv" and run: "session_update p cv = Some cv'"
  shows "cv' = cv"
proof -
  obtain rest where r: "\<And>k q. (k, q) \<in> set (cv_groups cv) \<Longrightarrow> face q cv = Some (True, k)"
    using groups_firstE [OF g] by blast
  have "session_display p cv = Some k" if "find (\<lambda>(k, q). q = p) (cv_groups cv) = Some (k, q)" for k q
    using that r by (auto simp: find_Some_iff face_display) (metis nth_mem option.simps(9) snd_conv)
  then show ?thesis using run by (auto simp: session_update_def Let_def split: if_splits option.splits)
qed

text \<open>
  The lists the client can have: after a purge, then one operation at a time; what happens to messages and
  contacts between them keeps the list, and the name and kind of what is listed.
\<close>

inductive listed :: "conversations \<Rightarrow> bool" where
  purged: "listed (session_purge cv)"
| added: "listed cv \<Longrightarrow> session_add p cv = Some cv' \<Longrightarrow> p \<notin> set (cv_list cv) \<Longrightarrow>
    (\<And>k. face p cv = Some (True, k) \<Longrightarrow> k \<notin> fst ` set (cv_groups cv)) \<Longrightarrow> listed cv'"
| removed: "listed cv \<Longrightarrow> session_remove p cv = Some cv' \<Longrightarrow> listed cv'"
| topped: "listed cv \<Longrightarrow> session_latest p cv = Some cv' \<Longrightarrow> listed cv'"
| updated: "listed cv \<Longrightarrow> session_update p cv = Some cv' \<Longrightarrow> listed cv'"
| elsewhere: "listed cv \<Longrightarrow> cv_list cv' = cv_list cv \<Longrightarrow> cv_groups cv' = cv_groups cv \<Longrightarrow>
    (\<And>p. p \<in> set (cv_list cv) \<Longrightarrow> face p cv' = face p cv) \<Longrightarrow> listed cv'"

lemma elsewhere_groups_first:
  assumes g: "groups_first cv" and "cv_list cv' = cv_list cv" "cv_groups cv' = cv_groups cv"
    and f: "\<And>p. p \<in> set (cv_list cv) \<Longrightarrow> face p cv' = face p cv"
  shows "groups_first cv'"
  using assms by (fastforce simp: groups_first_def)


definition sample_unlisted :: conversations where
  "sample_unlisted = sample_conversations\<lparr>cv_list := [], cv_groups := []\<rparr>"


end
