(* ===== verification/SessionLife.thy ===== *)
theory SessionLife
  imports SessionLists
begin

text \<open>
  What happens to a session: its unread messages and the total of the client, its deletion, its first showing,
  a message that comes in twice, and the synchronisation with the server.
\<close>

section \<open>Unread messages\<close>

definition unread_of :: "conversations \<Rightarrow> ptr \<Rightarrow> quint32" where
  "unread_of cv p = (case cv_items cv p of None \<Rightarrow> 0 | Some s \<Rightarrow> si_unread s)"

definition unread_sum :: "conversations \<Rightarrow> quint32" where
  "unread_sum cv = sum_list (map (unread_of cv) (cv_list cv))"

lemma sum_list_update:
  fixes f :: "'a \<Rightarrow> 'b::comm_ring_1"
  assumes "distinct xs" "p \<in> set xs"
  shows "sum_list (map (f(p := n)) xs) = sum_list (map f xs) - f p + n"
  using assms
proof (induction xs)
  case (Cons x xs)
  show ?case
  proof (cases "x = p")
    case True
    then have "map (f(p := n)) xs = map f xs" using Cons.prems by (auto simp: map_eq_conv)
    then have "sum_list (map (f(p := n)) xs) = sum_list (map f xs)" by (rule arg_cong)
    then show ?thesis using True by (simp del: fun_upd_apply add: fun_upd_same)
  next
    case False
    then show ?thesis using Cons by simp
  qed
qed simp

lemma face_item:
  assumes "\<And>q. q \<noteq> p \<Longrightarrow> cv_items cv' q = cv_items cv q" "cv_items cv p = Some s" "cv_items cv' p = Some s'"
    "si_contact s' = si_contact s" "cv_pb cv' = cv_pb cv"
  shows "face q cv' = face q cv"
proof (cases "q = p")
  case True
  show ?thesis unfolding face_cases True assms(2,3,5) by (simp add: assms(4))
next
  case False
  then show ?thesis using assms(1,5) by (intro face_cong)
qed

lemma unread_step:
  assumes g: "groups_first cv" and p: "p \<in> set (cv_list cv)" "cv_items cv p = Some s" and tot: "cv_total cv = unread_sum cv"
    and cv1: "cv1 = cv\<lparr>cv_total := cv_total cv - si_unread s + n, cv_items := (cv_items cv)(p \<mapsto> s\<lparr>si_unread := n\<rparr>)\<rparr>"
    and run: "session_update p cv1 = Some cv2"
  shows "cv2 = cv1 \<and> cv_total cv2 = unread_sum cv2"
proof -
  have "face q cv1 = face q cv" for q 
    using p by (intro face_item [of p _ _ s "s\<lparr>si_unread := n\<rparr>"]) (auto simp: cv1)
  then have "groups_first cv1" using g by (intro elsewhere_groups_first [OF g]) (auto simp: cv1)
  then have same: "cv2 = cv1" using run by (rule update_groups_first)
  have "unread_of cv1 = (unread_of cv)(p := n)" by (auto simp: unread_of_def cv1 fun_eq_iff)
  moreover have "distinct (cv_list cv)" using g by (simp add: groups_first_def)
  ultimately have "unread_sum cv1 = unread_sum cv - unread_of cv p + n"
    using sum_list_update [of "cv_list cv" p "unread_of cv" n] p(1) by (simp add: unread_sum_def cv1)
  then show ?thesis using same tot p(2) by (simp add: cv1 unread_of_def)
qed

lemma sum_list_remove1:
  fixes f :: "'a \<Rightarrow> 'b::comm_ring_1"
  shows "p \<in> set xs \<Longrightarrow> sum_list (map f (remove1 p xs)) = sum_list (map f xs) - f p"
  by (induction xs) auto

lemma remove_parts:
  assumes "p \<in> set (cv_list cv)" "session_remove p cv = Some cv'"
  obtains s c it where "cv_items cv p = Some s" "si_contact s = Some c" "pb_items (cv_pb cv) c = Some it"
    "cv_list cv' = remove1 p (cv_list cv)" "cv_items cv' = (cv_items cv)(p := None)" "cv_total cv' = cv_total cv"
    "cv_active cv' = cv_active cv" "cv_current cv' = cv_current cv" "cv_input cv' = cv_input cv"
proof -
  obtain cv1 where c: "close_session p cv = Some cv1" and
    r: "cv_list cv' = remove1 p (cv_list cv1)" "cv_items cv' = (cv_items cv1)(p := None)" "cv_total cv' = cv_total cv1"
      "cv_active cv' = cv_active cv1" "cv_current cv' = cv_current cv1" "cv_input cv' = cv_input cv1"
    using assms index_of_member [of p "cv_list cv"] by (auto simp: session_remove_def bind_eq_Some_conv)
  obtain s k it where s: "cv_items cv p = Some s" "si_contact s = Some k" "pb_items (cv_pb cv) k = Some it"
    and cv1: "cv_list cv1 = cv_list cv" "cv_items cv1 = (cv_items cv)(p \<mapsto> clearMessages s)" "cv_total cv1 = cv_total cv"
      "cv_active cv1 = cv_active cv" "cv_current cv1 = cv_current cv" "cv_input cv1 = cv_input cv"
    using c by (auto simp: close_session_def with_contact_def bind_eq_Some_conv Let_def)
  show ?thesis using that [OF s] r cv1 by simp
qed

text \<open>
  C27. The total of unread messages that the tray shows. While it is the sum over the listed sessions, counting one
  more for a session and reading a session keep it the sum. Removing a session does not: the total keeps
  the unread messages of the session that is gone, so it is too high by them from then on.
\<close>
theorem unread_total:
  assumes "groups_first cv" "p \<in> set (cv_list cv)" "cv_items cv p = Some s" "cv_total cv = unread_sum cv"
  shows "(\<forall>cv'. addUnread p cv = Some cv' \<longrightarrow> cv_total cv' = unread_sum cv' \<and> unread_of cv' p = si_unread s + 1) \<and>
    (\<forall>cv'. clearUnread p cv = Some cv' \<longrightarrow> cv_total cv' = unread_sum cv' \<and> unread_of cv' p = 0) \<and>
    (\<forall>cv'. session_remove p cv = Some cv' \<longrightarrow> cv_total cv' = unread_sum cv' + si_unread s)"
proof (intro conjI allI impI)
  fix cv' assume "addUnread p cv = Some cv'"
  then have "session_update p (cv\<lparr>cv_total := cv_total cv - si_unread s + (si_unread s + 1),
      cv_items := (cv_items cv)(p \<mapsto> s\<lparr>si_unread := si_unread s + 1\<rparr>)\<rparr>) = Some cv'"
    using assms(3) by (simp add: addUnread_def)
  from unread_step [OF assms refl this]
  show "cv_total cv' = unread_sum cv'" "unread_of cv' p = si_unread s + 1" by (auto simp: unread_of_def)
next
  fix cv' assume run: "clearUnread p cv = Some cv'"
  have "cv_total cv' = unread_sum cv' \<and> unread_of cv' p = 0"
  proof (cases "si_unread s = 0")
    case True
    then show ?thesis using run assms by (simp add: clearUnread_def unread_of_def)
  next
    case False
    then have "session_update p (cv\<lparr>cv_total := cv_total cv - si_unread s + 0,
        cv_items := (cv_items cv)(p \<mapsto> s\<lparr>si_unread := 0\<rparr>)\<rparr>) = Some cv'"
      using run assms(3) by (simp add: clearUnread_def)
    from unread_step [OF assms refl this] show ?thesis by (auto simp: unread_of_def)
  qed
  then show "cv_total cv' = unread_sum cv'" "unread_of cv' p = 0" by auto
next
  fix cv' assume run: "session_remove p cv = Some cv'"
  show "cv_total cv' = unread_sum cv' + si_unread s"
  proof (rule remove_parts [OF assms(2) run])
    assume r: "cv_list cv' = remove1 p (cv_list cv)" "cv_items cv' = (cv_items cv)(p := None)" "cv_total cv' = cv_total cv"
    have d: "distinct (cv_list cv)" using assms(1) by (simp add: groups_first_def)
    have "map (unread_of cv') (remove1 p (cv_list cv)) = map (unread_of cv) (remove1 p (cv_list cv))"
      using d r(2) by (intro map_cong) (auto simp: unread_of_def)
    then have "sum_list (map (unread_of cv') (remove1 p (cv_list cv))) = sum_list (map (unread_of cv) (remove1 p (cv_list cv)))"
      by (rule arg_cong)
    then have "unread_sum cv' = unread_sum cv - unread_of cv p"
      using sum_list_remove1 [OF assms(2), of "unread_of cv"] r(1) by (simp add: unread_sum_def)
    then show ?thesis using r(3) assms(3,4) by (simp add: unread_of_def)
  qed
qed

text \<open>
  Closing the shown session. \<open>closeSession\<close> deletes the session before it stores the text of the input line
  in it, so whenever the session is listed the call uses a deleted object: it has no result.
\<close>
theorem close_uses_deleted:
  assumes "cv_active cv = Some p" "cv_current cv" "p \<in> set (cv_list cv)"
  shows "closeSession cv = None"
proof (cases "session_remove p cv")
  case None
  then show ?thesis using assms by (simp add: closeSession_def)
next
  case (Some cv')
  show ?thesis
  proof (rule remove_parts [OF assms(3) Some])
    assume "cv_items cv' = (cv_items cv)(p := None)" "cv_active cv' = cv_active cv"
    then show ?thesis using assms Some by (simp add: closeSession_def activateSelf_def store_input_def with_item_def)
  qed
qed

lemma close_uses_deleted_witness:
  "closeSession (sample_conversations\<lparr>cv_active := Some 1\<rparr>) = None"
  by (rule close_uses_deleted [where p = 1]) (simp_all add: sample_conversations_def del: One_nat_def)

section \<open>The first showing\<close>

lemma timer_update: "session_update p cv = Some cv' \<Longrightarrow> cv_timer cv' = cv_timer cv"
  by (auto simp: session_update_def rename_row_def Let_def split: if_splits option.splits)

lemma timer_clear: "clearUnread p cv = Some cv' \<Longrightarrow> cv_timer cv' = cv_timer cv"
  using timer_update by (fastforce simp: clearUnread_def bind_eq_Some_conv split: if_splits)

lemma timer_scroll: "scrollToBottom cv = Some cv' \<Longrightarrow> cv_timer cv' = cv_timer cv"
  using timer_clear by (fastforce simp: scrollToBottom_def bind_eq_Some_conv split: if_splits option.splits)

lemma timer_item: "with_item p f cv = Some cv' \<Longrightarrow> cv_timer cv' = cv_timer cv"
  by (auto simp: with_item_def split: option.splits)

lemma timer_contact: "with_contact c f g cv = Some cv' \<Longrightarrow> cv_timer cv' = cv_timer cv"
  by (auto simp: with_contact_def bind_eq_Some_conv Let_def)

lemma timer_topic: "setTopic p t d n cv = Some cv' \<Longrightarrow> cv_timer cv' = cv_timer cv"
  by (auto simp: setTopic_def bind_eq_Some_conv dest!: timer_item timer_contact split: if_splits option.splits)

lemma timer_add: "model_add p msg cv = Some (cv', fast) \<Longrightarrow> cv_timer cv' = cv_timer cv"
  by (auto simp: model_add_def bind_eq_Some_conv Let_def case_prod_unfold dest: timer_topic split: if_splits)

lemma timer_alloc: "alloc_message m cv = (cv', q) \<Longrightarrow> cv_timer cv' = cv_timer cv"
  by (auto simp: alloc_message_def)

lemma timer_loaded: "MessageItem_loaded r cv = Some (cv', q) \<Longrightarrow> cv_timer cv' = cv_timer cv"
proof -
  assume run: "MessageItem_loaded r cv = Some (cv', q)"
  obtain pb1 k where f1: "findContact (mg_sid r) (cv_pb cv) = (pb1, k)" by (metis surj_pair)
  obtain pb2 sender where f2: "findContact (mg_from r) pb1 = (pb2, sender)" by (metis surj_pair)
  obtain pb3 target where f3: "findContact (mg_to r) pb2 = (pb3, target)" by (metis surj_pair)
  show ?thesis
  proof (cases k)
    case None
    then show ?thesis using run f1 by (auto simp: MessageItem_loaded_def)
  next
    case (Some c)
    then obtain it where it: "pb_items pb1 c = Some it" using run f1 by (auto simp: MessageItem_loaded_def bind_eq_Some_conv Let_def)
    show ?thesis
    proof (cases "it_session it")
      case None
      then show ?thesis using run f1 Some it by (auto simp: MessageItem_loaded_def)
    next
      case (Some p)
      then show ?thesis using run f1 f2 f3 \<open>k = Some c\<close> it
        by (cases sender; cases target) (auto simp: MessageItem_loaded_def alloc_message_def)
    qed
  qed
qed

lemma timer_rows: "load_rows p rs l cv = Some (cv', l') \<Longrightarrow> cv_timer cv' = cv_timer cv"
proof (induction rs arbitrary: l cv)
  case (Cons r rs)
  then show ?case
    by (auto simp: bind_eq_Some_conv Let_def case_prod_unfold split: option.splits dest!: timer_loaded timer_add) (metis Cons.IH)+
qed simp

lemma timer_load:
  assumes "loadMessages now p cv = Some cv'" "cv_items cv p = Some s" "si_messages s = []" "si_filtered s = []" "cv_timer cv = 0"
  shows "cv_timer cv' = 0"
proof -
  have none: "checkExpiration now s ms = (ms, 0)" for ms using assms(3,4) by (simp add: checkExpiration_def)
  obtain c it where c: "si_contact s = Some c" "pb_items (cv_pb cv) c = Some it"
    using assms(1,2) by (auto simp: loadMessages_def bind_eq_Some_conv)
  let ?cv1 = "cv\<lparr>cv_msgs := cv_msgs cv, cv_timer := cv_timer cv\<rparr>"
  show ?thesis
  proof (cases "si_loaded s")
    case True
    then show ?thesis using assms(1,2,5) c none by (auto simp: loadMessages_def)
  next
    case False
    obtain cv2 latest where two: "load_rows p (storage_getRecords (sel_messages (it_uid it) now) (pb_db (cv_pb ?cv1))) (it_updated it, 0) ?cv1 =
        Some (cv2, latest)"
      using assms(1,2) c none False by (auto simp: loadMessages_def bind_eq_Some_conv)
    obtain cv3 where three: "with_item p (\<lambda>s. s\<lparr>si_loaded := True\<rparr>) cv2 = Some cv3"
      using assms(1,2) c none False two by (auto simp: loadMessages_def bind_eq_Some_conv)
    have "cv_timer cv' = cv_timer cv3"
      using assms(1,2) c none False two three by (auto simp: loadMessages_def split: if_splits)
    then show ?thesis using timer_rows [OF two] timer_item [OF three] assms(5) by simp
  qed
qed

text \<open>
  The first time a conversation is shown. Its messages are checked for expiration before they are loaded, so
  the check sees none: whatever is in the database, the timer does not run when the conversation is on the
  screen, and no message of it is hidden until it is shown again.
\<close>
theorem first_showing_no_timer:
  assumes "cv_items cv p = Some s" "si_messages s = []" "activateSession now (Some p) cv = Some cv'"
  shows "cv_timer cv' = 0"
proof -
  let ?cv0 = "cv\<lparr>cv_timer := 0\<rparr>"
  obtain cv1 where one: "store_input ?cv0 = Some cv1"
    using assms(3) by (auto simp: activateSession_def Let_def bind_eq_Some_conv)
  then obtain s1 where s1: "cv_items cv1 p = Some s1" "si_messages s1 = []" "cv_timer cv1 = 0"
    using assms(1,2) by (fastforce simp: store_input_def with_item_def split: option.splits if_splits)
  let ?cv2 = "(cv1\<lparr>cv_active := Some p, cv_inputText := si_text s1\<rparr>)\<lparr>cv_items := (cv_items cv1)(p \<mapsto> s1\<lparr>si_filtered := si_messages s1\<rparr>)\<rparr>"
  obtain cv3 cv4 where three: "loadMessages now p ?cv2 = Some cv3" and four: "clearUnread p cv3 = Some cv4"
    and five: "scrollToBottom cv4 = Some cv'"
    using assms(3) one s1(1) by (auto simp: activateSession_def Let_def bind_eq_Some_conv with_item_def)
  have "cv_timer cv3 = 0" using s1 by (intro timer_load [OF three, of "s1\<lparr>si_filtered := []\<rparr>"]) auto
  then show ?thesis using timer_clear [OF four] timer_scroll [OF five] by simp
qed

section \<open>Messages that come twice\<close>

definition same_messages :: "conversations \<Rightarrow> conversations \<Rightarrow> bool" where
  "same_messages cv cv' \<longleftrightarrow> cv_total cv' = cv_total cv \<and> cd_messages (pb_db (cv_pb cv')) = cd_messages (pb_db (cv_pb cv)) \<and>
     (\<forall>q s. cv_items cv q = Some s \<longrightarrow> (\<exists>s'. cv_items cv' q = Some s' \<and> si_messages s' = si_messages s \<and>
        si_filtered s' = si_filtered s \<and> si_unread s' = si_unread s))"

lemma session_for_parts:
  assumes "session_for c cv = Some (cv1, p)" "cv_freshItem cv \<notin> dom (cv_items cv)" "pb_items (cv_pb cv) c = Some it"
    "\<And>q s. cv_items cv q = Some s \<Longrightarrow> it_session it = Some q \<Longrightarrow> si_contact s = Some c"
  shows "same_messages cv cv1 \<and> pb_db (cv_pb cv1) = pb_db (cv_pb cv) \<and>
    (\<exists>it1. pb_items (cv_pb cv1) c = Some it1 \<and> it_uid it1 = it_uid it) \<and>
    (\<forall>s1. cv_items cv1 p = Some s1 \<longrightarrow> si_contact s1 = Some c)"
proof (cases "it_session it")
  case (Some q)
  then have "cv1 = cv" "p = q" using assms(1,3) by (auto simp: session_for_def)
  then show ?thesis using assms(3) assms(4) [OF _ Some] by (simp add: same_messages_def)
next
  case None
  let ?p = "cv_freshItem cv"
  let ?s = "\<lparr>si_contact = Some c, si_messages = [], si_filtered = [], si_recent = None, si_lastSeq = 0,
    si_topics = List.insert (it_topic it) [''None''], si_unread = 0, si_loaded = False, si_online = False, si_text = []\<rparr>"
  define cv0 where "cv0 = cv\<lparr>cv_items := (cv_items cv)(?p \<mapsto> ?s), cv_freshItem := ?p + 1,
    cv_pb := (cv_pb cv)\<lparr>pb_items := (pb_items (cv_pb cv))(c \<mapsto> it\<lparr>it_session := Some ?p\<rparr>)\<rparr>\<rparr>"
  have "SessionItem_new c False cv = Some (cv0, ?p)" using assms(3) by (simp add: SessionItem_new_def cv0_def Let_def)
  then have run: "session_add ?p cv0 = Some cv1" and p: "p = ?p"
    using assms(1,3) None by (simp_all add: session_for_def bind_eq_Some_conv) blast+
  have add: "cv_items cv1 = cv_items cv0" "cv_pb cv1 = cv_pb cv0" "cv_total cv1 = cv_total cv0"
    using run by (auto simp: session_add_def bind_eq_Some_conv Let_def)
  show ?thesis
  proof -
    have cv0: "pb_db (cv_pb cv0) = pb_db (cv_pb cv)" "pb_items (cv_pb cv0) c = Some (it\<lparr>it_session := Some ?p\<rparr>)"
      "cv_total cv0 = cv_total cv" "\<And>q. q \<noteq> ?p \<Longrightarrow> cv_items cv0 q = cv_items cv q" "cv_items cv0 ?p = Some ?s"
      by (simp_all add: cv0_def)
    have "cv_items cv ?p = None" using assms(2) by (simp add: domIff)
    then have "cv_items cv q = Some s \<Longrightarrow> cv_items cv0 q = Some s" for q s using cv0(4) [of q] by (cases "q = ?p") auto
    then show ?thesis using cv0(1,2,3,5) unfolding same_messages_def add p by auto
  qed
qed

lemma save_refused:
  assumes "save_message m cv = Some (cv', m')" "cv_items cv (mi_session m) = Some s" "si_contact s = Some c"
    "pb_items (cv_pb cv) c = Some it" "(it_uid it, toMSecs (mi_date m), mi_seq m) \<in> message_key ` set (cd_messages (pb_db (cv_pb cv)))"
  shows "cv' = cv \<and> m' = m\<lparr>mi_saved := False\<rparr>"
proof -
  obtain f t where ft: "pb_items (cv_pb cv) (mi_from m) = Some f" "pb_items (cv_pb cv) (mi_to m) = Some t"
    using assms(1-4) by (auto simp: save_message_def bind_eq_Some_conv)
  have "message_key (row_of m f t it) = (it_uid it, toMSecs (mi_date m), mi_seq m)" by (simp add: message_key_def row_of_def)
  then have "storage_insert (ins_client_message (row_of m f t it)) (pb_db (cv_pb cv)) = (pb_db (cv_pb cv), False)"
    using assms(5) by (simp add: storage_insert_def storage_runQuery_def ins_client_message_def)
  then show ?thesis using assms(1-4) ft by (simp add: save_message_def)
qed

text \<open>
  C34. A message that comes in twice (the server sends what is pending until it is acknowledged): when the database
  already holds a message of that conversation with its date and sequence, receiving it adds no message to any
  list or to the database and counts nothing as unread, whatever its text and however the view is scrolled.
\<close>
theorem duplicate_ignored:
  assumes "pb_find sipFrom (cv_pb cv) = Some f" "pb_find sipTo (cv_pb cv) = Some t"
    "conversation_contact f t (cv_pb cv) = Some c" "pb_items (cv_pb cv) c = Some it"
    and "cv_freshItem cv \<notin> dom (cv_items cv)"
    and "\<forall>q s. cv_items cv q = Some s \<and> it_session it = Some q \<longrightarrow> si_contact s = Some c"
    and "m \<in> set (cd_messages (pb_db (cv_pb cv)))" "message_key m = (it_uid it, toMSecs stamp, seq)"
    and "receiveText now lifetime bottom sipFrom sipTo body (Some stamp) seq subject type cv = Some cv'"
  shows "same_messages cv cv'"
proof -
  obtain cv1 p where one: "session_for c cv = Some (cv1, p)"
    using assms(1-3,9) by (auto simp: receiveText_def bind_eq_Some_conv)
  obtain cv2 msg where two: "MessageItem_received now lifetime p f t body (Some stamp) seq subject type cv1 = Some (cv2, msg)"
    using assms(1-3,9) one by (auto simp: receiveText_def bind_eq_Some_conv)
  have parts: "same_messages cv cv1 \<and> pb_db (cv_pb cv1) = pb_db (cv_pb cv) \<and>
    (\<exists>it1. pb_items (cv_pb cv1) c = Some it1 \<and> it_uid it1 = it_uid it) \<and>
    (\<forall>s1. cv_items cv1 p = Some s1 \<longrightarrow> si_contact s1 = Some c)"
    by (rule session_for_parts [OF one assms(5,4)]) (use assms(6) in blast)
  then obtain it1 where it1: "pb_items (cv_pb cv1) c = Some it1" "it_uid it1 = it_uid it" by blast
  obtain s1 where s1: "cv_items cv1 p = Some s1" "si_contact s1 = Some c"
    using two parts by (auto simp: MessageItem_received_def Let_def bind_eq_Some_conv with_item_def split: option.splits)
  let ?cvn = "cv1\<lparr>cv_items := (cv_items cv1)(p \<mapsto> note_recent stamp seq s1)\<rparr>"
  let ?m = "\<lparr>mi_session = p, mi_from = f, mi_to = t, mi_date = stamp, mi_seq = seq, mi_expires = date_plus stamp lifetime,
    mi_type = (if type = ''text/admin'' then ADMIN_MESSAGE else TEXT_MESSAGE), mi_subject = subject, mi_body = body,
    mi_inbox = (Some f \<noteq> pb_self (cv_pb cv1)), mi_saved = True, mi_hidden = False\<rparr>"
  obtain cv3 m' where three: "save_message ?m ?cvn = Some (cv3, m')" and four: "alloc_message m' cv3 = (cv2, msg)"
    using two s1(1) by (auto simp: MessageItem_received_def Let_def bind_eq_Some_conv with_item_def)
  have noted: "si_contact (note_recent stamp seq s1) = Some c" "si_messages (note_recent stamp seq s1) = si_messages s1"
    "si_filtered (note_recent stamp seq s1) = si_filtered s1" "si_unread (note_recent stamp seq s1) = si_unread s1"
    using s1(2) by (simp_all add: note_recent_def)
  have "cv3 = ?cvn \<and> m' = ?m\<lparr>mi_saved := False\<rparr>"
    by (rule save_refused [OF three]) (use noted it1 parts assms(7,8) in \<open>auto simp: image_iff intro!: bexI [of _ m]\<close>)
  then have cv2: "cv2 = ?cvn\<lparr>cv_msgs := (cv_msgs ?cvn)(cv_freshMsg ?cvn := ?m\<lparr>mi_saved := False\<rparr>), cv_freshMsg := cv_freshMsg ?cvn + 1\<rparr>"
    and "\<not> mi_saved (cv_msgs cv2 msg)"
    using four by (auto simp: alloc_message_def)
  then have "cv' = cv2" using assms(1-3,9) one two by (simp add: receiveText_def)
  moreover have "same_messages cv1 cv2" using s1(1) noted by (auto simp: same_messages_def cv2)
  ultimately show ?thesis using parts by (fastforce simp: same_messages_def)
qed

definition known_item :: "int \<Rightarrow> int \<Rightarrow> ptr option \<Rightarrow> contact_item" where
  "known_item uid num session = (item_of ((new_contact uid)\<lparr>ct_extension := num, ct_display := ''name''\<rparr>))\<lparr>it_session := session\<rparr>"

definition stored_message :: client_message where
  "stored_message = \<lparr>mg_from = 2, mg_to = 1, mg_sid = 2, mg_seqid = 7, mg_posted = \<lparr>toMSecs = 1000, offsetFromUtc = 0\<rparr>,
     mg_type = ''TEXT'', mg_text = ''text'', mg_subject = ''None'', mg_expires = \<lparr>toMSecs = 5000, offsetFromUtc = 0\<rparr>\<rparr>"

definition known_book :: phonebook where
  "known_book = \<lparr>pb_items = [0 \<mapsto> known_item 1 101 None, 1 \<mapsto> known_item 2 102 (Some 5)], pb_fresh = 2,
     pb_local = (\<lambda>_. None)(101 := Some 0, 102 := Some 1), pb_users = [], pb_groups = [], pb_foreign = Map.empty,
     pb_index = [(1, Some 0), (2, Some 1)], pb_usrAuths = [], pb_grpAuths = [], pb_me = 101, pb_removes = 0,
     pb_sysop = False, pb_suspend = False, pb_db = schema_created\<lparr>cd_messages := [stored_message]\<rparr>\<rparr>"

definition known_conversations :: conversations where
  "known_conversations = \<lparr>cv_pb = known_book, cv_msgs = (\<lambda>_. sample_message 0 0), cv_freshMsg = 0,
     cv_items = [5 \<mapsto> (sample_item_of 1)\<lparr>si_unread := 3\<rparr>], cv_freshItem = 6, cv_list = [5], cv_groups = [], cv_total = 3,
     cv_active = None, cv_input = None, cv_current = True, cv_inputText = [], cv_timer = 9\<rparr>"

lemma known_face: "face 5 known_conversations = Some (False, ''name'')"
  by (simp add: face_cases known_conversations_def sample_item_of_def known_book_def known_item_def item_of_def new_contact_def)

lemma unread_total_witness:
  "\<exists>cv'. session_remove 5 known_conversations = Some cv' \<and> unread_sum known_conversations = 3 \<and> unread_sum cv' = 0 \<and> cv_total cv' = 3"
proof -
  have g: "groups_first known_conversations"
    by (rule groups_firstI [where rest = "[5]"]) (use known_face in \<open>auto simp: known_conversations_def\<close>)
  have p: "5 \<in> set (cv_list known_conversations)"
    "cv_items known_conversations 5 = Some ((sample_item_of 1)\<lparr>si_unread := 3\<rparr>)" by (simp_all add: known_conversations_def)
  have t: "cv_total known_conversations = unread_sum known_conversations" "unread_sum known_conversations = 3"
    by (simp_all add: unread_sum_def unread_of_def known_conversations_def)
  obtain cv1 where c: "close_session 5 known_conversations = Some cv1"
    by (simp add: close_session_def with_contact_def known_conversations_def sample_item_of_def known_book_def Let_def)
  then obtain cv' where run: "session_remove 5 known_conversations = Some cv'"
    using known_face close_face [OF c] p(1) index_of_member [of 5 "cv_list known_conversations"]
    by (simp add: session_remove_def face_group face_display)
  have "cv_list cv' = []" by (rule remove_parts [OF p(1) run]) (simp add: known_conversations_def)
  then have zero: "unread_sum cv' = 0" by (simp add: unread_sum_def)
  show ?thesis using unread_total [OF g p t(1)] run zero t(2) by simp
qed

lemma duplicate_ignored_witness:
  "\<exists>cv'. receiveText \<lparr>toMSecs = 2000, offsetFromUtc = 0\<rparr> 100 True ''102'' ''101'' ''again'' (Some \<lparr>toMSecs = 1000, offsetFromUtc = 0\<rparr>) 7
      ''None'' ''text/plain'' known_conversations = Some cv' \<and> same_messages known_conversations cv'"
proof -
  have n: "isNumber ''101''" "isNumber ''102''" "toInt ''101'' = 101" "toInt ''102'' = 102"
    by (simp_all add: isNumber_def toIntBase_def scan_number_def text_simps)
  let ?now = "\<lparr>toMSecs = 2000, offsetFromUtc = 0\<rparr>" and ?t = "\<lparr>toMSecs = 1000, offsetFromUtc = 0\<rparr>"
  have f: "pb_find ''102'' known_book = Some 1" "pb_find ''101'' known_book = Some 0"
    using n by (simp_all add: pb_find_def findExtension_def known_book_def)
  have c: "conversation_contact 1 0 known_book = Some 1" "pb_items known_book 1 = Some (known_item 2 102 (Some 5))"
    by (simp_all add: conversation_contact_def known_book_def pb_self_def)
  have k: "cv_pb known_conversations = known_book" "cv_items known_conversations 5 = Some ((sample_item_of 1)\<lparr>si_unread := 3\<rparr>)"
    "pb_items known_book 0 = Some (known_item 1 101 None)" "pb_db known_book = schema_created\<lparr>cd_messages := [stored_message]\<rparr>"
    "it_session (known_item 2 102 (Some 5)) = Some 5" "it_uid (known_item 2 102 (Some 5)) = 2"
    by (simp_all add: known_conversations_def known_book_def known_item_def item_of_def new_contact_def)
  have key: "message_key stored_message = (2, 1000, 7)" by (simp add: message_key_def stored_message_def)
  obtain cv' where run: "receiveText ?now 100 True ''102'' ''101'' ''again'' (Some ?t) 7 ''None'' ''text/plain'' known_conversations = Some cv'"
    using f c k key
    by (simp add: receiveText_def session_for_def MessageItem_received_def with_item_def save_message_def sample_item_of_def
        note_recent_def storage_insert_def storage_runQuery_def ins_client_message_def schema_created_def message_key_def row_of_def alloc_message_def
        Let_def date_ms_def)
  have own: "\<forall>q s. cv_items known_conversations q = Some s \<and> it_session (known_item 2 102 (Some 5)) = Some q \<longrightarrow> si_contact s = Some 1"
    using k by (auto simp: sample_item_of_def)
  have "same_messages known_conversations cv'"
    by (rule duplicate_ignored [OF _ _ _ _ _ own _ _ run, of 1 0 stored_message])
      (use f c k key in \<open>simp_all add: known_conversations_def schema_created_def\<close>)
  then show ?thesis using run by blast
qed

lemma first_showing_no_timer_witness:
  "\<exists>cv' s. activateSession \<lparr>toMSecs = 2000, offsetFromUtc = 0\<rparr> (Some 5) known_conversations = Some cv' \<and> cv_timer cv' = 0 \<and>
     cv_items cv' 5 = Some s \<and> length (si_messages s) = 1 \<and> \<not> mi_hidden (cv_msgs cv' (hd (si_messages s)))"
proof -
  let ?now = "\<lparr>toMSecs = 2000, offsetFromUtc = 0\<rparr>"
  have self: "pb_self known_book = Some 0" by (simp add: pb_self_def known_book_def)
  have k: "it_uid (known_item 2 102 (Some 5)) = 2" "it_session (known_item 2 102 (Some 5)) = Some 5"
    "it_updated (known_item 2 102 (Some 5)) = None" "it_uid (known_item 1 101 None) = 1"
    by (simp_all add: known_item_def item_of_def new_contact_def)
  have found: "findContact 2 known_book = (known_book, Some 1)" "findContact 1 known_book = (known_book, Some 0)"
    by (simp_all add: findContact_def known_book_def)
  have items: "pb_items known_book 1 = Some (known_item 2 102 (Some 5))" "pb_items known_book 0 = Some (known_item 1 101 None)"
    by (simp_all add: known_book_def)
  have rows: "storage_getRecords (sel_messages 2 ?now) (pb_db known_book) = [stored_message]"
    by (simp add: storage_getRecords_def sel_messages_def known_book_def schema_created_def stored_message_def)
  obtain cv' where run: "activateSession ?now (Some 5) known_conversations = Some cv'" and
    res: "\<exists>s. cv_items cv' 5 = Some s \<and> length (si_messages s) = 1 \<and> \<not> mi_hidden (cv_msgs cv' (hd (si_messages s)))"
    using self k found items rows
    by (simp add: activateSession_def store_input_def with_item_def loadMessages_def checkExpiration_def
        known_conversations_def sample_item_of_def MessageItem_loaded_def stored_message_def alloc_message_def model_add_def
        place_message_def message_rows_def insert_at_def clearUnread_def scrollToBottom_def session_update_def index_of_def Let_def
        schema_created_def date_ms_def)
  show ?thesis using first_showing_no_timer [OF _ _ run] run res by (auto simp: known_conversations_def sample_item_of_def)
qed

section \<open>Synchronisation\<close>

definition session_uid :: "conversations \<Rightarrow> ptr \<Rightarrow> int option" where
  "session_uid cv q = do { s \<leftarrow> cv_items cv q; c \<leftarrow> si_contact s; it \<leftarrow> pb_items (cv_pb cv) c; Some (it_uid it) }"

definition write_recent :: "int \<Rightarrow> session_item \<Rightarrow> conversations \<Rightarrow> conversations" where
  "write_recent u s cv = cv\<lparr>cv_pb := (cv_pb cv)\<lparr>pb_db := perform (upd_contact u
     (\<lambda>r. r\<lparr>ct_last := sql_bind (si_recent s), ct_sequence := si_lastSeq s\<rparr>)) (pb_db (cv_pb cv))\<rparr>\<rparr>"

lemma write_recent_frame [simp]:
  "cv_items (write_recent u s cv) = cv_items cv" "session_uid (write_recent u s cv) q = session_uid cv q"
  "cd_open (pb_db (cv_pb (write_recent u s cv))) = cd_open (pb_db (cv_pb cv))"
proof -
  have pb: "pb_items (cv_pb (write_recent u s cv)) = pb_items (cv_pb cv)" by (simp add: write_recent_def)
  show items: "cv_items (write_recent u s cv) = cv_items cv" by (simp add: write_recent_def)
  show "session_uid (write_recent u s cv) q = session_uid cv q" unfolding session_uid_def pb items ..
  show "cd_open (pb_db (cv_pb (write_recent u s cv))) = cd_open (pb_db (cv_pb cv))"
    by (simp add: write_recent_def storage_runQuery_def upd_contact_def)
qed

lemma write_recent_row:
  assumes "r' \<in> set (cd_contacts (pb_db (cv_pb (write_recent u s cv))))" "cd_open (pb_db (cv_pb cv))"
  shows "if ct_uid r' = u then ct_last r' = sql_bind (si_recent s) else r' \<in> set (cd_contacts (pb_db (cv_pb cv)))"
  using assms by (auto simp: write_recent_def storage_runQuery_def upd_contact_def)

lemma store_recent_step:
  assumes "store_recent (q # qs) cv = Some cv'"
  obtains s v where "cv_items cv q = Some s" "session_uid cv q = Some v" "store_recent qs (write_recent v s cv) = Some cv'"
  using assms by (auto simp: session_uid_def write_recent_def bind_eq_Some_conv)

lemma store_recent_rows:
  assumes "store_recent ps cv = Some cv'" "cd_open (pb_db (cv_pb cv))" "cv_items cv p = Some s"
    "\<forall>q \<in> set ps. session_uid cv q = Some u \<longrightarrow> q = p"
    "r \<in> set (cd_contacts (pb_db (cv_pb cv')))" "ct_uid r = u"
  shows "if \<exists>q \<in> set ps. session_uid cv q = Some u then ct_last r = sql_bind (si_recent s)
    else r \<in> set (cd_contacts (pb_db (cv_pb cv)))"
  using assms
proof (induction ps arbitrary: cv)
  case (Cons q qs)
  obtain t v where q: "cv_items cv q = Some t" "session_uid cv q = Some v" and run: "store_recent qs (write_recent v t cv) = Some cv'"
    using store_recent_step [OF Cons.prems(1)] by blast
  have ih: "if \<exists>q \<in> set qs. session_uid cv q = Some u then ct_last r = sql_bind (si_recent s)
      else r \<in> set (cd_contacts (pb_db (cv_pb (write_recent v t cv))))"
    using Cons.IH [OF run] Cons.prems by simp
  show ?case
  proof (cases "\<exists>q \<in> set qs. session_uid cv q = Some u")
    case True
    then show ?thesis using ih by simp
  next
    case False
    then have "if u = v then ct_last r = sql_bind (si_recent t) else r \<in> set (cd_contacts (pb_db (cv_pb cv)))"
      using ih write_recent_row [of r v t cv] Cons.prems(2,6) by simp
    moreover have "u = v \<Longrightarrow> t = s" using Cons.prems(3,4) q by simp
    ultimately show ?thesis using False q(2) by (cases "u = v") auto
  qed
qed simp

text \<open>
  C38. Synchronising with nothing pending. The date of the latest message of every listed session is written to its contact,
  but that date only knows the messages that came in during this run of the client: a conversation without one
  loses the date its contact had, and so it is not among the conversations the next start lists (only contacts with a
  date are), although its messages are still stored.
\<close>
theorem sync_forgets_conversation:
  assumes "syncPending fromIso now lifetime bottom [] cv = Some cv'" "cd_open (pb_db (cv_pb cv))"
    and "p \<in> set (cv_list cv)" "cv_items cv p = Some s" "si_recent s = None" "session_uid cv p = Some u"
    and "\<forall>q \<in> set (cv_list cv). session_uid cv q = Some u \<longrightarrow> q = p"
    and "r \<in> set (cd_contacts (pb_db (cv_pb cv')))" "ct_uid r = u" "ct_type r \<noteq> ''SYSTEM''"
  shows "ct_last r = SqlNull \<and> it_updated (item_of r) = None \<and> (\<forall>q pb. add_listed q (item_of r) pb = pb)"
proof -
  have run: "store_recent (cv_list cv) cv = Some cv'" using assms(1) by (simp add: syncPending_def)
  have "ct_last r = sql_bind None"
    using store_recent_rows [OF run assms(2,4,7-9)] assms(3,5,6) by (auto split: if_splits)
  then show ?thesis using assms(10) by (simp add: sql_bind_def item_of_def add_listed_def Let_def)
qed

definition dated_row :: contact_row where
  "dated_row = (new_contact 2)\<lparr>ct_extension := 102, ct_last := SqlDate \<lparr>toMSecs = 1000, offsetFromUtc = 0\<rparr>\<rparr>"

definition dated_conversations :: conversations where
  "dated_conversations = known_conversations\<lparr>cv_pb := known_book\<lparr>pb_db := schema_created\<lparr>cd_contacts := [dated_row]\<rparr>\<rparr>\<rparr>"

lemma sync_forgets_conversation_witness:
  "\<exists>cv' r. syncPending (\<lambda>_. None) \<lparr>toMSecs = 2000, offsetFromUtc = 0\<rparr> 100 True [] dated_conversations = Some cv' \<and>
     cd_contacts (pb_db (cv_pb cv')) = [r] \<and> ct_last dated_row \<noteq> SqlNull \<and> ct_last r = SqlNull"
proof -
  have "pb_items (cv_pb dated_conversations) = pb_items known_book" by (simp add: dated_conversations_def)
  moreover have "pb_items known_book 1 = Some (known_item 2 102 (Some 5))" by (simp add: known_book_def)
  ultimately have it: "pb_items (cv_pb dated_conversations) 1 = Some (known_item 2 102 (Some 5))" by simp
  have s: "cv_items dated_conversations 5 = Some ((sample_item_of 1)\<lparr>si_unread := 3\<rparr>)" "cv_list dated_conversations = [5]"
    by (simp_all add: dated_conversations_def known_conversations_def)
  have u: "it_uid (known_item 2 102 (Some 5)) = 2" by (simp add: known_item_def item_of_def new_contact_def)
  have uid: "session_uid dated_conversations 5 = Some 2" using it s(1) u by (simp add: session_uid_def sample_item_of_def)
  have db: "pb_db (cv_pb dated_conversations) = schema_created\<lparr>cd_contacts := [dated_row]\<rparr>" by (simp add: dated_conversations_def)
  let ?r = "dated_row\<lparr>ct_last := SqlNull, ct_sequence := 0\<rparr>"
  have row: "ct_uid dated_row = 2" "ct_type dated_row = ''USER''" by (simp_all add: dated_row_def new_contact_def)
  let ?s = "(sample_item_of 1)\<lparr>si_unread := 3\<rparr>" and ?cv = "write_recent 2 ((sample_item_of 1)\<lparr>si_unread := 3\<rparr>) dated_conversations"
  have parts: "si_recent ?s = None" "si_lastSeq ?s = 0" "si_contact ?s = Some 1" by (simp_all add: sample_item_of_def)
  have "store_recent [5] dated_conversations = Some ?cv"
    using it s(1) u parts(3) by (simp add: write_recent_def)
  then have run: "syncPending (\<lambda>_. None) \<lparr>toMSecs = 2000, offsetFromUtc = 0\<rparr> 100 True [] dated_conversations = Some ?cv"
    using s(2) by (simp add: syncPending_def)
  have res: "cd_contacts (pb_db (cv_pb ?cv)) = [?r]"
    using db row(1) parts(1,2) by (simp add: write_recent_def storage_runQuery_def upd_contact_def schema_created_def sql_bind_def)
  have "cd_open (pb_db (cv_pb dated_conversations))" using db by (simp add: schema_created_def)
  then have "ct_last ?r = SqlNull \<and> it_updated (item_of ?r) = None \<and> (\<forall>q pb. add_listed q (item_of ?r) pb = pb)"
    by (rule sync_forgets_conversation [OF run _ _ s(1) parts(1) uid]) (use s(2) res row in simp_all)
  then show ?thesis using run res by (intro exI [of _ ?cv] exI [of _ ?r]) (simp add: dated_row_def)
qed

section \<open>The length of a message\<close>

lemma checkInput_short: "checkInput utf8 t = (if t = [] \<or> length (utf8 t) \<le> 155 then t else checkInput utf8 (take (length t - 1) t))"
  by (subst checkInput.simps) auto

text \<open>
  C37. The input line ends. Each time the text of the input line is too long, the slot sets it without its
  last character, which calls the slot again. This ends, for any encoding in which no text has no
  bytes, with the longest beginning of the text that has at most 155 bytes.
\<close>
theorem input_limited:
  assumes "utf8 [] = []"
  shows "\<exists>n \<le> length t. checkInput utf8 t = take n t \<and> length (utf8 (take n t)) \<le> 155 \<and>
    (\<forall>m. n < m \<and> m \<le> length t \<longrightarrow> 155 < length (utf8 (take m t)))"
proof (induction "length t" arbitrary: t)
  case (Suc k)
  let ?t = "take k t"
  show ?case
  proof (cases "length (utf8 t) \<le> 155")
    case False
    have "t \<noteq> []" "length t - 1 = k" using Suc(2) by auto
    then have "checkInput utf8 t = checkInput utf8 ?t" using False by (subst checkInput.simps) simp
    moreover obtain n where "n \<le> k" "checkInput utf8 ?t = take n t" "length (utf8 (take n t)) \<le> 155"
      "\<forall>m. n < m \<and> m \<le> k \<longrightarrow> 155 < length (utf8 (take m t))"
      using Suc(1)[of ?t] Suc(2)[symmetric] by (auto simp: min_def)
    ultimately show ?thesis using False Suc(2)[symmetric]
      by (intro exI[of _ n]) (auto simp: le_Suc_eq)
  qed (auto intro!: exI[of _ "length t"] simp: checkInput_short)
qed (simp add: checkInput_short assms)

lemma input_limited_witness:
  "\<exists>n \<le> 400. checkInput id (replicate 400 CHR ''a'') = take n (replicate 400 CHR ''a'') \<and>
    length (take n (replicate 400 CHR ''a'')) \<le> (155::nat) \<and>
    (\<forall>m. n < m \<and> m \<le> 400 \<longrightarrow> 155 < length (take m (replicate 400 CHR ''a'')))"
  using input_limited[of id "replicate 400 CHR ''a''"] by simp

end
