(* ===== verification/Desktops.thy ===== *)
theory Desktops
  imports Agreement ClientStorage
begin

text \<open>
  The desktop client as a state machine (\<open>Desktop/desktop.cpp\<close> and the login page): its listener, its connector
  and its database, who opens and closes them, and what the user, the two threads and the timers do. What
  concerns other parts is an effect. A null pointer that is followed, and an assertion that fails, is \<open>None\<close>.
\<close>

section \<open>State\<close>

datatype desktop_state = INITIAL | OFFLINE | AUTHORIZING | CALLING | DISCONNECTING | ONLINE

datatype page = Login_page | Sessions_page | Phonebook_page | Options_page

datatype login_field = Identity_field | Password_field | Label_field

text \<open>Messages of the status bar are as in a release build.\<close>

datatype desktop_effect =
    Error_shown string
  | Status_shown string
  | Status_cleared
  | Focused login_field
  | Storage_changed bool
  | Connector_changed bool
  | Listener_started credentials
  | Listener_stopped bool
  | Connector_started credentials
  | Connector_stopped bool
  | Logged_out
  | Roster_requested
  | Password_sent string json_object
  | Sessions_cleared
  | Self_changed string
  | Timer_started nat

record desktop =
  dk_listener :: "nat option" \<comment> \<open>listeners are numbered\<close>
  dk_freshListener :: nat
  dk_connector :: bool
  dk_storage :: "client_db option"
  dk_instance :: bool \<comment> \<open>\<open>Storage::Instance\<close> is set\<close>
  dk_files :: disk
  dk_State :: desktop_state
  dk_creds :: credentials
  dk_dbName :: string
  dk_config :: string \<comment> \<open>the setting \<open>database\<close>\<close>
  dk_expires :: int
  dk_page :: page
  dk_away :: bool \<comment> \<open>\<open>trayAway\<close> is enabled\<close>
  dk_window :: bool \<comment> \<open>the window is enabled\<close>
  dk_loginEnabled :: bool
  dk_dialog :: bool
  dk_front :: bool
  dk_offlineMode :: bool
  dk_powerReconnect :: bool
  dk_updateRoster :: bool
  dk_peering :: string
  dk_out :: "desktop_effect list"

text \<open>What does not change: the clock, new keys, where files are, and whether a database can be opened.\<close>

record surroundings =
  sr_qt :: qt_lib
  sr_now :: qdatetime
  sr_pair :: "string \<times> string"
  sr_prefix :: string
  sr_developer :: bool
  sr_opens :: "string \<Rightarrow> bool"

definition issue :: "desktop_effect \<Rightarrow> desktop \<Rightarrow> desktop" where
  "issue e dk = dk\<lparr>dk_out := dk_out dk @ [e]\<rparr>"

definition isLogin :: "desktop \<Rightarrow> bool" where
  "isLogin dk \<longleftrightarrow> dk_page dk = Login_page"

definition isAdmin :: "desktop \<Rightarrow> bool" where
  "isAdmin dk \<longleftrightarrow> dk_State dk = ONLINE \<and> cred (dk_creds dk) ''privs'' = ''sysadmin''"

definition setState :: "desktop_state \<Rightarrow> desktop \<Rightarrow> desktop" where
  "setState s dk = dk\<lparr>dk_State := s\<rparr>"

definition closeDialog :: "desktop \<Rightarrow> desktop" where
  "closeDialog dk = (if dk_dialog dk then dk\<lparr>dk_dialog := False, dk_window := True\<rparr> else dk)"

definition openLogout :: "desktop \<Rightarrow> desktop" where
  "openLogout dk = (closeDialog dk)\<lparr>dk_window := False, dk_dialog := True\<rparr>"

section \<open>The database\<close>

definition database_path :: "surroundings \<Rightarrow> string \<Rightarrow> string" where
  "database_path sr dbName = storagePath (sr_prefix sr) dbName"

definition open_storage :: "surroundings \<Rightarrow> string \<Rightarrow> credentials \<Rightarrow> desktop \<Rightarrow> client_db" where
  "open_storage sr dbName creds dk =
    Storage_new (sr_opens sr dbName) (sr_now sr) (sr_pair sr)
      (if storage_exists (sr_prefix sr) dbName (dk_files dk) then dk_files dk (database_path sr dbName) else None) creds"

text \<open>The files as they are with what the open database has written.\<close>

definition current_files :: "surroundings \<Rightarrow> desktop \<Rightarrow> disk" where
  "current_files sr dk = (case dk_storage dk of None \<Rightarrow> dk_files dk
     | Some db \<Rightarrow> (dk_files dk)(database_path sr (dk_dbName dk) \<mapsto> db))"

definition delete_storage :: "surroundings \<Rightarrow> desktop \<Rightarrow> desktop" where
  "delete_storage sr dk = dk\<lparr>dk_files := current_files sr dk, dk_storage := None, dk_instance := False\<rparr>"

section \<open>Going on and off line\<close>

definition offline :: "desktop \<Rightarrow> desktop" where
  "offline dk = (case dk_listener dk of None \<Rightarrow> dk
     | Some _ \<Rightarrow>
       let dk = dk\<lparr>dk_away := \<not> isLogin dk\<rparr>;
           dk = (if dk_connector dk then issue (Connector_changed False) (issue (Connector_stopped False) (dk\<lparr>dk_connector := False\<rparr>)) else dk)
       in setState OFFLINE ((issue (Listener_stopped False) dk)\<lparr>dk_listener := None\<rparr>))"

definition authorizing :: "desktop \<Rightarrow> desktop" where
  "authorizing dk = setState AUTHORIZING (dk\<lparr>dk_away := False\<rparr>)"

definition listen :: "credentials \<Rightarrow> desktop \<Rightarrow> desktop option" where
  "listen creds dk =
    (if dk_listener dk \<noteq> None then None
     else Some (authorizing ((issue (Listener_started creds) dk)\<lparr>dk_peering := ''unknown'',
       dk_listener := Some (dk_freshListener dk), dk_freshListener := dk_freshListener dk + 1\<rparr>)))"

text \<open>\<open>login->enter\<close> enables the page again.\<close>

definition show_login :: "desktop \<Rightarrow> desktop" where
  "show_login dk = dk\<lparr>dk_page := Login_page, dk_loginEnabled := True\<rparr>"

definition failure_shown :: "int \<Rightarrow> string \<times> login_field" where
  "failure_shown code =
    (if code = SIP_CONFLICT then (''Label already used'', Label_field)
     else if code = SIP_DOES_NOT_EXIST_ANYWHERE then (''Extension number is invalid'', Identity_field)
     else if code = SIP_NOT_FOUND then (''Extension not found'', Identity_field)
     else if code = SIP_FORBIDDEN \<or> code = SIP_UNAUTHORIZED then (''Authorizartion denied'', Password_field)
     else if code = SIP_METHOD_NOT_ALLOWED then (''Registration not allowed'', Identity_field)
     else if code = SIP_INTERNAL_SERVER_ERROR \<or> code = 666 then (''Cannot reach server'', Identity_field)
     else (''Unknown server failure'', Identity_field))"

text \<open>A field that is marked enables the login page.\<close>

definition failed :: "int \<Rightarrow> desktop \<Rightarrow> desktop" where
  "failed code dk =
    (let (msg, field) = failure_shown code; dk = issue (Error_shown msg) (offline dk)
     in if isLogin dk then issue (Focused field) (dk\<lparr>dk_loginEnabled := True\<rparr>) else dk)"

definition statusResult :: "int \<Rightarrow> string \<Rightarrow> desktop \<Rightarrow> desktop" where
  "statusResult status txt dk =
    (if status = SIP_OK then issue (if txt = [] then Status_cleared else Status_shown txt) dk
     else if status = 666 then failed 666 dk
     else issue (Error_shown (if txt \<noteq> [] then txt
       else if status = SIP_NOT_FOUND \<or> status = SIP_DOES_NOT_EXIST_ANYWHERE then ''Unknown extension or name used''
       else if status = SIP_CONFLICT then ''Cannot modify existing''
       else if status = SIP_FORBIDDEN \<or> status = SIP_UNAUTHORIZED \<or> status = SIP_METHOD_NOT_ALLOWED
         then ''Unauthorized or invalid request''
       else if status = SIP_INTERNAL_SERVER_ERROR then ''Server request failed''
       else ''Request failed or rejected'')) dk)"

text \<open>The first two contacts of a new database.\<close>

definition first_contacts :: "credentials \<Rightarrow> client_db \<Rightarrow> client_db" where
  "first_contacts creds db =
    (let host = cred creds ''host''; schema = cred creds ''schema''; ext = cred creds ''extension''
     in perform (ins_contact (\<lambda>c. c\<lparr>ct_extension := 0, ct_dialing := ''0'', ct_display := ''Operators'', ct_user := ''operators'',
          ct_type := ''SYSTEM'', ct_uri := uri_id schema ''0'' host (port_of creds)\<rparr>))
       (perform (ins_contact (\<lambda>c. c\<lparr>ct_extension := toInt ext, ct_dialing := ext, ct_display := cred creds ''display'',
          ct_user := cred creds ''user'', ct_uri := uri_id schema ext host (port_of creds)\<rparr>)) db))"

definition database_name :: "qt_lib \<Rightarrow> credentials \<Rightarrow> string" where
  "database_name Q creds = ''sipwitchqt-'' @ storage_name Q creds ''desktop''"

text \<open>
  The database of \<open>authorized\<close>; \<open>False\<close> when it cannot be opened. What was opened then is not deleted, and stays the
  instance that the next one asserts not to be there.
\<close>

definition authorized_storage :: "surroundings \<Rightarrow> credentials \<Rightarrow> desktop \<Rightarrow> (desktop \<times> bool) option" where
  "authorized_storage sr creds dk = (case dk_storage dk of
     Some db \<Rightarrow> Some (dk\<lparr>dk_storage := Some (updateCredentials (sr_pair sr) creds db)\<rparr>, True)
   | None \<Rightarrow>
     let dbName = database_name (sr_qt sr) creds;
         dk = dk\<lparr>dk_dbName := dbName, dk_config := dbName\<rparr>;
         existing = storage_exists (sr_prefix sr) dbName (dk_files dk);
         db = open_storage sr dbName creds dk
     in if dk_instance dk then None
        else if \<not> cd_open db then Some (dk\<lparr>dk_instance := True\<rparr>, False)
        else Some (issue (Storage_changed True) (dk\<lparr>dk_storage := Some (if existing then db else first_contacts creds db),
          dk_instance := True\<rparr>), True))"

text \<open>The window of a session: its page, its connector, its state.\<close>

definition go_online :: "credentials \<Rightarrow> desktop \<Rightarrow> desktop" where
  "go_online creds dk =
    (let dk = (if isLogin dk then dk\<lparr>dk_page := Sessions_page\<rparr> else dk);
         dk = (if \<not> dk_connector dk
           then issue (Connector_changed True) (issue (Connector_started creds) (dk\<lparr>dk_away := True, dk_connector := True\<rparr>)) else dk)
     in setState ONLINE dk)"

definition authorized :: "surroundings \<Rightarrow> credentials \<Rightarrow> desktop \<Rightarrow> desktop option" where
  "authorized sr creds dk = do {
     (dk, ok) \<leftarrow> authorized_storage sr creds (dk\<lparr>dk_creds := creds(''initialize'' \<mapsto> []), dk_offlineMode := False\<rparr>);
     Some (if ok then go_online creds dk else dk) }"

section \<open>The user\<close>

definition trayAway :: "desktop \<Rightarrow> desktop option" where
  "trayAway dk =
    (if dk_connector dk then Some (offline (dk\<lparr>dk_offlineMode := True\<rparr>))
     else case dk_storage dk of Some db \<Rightarrow> listen (storage_credentials db) dk | None \<Rightarrow> Some dk)"

definition closeLogout :: "surroundings \<Rightarrow> desktop \<Rightarrow> desktop option" where
  "closeLogout sr dk =
    (if \<not> dk_dialog dk \<or> dk_storage dk = None then None
     else (let dk = issue (Storage_changed False) ((issue Logged_out dk)\<lparr>dk_offlineMode := True, dk_config := []\<rparr>);
               dk = delete_storage sr (offline (closeDialog dk))
           in Some ((show_login dk)\<lparr>dk_updateRoster := True\<rparr>)))"

definition eraseLogout :: "surroundings \<Rightarrow> desktop \<Rightarrow> desktop option" where
  "eraseLogout sr dk =
    (if \<not> dk_dialog dk \<or> dk_storage dk = None then None
     else (let dk = issue (Storage_changed False) ((issue Logged_out dk)\<lparr>dk_offlineMode := True, dk_config := []\<rparr>);
               dk = delete_storage sr (offline (closeDialog dk));
               dk = dk\<lparr>dk_files := storage_remove (sr_prefix sr) (dk_dbName dk) (dk_files dk)\<rparr>
           in Some ((show_login dk)\<lparr>dk_updateRoster := True\<rparr>)))"

text \<open>What the login page gives for its fields, or nothing when one of them is wrong.\<close>

definition login_credentials :: "string \<Rightarrow> string \<Rightarrow> string \<Rightarrow> string \<Rightarrow> credentials option" where
  "login_credentials identity server secret label =
    (let c = Contact_uri identity server; known = Contact_valid c \<and> toLower (hostName c) \<noteq> ''none'';
         ext = (if known then userName c else []); label = toLower label;
         fields = [''realm'' \<mapsto> ''unknown'', ''type'' \<mapsto> ''unknown'', ''label'' \<mapsto> label, ''user'' \<mapsto> ext, ''display'' \<mapsto> [],
           ''extension'' \<mapsto> number (toInt ext), ''initialize'' \<mapsto> ''label''];
         fields = (if secret \<noteq> [] then fields(''secret'' \<mapsto> secret) else fields);
         fields = (if known then fields(''host'' \<mapsto> hostName c, ''port'' \<mapsto> number (uint (hostPort c))) else fields)
     in if ext = [] \<or> \<not> known then None
        else if \<not> isNumber ext then None
        else if toInt ext < 100 \<or> toInt ext > 699 then None
        else if secret = [] then None
        else if \<not> isLabel label then None
        else Some fields)"

text \<open>The login page as it is: an empty answer still replaces the credentials.\<close>

definition initial :: "surroundings \<Rightarrow> credentials option \<Rightarrow> desktop \<Rightarrow> desktop option" where
  "initial sr login dk = (case login of None \<Rightarrow> Some (dk\<lparr>dk_creds := Map.empty\<rparr>)
     | Some creds \<Rightarrow>
       if dk_instance dk \<and> storage_exists (sr_prefix sr) (database_name (sr_qt sr) creds) (current_files sr dk) then None
       else (let dbName = database_name (sr_qt sr) creds;
                 (files, creds) = initialLogin (sr_opens sr dbName) (sr_now sr) (sr_pair sr) (sr_prefix sr) dbName creds (dk_files dk)
             in listen creds (dk\<lparr>dk_files := files, dk_creds := creds, dk_loginEnabled := False\<rparr>)))"

text \<open>\<open>self\<close>: number and uri of one's own contact. \<open>password_later\<close> is what its timer does.\<close>

definition changePassword :: "surroundings \<Rightarrow> (int \<times> string) option \<Rightarrow> string \<Rightarrow> desktop \<Rightarrow> desktop option" where
  "changePassword sr self password dk =
    (if dk_creds dk ''secret'' = Some password then Some dk
     else if \<not> dk_connector dk then Some dk
     else case self of None \<Rightarrow> None
     | Some (num, uri) \<Rightarrow>
       let secret = ha1_of (sr_qt sr) (dk_creds dk) password;
           dk = issue (Password_sent uri [(''s'', JString secret), (''n'', JInt num)]) dk;
           dk = offline (dk\<lparr>dk_page := Sessions_page, dk_window := False, dk_offlineMode := True\<rparr>)
       in Some (issue (Timer_started 2400) (dk\<lparr>dk_creds := (dk_creds dk)(''secret'' \<mapsto> password)\<rparr>)))"

definition password_later :: "desktop \<Rightarrow> desktop option" where
  "password_later dk = do {
     dk \<leftarrow> (if \<not> dk_connector dk \<and> dk_listener dk = None then listen (dk_creds dk) dk else Some dk);
     Some (dk\<lparr>dk_window := True\<rparr>) }"

text \<open>The options page takes a new password when it was typed twice.\<close>

definition options_password :: "surroundings \<Rightarrow> (int \<times> string) option \<Rightarrow> string \<Rightarrow> string \<Rightarrow> desktop \<Rightarrow> desktop option" where
  "options_password sr self secret confirm dk =
    (if secret \<noteq> confirm then Some (issue (Error_shown (''Password doesn'' @ [CHR 0x27] @ ''t match'')) dk)
     else if secret = [] then Some (issue (Error_shown ''No password entered'') dk)
     else changePassword sr self secret dk)"

text \<open>
  A new time to keep messages, for every message the database has; \<open>addSecs\<close> of the
  posted time. The result of each statement is only printed.
\<close>

definition set_expires :: "int \<Rightarrow> client_message \<Rightarrow> client_message" where
  "set_expires seconds m = m\<lparr>mg_expires := (mg_posted m)\<lparr>toMSecs := toMSecs (mg_posted m) + 1000 * seconds\<rparr>\<rparr>"

definition upd_expires :: "int \<Rightarrow> statement" where
  "upd_expires seconds db = Some (db\<lparr>cd_messages := map (set_expires seconds) (cd_messages db)\<rparr>)"

definition changeExpiration :: "int \<Rightarrow> desktop \<Rightarrow> desktop" where
  "changeExpiration seconds dk =
    (let dk = dk\<lparr>dk_expires := seconds\<rparr> in case dk_storage dk of None \<Rightarrow> dk
     | Some db \<Rightarrow> issue Sessions_cleared (dk\<lparr>dk_storage := Some (perform (upd_expires seconds) db)\<rparr>))"

text \<open>The entry of the options page for a time, and the time of an entry: no number is as long as an \<open>int\<close> can say.\<close>

definition options_index :: "int \<Rightarrow> int" where
  "options_index seconds =
    (if seconds = 0 \<or> seconds = 2 ^ 31 - 1 then 4
     else let days = seconds sdiv 86400
       in if days \<le> 7 then 0 else if days \<le> 14 then 1 else if days \<le> 30 then 2 else if days \<le> 90 then 3 else 4)"

definition options_expiration :: "string \<Rightarrow> desktop \<Rightarrow> desktop" where
  "options_expiration entry dk =
    (let days = qs_toInt entry in changeExpiration (if days < 1 then 2 ^ 31 - 1 else days * 86400) dk)"

definition setSelf :: "string \<Rightarrow> desktop \<Rightarrow> desktop" where
  "setSelf name dk = (case dk_storage dk of None \<Rightarrow> dk
     | Some db \<Rightarrow> issue (Self_changed name) (dk\<lparr>dk_storage := Some (updateSelf name db)\<rparr>))"

text \<open>A backup, and a backup that is read back; \<open>exportDb\<close> tells whether it was written.\<close>

definition exportDb :: "surroundings \<Rightarrow> desktop \<Rightarrow> desktop \<times> bool" where
  "exportDb sr dk = (case dk_storage dk of None \<Rightarrow> (dk, False)
     | Some db \<Rightarrow> (case copyDb (sr_prefix sr) (dk_dbName dk) db (current_files sr dk) of (files, code) \<Rightarrow>
         (dk\<lparr>dk_files := files\<rparr>, code = 0)))"

definition restore :: "surroundings \<Rightarrow> desktop \<Rightarrow> desktop option" where
  "restore sr dk =
    (if dk_storage dk = None then None
     else (let dk = issue (Storage_changed False) dk;
               dk = show_login (delete_storage sr (offline (dk\<lparr>dk_offlineMode := True\<rparr>)));
               (files, ok) = importDb (sr_developer sr) (sr_prefix sr) (dk_dbName dk) (dk_creds dk) (dk_files dk);
               dk = dk\<lparr>dk_files := files\<rparr>
           in if \<not> ok then Some dk
              else (let db = open_storage sr (dk_dbName dk) Map.empty dk
                    in if \<not> cd_open db then Some dk
                       else listen (storage_credentials db) (issue (Storage_changed True) (dk\<lparr>dk_storage := Some db, dk_instance := True\<rparr>)))))"

section \<open>The system\<close>

definition powerSuspend :: "desktop \<Rightarrow> desktop" where
  "powerSuspend dk =
    (if dk_connector dk
     then (offline ((closeDialog dk)\<lparr>dk_window := False, dk_offlineMode := True\<rparr>))\<lparr>dk_powerReconnect := True\<rparr>
     else dk\<lparr>dk_powerReconnect := False\<rparr>)"

definition powerResume :: "desktop \<Rightarrow> desktop" where
  "powerResume dk =
    (if \<not> dk_connector dk \<and> dk_powerReconnect dk \<and> dk_storage dk \<noteq> None
     then issue (Timer_started 1200) (dk\<lparr>dk_powerReconnect := False\<rparr>)
     else dk\<lparr>dk_window := True\<rparr>)"

text \<open>The timer of \<open>powerResume\<close>: the database may be gone by then.\<close>

definition resume_later :: "desktop \<Rightarrow> desktop option" where
  "resume_later dk =
    (let dk = dk\<lparr>dk_window := True\<rparr>
     in if dk_connector dk \<or> dk_listener dk \<noteq> None then Some dk
        else case dk_storage dk of None \<Rightarrow> None | Some db \<Rightarrow> listen (storage_credentials db) dk)"

definition app_active :: "desktop \<Rightarrow> desktop option" where
  "app_active dk = do {
     dk \<leftarrow> (case dk_storage dk of Some db \<Rightarrow>
         if dk_listener dk = None \<and> \<not> dk_front dk \<and> \<not> dk_offlineMode dk then listen (storage_credentials db) dk else Some dk
       | None \<Rightarrow> Some dk);
     Some (issue (Timer_started 200) dk) }"

definition front_later :: "desktop \<Rightarrow> desktop" where
  "front_later dk = dk\<lparr>dk_front := True\<rparr>"

definition app_inactive :: "desktop \<Rightarrow> desktop" where
  "app_inactive dk = dk\<lparr>dk_front := False\<rparr>"

text \<open>The pages of the tool bar, and the roster that the phonebook has asked for.\<close>

definition show_page :: "page \<Rightarrow> desktop \<Rightarrow> desktop" where
  "show_page pg dk = dk\<lparr>dk_page := pg\<rparr>"

definition clearRoster :: "desktop \<Rightarrow> desktop" where
  "clearRoster dk = dk\<lparr>dk_updateRoster := False\<rparr>"

text \<open>What the daily timer does to the database.\<close>

definition daily :: "surroundings \<Rightarrow> desktop \<Rightarrow> desktop" where
  "daily sr dk = dk\<lparr>dk_storage := map_option (cleanupExpired (sr_now sr)) (dk_storage dk)\<rparr>"

definition desktop_shutdown :: "surroundings \<Rightarrow> desktop \<Rightarrow> desktop" where
  "desktop_shutdown sr dk =
    (let dk = (if dk_connector dk then issue (Connector_stopped True) (dk\<lparr>dk_connector := False\<rparr>) else dk);
         dk = (if dk_listener dk \<noteq> None then issue (Listener_stopped True) (dk\<lparr>dk_listener := None\<rparr>) else dk)
     in case dk_storage dk of None \<Rightarrow> dk | Some _ \<Rightarrow> delete_storage sr (issue (Storage_changed False) dk))"

text \<open>The roster changed on the server: it is asked for unless it is going to be at the next connection anyway.\<close>

definition roster_changed :: "desktop \<Rightarrow> desktop" where
  "roster_changed dk =
    (let dk = (if \<not> dk_updateRoster dk \<and> dk_connector dk then issue Roster_requested dk else dk) in dk\<lparr>dk_updateRoster := True\<rparr>)"

text \<open>
  The settings at the start: \<open>--reset\<close> removes the database whose name is not read yet, and forgets them.
\<close>

definition start_settings :: "surroundings \<Rightarrow> bool \<Rightarrow> string \<Rightarrow> int \<Rightarrow> disk \<Rightarrow> disk \<times> string \<times> int" where
  "start_settings sr reset config lifetime files =
    (if reset then (storage_remove (sr_prefix sr) [] files, [], 7 * 86400) else (files, config, lifetime))"

text \<open>The start of the client, with the database of the settings when there is one.\<close>

definition desktop_start :: "surroundings \<Rightarrow> bool \<Rightarrow> string \<Rightarrow> int \<Rightarrow> disk \<Rightarrow> desktop option" where
  "desktop_start sr reset config lifetime files =
    (let (files, config, lifetime) = start_settings sr reset config lifetime files;
         dk = \<lparr>dk_listener = None, dk_freshListener = 0, dk_connector = False, dk_storage = None, dk_instance = False, dk_files = files, dk_State = INITIAL,
               dk_creds = Map.empty, dk_dbName = config, dk_config = config, dk_expires = lifetime, dk_page = Login_page, dk_away = True,
               dk_window = True, dk_loginEnabled = True, dk_dialog = False, dk_front = True, dk_offlineMode = True,
               dk_powerReconnect = False, dk_updateRoster = True, dk_peering = [], dk_out = []\<rparr>
     in if \<not> storage_exists (sr_prefix sr) config files then Some (show_login (dk\<lparr>dk_away := False\<rparr>))
        else (let db = open_storage sr config Map.empty dk
              in if \<not> cd_open db then Some (show_login (dk\<lparr>dk_away := False\<rparr>))
                 else listen (storage_credentials db) (issue (Storage_changed True) (dk\<lparr>dk_storage := Some db, dk_instance := True, dk_page := Sessions_page\<rparr>))))"

section \<open>Events\<close>

text \<open>
  What can reach the window: signals of a listener (with its number) and of the connector, the user, the system,
  and timers. A slot does not ask which listener the signal is from.
\<close>

datatype desktop_event =
    Authorize nat credentials
  | Starting nat
  | Listener_finished nat
  | Listener_failure nat int
  | Status nat int string
  | Roster_changed nat
  | Connector_failure int
  | Connector_status int string
  | Away
  | Logout
  | Cancel_dialog
  | Confirm_logout
  | Confirm_erase
  | Self_removed
  | Login "credentials option"
  | Password "(int \<times> string) option" string string
  | Password_timer
  | Expiration string
  | Set_self string
  | Export
  | Import
  | Suspend
  | Resume
  | Resume_timer
  | Activate
  | Deactivate
  | Front_timer
  | Daily
  | Show page
  | Roster_asked

fun desktop_step :: "surroundings \<Rightarrow> desktop_event \<Rightarrow> desktop \<Rightarrow> desktop option" where
  "desktop_step sr (Authorize _ creds) dk = authorized sr creds dk"
| "desktop_step sr (Starting _) dk = Some (authorizing dk)"
| "desktop_step sr (Listener_finished _) dk = Some (offline dk)"
| "desktop_step sr (Listener_failure _ code) dk = Some (failed code dk)"
| "desktop_step sr (Status _ status txt) dk = Some (statusResult status txt dk)"
| "desktop_step sr (Roster_changed _) dk = Some (roster_changed dk)"
| "desktop_step sr (Connector_failure code) dk = Some (failed code dk)"
| "desktop_step sr (Connector_status status txt) dk = Some (statusResult status txt dk)"
| "desktop_step sr Away dk = trayAway dk"
| "desktop_step sr Logout dk = Some (openLogout dk)"
| "desktop_step sr Cancel_dialog dk = Some (closeDialog dk)"
| "desktop_step sr Confirm_logout dk = closeLogout sr dk"
| "desktop_step sr Confirm_erase dk = eraseLogout sr dk"
| "desktop_step sr Self_removed dk = eraseLogout sr dk"
| "desktop_step sr (Login login) dk = initial sr login dk"
| "desktop_step sr (Password self secret confirm) dk = options_password sr self secret confirm dk"
| "desktop_step sr Password_timer dk = password_later dk"
| "desktop_step sr (Expiration entry) dk = Some (options_expiration entry dk)"
| "desktop_step sr (Set_self name) dk = Some (setSelf name dk)"
| "desktop_step sr Export dk = Some (fst (exportDb sr dk))"
| "desktop_step sr Import dk = restore sr dk"
| "desktop_step sr Suspend dk = Some (powerSuspend dk)"
| "desktop_step sr Resume dk = Some (powerResume dk)"
| "desktop_step sr Resume_timer dk = resume_later dk"
| "desktop_step sr Activate dk = app_active dk"
| "desktop_step sr Deactivate dk = Some (app_inactive dk)"
| "desktop_step sr Front_timer dk = Some (front_later dk)"
| "desktop_step sr Daily dk = Some (daily sr dk)"
| "desktop_step sr (Show pg) dk = Some (show_page pg dk)"
| "desktop_step sr Roster_asked dk = Some (clearRoster dk)"

fun desktop_run :: "surroundings \<Rightarrow> desktop_event list \<Rightarrow> desktop \<Rightarrow> desktop option" where
  "desktop_run sr [] dk = Some dk"
| "desktop_run sr (e # es) dk = do { dk \<leftarrow> desktop_step sr e dk; desktop_run sr es dk }"

end
