(* ===== verification/DesktopProps.thy ===== *)
theory DesktopProps
  imports Desktops
begin

text \<open>
  The window and its threads: while only the current listener is heard, the window is what its state says; and
  what happens otherwise.
\<close>

section \<open>The events the window is made for\<close>

text \<open>
  A signal of a listener comes from the one the window has, and \<open>starting\<close> before it is authorized. An action is
  taken when it is enabled; a logout is confirmed, and a timer runs, while somebody is logged in.
\<close>

fun expected :: "surroundings \<Rightarrow> desktop_event \<Rightarrow> desktop \<Rightarrow> bool" where
  "expected sr (Authorize n creds) dk \<longleftrightarrow> dk_listener dk = Some n \<and>
     (dk_storage dk = None \<longrightarrow> sr_opens sr (database_name (sr_qt sr) creds))"
| "expected sr (Starting n) dk \<longleftrightarrow> dk_listener dk = Some n \<and> \<not> dk_connector dk"
| "expected sr (Listener_finished n) dk \<longleftrightarrow> dk_listener dk = Some n"
| "expected sr (Listener_failure n _) dk \<longleftrightarrow> dk_listener dk = Some n"
| "expected sr (Status n _ _) dk \<longleftrightarrow> dk_listener dk = Some n"
| "expected sr (Roster_changed n) dk \<longleftrightarrow> dk_listener dk = Some n"
| "expected sr (Connector_failure _) dk \<longleftrightarrow> dk_connector dk"
| "expected sr (Connector_status _ _) dk \<longleftrightarrow> dk_connector dk"
| "expected sr Away dk \<longleftrightarrow> dk_away dk"
| "expected sr Confirm_logout dk \<longleftrightarrow> dk_dialog dk \<and> dk_storage dk \<noteq> None"
| "expected sr Confirm_erase dk \<longleftrightarrow> dk_dialog dk \<and> dk_storage dk \<noteq> None"
| "expected sr Self_removed dk \<longleftrightarrow> dk_dialog dk \<and> dk_storage dk \<noteq> None"
| "expected sr (Login _) dk \<longleftrightarrow> isLogin dk \<and> dk_loginEnabled dk \<and> dk_storage dk = None"
| "expected sr (Password self _ _) dk \<longleftrightarrow> self \<noteq> None \<and> dk_page dk = Options_page"
| "expected sr Password_timer dk \<longleftrightarrow> dk_storage dk \<noteq> None"
| "expected sr Import dk \<longleftrightarrow> dk_storage dk \<noteq> None"
| "expected sr Resume_timer dk \<longleftrightarrow> dk_storage dk \<noteq> None"
| "expected sr (Show pg) dk \<longleftrightarrow> pg \<noteq> Login_page \<and> dk_storage dk \<noteq> None"
| "expected sr _ dk \<longleftrightarrow> True"

fun expected_run :: "surroundings \<Rightarrow> desktop_event list \<Rightarrow> desktop \<Rightarrow> bool" where
  "expected_run sr [] dk \<longleftrightarrow> True"
| "expected_run sr (e # es) dk \<longleftrightarrow> expected sr e dk \<and> (\<forall>dk'. desktop_step sr e dk = Some dk' \<longrightarrow> expected_run sr es dk')"

text \<open>What holds between them.\<close>

definition window_ok :: "desktop \<Rightarrow> bool" where
  "window_ok dk \<longleftrightarrow> (dk_connector dk \<longrightarrow> dk_listener dk \<noteq> None \<and> dk_storage dk \<noteq> None) \<and>
     (dk_instance dk \<longleftrightarrow> dk_storage dk \<noteq> None) \<and>
     (dk_away dk \<longrightarrow> dk_connector dk \<or> dk_listener dk = None) \<and>
     (dk_State dk = ONLINE \<longleftrightarrow> dk_connector dk) \<and>
     (dk_State dk = AUTHORIZING \<longleftrightarrow> dk_listener dk \<noteq> None \<and> \<not> dk_connector dk) \<and>
     (isLogin dk \<and> dk_loginEnabled dk \<and> dk_storage dk = None \<longrightarrow> dk_listener dk = None)"

lemma issue_fields [simp]:
  "dk_listener (issue e dk) = dk_listener dk" "dk_connector (issue e dk) = dk_connector dk"
  "dk_storage (issue e dk) = dk_storage dk" "dk_instance (issue e dk) = dk_instance dk" "dk_away (issue e dk) = dk_away dk"
  "dk_State (issue e dk) = dk_State dk" "dk_page (issue e dk) = dk_page dk" "dk_loginEnabled (issue e dk) = dk_loginEnabled dk"
  "dk_files (issue e dk) = dk_files dk" "dk_dbName (issue e dk) = dk_dbName dk" "dk_creds (issue e dk) = dk_creds dk"
  by (simp_all add: issue_def)

lemma window_frame [simp]:
  "window_ok (dk\<lparr>dk_window := b\<rparr>) = window_ok dk" "window_ok (dk\<lparr>dk_offlineMode := b\<rparr>) = window_ok dk"
  "window_ok (dk\<lparr>dk_powerReconnect := b\<rparr>) = window_ok dk" "window_ok (dk\<lparr>dk_creds := c\<rparr>) = window_ok dk"
  "window_ok (dk\<lparr>dk_config := x\<rparr>) = window_ok dk"
  by (simp_all add: window_ok_def isLogin_def)

lemma window_issue [simp]: "window_ok (issue e dk) = window_ok dk"
  by (simp add: window_ok_def isLogin_def)

lemma offline_fields:
  "dk_listener (offline dk) = None" "dk_connector (offline dk) \<longleftrightarrow> dk_connector dk \<and> dk_listener dk = None"
  "dk_storage (offline dk) = dk_storage dk" "dk_instance (offline dk) = dk_instance dk"
  "dk_State (offline dk) = (if dk_listener dk = None then dk_State dk else OFFLINE)"
  "dk_page (offline dk) = dk_page dk" "dk_loginEnabled (offline dk) = dk_loginEnabled dk"
  "dk_files (offline dk) = dk_files dk" "dk_dbName (offline dk) = dk_dbName dk" "dk_creds (offline dk) = dk_creds dk"
  by (simp_all add: offline_def setState_def Let_def split: option.splits)

lemma window_offline: "window_ok dk \<Longrightarrow> window_ok (offline dk)"
  by (auto simp: window_ok_def isLogin_def offline_fields)

lemma offline_none: "dk_listener dk = None \<Longrightarrow> offline dk = dk"
  by (simp add: offline_def)

lemma window_same:
  assumes "window_ok dk" "dk_listener dk' = dk_listener dk" "dk_connector dk' = dk_connector dk" "dk_instance dk' = dk_instance dk"
    "dk_storage dk' = None \<longleftrightarrow> dk_storage dk = None" "dk_away dk' \<longrightarrow> dk_away dk \<or> dk_connector dk \<or> dk_listener dk = None"
    "dk_State dk' = dk_State dk"
    "isLogin dk' \<and> dk_loginEnabled dk' \<and> dk_storage dk = None \<longrightarrow> isLogin dk \<and> dk_loginEnabled dk \<or> dk_listener dk = None"
  shows "window_ok dk'"
  using assms by (auto simp: window_ok_def)

text \<open>The operations that leave listener, connector and database as they are.\<close>

lemma window_roster: "window_ok dk \<Longrightarrow> window_ok (roster_changed dk)"
  by (rule window_same[of dk]) (simp_all add: roster_changed_def isLogin_def)

lemma window_dialog: "window_ok dk \<Longrightarrow> window_ok (closeDialog dk)" "window_ok dk \<Longrightarrow> window_ok (openLogout dk)"
  by (rule window_same[of dk]; simp add: closeDialog_def openLogout_def isLogin_def)+

lemma window_front: "window_ok dk \<Longrightarrow> window_ok (front_later dk)" "window_ok dk \<Longrightarrow> window_ok (app_inactive dk)"
  "window_ok dk \<Longrightarrow> window_ok (clearRoster dk)"
  by (rule window_same[of dk]; simp add: front_later_def app_inactive_def clearRoster_def isLogin_def)+

lemma window_page: "window_ok dk \<Longrightarrow> dk_storage dk \<noteq> None \<Longrightarrow> window_ok (show_page pg dk)"
  by (rule window_same[of dk]) (auto simp: show_page_def)

lemma window_storage:
  "window_ok dk \<Longrightarrow> window_ok (changeExpiration seconds dk)" "window_ok dk \<Longrightarrow> window_ok (setSelf name dk)"
  "window_ok dk \<Longrightarrow> window_ok (daily sr dk)" "window_ok dk \<Longrightarrow> window_ok (fst (exportDb sr dk))"
  by (rule window_same[of dk]; simp add: changeExpiration_def setSelf_def daily_def exportDb_def isLogin_def Let_def split: option.split prod.split)+

lemmas window_kept = window_roster window_dialog window_front window_page window_storage

section \<open>Going on and off line\<close>

lemma window_failed: "window_ok dk \<Longrightarrow> window_ok (failed code dk)"
  using window_offline[of dk] by (auto simp: failed_def Let_def window_ok_def isLogin_def offline_fields split: prod.split)

lemma window_listen:
  assumes "window_ok dk" "dk_listener dk = None" "\<not> (isLogin dk \<and> dk_loginEnabled dk \<and> dk_storage dk = None)"
  shows "\<exists>dk'. listen creds dk = Some dk' \<and> window_ok dk'"
  using assms by (auto simp: listen_def authorizing_def setState_def window_ok_def isLogin_def)


section \<open>The database can be opened\<close>

lemma keeps_open:
  "(\<And>d d'. q d = Some d' \<Longrightarrow> cd_open d' = cd_open d) \<Longrightarrow> cd_open (perform q db) = cd_open db"
  by (simp add: storage_runQuery_def split: option.split)

lemma open_statements:
  "cd_open (perform (upd_credentials f) db) = cd_open db" "cd_open (perform (set_credentials c) db) = cd_open db"
  "cd_open (perform (ins_credentials c) db) = cd_open db" "cd_open (perform (del_client_messages P) db) = cd_open db"
  "cd_open (perform (ins_contact g) db) = cd_open db"
  by (rule keeps_open; auto simp: upd_credentials_def set_credentials_def ins_credentials_def del_client_messages_def
      ins_contact_def split: if_splits option.splits)+

lemma open_keys: "cd_open (snd (createKeys pair creds db)) = cd_open db"
  by (simp add: createKeys_def open_statements)

lemma open_update: "cd_open (updateCredentials pair creds db) = cd_open db"
  by (simp add: updateCredentials_def open_keys open_statements Let_def split: prod.split)
     (metis open_keys snd_conv)

lemma open_new: "cd_open (Storage_new opens now pair existing creds) = opens"
  by (simp add: Storage_new_def store_keys_def cleanupExpired_def open_statements open_update open_keys
      schema_created_def Let_def split: option.split)

lemma open_database: "cd_open (open_storage sr dbName creds dk) = sr_opens sr dbName"
  by (simp add: open_storage_def open_new)

section \<open>Logging in and out\<close>

lemma window_authorized:
  assumes "window_ok dk" "dk_listener dk \<noteq> None" "dk_storage dk = None \<longrightarrow> sr_opens sr (database_name (sr_qt sr) creds)"
  shows "\<exists>dk'. authorized sr creds dk = Some dk' \<and> window_ok dk'"
proof -
  have online: "window_ok (go_online creds d)" if "dk_storage d \<noteq> None" "dk_instance d" "dk_listener d \<noteq> None" for d
    using that by (auto simp: go_online_def setState_def isLogin_def Let_def window_ok_def)
  show ?thesis
    using assms by (cases "dk_storage dk")
      (auto simp: authorized_def authorized_storage_def open_database Let_def window_ok_def[of dk] intro!: online)
qed

text \<open>What follows a logout: no listener, no connector, no database, and the page to log in.\<close>

definition logged_out :: "desktop \<Rightarrow> bool" where
  "logged_out dk \<longleftrightarrow> dk_listener dk = None \<and> \<not> dk_connector dk \<and> dk_storage dk = None \<and> \<not> dk_instance dk \<and>
     isLogin dk \<and> dk_loginEnabled dk \<and> dk_State dk \<noteq> ONLINE \<and> dk_State dk \<noteq> AUTHORIZING"

lemma logged_out_ok: "logged_out dk \<Longrightarrow> window_ok dk"
  by (auto simp: logged_out_def window_ok_def)

lemma offline_state:
  assumes "window_ok dk"
  shows "dk_State (offline dk) \<noteq> ONLINE \<and> dk_State (offline dk) \<noteq> AUTHORIZING \<and> \<not> dk_connector (offline dk)"
  using assms by (auto simp: window_ok_def offline_fields)

lemma logout_logged_out:
  assumes "window_ok dk"
  shows "logged_out (show_login (delete_storage sr (offline dk)))"
  using offline_state[OF assms] by (simp add: logged_out_def show_login_def delete_storage_def isLogin_def offline_fields)

lemma logged_out_same:
  assumes "logged_out dk" "dk_listener dk' = dk_listener dk" "dk_connector dk' = dk_connector dk" "dk_instance dk' = dk_instance dk"
    "dk_storage dk' = dk_storage dk" "dk_State dk' = dk_State dk" "dk_page dk' = dk_page dk" "dk_loginEnabled dk' = dk_loginEnabled dk"
  shows "logged_out dk'"
  using assms by (simp add: logged_out_def isLogin_def)

lemma window_logout:
  assumes "window_ok dk" "dk_dialog dk" "dk_storage dk \<noteq> None"
  shows "\<exists>dk'. closeLogout sr dk = Some dk' \<and> logged_out dk'" "\<exists>dk'. eraseLogout sr dk = Some dk' \<and> logged_out dk'"
proof -
  let ?dk = "closeDialog (issue (Storage_changed False) ((issue Logged_out dk)\<lparr>dk_offlineMode := True, dk_config := []\<rparr>))"
  have "window_ok ?dk" using assms(1) by (intro window_dialog) (auto simp: window_ok_def isLogin_def)
  from logout_logged_out[OF this, of sr] have out: "logged_out (show_login (delete_storage sr (offline ?dk)))" .
  show "\<exists>dk'. closeLogout sr dk = Some dk' \<and> logged_out dk'"
    using assms(2,3) logged_out_same[OF out] by (simp add: closeLogout_def Let_def show_login_def)
  show "\<exists>dk'. eraseLogout sr dk = Some dk' \<and> logged_out dk'"
    using assms(2,3) logged_out_same[OF out] by (simp add: eraseLogout_def Let_def show_login_def)
qed

lemma window_import:
  assumes "window_ok dk" "dk_storage dk \<noteq> None"
  shows "\<exists>dk'. restore sr dk = Some dk' \<and> window_ok dk'"
proof -
  let ?dk = "show_login (delete_storage sr (offline ((issue (Storage_changed False) dk)\<lparr>dk_offlineMode := True\<rparr>)))"
  obtain files ok where imp: "importDb (sr_developer sr) (sr_prefix sr) (dk_dbName ?dk) (dk_creds ?dk) (dk_files ?dk) = (files, ok)"
    by fastforce
  let ?db = "open_storage sr (dk_dbName ?dk) Map.empty (?dk\<lparr>dk_files := files\<rparr>)"
  have "window_ok ((issue (Storage_changed False) dk)\<lparr>dk_offlineMode := True\<rparr>)"
    using assms(1) by (auto simp: window_ok_def isLogin_def)
  from logout_logged_out[OF this, of sr] have out: "logged_out (?dk\<lparr>dk_files := files\<rparr>)"
    by (rule logged_out_same) simp_all
  show ?thesis
  proof (cases "ok \<and> cd_open ?db")
    case True
    let ?on = "issue (Storage_changed True) (?dk\<lparr>dk_files := files, dk_storage := Some ?db, dk_instance := True\<rparr>)"
    have "window_ok ?on" using out by (auto simp: logged_out_def window_ok_def isLogin_def)
    moreover have "dk_listener ?on = None" using out by (simp add: logged_out_def)
    ultimately obtain dk' where "listen (storage_credentials ?db) ?on = Some dk'" "window_ok dk'"
      using window_listen[of ?on] by fastforce
    with True assms(2) imp show ?thesis by (simp add: restore_def Let_def)
  next
    case False
    with assms(2) imp logged_out_ok[OF out] show ?thesis by (auto simp: restore_def Let_def)
  qed
qed

lemma window_login:
  assumes "window_ok dk" "isLogin dk" "dk_loginEnabled dk" "dk_storage dk = None"
  shows "\<exists>dk'. initial sr login dk = Some dk' \<and> window_ok dk'"
proof (cases login)
  case None
  with window_same[OF assms(1)] show ?thesis by (simp add: initial_def isLogin_def)
next
  case (Some creds)
  from assms have none: "dk_listener dk = None" "\<not> dk_instance dk" by (auto simp: window_ok_def)
  obtain files creds' where ini: "initialLogin (sr_opens sr (database_name (sr_qt sr) creds)) (sr_now sr) (sr_pair sr) (sr_prefix sr)
      (database_name (sr_qt sr) creds) creds (dk_files dk) = (files, creds')" by fastforce
  let ?dk = "dk\<lparr>dk_files := files, dk_creds := creds', dk_loginEnabled := False\<rparr>"
  have "window_ok ?dk" using assms by (auto simp: window_ok_def isLogin_def)
  then obtain dk' where "listen creds' ?dk = Some dk'" "window_ok dk'" using window_listen[of ?dk creds'] none by auto
  with ini Some none show ?thesis by (simp add: initial_def)
qed

section \<open>The user, the system and the timers\<close>

lemma window_connect:
  assumes "window_ok dk" "dk_listener dk = None" "dk_storage dk \<noteq> None"
  shows "\<exists>dk'. listen creds dk = Some dk' \<and> window_ok dk'"
  using window_listen[OF assms(1,2)] assms(3) by simp

lemma window_away:
  assumes "window_ok dk" "dk_away dk"
  shows "\<exists>dk'. trayAway dk = Some dk' \<and> window_ok dk'"
proof (cases "dk_connector dk")
  case True
  with assms(1) show ?thesis by (simp add: trayAway_def window_offline)
next
  case False
  with assms have "dk_listener dk = None" by (simp add: window_ok_def)
  with False window_connect[OF assms(1)] assms(1) show ?thesis by (auto simp: trayAway_def split: option.split)
qed

lemma window_password:
  assumes "window_ok dk" "self \<noteq> None"
  shows "\<exists>dk'. changePassword sr self password dk = Some dk' \<and> window_ok dk'"
proof (cases "dk_creds dk ''secret'' = Some password \<or> \<not> dk_connector dk")
  case False
  obtain num uri where self: "self = Some (num, uri)" using assms(2) by auto
  have "window_ok ((issue e dk)\<lparr>dk_page := Sessions_page, dk_window := False, dk_offlineMode := True\<rparr>)" for e
    using False assms(1) by (auto simp: window_ok_def isLogin_def)
  from window_offline[OF this] show ?thesis using False by (simp add: changePassword_def Let_def self)
qed (use assms(1) in \<open>auto simp: changePassword_def\<close>)

lemma window_options:
  assumes "window_ok dk" "self \<noteq> None"
  shows "\<exists>dk'. options_password sr self secret confirm dk = Some dk' \<and> window_ok dk'"
  using window_password[OF assms, of sr secret] assms(1) by (auto simp: options_password_def)

lemma window_password_later:
  assumes "window_ok dk" "dk_storage dk \<noteq> None"
  shows "\<exists>dk'. password_later dk = Some dk' \<and> window_ok dk'"
  using window_connect[OF assms(1) _ assms(2), of "dk_creds dk"] assms(1)
  by (cases "\<not> dk_connector dk \<and> dk_listener dk = None") (auto simp: password_later_def)

lemma window_suspend: "window_ok dk \<Longrightarrow> window_ok (powerSuspend dk)"
  using window_offline[of "(closeDialog dk)\<lparr>dk_window := False, dk_offlineMode := True\<rparr>"] window_dialog(1)[of dk]
  by (simp add: powerSuspend_def)

lemma window_resume: "window_ok dk \<Longrightarrow> window_ok (powerResume dk)"
  by (simp add: powerResume_def)

lemma window_resume_later:
  assumes "window_ok dk" "dk_storage dk \<noteq> None"
  shows "\<exists>dk'. resume_later dk = Some dk' \<and> window_ok dk'"
  using window_connect[of "dk\<lparr>dk_window := True\<rparr>"] assms
  by (cases "dk_connector dk \<or> dk_listener dk \<noteq> None") (auto simp: resume_later_def Let_def)

lemma window_active:
  assumes "window_ok dk"
  shows "\<exists>dk'. app_active dk = Some dk' \<and> window_ok dk'"
proof (cases "dk_storage dk")
  case (Some db)
  with window_connect[OF assms, of "storage_credentials db"] assms show ?thesis
    by (cases "dk_listener dk = None \<and> \<not> dk_front dk \<and> \<not> dk_offlineMode dk") (auto simp: app_active_def)
qed (simp add: app_active_def assms)

lemma desktop_start_ok:
  "\<exists>dk. desktop_start sr reset config lifetime files = Some dk \<and> window_ok dk"
  by (auto simp: desktop_start_def start_settings_def Let_def open_database listen_def authorizing_def setState_def show_login_def window_ok_def isLogin_def)

lemma window_step:
  assumes "window_ok dk" "expected sr e dk"
  shows "\<exists>dk'. desktop_step sr e dk = Some dk' \<and> window_ok dk'"
proof (cases e)
  case (Starting n)
  with assms show ?thesis by (auto simp: authorizing_def setState_def window_ok_def isLogin_def)
next
  case (Login login)
  with assms show ?thesis by (simp add: window_login)
next
  case (Password self secret confirm)
  with assms window_options[of dk self sr secret confirm] show ?thesis by simp
next
  case (Expiration entry)
  with assms show ?thesis by (simp add: options_expiration_def window_kept Let_def)
qed (use assms window_authorized window_logout logged_out_ok in
  \<open>fastforce simp: window_kept window_offline window_failed statusResult_def window_import window_away
     window_password_later window_suspend window_resume window_resume_later window_active\<close>)+

lemma window_run:
  "window_ok dk \<Longrightarrow> expected_run sr es dk \<Longrightarrow> \<exists>dk'. desktop_run sr es dk = Some dk' \<and> window_ok dk'"
proof (induction es arbitrary: dk)
  case (Cons e es)
  then obtain dk1 where "desktop_step sr e dk = Some dk1" "window_ok dk1" using window_step by fastforce
  with Cons show ?case by auto
qed simp

section \<open>Properties\<close>

text \<open>
  C16. The window is what its state says. From any start of the client, with or without a database, and for
  every sequence of expected events (signals of the current listener, enabled actions, and timers, of the
  system or its own, while somebody is logged in) no assertion fails and no null pointer is followed.
  The state is online exactly when there is a connector, and then there is a listener and a database;
  it is authorizing exactly when there is a listener and no connector; the away action is only
  enabled when it can act, and the login page only when nothing is in its way. A shutdown then
  stops everything and leaves in the files what the open database holds.
\<close>

theorem window_safe:
  "\<exists>dk0. desktop_start sr reset config lifetime files = Some dk0 \<and>
     (\<forall>es. expected_run sr es dk0 \<longrightarrow> (\<exists>dk. desktop_run sr es dk0 = Some dk \<and> window_ok dk \<and>
        (let down = desktop_shutdown sr dk in dk_listener down = None \<and> \<not> dk_connector down \<and> dk_storage down = None \<and>
           dk_files down = current_files sr dk)))"
proof -
  obtain dk0 where "desktop_start sr reset config lifetime files = Some dk0" "window_ok dk0" using desktop_start_ok by blast
  moreover have "let down = desktop_shutdown sr dk in dk_listener down = None \<and> \<not> dk_connector down \<and> dk_storage down = None \<and>
      dk_files down = current_files sr dk" for dk
    by (auto simp: desktop_shutdown_def delete_storage_def current_files_def issue_def Let_def split: option.split)
  ultimately show ?thesis using window_run by blast
qed

definition sample_surroundings :: surroundings where
  "sample_surroundings = \<lparr>sr_qt = sample_qt, sr_now = \<lparr>toMSecs = 0, offsetFromUtc = 0\<rparr>, sr_pair = (''d'', ''r''), sr_prefix = ''/p'',
     sr_developer = False, sr_opens = (\<lambda>_. True)\<rparr>"

lemma window_safe_witness:
  "\<exists>dk0 dk. desktop_start sample_surroundings True [] 0 Map.empty = Some dk0 \<and>
     desktop_run sample_surroundings [Login (Some [''label'' \<mapsto> ''desk'']), Starting 0, Listener_failure 0 404, Logout, Cancel_dialog, Suspend] dk0 = Some dk \<and>
     window_ok dk"
proof -
  obtain dk0 where start: "desktop_start sample_surroundings True [] 0 Map.empty = Some dk0"
    and run: "\<forall>es. expected_run sample_surroundings es dk0 \<longrightarrow> (\<exists>dk. desktop_run sample_surroundings es dk0 = Some dk \<and> window_ok dk)"
    using window_safe[of sample_surroundings True "[]" 0 Map.empty] by blast
  have "expected_run sample_surroundings [Login (Some [''label'' \<mapsto> ''desk'']), Starting 0, Listener_failure 0 404, Logout, Cancel_dialog, Suspend] dk0"
    using start by (auto simp: desktop_start_def start_settings_def storage_exists_def show_login_def isLogin_def initial_def initialLogin_def listen_def
        authorizing_def setState_def Let_def storage_remove_def split: prod.splits if_splits)
  with run start show ?thesis by blast
qed

text \<open>
  C36. What the window does not expect. In any state in which it is what its state says: \<open>finished\<close> from a
  listener that was stopped takes the new session off line, for nobody asks who sent it; an \<open>authorize\<close> that was still
  queued when the window went off line gives a connector without a listener, which going away does not
  stop; a timer that resumes after a logout follows a null database; a
  database that cannot be created leaves the window authorizing, and the next authorization fails an
  assertion; one's own removal, and a logout when nobody is logged in, fail an assertion; and after a
  restored backup the login page is enabled while a login fails an assertion.
\<close>

theorem window_hazards:
  assumes "window_ok dk"
  shows "(\<forall>n m. dk_listener dk = Some m \<and> n \<noteq> m \<longrightarrow> (\<exists>dk'. desktop_step sr (Listener_finished n) dk = Some dk' \<and>
       dk_listener dk' = None \<and> \<not> dk_connector dk' \<and> dk_State dk' = OFFLINE)) \<and>
    (\<forall>n creds. dk_listener dk = None \<and> dk_storage dk \<noteq> None \<longrightarrow> (\<exists>dk' dk''. desktop_step sr (Authorize n creds) dk = Some dk' \<and>
       dk_connector dk' \<and> dk_listener dk' = None \<and> dk_away dk' \<and> desktop_step sr Away dk' = Some dk'' \<and> dk_connector dk'')) \<and>
    (dk_listener dk = None \<and> dk_storage dk = None \<longrightarrow> desktop_step sr Resume_timer dk = None) \<and>
    (\<forall>n creds. dk_listener dk = Some n \<and> dk_storage dk = None \<and> \<not> sr_opens sr (database_name (sr_qt sr) creds) \<longrightarrow>
       (\<exists>dk'. desktop_step sr (Authorize n creds) dk = Some dk' \<and> dk_State dk' = AUTHORIZING \<and> dk_storage dk' = None \<and>
          (\<forall>m creds'. desktop_step sr (Authorize m creds') dk' = None))) \<and>
    (\<not> dk_dialog dk \<longrightarrow> desktop_step sr Self_removed dk = None) \<and>
    (dk_storage dk = None \<longrightarrow> desktop_step sr Confirm_logout dk = None) \<and>
    (\<forall>dk' creds. desktop_step sr Import dk = Some dk' \<and> dk_storage dk' \<noteq> None \<longrightarrow> isLogin dk' \<and> dk_loginEnabled dk' \<and>
       desktop_step sr (Login (Some creds)) dk' = None)"
proof (intro conjI allI impI)
  fix n creds assume none: "dk_listener dk = None \<and> dk_storage dk \<noteq> None"
  then have "\<exists>dk'. desktop_step sr (Authorize n creds) dk = Some dk' \<and> dk_connector dk' \<and> dk_listener dk' = None \<and> dk_away dk'"
    using assms by (auto simp: window_ok_def authorized_def authorized_storage_def go_online_def setState_def isLogin_def Let_def)
  then show "\<exists>dk' dk''. desktop_step sr (Authorize n creds) dk = Some dk' \<and> dk_connector dk' \<and> dk_listener dk' = None \<and> dk_away dk' \<and>
      desktop_step sr Away dk' = Some dk'' \<and> dk_connector dk''"
    by (fastforce simp: trayAway_def offline_fields)
next
  fix n creds assume "dk_listener dk = Some n \<and> dk_storage dk = None \<and> \<not> sr_opens sr (database_name (sr_qt sr) creds)"
  then show "\<exists>dk'. desktop_step sr (Authorize n creds) dk = Some dk' \<and> dk_State dk' = AUTHORIZING \<and> dk_storage dk' = None \<and>
      (\<forall>m creds'. desktop_step sr (Authorize m creds') dk' = None)"
    using assms by (auto simp: window_ok_def authorized_def authorized_storage_def open_database Let_def)
next
  fix dk' creds assume imp: "desktop_step sr Import dk = Some dk' \<and> dk_storage dk' \<noteq> None"
  then have "dk_listener dk' \<noteq> None \<and> isLogin dk' \<and> dk_loginEnabled dk'"
    by (auto simp: restore_def delete_storage_def show_login_def listen_def authorizing_def setState_def isLogin_def Let_def
        split: if_splits prod.splits)
  then show "isLogin dk'" "dk_loginEnabled dk'" "desktop_step sr (Login (Some creds)) dk' = None"
    by (auto simp: initial_def listen_def Let_def split: prod.split)
qed (use assms in \<open>auto simp: window_ok_def offline_fields resume_later_def eraseLogout_def closeLogout_def Let_def\<close>)

lemma window_hazards_witness:
  "\<exists>dk. desktop_start sample_surroundings True [] 0 Map.empty = Some dk \<and> desktop_step sample_surroundings Resume_timer dk = None \<and>
     desktop_step sample_surroundings Confirm_logout dk = None"
proof -
  obtain dk where start: "desktop_start sample_surroundings True [] 0 Map.empty = Some dk" "window_ok dk"
    using desktop_start_ok by blast
  then have "dk_listener dk = None" "dk_storage dk = None"
    by (auto simp: desktop_start_def start_settings_def storage_exists_def show_login_def Let_def)
  with start window_hazards[OF start(2), of sample_surroundings] show ?thesis by blast
qed

section \<open>Logging in again\<close>

definition live :: "qdatetime \<Rightarrow> client_message \<Rightarrow> bool" where
  "live now m \<longleftrightarrow> \<not> (toMSecs (mg_expires m) > toMSecs (mg_posted m) \<and> toMSecs (mg_expires m) < toMSecs now)"

text \<open>The same contacts, devices, and the messages of the other database that satisfy \<open>P\<close>.\<close>

definition holds :: "(client_message \<Rightarrow> bool) \<Rightarrow> client_db \<Rightarrow> client_db \<Rightarrow> bool" where
  "holds P db db' \<longleftrightarrow> cd_contacts db' = cd_contacts db \<and> cd_devices db' = cd_devices db \<and> cd_messages db' = filter P (cd_messages db)"

lemma holds_simps [simp]: "holds (\<lambda>_. True) db db" "holds P db (db'\<lparr>cd_open := b\<rparr>) = holds P db db'"
  "holds P db (db'\<lparr>cd_credentials := c\<rparr>) = holds P db db'"
  by (simp_all add: holds_def)

lemma holds_credentials [simp]:
  "holds P db (perform (upd_credentials f) db') = holds P db db'" "holds P db (perform (set_credentials c) db') = holds P db db'"
  "holds P db (perform (ins_credentials c) db') = holds P db db'"
  by (auto simp: storage_runQuery_def upd_credentials_def set_credentials_def ins_credentials_def split: option.split)

lemma holds_update [simp]: "holds P db (updateCredentials pair creds db') = holds P db db'"
  by (simp add: updateCredentials_def createKeys_def Let_def)

lemma holds_cleanup:
  "cd_open db' \<Longrightarrow> holds P db db' \<Longrightarrow> holds (\<lambda>m. P m \<and> live now m) db (cleanupExpired now db')"
  by (simp add: cleanupExpired_def storage_runQuery_def del_client_messages_def holds_def live_def conj_commute)

lemma holds_reopened:
  "holds P db old \<Longrightarrow> holds (\<lambda>m. P m \<and> live now m) db (Storage_new True now pair (Some old) creds)"
  by (simp add: Storage_new_def holds_cleanup open_update)

lemma holds_created: "holds P schema_created (Storage_new True now pair None creds)"
  by (simp add: Storage_new_def store_keys_def createKeys_def) (simp add: holds_def schema_created_def)

lemma name_nonempty: "database_name Q creds \<noteq> []"
  by (simp add: database_name_def)

lemma logout_files:
  "closeLogout sr dk = Some dk' \<Longrightarrow> dk_files dk' = current_files sr dk"
  "eraseLogout sr dk = Some dk' \<Longrightarrow> dk_files dk' = storage_remove (sr_prefix sr) (dk_dbName dk) (current_files sr dk)"
  by (auto simp: closeLogout_def eraseLogout_def delete_storage_def current_files_def show_login_def offline_fields closeDialog_def
      issue_def Let_def split: if_splits)

lemma initialLogin_files:
  "name \<noteq> [] \<Longrightarrow> files (storagePath prefix name) = Some old \<Longrightarrow> fst (initialLogin True now pair prefix name login files) =
     files(storagePath prefix name \<mapsto> Storage_new True now pair (Some old) (login(''initialize'' \<mapsto> ''user'')))"
  "files (storagePath prefix name) = None \<Longrightarrow> fst (initialLogin True now pair prefix name login files) = files"
  by (simp_all add: initialLogin_def storage_exists_def open_new Let_def)

text \<open>The login page and the listener's answer, from any state after a logout.\<close>

lemma login_steps:
  assumes "logged_out dk" "database_name (sr_qt sr) login = name" "database_name (sr_qt sr) creds = name" "sr_opens sr name"
  obtains dk1 dk2 where "desktop_step sr (Login (Some login)) dk = Some dk1" "desktop_step sr (Authorize n creds) dk1 = Some dk2"
    "dk_State dk2 = ONLINE" "dk_files dk1 = fst (initialLogin True (sr_now sr) (sr_pair sr) (sr_prefix sr) name login (dk_files dk))"
    "dk_storage dk2 = Some (if storage_exists (sr_prefix sr) name (dk_files dk1) then open_storage sr name creds dk1
       else first_contacts creds (open_storage sr name creds dk1))"
proof -
  obtain files creds1 where ini: "initialLogin True (sr_now sr) (sr_pair sr) (sr_prefix sr) name login (dk_files dk) = (files, creds1)"
    by fastforce
  let ?dk = "dk\<lparr>dk_files := files, dk_creds := creds1, dk_loginEnabled := False\<rparr>"
  obtain dk1 where dk1: "listen creds1 ?dk = Some dk1" "dk_files dk1 = files" "dk_storage dk1 = None" "\<not> dk_instance dk1" "dk_listener dk1 \<noteq> None"
    using assms(1) by (auto simp: logged_out_def listen_def authorizing_def setState_def issue_def)
  have login: "desktop_step sr (Login (Some login)) dk = Some dk1"
    using assms ini dk1(1) by (simp add: logged_out_def initial_def)
  have same: "open_storage sr name creds (dk1\<lparr>dk_creds := c, dk_offlineMode := b, dk_dbName := x, dk_config := y\<rparr>) = open_storage sr name creds dk1"
    for c b x y by (simp add: open_storage_def)
  obtain dk2 where dk2: "desktop_step sr (Authorize n creds) dk1 = Some dk2" "dk_State dk2 = ONLINE"
    "dk_storage dk2 = Some (if storage_exists (sr_prefix sr) name (dk_files dk1) then open_storage sr name creds dk1
       else first_contacts creds (open_storage sr name creds dk1))"
    using dk1(3,4) assms(3,4)
    by (simp add: authorized_def authorized_storage_def go_online_def setState_def open_database same Let_def)
  from dk1(2) ini show thesis by (intro that[OF login dk2(1,2) _ dk2(3)]) simp
qed

text \<open>
  C35. Logging out keeps the database, erasing forgets it. After a logout, the next login with the same
  extension and label, once the server accepts it, brings back the contacts and the devices as they were
  and the messages that have not expired; after an erasing logout it starts with a new database: no
  message, no device, and as contacts only oneself and the operators.
\<close>

theorem login_again:
  assumes "window_ok dk" "dk_dialog dk" "dk_storage dk = Some db" "dk_dbName dk = database_name (sr_qt sr) creds"
    "database_name (sr_qt sr) login = database_name (sr_qt sr) creds" "sr_opens sr (database_name (sr_qt sr) creds)"
  shows "(\<exists>dk' db'. desktop_run sr [Confirm_logout, Login (Some login), Authorize n creds] dk = Some dk' \<and> dk_State dk' = ONLINE \<and>
      dk_storage dk' = Some db' \<and> cd_contacts db' = cd_contacts db \<and> cd_devices db' = cd_devices db \<and>
      cd_messages db' = filter (live (sr_now sr)) (cd_messages db)) \<and>
    (\<exists>dk' db'. desktop_run sr [Confirm_erase, Login (Some login), Authorize n creds] dk = Some dk' \<and> dk_State dk' = ONLINE \<and>
      dk_storage dk' = Some db' \<and> map ct_user (cd_contacts db') = [cred creds ''user'', ''operators''] \<and>
      cd_devices db' = [] \<and> cd_messages db' = [])" (is "?keep \<and> ?forget")
proof
  let ?name = "database_name (sr_qt sr) creds"
  let ?path = "storagePath (sr_prefix sr) ?name"
  from window_logout(1)[OF assms(1,2)] assms(3) obtain out where out: "closeLogout sr dk = Some out" "logged_out out" by auto
  obtain dk1 dk2 where login: "desktop_step sr (Login (Some login)) out = Some dk1" "desktop_step sr (Authorize n creds) dk1 = Some dk2"
    "dk_State dk2 = ONLINE" and files: "dk_files dk1 = fst (initialLogin True (sr_now sr) (sr_pair sr) (sr_prefix sr) ?name login (dk_files out))"
    and storage: "dk_storage dk2 = Some (if storage_exists (sr_prefix sr) ?name (dk_files dk1) then open_storage sr ?name creds dk1
       else first_contacts creds (open_storage sr ?name creds dk1))"
    by (rule login_steps[OF out(2) assms(5) refl assms(6)])
  obtain tmp where tmp: "dk_files dk1 ?path = Some tmp" "holds (live (sr_now sr)) db tmp"
    using files logout_files(1)[OF out(1)] assms(3,4) holds_reopened[of "\<lambda>_. True" db db]
    by (simp add: initialLogin_files name_nonempty current_files_def database_path_def)
  then have "holds (live (sr_now sr)) db (open_storage sr ?name creds dk1)"
    using holds_reopened[OF tmp(2), of "sr_now sr" "sr_pair sr" creds] assms(6)
    by (simp add: open_storage_def storage_exists_def name_nonempty database_path_def)
  with login storage tmp(1) out(1) show ?keep by (simp add: storage_exists_def name_nonempty holds_def)
next
  let ?name = "database_name (sr_qt sr) creds"
  from window_logout(2)[OF assms(1,2)] assms(3) obtain out where out: "eraseLogout sr dk = Some out" "logged_out out" by auto
  obtain dk1 dk2 where login: "desktop_step sr (Login (Some login)) out = Some dk1" "desktop_step sr (Authorize n creds) dk1 = Some dk2"
    "dk_State dk2 = ONLINE" and files: "dk_files dk1 = fst (initialLogin True (sr_now sr) (sr_pair sr) (sr_prefix sr) ?name login (dk_files out))"
    and storage: "dk_storage dk2 = Some (if storage_exists (sr_prefix sr) ?name (dk_files dk1) then open_storage sr ?name creds dk1
       else first_contacts creds (open_storage sr ?name creds dk1))"
    by (rule login_steps[OF out(2) assms(5) refl assms(6)])
  have gone: "\<not> storage_exists (sr_prefix sr) ?name (dk_files dk1)"
    using files logout_files(2)[OF out(1)] assms(4) by (simp add: initialLogin_files storage_exists_def storage_remove_def)
  let ?db = "open_storage sr ?name creds dk1"
  have "holds (\<lambda>_. True) schema_created ?db" using gone assms(6) by (simp add: open_storage_def holds_created)
  with gone storage login out(1) open_database[of sr ?name creds dk1] assms(6) show ?forget
    by (simp add: first_contacts_def storage_runQuery_def ins_contact_def holds_def schema_created_def new_contact_def Let_def)
qed

definition sample_member :: credentials where
  "sample_member = [''extension'' \<mapsto> ''101'', ''label'' \<mapsto> ''desk'', ''user'' \<mapsto> ''anna'']"

definition sample_window :: desktop where
  "sample_window = \<lparr>dk_listener = Some 0, dk_freshListener = 1, dk_connector = True, dk_storage = Some schema_created, dk_instance = True,
     dk_files = Map.empty, dk_State = ONLINE, dk_creds = sample_member, dk_dbName = database_name sample_qt sample_member,
     dk_config = [], dk_expires = 0, dk_page = Sessions_page, dk_away = True, dk_window = False, dk_loginEnabled = False, dk_dialog = True,
     dk_front = True, dk_offlineMode = False, dk_powerReconnect = False, dk_updateRoster = False, dk_peering = [], dk_out = []\<rparr>"

lemma login_again_witness:
  "(\<exists>dk' db'. desktop_run sample_surroundings [Confirm_logout, Login (Some sample_member), Authorize 1 sample_member] sample_window = Some dk' \<and>
      dk_State dk' = ONLINE \<and> dk_storage dk' = Some db' \<and> cd_contacts db' = cd_contacts schema_created \<and>
      cd_devices db' = cd_devices schema_created \<and>
      cd_messages db' = filter (live (sr_now sample_surroundings)) (cd_messages schema_created)) \<and>
   (\<exists>dk' db'. desktop_run sample_surroundings [Confirm_erase, Login (Some sample_member), Authorize 1 sample_member] sample_window = Some dk' \<and>
      dk_State dk' = ONLINE \<and> dk_storage dk' = Some db' \<and> map ct_user (cd_contacts db') = [cred sample_member ''user'', ''operators''] \<and>
      cd_devices db' = [] \<and> cd_messages db' = [])"
  by (rule login_again) (simp_all add: sample_window_def window_ok_def isLogin_def sample_surroundings_def)

end
