(* ===== verification/ContactPages.thy ===== *)
theory ContactPages
  imports Agreement Phonebooks Desktops
begin

text \<open>
  What an administrator or a user changes in the phonebook: the dialogs for a new user and a new group
  (\<open>Dialogs/adduser.cpp\<close>, \<open>newgroup.cpp\<close>, \<open>delauth.cpp\<close>), the page of a contact and its members
  (\<open>Desktop/phonebook.cpp\<close>), as the requests that are sent. A message of the status bar is an effect; a null pointer
  that is followed is \<open>None\<close>.
\<close>

section \<open>Dialogs\<close>

record user_form =
  uf_user :: string
  uf_extension :: string
  uf_secret :: string
  uf_confirm :: string
  uf_name :: string
  uf_type :: string

text \<open>Whether the fields for a new user can be edited, and the colour that says that both passwords agree.\<close>

definition changedAuth :: "string \<Rightarrow> phonebook \<Rightarrow> bool" where
  "changedAuth name pb \<longleftrightarrow> name \<notin> set (allUsers pb)"

definition secretChanged :: "user_form \<Rightarrow> string" where
  "secretChanged uf = (if uf_secret uf = uf_confirm uf then ''background: white; padding: 1px;''
     else ''color: red; background: white; padding: 1px'')"

definition new_user_json :: "qt_lib \<Rightarrow> credentials \<Rightarrow> user_form \<Rightarrow> int \<Rightarrow> json_object" where
  "new_user_json Q creds uf num =
    (let realm = cred creds ''realm''; digest = toUpper (cred creds ''algorithm'')
     in [(''s'', JString (hash_hex Q (digest_of crypto_digests digest) (uf_user uf @ '':'' @ realm @ '':'' @ uf_secret uf))),
         (''r'', JString realm), (''d'', JString digest), (''f'', JString (uf_name uf)), (''a'', JString (uf_user uf)),
         (''t'', JString (toUpper (uf_type uf))), (''n'', JInt num)])"

definition more_json :: "user_form \<Rightarrow> int \<Rightarrow> json_object" where
  "more_json uf num = [(''f'', JString (uf_name uf)), (''e'', JString (uf_user uf)), (''t'', JString (toUpper (uf_type uf))), (''n'', JInt num)]"

text \<open>\<open>Inl\<close> is the message of a refused form.\<close>

definition AddUser_add :: "qt_lib \<Rightarrow> bool \<Rightarrow> credentials \<Rightarrow> phonebook \<Rightarrow> user_form \<Rightarrow> connector \<Rightarrow> string + client_request option" where
  "AddUser_add Q built creds pb uf cn =
    (let num = qs_toInt (uf_extension uf); createAuth = (uf_user uf \<notin> set (allUsers pb))
     in if createAuth \<and> uf_name uf = [] then Inl ''Name missing for new user''
        else if createAuth \<and> uf_secret uf = [] then Inl ''Password missing for new user''
        else if createAuth \<and> uf_secret uf \<noteq> uf_confirm uf then Inl ''Password does not match confirmation''
        else if num < 100 \<or> num > 699 then Inl ''Invalid or missing extension''
        else Inr (createAuthorize built (number num)
          (q_toJson Q (JObject (if createAuth then new_user_json Q creds uf num else more_json uf num))) cn))"

text \<open>A group has its identity as name when none is given.\<close>

definition NewGroup_add :: "qt_lib \<Rightarrow> bool \<Rightarrow> phonebook \<Rightarrow> user_form \<Rightarrow> connector \<Rightarrow> string + client_request option" where
  "NewGroup_add Q built pb uf cn =
    (let num = qs_toInt (uf_extension uf); name = (if uf_name uf = [] then uf_user uf else uf_name uf)
     in if uf_user uf = [] then Inl ''Identity missing for new group''
        else if uf_user uf \<in> set (allUsers pb) then Inl (''Identity '' @ [CHR 0x22] @ uf_user uf @ [CHR 0x22] @ '' already in use'')
        else if num < 100 \<or> num > 699 then Inl ''Invalid or missing extension''
        else if phonebook_find num pb \<noteq> None then Inl (''Extension '' @ [CHR 0x22] @ number num @ [CHR 0x22] @ '' already in use'')
        else Inr (createAuthorize built (number num) (q_toJson Q (JObject
          [(''f'', JString name), (''a'', JString (uf_user uf)), (''t'', JString (toUpper (uf_type uf))), (''n'', JInt num)])) cn))"

text \<open>The number of extensions that a removal takes, and the removal.\<close>

definition DelAuth_new :: "string \<Rightarrow> phonebook \<Rightarrow> nat option" where
  "DelAuth_new ident pb = do { ps \<leftarrow> findAuth ident pb; if ps = [] then None else Some (length ps) }"

definition DelAuth_accept :: "bool \<Rightarrow> string \<Rightarrow> connector \<Rightarrow> client_request option" where
  "DelAuth_accept built ident cn = requestDeauthorize_client built ident cn"

section \<open>The page of a contact\<close>

datatype page_effect =
    Page_error string
  | Page_status string
  | Page_request "client_request option"
  | Page_waits \<comment> \<open>\<open>changePending\<close>\<close>
  | Page_reset ptr \<comment> \<open>the fields show the contact again\<close>

record contact_page =
  pp_active :: "ptr option" \<comment> \<open>\<open>activeItem\<close>\<close>
  pp_updates :: bool \<comment> \<open>not \<open>disableUpdates\<close>\<close>
  pp_connector :: "connector option"
  pp_label :: string
  pp_key :: string
  pp_agent :: string

definition sendForwarding :: "bool \<Rightarrow> forwarding \<Rightarrow> string \<Rightarrow> contact_page \<Rightarrow> phonebook \<Rightarrow> page_effect list option" where
  "sendForwarding built fwd txt pg pb =
    (let target = (if txt = [] then -1 else qs_toInt txt)
     in case pp_active pg of None \<Rightarrow> Some []
     | Some p \<Rightarrow> if \<not> pp_updates pg then Some []
       else case pp_connector pg of None \<Rightarrow> Some [Page_error ''Cannot modify while offline'']
       | Some cn \<Rightarrow> do {
           it \<leftarrow> pb_items pb p;
           Some [Page_status ''changing forwarding'', Page_request (changeForwarding_client built (it_uri it) fwd target cn), Page_waits] })"

text \<open>The entry of the list of coverages; the first is \<open>never\<close>.\<close>

definition page_coverage :: "bool \<Rightarrow> int \<Rightarrow> contact_page \<Rightarrow> phonebook \<Rightarrow> page_effect list option" where
  "page_coverage built index pg pb = (case pp_active pg of None \<Rightarrow> Some []
     | Some p \<Rightarrow> if \<not> pp_updates pg then Some []
       else case pp_connector pg of None \<Rightarrow> Some [Page_error ''Cannot modify while offline'']
       | Some cn \<Rightarrow> do {
           it \<leftarrow> pb_items pb p;
           Some [Page_status ''changing coverage'', Page_request (changeCoverage_client built (it_uri it) (index - 1) cn), Page_waits] })"

text \<open>A device of one's own is verified with the keys of the extension.\<close>

definition page_verifyDevice :: "bool \<Rightarrow> contact_page \<Rightarrow> phonebook \<Rightarrow> (phonebook \<times> page_effect list) option" where
  "page_verifyDevice built pg pb =
    (if pp_active pg \<noteq> pb_self pb then Some (pb, [])
     else case pp_connector pg of None \<Rightarrow> Some (pb, [Page_error ''Cannot remove while offline''])
     | Some cn \<Rightarrow>
       let creds = storage_credentials (pb_db pb)
       in if cred creds ''pubkey'' = [] then Some (pb, [Page_error ''You must generate extension keys first''])
          else if cred creds ''privkey'' = [] then Some (pb, [Page_error ''Cannot verify from device without extension key''])
          else do {
            p \<leftarrow> pp_active pg;
            it \<leftarrow> pb_items pb p;
            Some (pb\<lparr>pb_db := verifyDevice (pp_label pg) (pp_key pg) (pp_agent pg) (pb_db pb)\<rparr>,
              [Page_status (''verifying '' @ [CHR 0x22] @ pp_label pg @ [CHR 0x22]), Page_request (requestProfile_client built (it_uri it) cn), Page_waits]) })"

definition page_removeDevice :: "bool \<Rightarrow> contact_page \<Rightarrow> phonebook \<Rightarrow> page_effect list" where
  "page_removeDevice built pg pb =
    (if pp_active pg \<noteq> pb_self pb then []
     else case pp_connector pg of None \<Rightarrow> [Page_error ''Cannot remove while offline'']
     | Some cn \<Rightarrow> [Page_status (''remove '' @ [CHR 0x22] @ pp_label pg @ [CHR 0x22]), Page_request (removeDevice_client built (pp_label pg) cn), Page_waits])"

text \<open>What \<open>promoteRemote\<close>, \<open>demoteLocal\<close> and \<open>changeProfile\<close> share: the profile they send differs.\<close>

definition send_profile :: "qt_lib \<Rightarrow> bool \<Rightarrow> (contact_item \<Rightarrow> json_object) \<Rightarrow> contact_page \<Rightarrow> phonebook \<Rightarrow> page_effect list option" where
  "send_profile Q built json pg pb = (case pp_active pg of None \<Rightarrow> Some []
     | Some p \<Rightarrow> do {
         it \<leftarrow> pb_items pb p;
         Some (if it_number it < 1 \<or> it_number it > 999 then [Page_error ''Cannot modify this contact'', Page_reset p]
           else case pp_connector pg of None \<Rightarrow> [Page_error ''Cannot modify while offline'']
           | Some cn \<Rightarrow> [Page_status ''updating profile'',
               Page_request (sendProfile_client built (it_uri it) (q_toJson Q (JObject (json it))) cn), Page_waits]) })"

definition promoteRemote :: "qt_lib \<Rightarrow> bool \<Rightarrow> contact_page \<Rightarrow> phonebook \<Rightarrow> page_effect list option" where
  "promoteRemote Q built = send_profile Q built (\<lambda>_. [(''a'', JString ''remote'')])"

definition demoteLocal :: "qt_lib \<Rightarrow> bool \<Rightarrow> contact_page \<Rightarrow> phonebook \<Rightarrow> page_effect list option" where
  "demoteLocal Q built = send_profile Q built (\<lambda>_. [(''a'', JString ''local'')])"

definition changeProfile :: "qt_lib \<Rightarrow> bool \<Rightarrow> string \<Rightarrow> string \<Rightarrow> contact_page \<Rightarrow> phonebook \<Rightarrow> page_effect list option" where
  "changeProfile Q built display email = send_profile Q built
     (\<lambda>it. [(''d'', JString (trimmed display)), (''e'', JString (trimmed email)), (''n'', JInt (it_number it))])"

text \<open>
  What the page of a contact shows and lets edit; \<open>pr_behavior\<close> stays as it was for another extension of the
  same user.
\<close>

record page_rights =
  pr_icon :: string
  pr_world :: bool
  pr_noworld :: bool
  pr_uri :: string
  pr_display :: bool
  pr_email :: bool
  pr_worlds :: bool \<comment> \<open>both buttons are enabled\<close>
  pr_extensions :: "string list"
  pr_index :: int \<comment> \<open>of the list of coverages\<close>
  pr_coverage :: bool
  pr_forward :: bool
  pr_behavior :: bool

definition profile_icon :: "string \<Rightarrow> string" where
  "profile_icon type = (if type = ''group'' \<or> type = ''system'' then '':/icons/group.png''
     else if type = ''device'' \<or> type = ''phone'' then '':/icons/phone.png'' else '':/icons/person.png'')"

definition updateProfile :: "bool \<Rightarrow> bool \<Rightarrow> bool \<Rightarrow> ptr option \<Rightarrow> contact_page \<Rightarrow> phonebook \<Rightarrow> page_rights option option" where
  "updateProfile admin operator behavior item pg pb =
    (case item of None \<Rightarrow> Some None
     | Some p \<Rightarrow> if pp_active pg \<noteq> Some p then Some None
       else do {
         it \<leftarrow> pb_items pb p;
         me \<leftarrow> pb_self pb;
         own \<leftarrow> pb_items pb me;
         let type = toLower (it_type it); mine = (p = me); same = (it_user it = it_user own);
             internal = (type = ''system'' \<or> type = ''device''); published = (it_public it \<noteq> []);
             online = (pp_connector pg \<noteq> None);
             forward = (if mine \<or> admin then online else False)
         in Some (Some \<lparr>pr_icon = profile_icon type,
              pr_world = (\<not> internal \<and> \<not> published), pr_noworld = (\<not> internal \<and> published),
              pr_uri = (if \<not> internal \<and> published then ''sip:'' @ it_public it else it_uri it),
              pr_display = (mine \<or> admin \<or> operator), pr_email = (mine \<or> admin), pr_worlds = admin,
              pr_extensions = [] # map number (filter (\<lambda>n. pb_local pb n \<noteq> None) [0..highest - 1]),
              pr_index = (if \<not> mine \<and> \<not> same then it_coverage it + 1 else 1),
              pr_coverage = (mine \<or> \<not> same), pr_forward = (if \<not> mine \<and> same \<and> \<not> admin then False else forward),
              pr_behavior = (if mine then False else if same then behavior else True)\<rparr>) })"

section \<open>The members of a group\<close>

definition group_admin :: "contact_item \<Rightarrow> ptr option" where
  "group_admin it = (if \<not> it_group it then None else it_leader it)"

fun joined :: "string list \<Rightarrow> string" where
  "joined [] = []"
| "joined [w] = w"
| "joined (w # ws) = w @ '','' @ joined ws"

definition page_membership :: "bool \<Rightarrow> ptr option \<Rightarrow> string \<Rightarrow> string \<Rightarrow> string \<Rightarrow> contact_page \<Rightarrow> phonebook \<Rightarrow>
    client_request option option" where
  "page_membership built item members notify reason pg pb = (case item of None \<Rightarrow> Some None
     | Some p \<Rightarrow> (case pp_connector pg of None \<Rightarrow> Some None
       | Some cn \<Rightarrow> do {
           it \<leftarrow> pb_items pb p;
           admin \<leftarrow> (case group_admin it of None \<Rightarrow> Some [] | Some q \<Rightarrow> do { ad \<leftarrow> pb_items pb q; Some (number (it_number ad)) });
           Some (changeMemebership built (it_uri it) (it_topic it) members admin notify reason cn) }))"

text \<open>
  A click on the symbol of the contact \<open>num\<close> in the list of a group whose members are \<open>ms\<close>: it is removed or
  added, and the members before and after are notified.
\<close>

definition toggled :: "string \<Rightarrow> string list \<Rightarrow> string list" where
  "toggled ext ms = (if ext \<in> set ms then remove1 ext ms else ms @ [ext])"

definition click_member :: "bool \<Rightarrow> int \<Rightarrow> int list \<Rightarrow> contact_page \<Rightarrow> phonebook \<Rightarrow> client_request option option" where
  "click_member built num ms pg pb =
    (if num < 1 \<or> num > 999 then Some None
     else case pb_local pb num of None \<Rightarrow> Some None
     | Some p \<Rightarrow> do {
         it \<leftarrow> pb_items pb p;
         if it_group it then Some None
         else (let ext = number num; members = map number ms;
                   notify = (if ext \<in> set members then members else members @ [ext]);
                   reason = (if ext \<in> set members then ''removing @'' @ ext @ '' '' @ it_display it @ '' from group''
                     else ''adding @'' @ ext @ '' '' @ it_display it @ '' to group'')
               in page_membership built (pp_active pg) (joined (toggled ext members)) (joined notify) reason pg pb) })"

section \<open>The list of contacts\<close>

text \<open>The text of a row, and whether the row has a height: the filter is compared with what \<open>setFilter\<close> has made lower case.\<close>

definition LocalContacts_data :: "int \<Rightarrow> phonebook \<Rightarrow> string option option" where
  "LocalContacts_data row pb =
    (if row < 0 \<or> row \<ge> highest then Some None
     else case pb_local pb row of None \<Rightarrow> Some None
     | Some p \<Rightarrow> do { it \<leftarrow> pb_items pb p; Some (if it_display it = [] then None else Some (number row @ '' '' @ it_display it)) })"

definition setFilter :: "string \<Rightarrow> string" where
  "setFilter typed = toLower typed"

definition contact_visible :: "bool \<Rightarrow> string \<Rightarrow> int \<Rightarrow> phonebook \<Rightarrow> bool option" where
  "contact_visible admin searching row pb =
    (if row > highest \<and> admin then Some True
     else if row < 0 \<or> row \<ge> highest + 1 then Some False
     else case pb_local pb row of None \<Rightarrow> Some False
     | Some p \<Rightarrow> do {
         it \<leftarrow> pb_items pb p;
         Some (it_display it \<noteq> [] \<and> \<not> it_hidden it \<and>
           (searching \<noteq> [] \<and> it_filter it \<noteq> [] \<longrightarrow> contains (it_filter it) searching \<or> searching = it_user it)) })"

text \<open>A row that is clicked: the two below the contacts open the dialogs, a contact becomes the active one and its profile is asked for.\<close>

datatype selection = Open_add_user | Open_new_group | No_selection | Selected contact_page "page_effect list"

definition selectContact :: "bool \<Rightarrow> int \<Rightarrow> contact_page \<Rightarrow> phonebook \<Rightarrow> selection option" where
  "selectContact built row pg pb =
    (if row = highest + 1 then Some Open_add_user
     else if row = highest + 2 then Some Open_new_group
     else if row < 0 \<or> row > highest then Some No_selection
     else case pb_local pb row of None \<Rightarrow> Some No_selection
     | Some p \<Rightarrow> do {
         it \<leftarrow> pb_items pb p;
         Some (Selected (pg\<lparr>pp_active := Some p, pp_updates := True\<rparr>)
           (case pp_connector pg of
              Some cn \<Rightarrow> if it_number it > -1
                then [Page_status ''Updating profile'', Page_request (requestProfile_client built (it_uri it) cn)] else []
            | None \<Rightarrow> [])) })"

text \<open>The title of the selected contact.\<close>

definition contact_title :: "contact_item \<Rightarrow> string" where
  "contact_title it =
    (let type = toLower (it_type it)
     in if it_number it \<le> -1 then it_dialed it
        else (if type = ''system'' \<or> type = ''group'' then ''#'' else ''@'') @ number (it_number it) @ '' '' @
          [CHR 0x22] @ it_user it @ [CHR 0x22])"

end
