(* ===== verification/PageProps.thy ===== *)
theory PageProps
  imports ContactPages Authorizing Presence
begin

text \<open>
  An administrator's client and the server: a user that the dialog creates, the members of a group, and the
  verification of a device.
\<close>

section \<open>A new user\<close>

lemma new_user_fields:
  "json_string (new_user_json Q creds uf num) ''a'' = uf_user uf" "json_string (new_user_json Q creds uf num) ''t'' = toUpper (uf_type uf)"
  "json_string (new_user_json Q creds uf num) ''d'' = toUpper (cred creds ''algorithm'')"
  "json_string (new_user_json Q creds uf num) ''r'' = cred creds ''realm''"
  "json_string (new_user_json Q creds uf num) ''s'' = ha1_of Q (creds(''user'' \<mapsto> uf_user uf)) (uf_secret uf)"
  "json_string (new_user_json Q creds uf num) ''f'' = uf_name uf"
  by (simp_all add: json_string_def new_user_json_def ha1_of_def cred_def Let_def)

text \<open>
  C8. A user that the dialog creates can register. An administrator fills in a user the phonebook does not know, twice the same
  password, and an extension; the server, which has neither, gets the request and reads its text as it was
  written. Then it answers 200 and tells about a new roster, stores the extension for that user and a row that
  admits the user, with the realm, the algorithm and as secret \<open>HA1\<close> of the user and that password: what a client of that
  user computes. Every other user keeps its row.
\<close>

theorem created_user_registers:
  assumes "AddUser_add Q True creds pb uf cn = Inr (Some rq)" "uf_user uf \<notin> set (allUsers pb)" "uf_user uf \<noteq> []"
    "toUpper (uf_type uf) \<in> {''USER'', ''DEVICE''}" "cr_content rq = Some (mime, body_of ev)"
    "q_fromJson Q (q_toJson Q (JObject (new_user_json Q creds uf (qs_toInt (uf_extension uf))))) =
       new_user_json Q creds uf (qs_toInt (uf_extension uf))"
    "target_number ev = Some (qs_toInt (uf_extension uf))" "\<not> out_of_range (qs_toInt (uf_extension uf)) db"
    "is_sysadmin (ev_number ev) db" "ev_type ev = MESSAGE_NEW" "db_up db"
    "sel_extension (qs_toInt (uf_extension uf)) db = []" "sel_authorize (uf_user uf) db = []"
  shows "\<exists>db' out x a. changeAuthorize Q ev db = Some (db', out) \<and> answers out = [SIP_OK] \<and> Emit UpdateRoster \<in> set out \<and>
    sel_extension (qs_toInt (uf_extension uf)) db' = [x] \<and> x_authname x = uf_user uf \<and>
    admitted (uf_user uf) db' = Some a \<and> a_secret a = ha1_of Q (creds(''user'' \<mapsto> uf_user uf)) (uf_secret uf) \<and>
    a_realm a = cred creds ''realm'' \<and> a_digest a = toUpper (cred creds ''algorithm'') \<and> a_fullname a = uf_name uf \<and>
    uf_secret uf = uf_confirm uf \<and> (\<forall>name. name \<noteq> uf_user uf \<longrightarrow> sel_authorize name db' = sel_authorize name db)"
proof -
  let ?num = "qs_toInt (uf_extension uf)"
  let ?json = "new_user_json Q creds uf ?num"
  let ?row = "(new_authorize db (uf_user uf))\<lparr>a_digest := json_string ?json ''d'', a_realm := json_string ?json ''r'',
    a_secret := json_string ?json ''s'', a_fullname := json_string ?json ''f'', a_type := json_string ?json ''t''\<rparr>"
  let ?db1 = "db\<lparr>t_authorize := t_authorize db @ [?row]\<rparr>"
  let ?x = "\<lparr>x_number = ?num, x_authname = uf_user uf, x_priority = 0, x_display = [], x_pubkey = []\<rparr>"
  let ?db2 = "?db1\<lparr>t_extensions := t_extensions db @ [?x]\<rparr>"
  have body: "body_of ev = q_toJson Q (JObject ?json)" "uf_secret uf = uf_confirm uf"
    using assms(1,2,5) by (auto simp: AddUser_add_def createAuthorize_def user_request_def build_request_def content_of_def Let_def
        split: if_splits)
  have none: "record1 (sel_extension ?num) db = None" "record1 (sel_authorize (uf_user uf)) db = None"
    using assms(12,13) by (simp_all add: record1_def rows_def)
  have ins: "run (ins_authorize ?row) db = ?db1" "run (ins_extension ?num (uf_user uf) []) ?db1 = ?db2"
    using assms(11,12,13) by (auto simp: run_def ins_authorize_def ins_extension_def add_row_def has_authname_def new_authorize_def
        sel_authorize_def sel_extension_def filter_empty_conv)
  have user: "authorize_user ?json False db = Inr (uf_user uf, False, ?db1)"
    using assms(3,4) none(2) ins(1) by (auto simp: authorize_user_def new_user_fields is_group_def Let_def)
  let ?db' = "run (ins_endpoint ?num ''NONE'') ?db2"
  have result: "changeAuthorize Q ev db = Some (?db', Emit UpdateRoster # snd (reply ev SIP_OK))"
    using assms(3,6-9) body(1) none(1) user ins(2) by (simp add: changeAuthorize_def Let_def)
  have kept: "t_authorize ?db' = t_authorize ?db2" "t_extensions ?db' = t_extensions ?db2" "db_up ?db' = db_up db"
    by (simp_all add: run_def ins_endpoint_def)
  have ext: "sel_extension ?num ?db' = [?x]"
    using assms(12) kept(2) by (simp add: sel_extension_def)
  have adm: "admitted (uf_user uf) ?db' = Some ?row"
    using assms(4,11,13) kept by (auto simp: admitted_def record1_def rows_def sel_authorize_def new_authorize_def new_user_fields)
  have other: "sel_authorize name ?db' = sel_authorize name db" if "name \<noteq> uf_user uf" for name
    using that kept(1) by (simp add: sel_authorize_def new_authorize_def)
  have sent: "answers (Emit UpdateRoster # snd (reply ev SIP_OK)) = [SIP_OK]"
    using assms(10) by simp
  show ?thesis
    by (intro exI[of _ ?db'] exI[of _ "Emit UpdateRoster # snd (reply ev SIP_OK)"] exI[of _ ?x] exI[of _ ?row] conjI allI impI
        result sent ext adm other body(2)) (simp_all add: new_user_fields)
qed

section \<open>The members of a group\<close>

text \<open>The values of a header, in the order of the message.\<close>

definition header_values :: "osip_params \<Rightarrow> string \<Rightarrow> string option list" where
  "header_values hs name = map snd (filter (\<lambda>(n, v). strcase_eq n name) hs)"

text \<open>osip reads a header that holds several values, separated by commas, as that many headers.\<close>

definition delivered_lists :: "client_request \<Rightarrow> osip_message \<Rightarrow> bool" where
  "delivered_lists rq msg \<longleftrightarrow> (\<forall>name \<in> {''x-group-member'', ''x-group-admin''}. header_values (msg_headers msg) name =
     (case map_of (header_texts rq) name of None \<Rightarrow> [] | Some v \<Rightarrow> map Some (split_on CHR '','' v)))"

lemma find_value: "header_find hs name = (case header_values hs name of [] \<Rightarrow> None | v # _ \<Rightarrow> Some v)"
  by (induction hs name rule: header_find.induct) (auto simp: header_values_def)

lemma set_scan: "set (scan_headers hs name acc) = set acc \<union> {atoi v | v. Some v \<in> set (header_values hs name) \<and> atoi v > 0}"
proof (induction hs arbitrary: acc)
  case (Cons h hs)
  obtain n v where h: "h = (n, v)" by fastforce
  show ?case
  proof (cases "header_find (h # hs) name")
    case None
    then have "header_values (h # hs) name = []" by (simp add: find_value split: list.splits)
    with None show ?thesis by simp
  next
    case (Some w)
    have set_insert: "set (set_insert x xs) = insert x (set xs)" for x :: int and xs by (auto simp: set_insert_def)
    have w: "w \<in> set (header_values (h # hs) name)" using Some by (auto simp: find_value split: list.splits)
    have sub: "set (header_values hs name) \<subseteq> set (header_values (h # hs) name)" "set (header_values (h # hs) name) \<subseteq> insert w (set (header_values hs name))"
      using Some h by (auto simp: header_values_def find_value split: if_splits)
    show ?thesis using Some w sub by (cases w) (auto simp: Cons.IH set_insert)
  qed
qed (simp add: header_values_def)

lemma split_on_free: "sep \<notin> set w \<Longrightarrow> split_on sep w = [w]"
  by (induction w) auto

lemma split_on_joined: "ws \<noteq> [] \<Longrightarrow> \<forall>w \<in> set ws. CHR '','' \<notin> set w \<Longrightarrow> split_on CHR '','' (joined ws) = ws"
proof (induction ws rule: joined.induct)
  case (3 w v vs)
  have "split_on CHR '','' (u @ CHR '','' # rest) = u # split_on CHR '','' rest" if "CHR '','' \<notin> set u" for u rest
    using that by (induction u) auto
  with 3 show ?case by simp
qed (auto simp: split_on_free)


lemma atoi_number: "0 \<le> n \<Longrightarrow> n < 2 ^ 31 \<Longrightarrow> atoi (number n) = n"
  by (simp add: atoi_def strtol_def number_def scan_number_nat_str signed_take_bit_int_eq_self)

lemma number_inj:
  assumes "0 \<le> n" "n < 1000" "0 \<le> m" "m < 1000"
  shows "number n = number m \<longleftrightarrow> n = m"
proof -
  have "atoi (number n) = n" "atoi (number m) = m" using assms by (simp_all add: atoi_number)
  then show ?thesis by metis
qed

lemma comma_number: "CHR '','' \<notin> set (number n)"
  using nat_str_digits[of "CHR '',''" "nat n"] nat_str_digits[of "CHR '',''" "nat (- n)"] by (auto simp: number_def text_simps)

lemma number_not_Nil: "number n \<noteq> []"
  by (simp add: number_def)

lemmas number_nonempty = number_not_Nil number_not_Nil[symmetric]

lemma atoi_image:
  assumes "\<forall>m \<in> A. atoi (number m) = m \<and> 0 < m"
  shows "{atoi w | w. w \<in> number ` A \<and> atoi w > 0} = A"
proof -
  have "{atoi w | w. w \<in> number ` A \<and> atoi w > 0} = {m' \<in> (\<lambda>m. atoi (number m)) ` A. m' > 0}" by blast
  also have "(\<lambda>m. atoi (number m)) ` A = (\<lambda>m. m) ` A" using assms by (intro image_cong) auto
  finally show ?thesis using assms by auto
qed

lemma set_toggled:
  assumes "0 \<le> num" "num < 1000" "\<forall>m \<in> set ms. 0 < m \<and> m < 1000" "distinct ms"
  shows "set (toggled (number num) (map number ms)) = number ` (if num \<in> set ms then set ms - {num} else insert num (set ms))"
proof -
  have "number x = number y \<longleftrightarrow> x = y" if "x \<in> insert num (set ms)" "y \<in> insert num (set ms)" for x y
    using that assms(1-3) by (intro number_inj) auto
  then have inj: "inj_on number (insert num (set ms))" by (auto simp: inj_on_def)
  then have "distinct (map number ms)" "number num \<in> set (map number ms) \<longleftrightarrow> num \<in> set ms"
    using assms(4) by (auto simp: distinct_map inj_on_def)
  moreover have "number ` set ms - {number num} = number ` (set ms - {num})"
    using inj by (auto simp: inj_on_def)
  ultimately show ?thesis by (simp add: toggled_def)
qed

text \<open>The members a group has in the tables, and the rows of the other groups.\<close>

abbreviation group_key :: "group_row \<Rightarrow> int \<times> int" where
  "group_key g \<equiv> (g_group g, g_extnbr g)"

definition group_members :: "int \<Rightarrow> database \<Rightarrow> int set" where
  "group_members target db = {m. (target, m) \<in> group_key ` set (t_groups db)}"

definition other_groups :: "int \<Rightarrow> database \<Rightarrow> group_row list" where
  "other_groups target db = filter (\<lambda>g. g_group g \<noteq> target) (t_groups db)"

lemma key_added: "key ` set (add_row key r t) = insert (key r) (key ` set t)"
  by (auto simp: add_row_def)

lemma group_inserted:
  assumes "has_extension target db" "db_up db"
  shows "group_members target (run (ins_group target m) db) = (if has_extension m db then insert m (group_members target db) else group_members target db)"
    "other_groups target (run (ins_group target m) db) = other_groups target db"
    "has_extension n (run (ins_group target m) db) = has_extension n db" "db_up (run (ins_group target m) db)"
  using assms by (simp_all add: run_def ins_group_def group_members_def key_added set_eq_iff)
    (simp_all add: other_groups_def add_row_def has_extension_def)

lemma groups_inserted:
  assumes "has_extension target db" "db_up db" "db' = fold (\<lambda>(grp, num). run (ins_group grp num)) (map (\<lambda>m. (target, m)) ms) db"
  shows "group_members target db' = group_members target db \<union> {m \<in> set ms. has_extension m db} \<and>
    other_groups target db' = other_groups target db \<and> (\<forall>n. has_extension n db' = has_extension n db) \<and> db_up db'"
  using assms
proof (induction ms arbitrary: db)
  case (Cons m ms)
  let ?db = "run (ins_group target m) db"
  note one = group_inserted[OF Cons.prems(1,2)]
  have "group_members target db' = group_members target ?db \<union> {m \<in> set ms. has_extension m ?db} \<and>
    other_groups target db' = other_groups target ?db \<and> (\<forall>n. has_extension n db' = has_extension n ?db) \<and> db_up db'"
    using Cons.prems one(3,4) by (intro Cons.IH) simp_all
  with one show ?case by auto
qed simp

lemma admins_no_groups:
  "group_members target (run (ins_admin name n) db) = group_members target db" "other_groups target (run (ins_admin name n) db) = other_groups target db"
  "group_members target (run (del_admin P) db) = group_members target db" "other_groups target (run (del_admin P) db) = other_groups target db"
  by (simp_all add: run_def ins_admin_def del_admin_def group_members_def other_groups_def)

lemma groups_deleted:
  "db_up db \<Longrightarrow> group_members target (run (del_groups target) db) = {}" "other_groups target (run (del_groups target) db) = other_groups target db"
  "has_extension n (run (del_groups target) db) = has_extension n db" "db_up (run (del_groups target) db) = db_up db"
  by (auto simp: run_def del_groups_def group_members_def other_groups_def has_extension_def)

lemma change_group_members:
  assumes "db_up db" "has_extension target db" "target \<noteq> 0"
    "admin = (case header_value msg ''x-group-admin'' of None \<Rightarrow> 0 | Some v \<Rightarrow> atoi v)"
  shows "group_members target (change_group msg target name db) = {m. has_extension m db \<and>
      (m \<in> set (scan_headers (msg_headers msg) ''x-group-member'' []) \<or> m = admin \<and> admin > 0)} \<and>
    other_groups target (change_group msg target name db) = other_groups target db"
proof -
  let ?ms = "scan_headers (msg_headers msg) ''x-group-member'' []"
  let ?db = "run (del_groups target) db"
  let ?db1 = "fold (\<lambda>(grp, num). run (ins_group grp num)) (map (\<lambda>m. (target, m)) ?ms) ?db"
  note del = groups_deleted[where db = db and target = target]
  have one: "group_members target ?db1 = {m \<in> set ?ms. has_extension m db}" "other_groups target ?db1 = other_groups target db"
    "has_extension n ?db1 = has_extension n db" "db_up ?db1" for n
    using groups_inserted[of target ?db ?db1 ?ms] assms(1,2) del by simp_all
  have change: "change_group msg target name db = (if admin > 0 then run (ins_admin name admin)
      (run (del_admin (\<lambda>n. n_authname n = name)) (run (ins_group target admin) ?db1)) else ?db1)"
    using assms(3,4) by (simp add: change_group_def Let_def)
  show ?thesis
    using group_inserted[of target ?db1 admin] one assms(2) by (auto simp: change admins_no_groups)
qed

lemma more_lower_letters:
  "ascii_lower CHR ''A'' = CHR ''a''" "ascii_lower CHR ''G'' = CHR ''g''" "ascii_lower CHR ''M'' = CHR ''m''"
  "ascii_lower CHR ''N'' = CHR ''n''" "ascii_lower CHR ''R'' = CHR ''r''" "ascii_lower CHR ''f'' = CHR ''f''"
  "ascii_lower CHR ''g'' = CHR ''g''"
  by code_simp+

text \<open>What a click writes into the headers: the members, and the leader of the group.\<close>

definition leader_number :: "contact_item \<Rightarrow> phonebook \<Rightarrow> int option" where
  "leader_number it pb = do { q \<leftarrow> group_admin it; ad \<leftarrow> pb_items pb q; Some (it_number ad) }"

lemma joined_nonempty: "\<forall>w \<in> set ws. w \<noteq> [] \<Longrightarrow> joined ws = [] \<longleftrightarrow> ws = []"
  by (induction ws rule: joined.induct) auto

lemma membership_headers:
  assumes "page_membership True (Some p) members notify reason pg pb = Some (Some rq)" "pb_items pb p = Some it"
    "\<forall>n. leader_number it pb = Some n \<longrightarrow> 0 < n"
  shows "map_of (header_texts rq) ''x-group-member'' = (if members = [] then None else Some members) \<and>
    map_of (header_texts rq) ''x-group-admin'' = map_option number (leader_number it pb)"
proof -
  obtain cn where "changeMemebership True (it_uri it) (it_topic it) members
      (case leader_number it pb of None \<Rightarrow> [] | Some n \<Rightarrow> number n) notify reason cn = Some rq"
    using assms(1,2) by (auto simp: page_membership_def leader_number_def split: option.splits bind_splits)
  with assms(3) show ?thesis
    by (auto simp: changeMemebership_def user_request_def build_request_def header_texts_def more_lower_letters number_nonempty
        split: option.split)
qed

lemma click_headers:
  assumes "click_member True num ms pg pb = Some (Some rq)" "pp_active pg = Some p" "pb_items pb p = Some it"
    "\<forall>m \<in> set ms. 0 < m" "\<forall>n. leader_number it pb = Some n \<longrightarrow> 0 < n"
  shows "1 \<le> num \<and> num \<le> 999 \<and> map_of (header_texts rq) ''x-group-member'' =
      (let members = toggled (number num) (map number ms) in if members = [] then None else Some (joined members)) \<and>
    map_of (header_texts rq) ''x-group-admin'' = map_option number (leader_number it pb)"
proof -
  let ?members = "toggled (number num) (map number ms)"
  obtain notify reason where num: "1 \<le> num" "num \<le> 999"
    and page: "page_membership True (Some p) (joined ?members) notify reason pg pb = Some (Some rq)"
    using assms(1,2) by (simp add: click_member_def Let_def split: option.splits if_splits bind_splits)
  have "set ?members \<subseteq> insert (number num) (number ` set ms)"
    using set_remove1_subset[of "number num" "map number ms"] by (auto simp: toggled_def)
  then have "joined ?members = [] \<longleftrightarrow> ?members = []"
    by (intro joined_nonempty) (auto simp: number_nonempty)
  with membership_headers[OF page assms(3,5)] num show ?thesis by (simp add: Let_def)
qed

text \<open>
  C9. The members of a group on both ends. A click on a contact in the list of a group sends all members, with that contact
  added or removed, and the leader of the group; the server, which reads the lists as osip splits them, then holds exactly those of them
  that are extensions, and the other groups as they were. The leader is always among them: removing the leader
  from the list has no effect.
\<close>

theorem membership_agrees:
  assumes "click_member True num ms pg pb = Some (Some rq)" "delivered_lists rq msg" "pp_active pg = Some p" "pb_items pb p = Some it"
    "distinct ms" "\<forall>m \<in> set ms. 0 < m \<and> m < 1000" "\<forall>n. leader_number it pb = Some n \<longrightarrow> 0 < n \<and> n < 1000"
    "db_up db" "has_extension target db" "target \<noteq> 0"
  shows "group_members target (change_group msg target name db) = {m. has_extension m db \<and>
      (m \<in> (if num \<in> set ms then set ms - {num} else insert num (set ms)) \<or> leader_number it pb = Some m)} \<and>
    other_groups target (change_group msg target name db) = other_groups target db"
proof -
  let ?ws = "toggled (number num) (map number ms)"
  let ?new = "if num \<in> set ms then set ms - {num} else insert num (set ms)"
  have pos: "\<forall>m \<in> set ms. 0 < m" "\<forall>n. leader_number it pb = Some n \<longrightarrow> 0 < n" using assms(6,7) by auto
  note click = click_headers[OF assms(1,3,4) pos]
  have ws: "set ?ws = number ` ?new" using set_toggled[of num ms] click assms(5,6) by simp
  have new: "0 < m \<and> m < 1000" if "m \<in> ?new" for m using that click assms(6) by (auto split: if_splits)
  have "CHR '','' \<notin> set w" if "w \<in> set ?ws" for w
    using that ws by (auto simp: comma_number)
  then have "header_values (msg_headers msg) ''x-group-member'' = map Some ?ws"
    using assms(2) click split_on_joined[of ?ws] by (auto simp: delivered_lists_def Let_def)
  then have scanned: "set (scan_headers (msg_headers msg) ''x-group-member'' []) = {atoi w | w. w \<in> number ` ?new \<and> atoi w > 0}"
    by (auto simp: set_scan ws[symmetric])
  have "\<forall>m \<in> ?new. atoi (number m) = m \<and> 0 < m"
  proof
    fix m assume "m \<in> ?new"
    from new[OF this] show "atoi (number m) = m \<and> 0 < m" by (simp add: atoi_number)
  qed
  from atoi_image[OF this] have members: "set (scan_headers (msg_headers msg) ''x-group-member'' []) = ?new"
    unfolding scanned .
  have "header_values (msg_headers msg) ''x-group-admin'' = (case leader_number it pb of None \<Rightarrow> [] | Some n \<Rightarrow> [Some (number n)])"
    using assms(2) click pos(2) by (auto simp: delivered_lists_def split_on_free comma_number split: option.split)
  then have "(case header_value msg ''x-group-admin'' of None \<Rightarrow> 0 | Some v \<Rightarrow> atoi v) = (case leader_number it pb of None \<Rightarrow> 0 | Some n \<Rightarrow> n)"
    using assms(7) by (auto simp: header_value_def header_get_def find_value atoi_number split: option.split)
  from change_group_members[OF assms(8-10) this[symmetric], of name] show ?thesis
    unfolding members using pos(2) by (auto split: option.splits)
qed

section \<open>Concrete runs\<close>

definition sample_form :: user_form where
  "sample_form = \<lparr>uf_user = ''carol'', uf_extension = ''102'', uf_secret = ''pw'', uf_confirm = ''pw'', uf_name = ''Carol'', uf_type = ''User''\<rparr>"

definition form_qt :: qt_lib where
  "form_qt = sample_qt\<lparr>q_fromJson := \<lambda>_. new_user_json sample_qt Map.empty sample_form 102\<rparr>"

definition sample_creation :: event where
  "sample_creation = (sample_request_event (sample_request ''X-AUTHORIZE'' None))\<lparr>ev_parsed := parsed_empty\<lparr>ev_body := ''json''\<rparr>\<rparr>"

definition less_db :: database where
  "less_db = sample_db\<lparr>t_extensions := take 1 (t_extensions sample_db)\<rparr>"

lemma sample_form_number: "qs_toInt (uf_extension sample_form) = 102"
  by (simp add: sample_form_def) code_simp

lemma created_user_registers_witness:
  "\<exists>rq db' out x a. AddUser_add form_qt True Map.empty sample_phonebook sample_form (Connector_new Map.empty False) = Inr (Some rq) \<and>
     changeAuthorize form_qt sample_creation less_db = Some (db', out) \<and> answers out = [SIP_OK] \<and> Emit UpdateRoster \<in> set out \<and>
     sel_extension (qs_toInt (uf_extension sample_form)) db' = [x] \<and> x_authname x = uf_user sample_form \<and> admitted (uf_user sample_form) db' = Some a"
proof -
  have unknown: "uf_user sample_form \<notin> set (allUsers sample_phonebook)" "uf_user sample_form \<noteq> []"
    by (simp_all add: allUsers_def sample_phonebook_def sample_form_def)
  have type: "toUpper (uf_type sample_form) \<in> {''USER'', ''DEVICE''}" by (simp add: sample_form_def) code_simp
  have body: "body_of sample_creation = ''json''" "ev_type sample_creation = MESSAGE_NEW" "ev_number sample_creation = 101"
    by (simp_all add: sample_creation_def sample_request_event_def sample_event_def ev_type_def)
  obtain rq where rq: "AddUser_add form_qt True Map.empty sample_phonebook sample_form (Connector_new Map.empty False) = Inr (Some rq)"
      "cr_content rq = Some (''authorize/json'', body_of sample_creation)"
    using unknown(1) by (simp add: AddUser_add_def sample_form_number body createAuthorize_def user_request_def build_request_def content_of_def
        form_qt_def sample_qt_def Let_def)
       (simp add: sample_form_def createAuthorize_def user_request_def build_request_def content_of_def)
  have json: "q_fromJson form_qt (q_toJson form_qt (JObject (new_user_json form_qt Map.empty sample_form (qs_toInt (uf_extension sample_form))))) =
      new_user_json form_qt Map.empty sample_form (qs_toInt (uf_extension sample_form))"
    by (simp add: form_qt_def sample_form_number new_user_json_def hash_hex_def Let_def)
  have "target_number sample_creation = Some 102"
    by (simp add: sample_creation_def sample_request_event_def sample_event_def target_number_def
        to_username_def to_url_def sample_request_def sample_uri_def isNumber_102 atoi_def text_simps)
  then have target: "target_number sample_creation = Some (qs_toInt (uf_extension sample_form))"
    by (simp only: sample_form_number)
  have db: "\<not> out_of_range (qs_toInt (uf_extension sample_form)) less_db" "is_sysadmin (ev_number sample_creation) less_db" "db_up less_db"
    "sel_extension (qs_toInt (uf_extension sample_form)) less_db = []" "sel_authorize (uf_user sample_form) less_db = []"
    by (simp_all add: sample_form_number body(3) out_of_range_def is_sysadmin_def record1_def rows_def sel_admin_def sel_extension_def
        sel_authorize_def less_db_def sample_db_def sample_user_def) (simp_all add: sample_form_def)
  from created_user_registers[OF rq(1) unknown type rq(2) json target db(1,2) body(2) db(3,4,5)] rq(1) show ?thesis by fast
qed

definition sample_page :: contact_page where
  "sample_page = \<lparr>pp_active = Some 1, pp_updates = True, pp_connector = Some (Connector_new Map.empty False), pp_label = [], pp_key = [], pp_agent = []\<rparr>"

text \<open>The group 699 gets its first member, 101.\<close>

lemma membership_agrees_witness:
  "\<exists>rq. click_member True 101 [] sample_page sample_phonebook = Some (Some rq) \<and>
     delivered_lists rq ((sample_request ''X-MEMBERSHIP'' None)\<lparr>msg_headers := [(''X-Group-Member'', Some ''101'')]\<rparr>) \<and>
     group_members 699 (change_group ((sample_request ''X-MEMBERSHIP'' None)\<lparr>msg_headers := [(''X-Group-Member'', Some ''101'')]\<rparr>) 699 ''g'' sample_db) = {101}"
proof -
  let ?msg = "(sample_request ''X-MEMBERSHIP'' None)\<lparr>msg_headers := [(''X-Group-Member'', Some ''101'')]\<rparr>"
  have items: "pb_items sample_phonebook 0 = Some (sample_item 1 101)" "pb_items sample_phonebook 1 = Some (sample_item 2 699)"
    "pb_local sample_phonebook 101 = Some 0" "\<not> it_group (sample_item 1 101)" "\<not> it_group (sample_item 2 699)"
    by (simp_all add: sample_phonebook_def sample_item_def item_of_def new_contact_def)
  have n101: "number 101 = ''101''" by code_simp
  have none: "leader_number (sample_item 2 699) sample_phonebook = None"
    using items(5) by (simp add: leader_number_def group_admin_def)
  obtain rq where rq: "click_member True 101 [] sample_page sample_phonebook = Some (Some rq)"
    using items by (simp add: click_member_def page_membership_def sample_page_def changeMemebership_def user_request_def build_request_def
        group_admin_def Let_def)
  have active: "pp_active sample_page = Some 1" by (simp add: sample_page_def)
  have texts: "map_of (header_texts rq) ''x-group-member'' = Some ''101''" "map_of (header_texts rq) ''x-group-admin'' = None"
    using click_headers[OF rq active items(2)] none by (simp_all add: toggled_def n101)
  have sent: "delivered_lists rq ?msg"
    by (simp add: delivered_lists_def texts header_values_def strcase_eq_def more_lower_letters sample_request_def)
  have db: "db_up sample_db" "has_extension n sample_db" for n by (simp_all add: sample_db_def has_extension_def)
  show ?thesis using membership_agrees[OF rq sent active items(2) _ _ _ db(1) db(2), of 699 "''g''"] rq sent none db by auto
qed

end
