(* ===== verification/Spec2Isabelle.thy ===== *)
theory Spec2Isabelle
  imports Serving ConnectionProps AuthConnection Requests ServerProps CallLegs Ciphers
    ListenerProps Agreement StorageProps ContactRemoval SessionLife DesktopProps PageProps
begin

text \<open>
  SipWitchQt: a SIP server with a database of extensions, and its desktop client.

  \<^bold>\<open>The program.\<close> A SIP context (\<open>Server/context.cpp\<close>) owns a socket of the eXosip2 stack and runs
  in a thread of its own. It decodes each message into an event (\<open>Server/event.cpp\<close>) and answers it or emits
  a Qt signal. The stack thread (\<open>Server/manager.cpp\<close>) receives the signals, keeps the registrations
  (\<open>Server/registry.cpp\<close>), authenticates requests and passes them on. The authorization thread
  (\<open>Database/authorize.cpp\<close>) says who may register; the database thread (\<open>Database/database.cpp\<close>)
  answers requests over the context and sends messages back through the stack. \<open>Server/server.cpp\<close> starts,
  configures and stops all of them. In the client a listener (\<open>Connect/listener.cpp\<close>) registers and
  receives, a connector (\<open>Connect/connector.cpp\<close>) sends requests and reads their answers, a database
  (\<open>Connect/storage.cpp\<close>) keeps contacts, messages and credentials, and the item models of the window
  (\<open>Desktop/phonebook.cpp\<close>, \<open>messages.cpp\<close>, \<open>sessions.cpp\<close>) show them; the window
  (\<open>Desktop/desktop.cpp\<close>) starts and stops these parts.

  \<^bold>\<open>How it is modelled.\<close> Objects that the code allocates live in a heap, a partial map from addresses to
  records; a static table holds addresses, as in the code. Following a pointer that is null or whose object is deleted,
  and an assertion that fails, has the result \<open>None\<close>, so that a theorem that gives a result also says that none of this
  happens. What a thread hands to eXosip2, a signal, and a timer is an effect in the list of results. Machine
  integers keep their width where it matters (\<open>Prelude\<close>). A row of a database is a record, a table is a list of rows, a
  statement is a function on tables. Code that is not in the repository is a parameter: \<open>qt_lib\<close> (hashes, base64, dates; theory
  \<open>QtLibrary\<close>), \<open>crypto_lib\<close> (OpenSSL), \<open>sql_lib\<close> (the Qt SQL module), osip's parsed message (\<open>SipMessage\<close>), whether
  eXosip2 builds a message, the clock.
\<close>

text \<open>
  \<^bold>\<open>The server, theory by theory.\<close>
  \<^item> \<open>Prelude\<close>, \<open>UStrings\<close>, \<open>UtilFns\<close>: the Qt text operations used, \<open>Common/types.cpp\<close>, \<open>Common/util.cpp\<close>,
    \<open>Common/args.cpp\<close>; escaping and its inverse.
  \<^item> \<open>Contacts\<close>, \<open>Contexts\<close>, \<open>Events\<close>: \<open>Common/contact.cpp\<close>, the configuration and the addresses of a context, and how a
    message becomes an event.
  \<^item> \<open>Registries\<close>, \<open>RegistryInv\<close>, \<open>RegistryAuth\<close>: \<open>Server/registry.cpp\<close>. The invariant \<open>reg_inv\<close> holds in every state that the
    operations reach; with it lookups, cleanup and destructors are defined, the published mask is exact, a nonce
    has its window, and a registration its life.
  \<^item> \<open>Answers\<close>, \<open>Dispatch\<close>: \<open>Context::process\<close> with all its branches; each request is answered once or handed on once.
  \<^item> \<open>Managers\<close>, \<open>StackFacts\<close>, \<open>StackProps\<close>: the slots of the stack thread. The locale \<open>authenticated_slot\<close> is what
    the slots that act for a user promise; each of them is an interpretation.
  \<^item> \<open>Tables\<close>, \<open>TableInv\<close>: the statements and the consistency \<open>db_ok\<close> of keys and references; the locale \<open>db_statement\<close>
    is the contract of a statement.
  \<^item> \<open>Messaging\<close>, \<open>MessageFacts\<close>, \<open>Profiles\<close>, \<open>Administration\<close>, \<open>AdminFacts\<close>, \<open>AdminSlots\<close>: the slots of the database
    thread; the locales \<open>database_slot\<close> and \<open>profile_request\<close> are their contracts.
  \<^item> \<open>Authorizing\<close>, \<open>AuthorizeFacts\<close>, \<open>AuthConnection\<close>: the authorization thread.
  \<^item> \<open>Connection\<close>, \<open>ConnectionFacts\<close>, \<open>ConnectionProps\<close>: opening, closing, retries (three for a network database, one for a
    file; the loops count down from these numbers, so no fuel is needed), the idle timer and the configuration.
  \<^item> \<open>DatabaseThread\<close>, \<open>Serving\<close>: which slot a signal reaches, and the way of a request through all threads.
  \<^item> \<open>Requests\<close>, \<open>ServerLife\<close>, \<open>ServerProps\<close>, \<open>CallLegs\<close>, \<open>Ciphers\<close>: asynchronous queries, the life of the service and its
    threads, providers and call legs, and the ciphers of \<open>Common/crypto.cpp\<close>.
\<close>

text \<open>
  \<^bold>\<open>The client, theory by theory.\<close>
  \<^item> \<open>ClientRequests\<close>: the connector. A request is the message it builds; an event of its thread gives signals.
  \<^item> \<open>ClientListener\<close>, \<open>ListenerProps\<close>: the listener, one turn of its loop at a time; its runs are the reflexive transitive
    closure of turns, timeouts and calls to \<open>stop\<close>.
  \<^item> \<open>Agreement\<close>: client and server together. The locale \<open>text_code\<close> is what both ends of a header need: what one writes the
    other reads. Administrative requests, the digest, and the description of a registration agree.
  \<^item> \<open>ClientStorage\<close>, \<open>StorageProps\<close>: the client's database, its keys, backups and the keys of other devices.
  \<^item> \<open>Phonebooks\<close>, \<open>Presence\<close>, \<open>RosterSync\<close>, \<open>ContactRemoval\<close>: the contacts: loading, presence, the roster, removal. A roster
    entry is the one the server writes, a presence mask the one the server publishes.
  \<^item> \<open>Conversations\<close>, \<open>SessionModels\<close>, \<open>SessionProps\<close>, \<open>SessionLists\<close>, \<open>SessionLife\<close>: messages, their order and expiration;
    the list of conversations; messages that come in, go out, and are synchronised.
  \<^item> \<open>Desktops\<close>, \<open>DesktopProps\<close>: the window (\<open>Desktop/desktop.cpp\<close>, \<open>login.cpp\<close>, what \<open>options.cpp\<close> changes) as a step function on events: signals of
    numbered listeners, the user, the system, timers. What its state says is an invariant of the expected events; the others
    are shown to break it.
  \<^item> \<open>ContactPages\<close>, \<open>PageProps\<close>: the dialogs for users and groups (\<open>Dialogs\<close>) and the page of a contact, as the requests
    they send, and what the server makes of them.

  \<^bold>\<open>Bounds.\<close> Extensions are below 1000, local ones up to 699; a presence mask has at most 125 bytes. \<open>Context::run\<close>,
  the loop of the listener and the main loop of the service are modelled one turn at a time. Everything else terminates:
  by structural recursion, and two loops by a measure (\<open>status_loop\<close>: the numbers left in the dialing range; \<open>checkInput\<close>: the
  length of the text).

  \<^bold>\<open>Not modelled.\<close> Painting, layout, menus, icons, the other dialogs, the rest of the options, tool bar and status bar (Qt calls without a state of their own);
  starting and joining threads; logging, IPC, zeroconf, crash reports, the code for Windows and macOS only (operating system
  calls); text rendering of events; OpenSSL's key generation; the vendored SIP libraries. No code of these is assumed to
  do anything: what the modelled code needs from them is a parameter.
\<close>

end
